(* ===== verification/Obol_Prelude.thy ===== *)
theory Obol_Prelude
  imports Complex_Main "HOL-Library.Word" "HOL-Library.Signed_Division" "HOL-Library.AList"
begin

text \<open>
  Shared base of the development: Go's machine integers, Go maps, the outcome of a Go call, and
  the lemmas on them that the component theories use.

  \<^item> Go's \<open>int64\<close> (and \<open>int\<close>, which is 64 bits wide on the platforms obold runs on) is
    \<open>64 word\<close>: \<open>+\<close>, \<open>-\<close> and \<open>*\<close> wrap around exactly as in Go, \<open><s\<close> and \<open>\<le>s\<close> are Go's
    signed comparisons, \<open>go_div\<close> is Go's truncating division. A division by zero panics in
    Go; every use below tests the divisor first.
  \<^item> A Go map is an association list with distinct keys (\<open>gomap_ok\<close>). A lookup is \<open>map_of\<close>,
    an assignment \<open>AList.update\<close>, a delete \<open>AList.delete\<close>. The order of the list is the order
    in which one \<open>range\<close> loop visits the entries; Go leaves that order open, and every
    theorem is about all association lists, hence about every order.
  \<^item> A Go call that returns \<open>error\<close> has an \<open>outcome\<close>: \<open>Done\<close> for a nil error, \<open>Fail e\<close> for an
    error value, \<open>Panic p\<close> for a run-time panic.
\<close>

section \<open>Machine integers\<close>

type_synonym i64 = "64 word"

text \<open>Money amounts and logical-clock seconds: \<open>type Units = int64\<close>, \<open>type Seconds = int64\<close>.\<close>

type_synonym Units = i64
type_synonym Seconds = i64

definition go_div :: "i64 \<Rightarrow> i64 \<Rightarrow> i64" where
  "go_div a b = word_of_int (sint a sdiv sint b)"

definition fits64 :: "int \<Rightarrow> bool" where
  "fits64 x \<longleftrightarrow> - (2 ^ 63) \<le> x \<and> x < 2 ^ 63"

named_theorems i64_simps \<open>signed 64-bit comparisons and exact arithmetic, read as integers\<close>

lemma signed_take_bit_fits: "fits64 x \<Longrightarrow> signed_take_bit 63 x = x"
  by (rule signed_take_bit_int_eq_self) (simp_all add: fits64_def)

lemma fits64_sint [simp]: "fits64 (sint (a :: i64))"
  using sint_ge [of a] sint_lt [of a] by (simp add: fits64_def)

lemma sint_add_exact: "fits64 (sint a + sint b) \<Longrightarrow> sint (a + b :: i64) = sint a + sint b"
  by (simp add: sint_word_ariths signed_take_bit_fits)

lemma sint_sub_exact: "fits64 (sint a - sint b) \<Longrightarrow> sint (a - b :: i64) = sint a - sint b"
  by (simp add: sint_word_ariths signed_take_bit_fits)

lemma sint_mult_exact: "fits64 (sint a * sint b) \<Longrightarrow> sint (a * b :: i64) = sint a * sint b"
  by (simp add: sint_word_ariths signed_take_bit_fits)

lemma sint_of_int_exact: "fits64 x \<Longrightarrow> sint (word_of_int x :: i64) = x"
  by (simp add: sint_sbintrunc' signed_take_bit_fits)

lemma sless_int [i64_simps]: "(a :: i64) <s b \<longleftrightarrow> sint a < sint b"
  by (rule word_sless_alt)

lemma sle_int [i64_simps]: "(a :: i64) \<le>s b \<longleftrightarrow> sint a \<le> sint b"
  by (rule word_sle_eq)

lemma i64_eq_iff: "(a :: i64) = b \<longleftrightarrow> sint a = sint b"
  by (metis signed_word_eqI)

lemma fits64_between: "fits64 a \<Longrightarrow> fits64 b \<Longrightarrow> a \<le> x \<Longrightarrow> x \<le> b \<Longrightarrow> fits64 x"
  by (auto simp: fits64_def)

lemma fits64_nonneg_le: "0 \<le> x \<Longrightarrow> x \<le> y \<Longrightarrow> fits64 y \<Longrightarrow> fits64 x"
  by (simp add: fits64_def)

lemma sdiv_nonneg: "0 \<le> a \<Longrightarrow> 0 < b \<Longrightarrow> (a :: int) sdiv b = a div b"
  by (cases "a = 0") (simp_all add: signed_divide_int_def sgn_if)

lemma sint_go_div:
  assumes "0 \<le> sint a" "0 < sint b"
  shows "sint (go_div a b) = sint a div sint b"
proof -
  have "sint a div sint b \<le> sint a"
    using assms by (metis div_by_1 int_one_le_iff_zero_less zdiv_mono2 zero_less_one)
  moreover have "0 \<le> sint a div sint b"
    using assms by (simp add: pos_imp_zdiv_nonneg_iff)
  ultimately have "fits64 (sint a div sint b)"
    using fits64_sint [of a] by (simp add: fits64_def)
  with assms show ?thesis
    by (simp add: go_div_def sdiv_nonneg sint_of_int_exact)
qed

section \<open>Go maps\<close>

type_synonym ('k, 'v) gomap = "('k \<times> 'v) list"

definition gomap_ok :: "('k, 'v) gomap \<Rightarrow> bool" where
  "gomap_ok m \<longleftrightarrow> distinct (map fst m)"

text \<open>The sum of a quantity over the values of a map, and a predicate over all its entries.\<close>

definition msum :: "('v \<Rightarrow> 'a :: comm_monoid_add) \<Rightarrow> ('k, 'v) gomap \<Rightarrow> 'a" where
  "msum f m = (\<Sum>kv\<leftarrow>m. f (snd kv))"

definition mall :: "('k \<Rightarrow> 'v \<Rightarrow> bool) \<Rightarrow> ('k, 'v) gomap \<Rightarrow> bool" where
  "mall P m \<longleftrightarrow> list_all (\<lambda>(k, v). P k v) m"

named_theorems gomap_simps \<open>how updates and deletes act on lookups, sums and entry predicates\<close>

lemma gomap_ok_Nil [simp]: "gomap_ok []"
  by (simp add: gomap_ok_def)

lemma gomap_ok_update [simp, intro]: "gomap_ok m \<Longrightarrow> gomap_ok (AList.update k v m)"
  by (simp add: gomap_ok_def distinct_update)

lemma gomap_ok_delete [simp, intro]: "gomap_ok m \<Longrightarrow> gomap_ok (AList.delete k m)"
  by (simp add: gomap_ok_def distinct_delete)

lemma gomap_ok_Cons: "gomap_ok ((k, v) # m) \<longleftrightarrow> map_of m k = None \<and> gomap_ok m"
  by (auto simp: gomap_ok_def map_of_eq_None_iff)

lemma map_of_update [gomap_simps]:
  "map_of (AList.update k v m) k' = (if k' = k then Some v else map_of m k')"
  by (simp add: update_conv')

lemma map_of_delete [gomap_simps]:
  "map_of (AList.delete k m) k' = (if k' = k then None else map_of m k')"
  by (simp add: delete_conv')

lemma update_new: "map_of m k = None \<Longrightarrow> AList.update k v m = m @ [(k, v)]"
  by (induction m) auto

lemma delete_absent: "map_of m k = None \<Longrightarrow> AList.delete k m = m"
  by (induction m) (auto simp: AList.delete_eq split: if_splits)

lemma delete_update_fresh: "map_of m k = None \<Longrightarrow> AList.delete k (AList.update k v m) = m"
  by (induction m) (auto split: if_splits)

lemma msum_Nil [simp]: "msum f [] = 0"
  by (simp add: msum_def)

lemma msum_Cons [simp]: "msum f ((k, v) # m) = f v + msum f m"
  by (simp add: msum_def)

lemma msum_append [simp]: "msum f (m @ m') = msum f m + msum f m'"
  by (simp add: msum_def)

lemma msum_insert [gomap_simps]:
  "map_of m k = None \<Longrightarrow> msum f (AList.update k v m) = msum f m + f v"
  by (simp add: update_new)

lemma msum_replace [gomap_simps]:
  fixes f :: "'v \<Rightarrow> 'a :: ab_group_add"
  assumes "map_of m k = Some v"
  shows "msum f (AList.update k v' m) = msum f m - f v + f v'"
  using assms by (induction m) (auto split: if_splits)

lemma msum_delete [gomap_simps]:
  fixes f :: "'v \<Rightarrow> 'a :: ab_group_add"
  assumes "gomap_ok m" and "map_of m k = Some v"
  shows "msum f (AList.delete k m) = msum f m - f v"
  using assms
proof (induction m)
  case (Cons kv m)
  obtain k0 v0 where kv: "kv = (k0, v0)" by (cases kv)
  show ?case
  proof (cases "k0 = k")
    case True
    with Cons.prems kv show ?thesis
      by (simp add: gomap_ok_Cons delete_absent)
  next
    case False
    with Cons kv show ?thesis
      by (simp add: gomap_ok_Cons)
  qed
qed simp

lemma mall_Nil [simp]: "mall P []"
  by (simp add: mall_def)

lemma mall_Cons [simp]: "mall P ((k, v) # m) \<longleftrightarrow> P k v \<and> mall P m"
  by (simp add: mall_def)

lemma mall_lookup: "mall P m \<Longrightarrow> map_of m k = Some v \<Longrightarrow> P k v"
  by (induction m) (auto split: if_splits)

lemma mall_update [intro]: "mall P m \<Longrightarrow> P k v \<Longrightarrow> mall P (AList.update k v m)"
  by (induction m) auto

lemma mall_delete [simp, intro]: "mall P m \<Longrightarrow> mall P (AList.delete k m)"
  by (induction m) (auto simp: AList.delete_eq)

lemma mall_mono: "mall P m \<Longrightarrow> (\<And>k v. P k v \<Longrightarrow> Q k v) \<Longrightarrow> mall Q m"
  by (induction m) auto

lemma mall_iff_lookup: "gomap_ok m \<Longrightarrow> mall P m \<longleftrightarrow> (\<forall>k v. map_of m k = Some v \<longrightarrow> P k v)"
  by (auto simp: mall_def list_all_iff gomap_ok_def)

section \<open>Outcomes of Go calls\<close>

text \<open>
  The sentinel errors of \<^verbatim>\<open>internal/budget/budget.go\<close>, and the errors that come from the
  operating system or are built with \<open>fmt.Errorf\<close>, which carry their text.
\<close>

datatype err =
    ErrInsufficient
  | ErrRateExceeded
  | ErrLapsed
  | ErrNotActive
  | ErrNoSuchJob
  | ErrBadState
  | ErrBurstDrawCap
  | ErrBurstInsuff
  | ErrText string

datatype panic = DivideByZero | PerEscrowInvariant | NilDereference

datatype outcome = Done | Fail err | Panic panic

fun err_of :: "err option \<Rightarrow> outcome" where
  "err_of None = Done"
| "err_of (Some e) = Fail e"

lemma err_of_Done [simp]: "err_of r = Done \<longleftrightarrow> r = None"
  by (cases r) auto

end
