(* ===== verification/Go_Float.thy ===== *)
theory Go_Float
  imports Obol_Prelude
begin

text \<open>
  The part of Go's \<open>float64\<close> that the kernel uses: \<open>float64(int64)\<close>, \<open>*\<close>, \<open>/\<close>, comparison and
  \<open>int64(float64)\<close>. A finite \<open>float64\<close> is its value, a rational; every operation rounds its
  exact result to 53 significant bits, ties to even (\<open>f64_round\<close>).

  The exponent range is not bounded. The code compares such a result with an integer below
  \<open>2 ^ 64\<close>, or converts it to \<open>int64\<close>, so a result that IEEE 754 would overflow to an
  infinity or underflow to zero gives the same answer here. The operands are finite: they come
  from \<open>int64\<close> values and from JSON numbers. A conversion to \<open>int64\<close> that is out of range is
  left open by the Go specification; \<open>i64_of_f64\<close> gives amd64's answer, the least \<open>int64\<close>.
\<close>

type_synonym f64 = rat

definition round_half_even :: "rat \<Rightarrow> int" where
  "round_half_even x =
     (let f = \<lfloor>x\<rfloor>; d = x - of_int f
      in if d < 1 / 2 then f else if 1 / 2 < d then f + 1 else if even f then f else f + 1)"

function bit_len :: "int \<Rightarrow> int" where
  "bit_len n = (if n \<le> 0 then 0 else 1 + bit_len (n div 2))"
  by pat_completeness auto
termination
  by (relation "measure nat") auto

declare bit_len.simps [simp del]

definition pow2 :: "int \<Rightarrow> rat" where
  "pow2 e = (if 0 \<le> e then 2 ^ nat e else 1 / 2 ^ nat (- e))"

text \<open>For \<open>x > 0\<close>, the \<open>e\<close> with \<open>2 ^ 52 \<le> x / pow2 e < 2 ^ 53\<close>: the place of the last bit kept.\<close>

definition f64_ulp_exp :: "rat \<Rightarrow> int" where
  "f64_ulp_exp x =
     (let (p, q) = quotient_of x; e = bit_len p - bit_len q - 53
      in if x < 2 ^ 53 * pow2 e then e else e + 1)"

definition f64_round :: "rat \<Rightarrow> f64" where
  "f64_round x =
     (if x = 0 then 0
      else let u = pow2 (f64_ulp_exp \<bar>x\<bar>) in of_int (round_half_even (x / u)) * u)"

definition f64_of_i64 :: "i64 \<Rightarrow> f64" where
  "f64_of_i64 a = f64_round (of_int (sint a))"

definition f64_mult :: "f64 \<Rightarrow> f64 \<Rightarrow> f64" where
  "f64_mult x y = f64_round (x * y)"

definition f64_div :: "f64 \<Rightarrow> f64 \<Rightarrow> f64" where
  "f64_div x y = f64_round (x / y)"

definition trunc_rat :: "rat \<Rightarrow> int" where
  "trunc_rat x = (if 0 \<le> x then \<lfloor>x\<rfloor> else \<lceil>x\<rceil>)"

definition i64_of_f64 :: "f64 \<Rightarrow> i64" where
  "i64_of_f64 x = (if fits64 (trunc_rat x) then word_of_int (trunc_rat x) else word_of_int (- (2 ^ 63)))"

section \<open>Sign and size of rounded values\<close>

lemma pow2_pos [simp]: "0 < pow2 e"
  by (simp add: pow2_def)

lemma round_half_even_nonneg: "0 \<le> x \<Longrightarrow> 0 \<le> round_half_even x"
  by (auto simp: round_half_even_def Let_def)

lemma round_half_even_of_int [simp]: "round_half_even (of_int n) = n"
  by (simp add: round_half_even_def)

lemma f64_round_nonneg: "0 \<le> x \<Longrightarrow> 0 \<le> f64_round x"
  by (simp add: f64_round_def Let_def round_half_even_nonneg less_imp_le)

lemma f64_of_i64_nonneg: "0 \<le> sint a \<Longrightarrow> 0 \<le> f64_of_i64 a"
  by (metis f64_of_i64_def f64_round_nonneg of_int_0_le_iff)

lemma f64_mult_nonneg: "0 \<le> x \<Longrightarrow> 0 \<le> y \<Longrightarrow> 0 \<le> f64_mult x y"
  by (simp add: f64_mult_def f64_round_nonneg)

lemma i64_of_f64_nonneg:
  assumes "0 \<le> x" and "x < 2 ^ 63"
  shows "0 \<le> sint (i64_of_f64 x)"
proof -
  have "0 \<le> \<lfloor>x\<rfloor>" "\<lfloor>x\<rfloor> < 2 ^ 63"
    using assms by (simp_all add: floor_less_iff)
  with assms(1) show ?thesis
    by (simp add: i64_of_f64_def trunc_rat_def fits64_def sint_of_int_exact)
qed

end
