(* ===== verification/Go_Json.thy ===== *)
theory Go_Json
  imports Go_Float
begin

text \<open>
  The part of Go's \<open>encoding/json\<close> that the write-ahead log uses: \<open>json.Marshal\<close> of a flat struct
  (strings, integers, booleans, one \<open>float64\<close>) and \<open>json.Unmarshal\<close> of a flat object. A Go string
  is its bytes, a \<open>string\<close> (a HOL \<open>char\<close> is a byte).

  The encoder writes strings as \<open>appendString\<close> with HTML escaping does, integers in decimal,
  and a \<open>float64\<close> by the shortest decimal that reads back as the same value
  (\<open>strconv.FormatFloat\<close> with precision \<open>-1\<close>), with an exponent below \<open>1e-6\<close> and from \<open>1e21\<close>
  on. The decoder reads an object whose values are strings, numbers, booleans or \<open>null\<close>. A nested
  value, which no encoder of this development writes, is an error here (Go skips it under an
  unknown key).
\<close>

type_synonym byte = char

abbreviation byte_val :: "char \<Rightarrow> int" where
  "byte_val c \<equiv> of_char c"

section \<open>Numbers\<close>

function nat_dec :: "int \<Rightarrow> string" where
  "nat_dec n = (if n < 10 then [char_of (48 + n)] else nat_dec (n div 10) @ [char_of (48 + n mod 10)])"
  by pat_completeness auto
termination
  by (relation "measure nat") auto

declare nat_dec.simps [simp del]

definition int_dec :: "int \<Rightarrow> string" where
  "int_dec z = (if z < 0 then CHR ''-'' # nat_dec (- z) else nat_dec z)"

definition json_int :: "i64 \<Rightarrow> string" where
  "json_int a = int_dec (sint a)"

definition json_bool :: "bool \<Rightarrow> string" where
  "json_bool b = (if b then ''true'' else ''false'')"

definition pow10 :: "int \<Rightarrow> rat" where
  "pow10 e = (if 0 \<le> e then 10 ^ nat e else 1 / 10 ^ nat (- e))"

text \<open>For \<open>x > 0\<close>, the \<open>E\<close> with \<open>10 ^ (E - 1) \<le> x < 10 ^ E\<close>, found from the digits of numerator and
  denominator.\<close>

definition dec_exp :: "rat \<Rightarrow> int" where
  "dec_exp x =
     (let (p, q) = quotient_of x;
          e = int (length (nat_dec p)) - int (length (nat_dec q))
      in if x < pow10 e then e else e + 1)"

text \<open>The shortest decimal \<open>m * 10 ^ q\<close> that rounds to \<open>x\<close>, the nearer one if two do.\<close>

fun shortest_from :: "nat \<Rightarrow> int \<Rightarrow> rat \<Rightarrow> (int \<times> int)" where
  "shortest_from 0 p x = (\<lfloor>x / pow10 (dec_exp x - p)\<rfloor>, dec_exp x - p)"
| "shortest_from (Suc fuel) p x =
     (let q = dec_exp x - p; u = pow10 q; lo = \<lfloor>x / u\<rfloor>; hi = lo + 1;
          ok_lo = (0 < lo \<and> f64_round (of_int lo * u) = x);
          ok_hi = (f64_round (of_int hi * u) = x)
      in if ok_lo \<and> (\<not> ok_hi \<or> x - of_int lo * u \<le> of_int hi * u - x) then (lo, q)
         else if ok_hi then (hi, q)
         else shortest_from fuel (p + 1) x)"

definition render_f :: "string \<Rightarrow> int \<Rightarrow> string" where
  "render_f ds q =
     (if 0 \<le> q then ds @ replicate (nat q) CHR ''0''
      else let n = int (length ds)
           in if - q < n then take (nat (n + q)) ds @ CHR ''.'' # drop (nat (n + q)) ds
              else ''0.'' @ replicate (nat (- q - n)) CHR ''0'' @ ds)"

definition render_e :: "string \<Rightarrow> int \<Rightarrow> string" where
  "render_e ds q =
     (let e = q + int (length ds) - 1
      in take 1 ds @ (if length ds = 1 then [] else CHR ''.'' # drop 1 ds) @ CHR ''e''
         # (if e < 0 then CHR ''-'' else CHR ''+'') # nat_dec \<bar>e\<bar>)"

definition json_f64 :: "f64 \<Rightarrow> string" where
  "json_f64 x =
     (if x = 0 then ''0''
      else let (m, q) = shortest_from 16 1 \<bar>x\<bar>; ds = nat_dec m
           in (if x < 0 then ''-'' else '''')
              @ (if \<bar>x\<bar> < pow10 (- 6) \<or> pow10 21 \<le> \<bar>x\<bar> then render_e ds q else render_f ds q))"

definition is_digit :: "char \<Rightarrow> bool" where
  "is_digit c \<longleftrightarrow> 48 \<le> byte_val c \<and> byte_val c \<le> 57"

definition dec_val :: "string \<Rightarrow> int" where
  "dec_val ds = foldl (\<lambda>n c. n * 10 + (byte_val c - 48)) 0 ds"

text \<open>\<open>strconv.ParseInt(s, 10, 64)\<close> on a JSON number literal.\<close>

definition parse_int :: "string \<Rightarrow> i64 option" where
  "parse_int s =
     (let neg = (s \<noteq> [] \<and> hd s = CHR ''-''); ds = (if neg then tl s else s);
          z = (if neg then - dec_val ds else dec_val ds)
      in if ds \<noteq> [] \<and> list_all is_digit ds \<and> fits64 z then Some (word_of_int z) else None)"

text \<open>\<open>strconv.ParseFloat\<close> on a JSON number literal: sign, digits, fraction, exponent.\<close>

definition parse_exp :: "string \<Rightarrow> int option" where
  "parse_exp s =
     (case s of
        [] \<Rightarrow> Some 0
      | c # r \<Rightarrow>
          if c \<noteq> CHR ''e'' \<and> c \<noteq> CHR ''E'' then None
          else let neg = (r \<noteq> [] \<and> hd r = CHR ''-'');
                   ds = (if r \<noteq> [] \<and> (hd r = CHR ''-'' \<or> hd r = CHR ''+'') then tl r else r)
               in if ds \<noteq> [] \<and> list_all is_digit ds
                  then Some (if neg then - dec_val ds else dec_val ds) else None)"

definition parse_f64 :: "string \<Rightarrow> f64 option" where
  "parse_f64 s =
     (let neg = (s \<noteq> [] \<and> hd s = CHR ''-''); s1 = (if neg then tl s else s);
          ip = takeWhile is_digit s1; r1 = dropWhile is_digit s1;
          dot = (r1 \<noteq> [] \<and> hd r1 = CHR ''.'');
          fp = (if dot then takeWhile is_digit (tl r1) else []);
          r2 = (if dot then dropWhile is_digit (tl r1) else r1)
      in if ip = [] \<or> (dot \<and> fp = []) then None
         else case parse_exp r2 of
             None \<Rightarrow> None
           | Some e \<Rightarrow>
               let v = of_int (dec_val (ip @ fp)) * pow10 (e - int (length fp))
               in Some (f64_round (if neg then - v else v)))"

section \<open>Strings\<close>

definition hex_digit :: "int \<Rightarrow> char" where
  "hex_digit n = (if n < 10 then char_of (48 + n) else char_of (87 + n))"

text \<open>The length of the valid UTF-8 sequence at the front of the bytes, \<open>None\<close> if there is none
  (\<open>utf8.DecodeRuneInString\<close> returning \<open>RuneError\<close> of size 1).\<close>

definition utf8_cont :: "int \<Rightarrow> int \<Rightarrow> int \<Rightarrow> bool" where
  "utf8_cont lo hi b \<longleftrightarrow> lo \<le> b \<and> b \<le> hi"

fun utf8_len :: "int list \<Rightarrow> nat option" where
  "utf8_len [] = None"
| "utf8_len (a # r) =
     (if a < 128 then Some 1
      else if 194 \<le> a \<and> a \<le> 223 then
        (case r of b # _ \<Rightarrow> if utf8_cont 128 191 b then Some 2 else None | _ \<Rightarrow> None)
      else if 224 \<le> a \<and> a \<le> 239 then
        (case r of b # c # _ \<Rightarrow>
           if utf8_cont (if a = 224 then 160 else 128) (if a = 237 then 159 else 191) b
              \<and> utf8_cont 128 191 c then Some 3 else None
         | _ \<Rightarrow> None)
      else if 240 \<le> a \<and> a \<le> 244 then
        (case r of b # c # d # _ \<Rightarrow>
           if utf8_cont (if a = 240 then 144 else 128) (if a = 244 then 143 else 191) b
              \<and> utf8_cont 128 191 c \<and> utf8_cont 128 191 d then Some 4 else None
         | _ \<Rightarrow> None)
      else None)"

definition html_safe :: "char \<Rightarrow> bool" where
  "html_safe c \<longleftrightarrow> 32 \<le> byte_val c \<and> byte_val c < 128 \<and> c \<notin> set [CHR 0x22, CHR 0x5C, CHR ''<'', CHR ''>'', CHR ''&'']"

definition escape_ascii :: "char \<Rightarrow> string" where
  "escape_ascii c =
     (let b = byte_val c
      in if c = CHR 0x5C \<or> c = CHR 0x22 then [CHR 0x5C, c]
         else if b = 8 then [CHR 0x5C, CHR ''b'']
         else if b = 12 then [CHR 0x5C, CHR ''f'']
         else if b = 10 then [CHR 0x5C, CHR ''n'']
         else if b = 13 then [CHR 0x5C, CHR ''r'']
         else if b = 9 then [CHR 0x5C, CHR ''t'']
         else CHR 0x5C # ''u00'' @ [hex_digit (b div 16), hex_digit (b mod 16)])"

text \<open>\<open>escape_bytes k s\<close> copies \<open>k\<close> bytes of a multi-byte sequence verbatim, then goes on escaping.\<close>

fun escape_bytes :: "nat \<Rightarrow> string \<Rightarrow> string" where
  "escape_bytes k [] = []"
| "escape_bytes (Suc k) (c # s) = c # escape_bytes k s"
| "escape_bytes 0 (c # s) =
     (if byte_val c < 128 then (if html_safe c then [c] else escape_ascii c) @ escape_bytes 0 s
      else case utf8_len (map of_char (c # s)) of
          None \<Rightarrow> CHR 0x5C # ''ufffd'' @ escape_bytes 0 s
        | Some n \<Rightarrow>
            if take 3 (map byte_val (c # s)) = [226, 128, 168] then CHR 0x5C # ''u2028'' @ escape_bytes 0 (drop 2 s)
            else if take 3 (map byte_val (c # s)) = [226, 128, 169] then CHR 0x5C # ''u2029'' @ escape_bytes 0 (drop 2 s)
            else c # escape_bytes (n - 1) s)"

definition json_string :: "string \<Rightarrow> string" where
  "json_string s = CHR 0x22 # escape_bytes 0 s @ [CHR 0x22]"

definition hex_val :: "char \<Rightarrow> int option" where
  "hex_val c =
     (let b = byte_val c
      in if 48 \<le> b \<and> b \<le> 57 then Some (b - 48)
         else if 97 \<le> b \<and> b \<le> 102 then Some (b - 87)
         else if 65 \<le> b \<and> b \<le> 70 then Some (b - 55) else None)"

definition getu4 :: "string \<Rightarrow> int option" where
  "getu4 s =
     (case map hex_val (take 4 s) of
        [Some a, Some b, Some c, Some d] \<Rightarrow> Some (a * 4096 + b * 256 + c * 16 + d)
      | _ \<Rightarrow> None)"

definition utf8_encode :: "int \<Rightarrow> string" where
  "utf8_encode r =
     map char_of
       (if r < 128 then [r]
        else if r < 2048 then [192 + r div 64, 128 + r mod 64]
        else if r < 65536 then [224 + r div 4096, 128 + (r div 64) mod 64, 128 + r mod 64]
        else [240 + r div 262144, 128 + (r div 4096) mod 64, 128 + (r div 64) mod 64, 128 + r mod 64])"

definition simple_escape :: "char \<Rightarrow> char option" where
  "simple_escape c =
     (if c = CHR 0x22 \<or> c = CHR 0x5C \<or> c = CHR ''/'' then Some c
      else if c = CHR ''b'' then Some (char_of (8 :: int)) else if c = CHR ''f'' then Some (char_of (12 :: int))
      else if c = CHR ''n'' then Some (char_of (10 :: int)) else if c = CHR ''r'' then Some (char_of (13 :: int))
      else if c = CHR ''t'' then Some (char_of (9 :: int)) else None)"

text \<open>The text after an opening quote: the string's bytes and what follows the closing quote. A
  surrogate pair is one code point, a lone surrogate and an invalid byte become U+FFFD.\<close>

function unquote :: "string \<Rightarrow> (string \<times> string) option" where
  "unquote [] = None"
| "unquote (c # s) =
     (if c = CHR 0x22 then Some ([], s)
      else if byte_val c < 32 then None
      else if c = CHR 0x5C then
        (case s of
           [] \<Rightarrow> None
         | d # r \<Rightarrow>
             (case simple_escape d of
                Some e \<Rightarrow> map_option (\<lambda>(a, t). (e # a, t)) (unquote r)
              | None \<Rightarrow>
                  if d \<noteq> CHR ''u'' then None
                  else case getu4 r of
                      None \<Rightarrow> None
                    | Some h \<Rightarrow>
                        let r4 = drop 4 r; lo = (if take 2 r4 = [CHR 0x5C, CHR ''u''] then getu4 (drop 2 r4) else None)
                        in if 55296 \<le> h \<and> h < 56320 \<and> (case lo of None \<Rightarrow> False | Some l \<Rightarrow> 56320 \<le> l \<and> l < 57344)
                           then map_option
                                  (\<lambda>(a, t). (utf8_encode (65536 + (h - 55296) * 1024 + (the lo - 56320)) @ a, t))
                                  (unquote (drop 6 r4))
                           else map_option
                                  (\<lambda>(a, t). (utf8_encode (if 55296 \<le> h \<and> h < 57344 then 65533 else h) @ a, t))
                                  (unquote r4)))
      else if byte_val c < 128 then map_option (\<lambda>(a, t). (c # a, t)) (unquote s)
      else case utf8_len (map of_char (c # s)) of
          None \<Rightarrow> map_option (\<lambda>(a, t). (utf8_encode 65533 @ a, t)) (unquote s)
        | Some n \<Rightarrow> map_option (\<lambda>(a, t). (take n (c # s) @ a, t)) (unquote (drop (n - 1) s)))"
  by pat_completeness auto
termination
  by (relation "measure length") auto

declare unquote.simps [simp del]

section \<open>Flat objects\<close>

datatype jval = JStr string | JNum string | JBool bool | JNull

definition skip_ws :: "string \<Rightarrow> string" where
  "skip_ws s = dropWhile (\<lambda>c. byte_val c \<in> set [32, 9, 10, 13]) s"

definition num_char :: "char \<Rightarrow> bool" where
  "num_char c \<longleftrightarrow> is_digit c \<or> c \<in> set ''+-.eE''"

text \<open>A scalar value and the rest of the text. A number is kept as its literal; the literals that
  are not JSON numbers fail when they are read as \<open>int64\<close> or \<open>float64\<close>.\<close>

definition parse_value :: "string \<Rightarrow> (jval \<times> string) option" where
  "parse_value s =
     (case s of
        [] \<Rightarrow> None
      | c # r \<Rightarrow>
          if c = CHR 0x22 then map_option (\<lambda>(a, t). (JStr a, t)) (unquote r)
          else if take 4 s = ''true'' then Some (JBool True, drop 4 s)
          else if take 5 s = ''false'' then Some (JBool False, drop 5 s)
          else if take 4 s = ''null'' then Some (JNull, drop 4 s)
          else if takeWhile num_char s \<noteq> [] then Some (JNum (takeWhile num_char s), dropWhile num_char s)
          else None)"

text \<open>One member of an object, \<open>"key": value\<close>.\<close>

definition parse_pair :: "string \<Rightarrow> ((string \<times> jval) \<times> string) option" where
  "parse_pair s =
     (case skip_ws s of
        [] \<Rightarrow> None
      | c # r \<Rightarrow>
          if c \<noteq> CHR 0x22 then None
          else case unquote r of
              None \<Rightarrow> None
            | Some (k, r1) \<Rightarrow>
                (case skip_ws r1 of
                   [] \<Rightarrow> None
                 | d # r2 \<Rightarrow>
                     if d \<noteq> CHR '':'' then None
                     else map_option (\<lambda>(v, r3). ((k, v), r3)) (parse_value (skip_ws r2))))"

text \<open>The members after the opening brace. \<open>fuel\<close> bounds their number: every member takes at least
  one byte, so the length of the text is enough (\<open>parse_object\<close>).\<close>

fun parse_members :: "nat \<Rightarrow> string \<Rightarrow> (string \<times> jval) list option" where
  "parse_members 0 s = None"
| "parse_members (Suc fuel) s =
     (case parse_pair s of
        None \<Rightarrow> None
      | Some (kv, r) \<Rightarrow>
          (case skip_ws r of
             [] \<Rightarrow> None
           | c # r1 \<Rightarrow>
               if c = CHR '','' then map_option ((#) kv) (parse_members fuel r1)
               else if c = CHR ''}'' then (if skip_ws r1 = [] then Some [kv] else None)
               else None))"

definition parse_object :: "string \<Rightarrow> (string \<times> jval) list option" where
  "parse_object s =
     (case skip_ws s of
        [] \<Rightarrow> None
      | c # r \<Rightarrow>
          if c \<noteq> CHR ''{'' then None
          else (case skip_ws r of
                  d # r1 \<Rightarrow> if d = CHR ''}'' then (if skip_ws r1 = [] then Some [] else None)
                            else parse_members (Suc (length r)) r
                | [] \<Rightarrow> None))"

text \<open>The text of a member and of an object, as \<open>json.Marshal\<close> writes a struct.\<close>

fun jval_text :: "jval \<Rightarrow> string" where
  "jval_text (JStr s) = json_string s"
| "jval_text (JNum t) = t"
| "jval_text (JBool b) = json_bool b"
| "jval_text JNull = ''null''"

fun members_text :: "(string \<times> jval) list \<Rightarrow> string" where
  "members_text [] = []"
| "members_text [(k, v)] = json_string k @ CHR '':'' # jval_text v"
| "members_text ((k, v) # kvs) = json_string k @ CHR '':'' # jval_text v @ CHR '','' # members_text kvs"

definition object_text :: "(string \<times> jval) list \<Rightarrow> string" where
  "object_text kvs = CHR ''{'' # members_text kvs @ [CHR ''}'']"

section \<open>Round trips\<close>

lemma byte_val_range: "0 \<le> byte_val c" "byte_val c < 256"
  by (metis of_char_mod_256 pos_mod_sign zero_less_numeral, metis of_char_mod_256 pos_mod_bound zero_less_numeral)

lemma byte_val_char_of: "0 \<le> n \<Longrightarrow> n < 256 \<Longrightarrow> byte_val (char_of n) = n"
  by simp

lemma char_eq_byte: "c = d \<longleftrightarrow> byte_val c = byte_val d"
  by simp

lemma hex_val_digit: "0 \<le> n \<Longrightarrow> n < 16 \<Longrightarrow> hex_val (hex_digit n) = Some n"
  by (auto simp: hex_val_def hex_digit_def Let_def)

lemma unquote_quote: "unquote (CHR 0x22 # r) = Some ([], r)"
  by (simp add: unquote.simps)

lemma unquote_plain:
  "html_safe c \<Longrightarrow> unquote (c # s) = map_option (\<lambda>(a, t). (c # a, t)) (unquote s)"
  by (subst unquote.simps) (auto simp: html_safe_def)

lemma unquote_simple:
  "simple_escape d = Some e \<Longrightarrow> unquote (CHR 0x5C # d # s) = map_option (\<lambda>(a, t). (e # a, t)) (unquote s)"
  by (subst unquote.simps) simp

lemma getu4_00:
  assumes "0 \<le> b" "b < 128"
  shows "getu4 (CHR ''0'' # CHR ''0'' # hex_digit (b div 16) # hex_digit (b mod 16) # s) = Some b"
proof -
  have "hex_val (CHR ''0'') = Some 0" by (simp add: hex_val_def)
  with assms show ?thesis
    by (simp add: getu4_def hex_val_digit numeral_eq_Suc)
qed

lemma unquote_u00:
  assumes "byte_val c < 128"
  shows "unquote (CHR 0x5C # CHR ''u'' # CHR ''0'' # CHR ''0'' # hex_digit (byte_val c div 16)
                  # hex_digit (byte_val c mod 16) # s)
         = map_option (\<lambda>(a, t). (c # a, t)) (unquote s)"
  using assms byte_val_range [of c]
  by (subst unquote.simps) (simp add: simple_escape_def getu4_00 utf8_encode_def Let_def numeral_eq_Suc)

lemma escape_ascii_cases:
  "(escape_ascii c = [CHR 0x5C, escape_ascii c ! 1] \<and> simple_escape (escape_ascii c ! 1) = Some c) \<or>
   escape_ascii c = [CHR 0x5C, CHR ''u'', CHR ''0'', CHR ''0'', hex_digit (byte_val c div 16), hex_digit (byte_val c mod 16)]"
proof (cases "c \<in> {CHR 0x5C, CHR 0x22, CHR 0x08, CHR 0x0C, CHR 0x0A, CHR 0x0D, CHR 0x09}")
  case True
  then have "escape_ascii c = [CHR 0x5C, escape_ascii c ! 1] \<and> simple_escape (escape_ascii c ! 1) = Some c"
    by (elim insertE emptyE) (simp_all add: escape_ascii_def simple_escape_def char_of_eq_iff)
  then show ?thesis ..
next
  case False
  have ne: "byte_val c \<noteq> byte_val d" if "c \<noteq> d" for d
    using that by simp
  show ?thesis
    using False ne [of "CHR 0x08"] ne [of "CHR 0x0C"] ne [of "CHR 0x0A"] ne [of "CHR 0x0D"] ne [of "CHR 0x09"]
    by (simp add: escape_ascii_def Let_def)
qed

lemma unquote_escape_ascii:
  assumes "byte_val c < 128"
  shows "unquote (escape_ascii c @ s) = map_option (\<lambda>(a, t). (c # a, t)) (unquote s)"
  using escape_ascii_cases [of c]
proof
  assume esc: "escape_ascii c = [CHR 0x5C, escape_ascii c ! 1] \<and> simple_escape (escape_ascii c ! 1) = Some c"
  then obtain d where "escape_ascii c = [CHR 0x5C, d]" "simple_escape d = Some c"
    by blast
  then show ?thesis by (simp add: unquote_simple)
qed (simp add: unquote_u00 [OF assms])

definition ascii :: "string \<Rightarrow> bool" where
  "ascii s \<longleftrightarrow> list_all (\<lambda>c. byte_val c < 128) s"

lemma unquote_escape_bytes:
  "ascii s \<Longrightarrow> unquote (escape_bytes 0 s @ CHR 0x22 # r) = Some (s, r)"
proof (induction s)
  case Nil
  then show ?case by (simp add: unquote_quote)
next
  case (Cons c s)
  then have c: "byte_val c < 128" and IH: "unquote (escape_bytes 0 s @ CHR 0x22 # r) = Some (s, r)"
    by (simp_all add: ascii_def)
  show ?case
    using c IH by (cases "html_safe c") (simp_all add: unquote_plain unquote_escape_ascii)
qed

lemma dec_val_snoc: "dec_val (ds @ [c]) = dec_val ds * 10 + (byte_val c - 48)"
  by (simp add: dec_val_def)

lemma nat_dec_digits: "0 \<le> n \<Longrightarrow> list_all is_digit (nat_dec n) \<and> nat_dec n \<noteq> [] \<and> dec_val (nat_dec n) = n"
proof (induction n rule: nat_dec.induct)
  case (1 n)
  show ?case
  proof (cases "n < 10")
    case True
    with "1.prems" show ?thesis
      by (subst (1 2 3) nat_dec.simps) (simp add: is_digit_def dec_val_def)
  next
    case False
    with 1 have "list_all is_digit (nat_dec (n div 10)) \<and> dec_val (nat_dec (n div 10)) = n div 10"
      by simp
    moreover have "nat_dec n = nat_dec (n div 10) @ [char_of (48 + n mod 10)]"
      using False by (subst nat_dec.simps) simp
    moreover have "byte_val (char_of (48 + n mod 10)) = 48 + n mod 10" "0 \<le> n mod 10" "n mod 10 < 10"
      by (simp_all add: byte_val_char_of)
    ultimately show ?thesis
      by (simp add: is_digit_def [of "char_of _"] dec_val_snoc)
  qed
qed

lemma nat_dec_hd: "0 \<le> n \<Longrightarrow> is_digit (hd (nat_dec n))"
  using nat_dec_digits [of n] by (cases "nat_dec n") auto

lemma parse_int_json_int: "parse_int (json_int a) = Some a"
proof (cases "sint a < 0")
  case True
  then show ?thesis
    using nat_dec_digits [of "- sint a"] by (simp add: json_int_def int_dec_def parse_int_def)
next
  case False
  then have "is_digit (hd (nat_dec (sint a)))" by (simp add: nat_dec_hd)
  then have "hd (nat_dec (sint a)) \<noteq> CHR ''-''" by (auto simp: is_digit_def)
  with False show ?thesis
    using nat_dec_digits [of "sint a"] by (simp add: json_int_def int_dec_def parse_int_def)
qed


fun jval_ok :: "jval \<Rightarrow> bool" where
  "jval_ok (JStr s) = ascii s"
| "jval_ok (JNum t) = (t \<noteq> [] \<and> list_all num_char t)"
| "jval_ok _ = True"

lemma skip_ws_id: "s = [] \<or> byte_val (hd s) \<notin> {32, 9, 10, 13} \<Longrightarrow> skip_ws s = s"
  by (cases s) (auto simp: skip_ws_def)

lemma num_char_byte: "num_char c \<Longrightarrow> byte_val c \<notin> {32, 9, 10, 13, 34, 116, 102, 110}"
  by (auto simp: num_char_def is_digit_def)

lemma jval_text_start: "jval_ok v \<Longrightarrow> \<exists>c s. jval_text v = c # s \<and> byte_val c \<notin> {32, 9, 10, 13}"
  by (cases v) (auto simp: json_string_def json_bool_def neq_Nil_conv dest: num_char_byte)

lemma parse_value_text:
  assumes "jval_ok v" and r: "r = [] \<or> \<not> num_char (hd r)"
  shows "parse_value (jval_text v @ r) = Some (v, r)"
proof (cases v)
  case (JStr s)
  with assms show ?thesis
    by (simp add: parse_value_def json_string_def unquote_escape_bytes)
next
  case (JNum t)
  then obtain c t' where t: "t = c # t'" and c: "num_char c"
    using assms by (auto simp: neq_Nil_conv)
  have tw: "takeWhile num_char (t @ r) = t" "dropWhile num_char (t @ r) = r"
    using JNum assms by (auto simp: list_all_iff takeWhile_append2 dropWhile_append2)
      (cases r; auto)+
  have "c \<noteq> CHR 0x22" "c \<noteq> CHR ''t''" "c \<noteq> CHR ''f''" "c \<noteq> CHR ''n''"
    using num_char_byte [OF c] by auto
  then show ?thesis
    using JNum tw by (simp add: parse_value_def t numeral_eq_Suc)
qed (auto simp: parse_value_def json_bool_def numeral_eq_Suc)

lemma parse_pair_text:
  assumes "ascii k" "jval_ok v" "r = [] \<or> \<not> num_char (hd r)"
  shows "parse_pair (json_string k @ CHR '':'' # jval_text v @ r) = Some ((k, v), r)"
proof -
  obtain c s where "jval_text v = c # s" "byte_val c \<notin> {32, 9, 10, 13}"
    using jval_text_start [OF assms(2)] by blast
  then have "skip_ws (jval_text v @ r) = jval_text v @ r"
    by (intro skip_ws_id) simp
  with assms show ?thesis
    by (simp add: parse_pair_def json_string_def skip_ws_id unquote_escape_bytes parse_value_text)
qed

definition members_ok :: "(string \<times> jval) list \<Rightarrow> bool" where
  "members_ok kvs \<longleftrightarrow> list_all (\<lambda>(k, v). ascii k \<and> jval_ok v) kvs"

lemma parse_members_text:
  "kvs \<noteq> [] \<Longrightarrow> members_ok kvs \<Longrightarrow> length kvs \<le> fuel \<Longrightarrow>
   parse_members fuel (members_text kvs @ [CHR ''}'']) = Some kvs"
proof (induction kvs arbitrary: fuel rule: members_text.induct)
  case 1
  then show ?case by simp
next
  case (2 k v)
  then obtain f where "fuel = Suc f" by (cases fuel) auto
  with 2 show ?case
    by (simp add: members_ok_def parse_pair_text num_char_def is_digit_def skip_ws_id)
next
  case (3 k v kv kvs)
  then obtain f where f: "fuel = Suc f" by (cases fuel) auto
  have "parse_pair (json_string k @ CHR '':'' # jval_text v @ CHR '','' # members_text (kv # kvs) @ [CHR ''}''])
        = Some ((k, v), CHR '','' # members_text (kv # kvs) @ [CHR ''}''])"
    using 3 by (intro parse_pair_text) (simp_all add: members_ok_def num_char_def is_digit_def)
  with 3 f show ?case
    by (simp add: members_ok_def skip_ws_id)
qed

lemma members_text_start: "kvs \<noteq> [] \<Longrightarrow> \<exists>s. members_text kvs = CHR 0x22 # s"
  by (induction kvs rule: members_text.induct) (auto simp: json_string_def)

lemma length_members_text: "length kvs \<le> length (members_text kvs)"
  by (induction kvs rule: members_text.induct) auto

lemma parse_object_text:
  assumes "kvs \<noteq> []" "members_ok kvs"
  shows "parse_object (object_text kvs) = Some kvs"
proof -
  obtain s where s: "members_text kvs = CHR 0x22 # s"
    using members_text_start [OF assms(1)] by blast
  have "parse_members (Suc (length (members_text kvs @ [CHR ''}'']))) (members_text kvs @ [CHR ''}'']) = Some kvs"
    using assms length_members_text [of kvs] by (intro parse_members_text) simp_all
  then show ?thesis
    by (simp add: parse_object_def object_text_def skip_ws_id s)
qed

end
