(* ===== verification/Wal.thy ===== *)
theory Wal
  imports Go_Json
begin

unbundle bit_operations_syntax

text \<open>
  The write-ahead log of \<^verbatim>\<open>internal/budget/wal.go\<close>: the logged command and its JSON text, the
  record framing \<open>[u32 len][u32 crc32][payload]\<close>, the log file with group commit, and the
  replay loop that stops at a torn or corrupt tail.

  The operating system's part is the file. \<open>f_bytes\<close> is its contents in the page cache,
  \<open>f_stable\<close> how many of them are on stable storage, \<open>f_writes\<close> and \<open>f_syncs\<close> the fate of the
  writes and fsyncs to come (a write may stop short after some bytes and fail), so that every
  failure the code handles can be run. A crash keeps some prefix of the bytes that is at least as
  long as \<open>f_stable\<close>.
\<close>

section \<open>Commands\<close>

record command =
  c_Kind :: string
  c_JobID :: string
  c_ArrayID :: string
  c_Idx :: i64
  c_N :: i64
  c_C :: Units
  c_W :: Seconds
  c_Runtime :: Seconds
  c_Elapsed :: Seconds
  c_Amount :: Units
  c_TS :: Seconds
  c_TE :: Seconds
  c_Xfer :: string
  c_BurstOn :: bool
  c_BurstPct :: f64
  c_Now :: Seconds

text \<open>The zero value, from which Go's composite literals start.\<close>

definition cmd0 :: command where
  "cmd0 = \<lparr>c_Kind = [], c_JobID = [], c_ArrayID = [], c_Idx = 0, c_N = 0, c_C = 0, c_W = 0,
     c_Runtime = 0, c_Elapsed = 0, c_Amount = 0, c_TS = 0, c_TE = 0, c_Xfer = [],
     c_BurstOn = False, c_BurstPct = 0, c_Now = 0\<rparr>"

definition KindSubmit :: string where "KindSubmit = ''sub''"
definition KindStart :: string where "KindStart = ''st''"
definition KindComplete :: string where "KindComplete = ''cmp''"
definition KindTimeout :: string where "KindTimeout = ''to''"
definition KindCancel :: string where "KindCancel = ''can''"
definition KindInfraFail :: string where "KindInfraFail = ''if''"
definition KindSubmitArray :: string where "KindSubmitArray = ''asub''"
definition KindStartTask :: string where "KindStartTask = ''ast''"
definition KindCompleteTask :: string where "KindCompleteTask = ''acmp''"
definition KindTimeoutTask :: string where "KindTimeoutTask = ''ato''"
definition KindCancelTask :: string where "KindCancelTask = ''acan''"
definition KindInfraFailTask :: string where "KindInfraFailTask = ''aif''"
definition KindLapse :: string where "KindLapse = ''lap''"
definition KindTopUp :: string where "KindTopUp = ''top''"
definition KindWithdraw :: string where "KindWithdraw = ''wd''"
definition KindReprice :: string where "KindReprice = ''rep''"
definition KindSetRate :: string where "KindSetRate = ''srate''"
definition KindSetWindow :: string where "KindSetWindow = ''swin''"
definition KindSetBurst :: string where "KindSetBurst = ''sburst''"

lemmas kind_defs =
  KindSubmit_def KindStart_def KindComplete_def KindTimeout_def KindCancel_def KindInfraFail_def
  KindSubmitArray_def KindStartTask_def KindCompleteTask_def KindTimeoutTask_def KindCancelTask_def
  KindInfraFailTask_def KindLapse_def KindTopUp_def KindWithdraw_def KindReprice_def
  KindSetRate_def KindSetWindow_def KindSetBurst_def

text \<open>\<open>json.Marshal\<close> of a command: the struct's tags, every field but the kind \<open>omitempty\<close>.\<close>

definition opt_str :: "string \<Rightarrow> string \<Rightarrow> (string \<times> jval) list" where
  "opt_str k s = (if s = [] then [] else [(k, JStr s)])"

definition opt_int :: "string \<Rightarrow> i64 \<Rightarrow> (string \<times> jval) list" where
  "opt_int k a = (if a = 0 then [] else [(k, JNum (json_int a))])"

definition opt_bool :: "string \<Rightarrow> bool \<Rightarrow> (string \<times> jval) list" where
  "opt_bool k b = (if b then [(k, JBool b)] else [])"

definition opt_f64 :: "string \<Rightarrow> f64 \<Rightarrow> (string \<times> jval) list" where
  "opt_f64 k x = (if x = 0 then [] else [(k, JNum (json_f64 x))])"

definition command_members :: "command \<Rightarrow> (string \<times> jval) list" where
  "command_members c =
     [(''k'', JStr (c_Kind c))] @ opt_str ''j'' (c_JobID c) @ opt_str ''a'' (c_ArrayID c)
     @ opt_int ''i'' (c_Idx c) @ opt_int ''n'' (c_N c) @ opt_int ''c'' (c_C c) @ opt_int ''w'' (c_W c)
     @ opt_int ''r'' (c_Runtime c) @ opt_int ''e'' (c_Elapsed c) @ opt_int ''amt'' (c_Amount c)
     @ opt_int ''ts'' (c_TS c) @ opt_int ''te'' (c_TE c) @ opt_str ''x'' (c_Xfer c)
     @ opt_bool ''bon'' (c_BurstOn c) @ opt_f64 ''bpct'' (c_BurstPct c) @ opt_int ''t'' (c_Now c)"

definition marshal_Command :: "command \<Rightarrow> string" where
  "marshal_Command c = object_text (command_members c)"

text \<open>\<open>json.Unmarshal\<close> into a command: \<open>null\<close> leaves a field alone, a value of the wrong type is an
  error, an unknown key is skipped.\<close>

definition set_str :: "(string \<Rightarrow> command \<Rightarrow> command) \<Rightarrow> jval \<Rightarrow> command \<Rightarrow> command option" where
  "set_str upd v c = (case v of JStr s \<Rightarrow> Some (upd s c) | JNull \<Rightarrow> Some c | _ \<Rightarrow> None)"

definition set_int :: "(i64 \<Rightarrow> command \<Rightarrow> command) \<Rightarrow> jval \<Rightarrow> command \<Rightarrow> command option" where
  "set_int upd v c =
     (case v of JNum t \<Rightarrow> map_option (\<lambda>a. upd a c) (parse_int t) | JNull \<Rightarrow> Some c | _ \<Rightarrow> None)"

definition set_bool :: "(bool \<Rightarrow> command \<Rightarrow> command) \<Rightarrow> jval \<Rightarrow> command \<Rightarrow> command option" where
  "set_bool upd v c = (case v of JBool b \<Rightarrow> Some (upd b c) | JNull \<Rightarrow> Some c | _ \<Rightarrow> None)"

definition set_f64 :: "(f64 \<Rightarrow> command \<Rightarrow> command) \<Rightarrow> jval \<Rightarrow> command \<Rightarrow> command option" where
  "set_f64 upd v c =
     (case v of JNum t \<Rightarrow> map_option (\<lambda>x. upd x c) (parse_f64 t) | JNull \<Rightarrow> Some c | _ \<Rightarrow> None)"

definition assign_field :: "(string \<times> jval) \<Rightarrow> command \<Rightarrow> command option" where
  "assign_field kv c =
     (let k = fst kv; v = snd kv
      in if k = ''k'' then set_str (\<lambda>s. c_Kind_update (\<lambda>_. s)) v c
         else if k = ''j'' then set_str (\<lambda>s. c_JobID_update (\<lambda>_. s)) v c
         else if k = ''a'' then set_str (\<lambda>s. c_ArrayID_update (\<lambda>_. s)) v c
         else if k = ''i'' then set_int (\<lambda>a. c_Idx_update (\<lambda>_. a)) v c
         else if k = ''n'' then set_int (\<lambda>a. c_N_update (\<lambda>_. a)) v c
         else if k = ''c'' then set_int (\<lambda>a. c_C_update (\<lambda>_. a)) v c
         else if k = ''w'' then set_int (\<lambda>a. c_W_update (\<lambda>_. a)) v c
         else if k = ''r'' then set_int (\<lambda>a. c_Runtime_update (\<lambda>_. a)) v c
         else if k = ''e'' then set_int (\<lambda>a. c_Elapsed_update (\<lambda>_. a)) v c
         else if k = ''amt'' then set_int (\<lambda>a. c_Amount_update (\<lambda>_. a)) v c
         else if k = ''ts'' then set_int (\<lambda>a. c_TS_update (\<lambda>_. a)) v c
         else if k = ''te'' then set_int (\<lambda>a. c_TE_update (\<lambda>_. a)) v c
         else if k = ''x'' then set_str (\<lambda>s. c_Xfer_update (\<lambda>_. s)) v c
         else if k = ''bon'' then set_bool (\<lambda>b. c_BurstOn_update (\<lambda>_. b)) v c
         else if k = ''bpct'' then set_f64 (\<lambda>x. c_BurstPct_update (\<lambda>_. x)) v c
         else if k = ''t'' then set_int (\<lambda>a. c_Now_update (\<lambda>_. a)) v c
         else Some c)"

fun assign_all :: "(string \<times> jval) list \<Rightarrow> command \<Rightarrow> command option" where
  "assign_all [] c = Some c"
| "assign_all (kv # kvs) c = (case assign_field kv c of None \<Rightarrow> None | Some c' \<Rightarrow> assign_all kvs c')"

definition unmarshal_Command :: "string \<Rightarrow> command option" where
  "unmarshal_Command s = (case parse_object s of None \<Rightarrow> None | Some kvs \<Rightarrow> assign_all kvs cmd0)"

section \<open>Record framing\<close>

text \<open>\<open>binary.LittleEndian.PutUint32\<close> and \<open>Uint32\<close>, \<open>crc32.ChecksumIEEE\<close>.\<close>

definition put_le32 :: "int \<Rightarrow> string" where
  "put_le32 n = [char_of n, char_of (n div 256), char_of (n div 65536), char_of (n div 16777216)]"

definition get_le32 :: "string \<Rightarrow> int" where
  "get_le32 s =
     byte_val (s ! 0) + 256 * byte_val (s ! 1) + 65536 * byte_val (s ! 2) + 16777216 * byte_val (s ! 3)"

definition crc_bit :: "32 word \<Rightarrow> 32 word" where
  "crc_bit c = (if bit c 0 then drop_bit 1 c XOR 0xEDB88320 else drop_bit 1 c)"

definition crc_byte :: "32 word \<Rightarrow> byte \<Rightarrow> 32 word" where
  "crc_byte c b =
     crc_bit (crc_bit (crc_bit (crc_bit (crc_bit (crc_bit (crc_bit (crc_bit (c XOR of_char b))))))))"

definition crc32 :: "string \<Rightarrow> 32 word" where
  "crc32 s = NOT (foldl crc_byte (NOT 0) s)"

definition frame_hdr :: "string \<Rightarrow> string" where
  "frame_hdr payload = put_le32 (int (length payload)) @ put_le32 (uint (crc32 payload))"

definition frame_bytes :: "string \<Rightarrow> string" where
  "frame_bytes payload = frame_hdr payload @ payload"

text \<open>
  The loop of \<open>replayWAL\<close> over the bytes from the offset on: \<open>dec\<close> decodes a payload, \<open>fn\<close> is
  called on each intact record, \<open>good\<close> is the offset after the last one it accepted.
\<close>

function replay_loop ::
  "(string \<Rightarrow> 'c option) \<Rightarrow> ('c \<Rightarrow> 's \<Rightarrow> 's \<times> outcome) \<Rightarrow> 's \<Rightarrow> i64 \<Rightarrow> string \<Rightarrow> 's \<times> i64 \<times> outcome"
where
  "replay_loop dec fn s good bs =
     (if length bs < 8 then (s, good, Done)
      else let n = nat (get_le32 (take 4 bs)); want = get_le32 (take 4 (drop 4 bs));
               payload = take n (drop 8 bs)
           in if length (drop 8 bs) < n then (s, good, Done)
              else if uint (crc32 payload) \<noteq> want then (s, good, Done)
              else case dec payload of
                  None \<Rightarrow> (s, good, Done)
                | Some c \<Rightarrow>
                    (case fn c s of
                       (s', Done) \<Rightarrow> replay_loop dec fn s' (good + 8 + word_of_nat n) (drop n (drop 8 bs))
                     | (s', r) \<Rightarrow> (s', good, r)))"
  by pat_completeness auto
termination
  by (relation "measure (\<lambda>(dec, fn, s, good, bs). length bs)") auto

declare replay_loop.simps [simp del]

text \<open>A missing file replays nothing; a seek to a negative offset fails.\<close>

definition replayWAL ::
  "string option \<Rightarrow> i64 \<Rightarrow> (command \<Rightarrow> 's \<Rightarrow> 's \<times> outcome) \<Rightarrow> 's \<Rightarrow> 's \<times> i64 \<times> outcome" where
  "replayWAL file byteOffset fn s =
     (case file of
        None \<Rightarrow> (s, byteOffset, Done)
      | Some bs \<Rightarrow>
          if byteOffset <s 0 then (s, byteOffset, Fail (ErrText ''seek: invalid argument''))
          else replay_loop unmarshal_Command fn s byteOffset (drop (nat (sint byteOffset)) bs))"

section \<open>The log file and group commit\<close>

record gofile =
  f_bytes :: string
  f_stable :: nat
  f_writes :: "nat option list"
  f_syncs :: "bool list"

definition open_file :: "string \<Rightarrow> gofile" where
  "open_file bs = \<lparr>f_bytes = bs, f_stable = length bs, f_writes = [], f_syncs = []\<rparr>"

definition file_write :: "string \<Rightarrow> gofile \<Rightarrow> gofile \<times> err option" where
  "file_write bs f =
     (case f_writes f of
        Some n # r \<Rightarrow>
          (f\<lparr>f_bytes := f_bytes f @ take n bs, f_writes := r\<rparr>, Some (ErrText ''write error''))
      | _ \<Rightarrow> (f\<lparr>f_bytes := f_bytes f @ bs, f_writes := tl (f_writes f)\<rparr>, None))"

definition file_sync :: "gofile \<Rightarrow> gofile \<times> err option" where
  "file_sync f =
     (case f_syncs f of
        False # r \<Rightarrow> (f\<lparr>f_syncs := r\<rparr>, Some (ErrText ''fsync error''))
      | _ \<Rightarrow> (f\<lparr>f_stable := length (f_bytes f), f_syncs := tl (f_syncs f)\<rparr>, None))"

record wal =
  w_file :: gofile
  w_syncOn :: bool
  w_writeOff :: i64
  w_syncedOff :: i64
  w_syncErr :: "err option"

definition OpenWAL :: "gofile \<Rightarrow> bool \<Rightarrow> wal" where
  "OpenWAL f syncOn =
     \<lparr>w_file = f, w_syncOn = syncOn, w_writeOff = word_of_nat (length (f_bytes f)),
      w_syncedOff = word_of_nat (length (f_bytes f)), w_syncErr = None\<rparr>"

definition wal_Size :: "wal \<Rightarrow> i64" where
  "wal_Size w = w_writeOff w"

definition wal_SyncedSize :: "wal \<Rightarrow> i64" where
  "wal_SyncedSize w = w_syncedOff w"

definition Append :: "command \<Rightarrow> wal \<Rightarrow> wal \<times> err option" where
  "Append c w =
     (let payload = marshal_Command c
      in if 2 ^ 32 \<le> int (length payload) then (w, Some (ErrText ''wal: record too large''))
         else case w_syncErr w of
             Some e \<Rightarrow> (w, Some e)
           | None \<Rightarrow>
               (case file_write (frame_hdr payload) (w_file w) of
                  (f1, Some e) \<Rightarrow> (w\<lparr>w_file := f1\<rparr>, Some e)
                | (f1, None) \<Rightarrow>
                    (case file_write payload f1 of
                       (f2, Some e) \<Rightarrow> (w\<lparr>w_file := f2\<rparr>, Some e)
                     | (f2, None) \<Rightarrow>
                         let off = w_writeOff w + word_of_nat (8 + length payload)
                         in (w\<lparr>w_file := f2, w_writeOff := off,
                               w_syncedOff := (if w_syncOn w then w_syncedOff w else off)\<rparr>, None))))"

text \<open>
  \<open>flushOnce\<close> takes the mutex twice and runs the fsync in between without it, so appends may come
  in between its three parts.
\<close>

definition flush_begin :: "wal \<Rightarrow> i64 option" where
  "flush_begin w =
     (if w_syncErr w \<noteq> None then None
      else if w_writeOff w \<le>s w_syncedOff w then None else Some (w_writeOff w))"

definition flush_sync :: "wal \<Rightarrow> wal \<times> err option" where
  "flush_sync w = (case file_sync (w_file w) of (f, e) \<Rightarrow> (w\<lparr>w_file := f\<rparr>, e))"

definition flush_end :: "i64 \<Rightarrow> err option \<Rightarrow> wal \<Rightarrow> wal" where
  "flush_end target e w =
     (case e of
        Some _ \<Rightarrow> w\<lparr>w_syncErr := e\<rparr>
      | None \<Rightarrow> if w_syncedOff w <s target then w\<lparr>w_syncedOff := target\<rparr> else w)"

definition flushOnce :: "wal \<Rightarrow> wal" where
  "flushOnce w =
     (case flush_begin w of
        None \<Rightarrow> w
      | Some target \<Rightarrow> (case flush_sync w of (w', e) \<Rightarrow> flush_end target e w'))"

text \<open>\<open>Flush\<close>, run with no other flush in flight: its wait loop is then over at once.\<close>

definition Flush :: "wal \<Rightarrow> wal \<times> err option" where
  "Flush w =
     (if \<not> w_syncOn w then (w, None) else let w' = flushOnce w in (w', w_syncErr w'))"

definition Close :: "err option \<Rightarrow> wal \<Rightarrow> wal \<times> err option" where
  "Close cerr w =
     (let w' = (if w_syncOn w then flushOnce w else w)
      in (w', case w_syncErr w' of Some e \<Rightarrow> Some e | None \<Rightarrow> cerr))"

text \<open>What a crash may leave of the file.\<close>

definition crash_image :: "wal \<Rightarrow> string \<Rightarrow> bool" where
  "crash_image w bs \<longleftrightarrow>
     f_stable (w_file w) \<le> length bs \<and> bs = take (length bs) (f_bytes (w_file w))"

text \<open>The bytes of a log of whole records, and the commands of a log applied in order.\<close>

fun log_bytes :: "('c \<Rightarrow> string) \<Rightarrow> 'c list \<Rightarrow> string" where
  "log_bytes enc [] = []"
| "log_bytes enc (c # cs) = frame_bytes (enc c) @ log_bytes enc cs"

text \<open>Applying a list of commands, stopping at the first one that fails.\<close>

fun apply_list :: "('c \<Rightarrow> 's \<Rightarrow> 's \<times> outcome) \<Rightarrow> 'c list \<Rightarrow> 's \<Rightarrow> 's \<times> outcome" where
  "apply_list fn [] s = (s, Done)"
| "apply_list fn (c # cs) s =
     (case fn c s of (s', Done) \<Rightarrow> apply_list fn cs s' | (s', r) \<Rightarrow> (s', r))"

text \<open>
  The commands the kernel writes: ASCII identifiers, and a burst percentage whose shortest decimal
  reads back as itself.
\<close>

definition f64_prints :: "f64 \<Rightarrow> bool" where
  "f64_prints x \<longleftrightarrow>
     parse_f64 (json_f64 x) = Some x \<and> json_f64 x \<noteq> [] \<and> list_all num_char (json_f64 x)"

definition command_ok :: "command \<Rightarrow> bool" where
  "command_ok c \<longleftrightarrow>
     ascii (c_Kind c) \<and> ascii (c_JobID c) \<and> ascii (c_ArrayID c) \<and> ascii (c_Xfer c)
     \<and> (c_BurstPct c = 0 \<or> f64_prints (c_BurstPct c)) \<and> int (length (marshal_Command c)) < 2 ^ 32"

section \<open>The payload codec\<close>

text \<open>
  What the log relies on: a payload is short enough for the length field, and decodes to the
  command it was made from. \<open>ok\<close> marks the commands for which the codec promises this.
\<close>

locale payload_codec =
  fixes enc :: "'c \<Rightarrow> string" and dec :: "string \<Rightarrow> 'c option" and ok :: "'c \<Rightarrow> bool"
  assumes dec_enc: "ok c \<Longrightarrow> dec (enc c) = Some c"
    and enc_short: "ok c \<Longrightarrow> int (length (enc c)) < 2 ^ 32"

lemma get_put_le32:
  assumes "0 \<le> n" "n < 2 ^ 32"
  shows "get_le32 (put_le32 n) = n"
proof -
  have "n div 65536 = n div 256 div 256" "n div 16777216 = n div 65536 div 256"
    by (simp_all add: zdiv_zmult2_eq [symmetric])
  then have "n = n mod 256 + 256 * (n div 256)"
    "n div 256 = n div 256 mod 256 + 256 * (n div 65536)"
    "n div 65536 = n div 65536 mod 256 + 256 * (n div 16777216)"
    by presburger+
  moreover have "n div 16777216 mod 256 = n div 16777216"
    using assms by (intro mod_pos_pos_trivial) auto
  moreover have "get_le32 (put_le32 n)
      = n mod 256 + 256 * (n div 256 mod 256) + 65536 * (n div 65536 mod 256) + 16777216 * (n div 16777216 mod 256)"
    by (simp add: get_le32_def put_le32_def)
  ultimately show ?thesis by linarith
qed

lemma length_put_le32 [simp]: "length (put_le32 n) = 4"
  by (simp add: put_le32_def)

lemma length_frame_hdr [simp]: "length (frame_hdr p) = 8"
  by (simp add: frame_hdr_def)

lemma frame_hdr_fields:
  assumes "int (length p) < 2 ^ 32"
  shows "get_le32 (take 4 (frame_hdr p)) = int (length p)"
    and "get_le32 (take 4 (drop 4 (frame_hdr p))) = uint (crc32 p)"
proof -
  show "get_le32 (take 4 (frame_hdr p)) = int (length p)"
    using assms by (simp add: frame_hdr_def get_put_le32)
  have "uint (crc32 p) < 2 ^ 32" using uint_bounded [of "crc32 p"] by simp
  then show "get_le32 (take 4 (drop 4 (frame_hdr p))) = uint (crc32 p)"
    by (simp add: frame_hdr_def get_put_le32)
qed

text \<open>One turn of the replay loop at a header.\<close>

lemma replay_loop_hdr:
  assumes "int (length p) < 2 ^ 32"
  shows "replay_loop dec fn s good (frame_hdr p @ bs) =
     (if length bs < length p then (s, good, Done)
      else if crc32 (take (length p) bs) \<noteq> crc32 p then (s, good, Done)
      else case dec (take (length p) bs) of
          None \<Rightarrow> (s, good, Done)
        | Some c \<Rightarrow>
            (case fn c s of
               (s', Done) \<Rightarrow> replay_loop dec fn s' (good + 8 + word_of_nat (length p)) (drop (length p) bs)
             | (s', r) \<Rightarrow> (s', good, r)))"
proof -
  have "take 4 (frame_hdr p @ bs) = take 4 (frame_hdr p)"
    "take 4 (drop 4 (frame_hdr p @ bs)) = take 4 (drop 4 (frame_hdr p))"
    "drop 8 (frame_hdr p @ bs) = bs"
    by simp_all
  then show ?thesis
    using frame_hdr_fields [OF assms]
    by (subst replay_loop.simps) (simp only: Let_def nat_int length_append length_frame_hdr word_uint_eq_iff if_False not_add_less1)
qed

context payload_codec
begin

lemma replay_frame:
  assumes "ok c"
  shows "replay_loop dec fn s good (frame_bytes (enc c) @ bs) =
     (case fn c s of
        (s', Done) \<Rightarrow> replay_loop dec fn s' (good + 8 + word_of_nat (length (enc c))) bs
      | (s', r) \<Rightarrow> (s', good, r))"
  by (simp add: frame_bytes_def replay_loop_hdr [OF enc_short [OF assms]] dec_enc [OF assms])

text \<open>The bytes of a proper prefix of a frame are a torn tail: replay stops without them.\<close>

lemma replay_torn:
  assumes "ok c" and "k < length (frame_bytes (enc c))"
  shows "replay_loop dec fn s good (take k (frame_bytes (enc c))) = (s, good, Done)"
proof (cases "k < 8")
  case True
  with assms show ?thesis by (subst replay_loop.simps) simp
next
  case False
  then have "take k (frame_bytes (enc c)) = frame_hdr (enc c) @ take (k - 8) (enc c)"
    by (simp add: frame_bytes_def)
  moreover have "k - 8 < length (enc c)"
    using False assms by (simp add: frame_bytes_def)
  ultimately show ?thesis
    by (simp add: replay_loop_hdr [OF enc_short [OF assms(1)]])
qed

lemma replay_log:
  assumes "list_all ok cs"
    and "\<And>s good. replay_loop dec fn s good tail = (s, good, Done)"
  shows "\<exists>g. replay_loop dec fn s good (log_bytes enc cs @ tail)
             = (fst (apply_list fn cs s), g, snd (apply_list fn cs s))"
  using assms(1)
proof (induction cs arbitrary: s good)
  case Nil
  then show ?case by (simp add: assms(2))
next
  case (Cons c cs)
  obtain s' r where fn: "fn c s = (s', r)" by (cases "fn c s")
  with Cons show ?case
    by (cases r) (simp_all add: replay_frame)
qed

text \<open>Every prefix of a log is whole records and a torn tail.\<close>

lemma log_prefix:
  assumes "n \<le> length (log_bytes enc cs)"
  shows "\<exists>m tail. m \<le> length cs \<and> take n (log_bytes enc cs) = log_bytes enc (take m cs) @ tail
     \<and> (tail = [] \<or> (\<exists>k. m < length cs \<and> k < length (frame_bytes (enc (cs ! m))) \<and> tail = take k (frame_bytes (enc (cs ! m)))))
     \<and> length (log_bytes enc (take m cs)) \<le> n \<and> (m < length cs \<longrightarrow> n < length (log_bytes enc (take (Suc m) cs)))"
  using assms
proof (induction cs arbitrary: n)
  case Nil
  then show ?case by simp
next
  case (Cons c cs)
  show ?case
  proof (cases "n < length (frame_bytes (enc c))")
    case True
    then show ?thesis by (intro exI [of _ 0] exI [of _ "take n (frame_bytes (enc c))"]) auto
  next
    case False
    define d where "d = n - length (frame_bytes (enc c))"
    have "d \<le> length (log_bytes enc cs)" using Cons.prems False by (simp add: d_def)
    from Cons.IH [OF this] obtain m tail where
      "m \<le> length cs" "take d (log_bytes enc cs) = log_bytes enc (take m cs) @ tail"
      "tail = [] \<or> (\<exists>k. m < length cs \<and> k < length (frame_bytes (enc (cs ! m))) \<and> tail = take k (frame_bytes (enc (cs ! m))))"
      "length (log_bytes enc (take m cs)) \<le> d" "m < length cs \<longrightarrow> d < length (log_bytes enc (take (Suc m) cs))"
      by blast
    with False show ?thesis
      by (intro exI [of _ "Suc m"] exI [of _ tail]) (auto simp: d_def)
  qed
qed

end


section \<open>The command codec\<close>

lemma json_int_ok: "json_int a \<noteq> [] \<and> list_all num_char (json_int a)"
proof -
  have "list_all num_char (nat_dec n)" if "0 \<le> n" for n
    using nat_dec_digits [OF that] by (auto simp: num_char_def list_all_iff)
  then show ?thesis
    using nat_dec_digits [of "sint a"] by (auto simp: json_int_def int_dec_def num_char_def)
qed

lemma command_members_ok: "command_ok c \<Longrightarrow> members_ok (command_members c)"
  by (auto simp: command_ok_def command_members_def members_ok_def opt_str_def opt_int_def opt_bool_def
      opt_f64_def json_int_ok f64_prints_def ascii_def)

lemma assign_all_append:
  "assign_all (xs @ ys) c = (case assign_all xs c of None \<Rightarrow> None | Some c' \<Rightarrow> assign_all ys c')"
  by (induction xs arbitrary: c) (auto split: option.splits)

text \<open>Reading back one optional member sets its field, whether it was written or omitted.\<close>

lemma assign_opt:
  "assign_field (''k'', JStr s) c = Some (c\<lparr>c_Kind := s\<rparr>)"
  "c_JobID c = [] \<Longrightarrow> assign_all (opt_str ''j'' s) c = Some (c\<lparr>c_JobID := s\<rparr>)"
  "c_ArrayID c = [] \<Longrightarrow> assign_all (opt_str ''a'' s) c = Some (c\<lparr>c_ArrayID := s\<rparr>)"
  "c_Xfer c = [] \<Longrightarrow> assign_all (opt_str ''x'' s) c = Some (c\<lparr>c_Xfer := s\<rparr>)"
  "c_Idx c = 0 \<Longrightarrow> assign_all (opt_int ''i'' a) c = Some (c\<lparr>c_Idx := a\<rparr>)"
  "c_N c = 0 \<Longrightarrow> assign_all (opt_int ''n'' a) c = Some (c\<lparr>c_N := a\<rparr>)"
  "c_C c = 0 \<Longrightarrow> assign_all (opt_int ''c'' a) c = Some (c\<lparr>c_C := a\<rparr>)"
  "c_W c = 0 \<Longrightarrow> assign_all (opt_int ''w'' a) c = Some (c\<lparr>c_W := a\<rparr>)"
  "c_Runtime c = 0 \<Longrightarrow> assign_all (opt_int ''r'' a) c = Some (c\<lparr>c_Runtime := a\<rparr>)"
  "c_Elapsed c = 0 \<Longrightarrow> assign_all (opt_int ''e'' a) c = Some (c\<lparr>c_Elapsed := a\<rparr>)"
  "c_Amount c = 0 \<Longrightarrow> assign_all (opt_int ''amt'' a) c = Some (c\<lparr>c_Amount := a\<rparr>)"
  "c_TS c = 0 \<Longrightarrow> assign_all (opt_int ''ts'' a) c = Some (c\<lparr>c_TS := a\<rparr>)"
  "c_TE c = 0 \<Longrightarrow> assign_all (opt_int ''te'' a) c = Some (c\<lparr>c_TE := a\<rparr>)"
  "c_Now c = 0 \<Longrightarrow> assign_all (opt_int ''t'' a) c = Some (c\<lparr>c_Now := a\<rparr>)"
  "\<not> c_BurstOn c \<Longrightarrow> assign_all (opt_bool ''bon'' b) c = Some (c\<lparr>c_BurstOn := b\<rparr>)"
  "c_BurstPct c = 0 \<Longrightarrow> x = 0 \<or> f64_prints x \<Longrightarrow> assign_all (opt_f64 ''bpct'' x) c = Some (c\<lparr>c_BurstPct := x\<rparr>)"
  by (cases c; auto simp: assign_field_def opt_str_def opt_int_def opt_bool_def opt_f64_def
      set_str_def set_int_def set_bool_def set_f64_def parse_int_json_int f64_prints_def)+

lemma assign_members:
  "c_BurstPct c = 0 \<or> f64_prints (c_BurstPct c) \<Longrightarrow> assign_all (command_members c) cmd0 = Some c"
  by (cases c) (simp add: command_members_def assign_all_append assign_opt cmd0_def)

lemma unmarshal_marshal: "command_ok c \<Longrightarrow> unmarshal_Command (marshal_Command c) = Some c"
  using parse_object_text [OF _ command_members_ok, of c] assign_members [of c]
  by (simp add: unmarshal_Command_def marshal_Command_def command_ok_def command_members_def)

interpretation cmd_codec: payload_codec marshal_Command unmarshal_Command command_ok
  by unfold_locales (simp_all add: unmarshal_marshal command_ok_def)

end
