(* ===== verification/Wal_Commit.thy ===== *)
theory Wal_Commit
  imports Wal
begin

text \<open>
  Group commit: appends and any number of flushes (the committer's and those of \<open>Flush\<close> and
  \<open>Close\<close>) interleave, each flush in the three parts between which the log's mutex is free. The
  run relation \<open>wal_run\<close> records the commands whose append returned; its invariant ties the file,
  the offsets and the flushes in flight together, and gives what a crash can lose.
\<close>

datatype flush = Begun i64 | Synced i64 "err option"

inductive wal_run :: "command list \<Rightarrow> wal \<Rightarrow> flush list \<Rightarrow> bool" where
  run_start: "wal_run [] (OpenWAL ((open_file [])\<lparr>f_syncs := ss\<rparr>) True) []"
| run_append: "wal_run cs w ps \<Longrightarrow> command_ok c \<Longrightarrow> Append c w = (w', None) \<Longrightarrow> wal_run (cs @ [c]) w' ps"
| run_refused: "wal_run cs w ps \<Longrightarrow> Append c w = (w', Some e) \<Longrightarrow> wal_run cs w' ps"
| begin_flush: "wal_run cs w ps \<Longrightarrow> flush_begin w = Some t \<Longrightarrow> wal_run cs w (ps @ [Begun t])"
| do_sync: "wal_run cs w (ps @ Begun t # qs) \<Longrightarrow> flush_sync w = (w', e) \<Longrightarrow> wal_run cs w' (ps @ Synced t e # qs)"
| end_flush: "wal_run cs w (ps @ Synced t e # qs) \<Longrightarrow> wal_run cs (flush_end t e w) (ps @ qs)"

text \<open>An offset at the end of some whole record of the log, with at most \<open>n\<close> bytes before it.\<close>

definition boundary :: "command list \<Rightarrow> nat \<Rightarrow> i64 \<Rightarrow> bool" where
  "boundary cs n off \<longleftrightarrow>
     (\<exists>j \<le> length cs. off = word_of_nat (length (log_bytes marshal_Command (take j cs)))
        \<and> length (log_bytes marshal_Command (take j cs)) \<le> n)"

fun flush_ok :: "command list \<Rightarrow> gofile \<Rightarrow> flush \<Rightarrow> bool" where
  "flush_ok cs f (Begun t) = boundary cs (length (f_bytes f)) t"
| "flush_ok cs f (Synced t None) = boundary cs (f_stable f) t"
| "flush_ok cs f (Synced t (Some e)) = True"

definition wal_inv :: "command list \<Rightarrow> wal \<Rightarrow> flush list \<Rightarrow> bool" where
  "wal_inv cs w ps \<longleftrightarrow>
     f_bytes (w_file w) = log_bytes marshal_Command cs \<and> f_writes (w_file w) = [] \<and> w_syncOn w
     \<and> f_stable (w_file w) \<le> length (f_bytes (w_file w))
     \<and> w_writeOff w = word_of_nat (length (f_bytes (w_file w)))
     \<and> boundary cs (f_stable (w_file w)) (w_syncedOff w)
     \<and> list_all command_ok cs \<and> list_all (flush_ok cs (w_file w)) ps"

lemma log_bytes_append: "log_bytes enc (xs @ ys) = log_bytes enc xs @ log_bytes enc ys"
  by (induction xs) auto

lemma boundary_mono: "boundary cs n off \<Longrightarrow> n \<le> n' \<Longrightarrow> boundary (cs @ ds) n' off"
  unfolding boundary_def by (metis (no_types, lifting) append_Nil2 diff_is_0_eq le_trans length_append take0 take_append trans_le_add1)

lemma boundary_all: "boundary cs (length (log_bytes marshal_Command cs)) (word_of_nat (length (log_bytes marshal_Command cs)))"
  by (auto simp: boundary_def intro: exI [of _ "length cs"])

lemma flush_ok_mono:
  assumes "flush_ok cs f p" "length (f_bytes f) \<le> length (f_bytes f')" "f_stable f \<le> f_stable f'"
  shows "flush_ok (cs @ ds) f' p"
  using assms by (cases "(cs, f, p)" rule: flush_ok.cases) (auto intro: boundary_mono)

lemma Append_no_fault:
  assumes "f_writes (w_file w) = []"
  shows "Append c w =
    (let p = marshal_Command c; off = w_writeOff w + word_of_nat (8 + length p)
     in if 2 ^ 32 \<le> int (length p) then (w, Some (ErrText ''wal: record too large''))
        else case w_syncErr w of Some e \<Rightarrow> (w, Some e)
          | None \<Rightarrow> (w\<lparr>w_file := (w_file w)\<lparr>f_bytes := f_bytes (w_file w) @ frame_bytes p\<rparr>,
                      w_writeOff := off, w_syncedOff := (if w_syncOn w then w_syncedOff w else off)\<rparr>, None))"
  using assms by (cases "w_file w") (simp add: Append_def file_write_def frame_bytes_def Let_def split: option.split)

lemma Append_refused: "f_writes (w_file w) = [] \<Longrightarrow> Append c w = (w', Some e) \<Longrightarrow> w' = w"
  by (auto simp: Append_no_fault Let_def split: if_splits option.splits)

lemma wal_inv_append:
  assumes "wal_inv cs w ps" "command_ok c" "Append c w = (w', None)"
  shows "wal_inv (cs @ [c]) w' ps"
proof -
  let ?f' = "(w_file w)\<lparr>f_bytes := f_bytes (w_file w) @ frame_bytes (marshal_Command c)\<rparr>"
  have w': "w' = w\<lparr>w_file := ?f', w_writeOff := w_writeOff w + word_of_nat (8 + length (marshal_Command c))\<rparr>"
    using assms by (auto simp: wal_inv_def Append_no_fault Let_def split: if_splits option.splits)
  have ps: "list_all (flush_ok (cs @ [c]) ?f') ps"
    using assms(1) by (auto simp: wal_inv_def list_all_iff intro!: flush_ok_mono [of cs "w_file w"])
  show ?thesis
    using assms ps boundary_mono [of cs "f_stable (w_file w)" "w_syncedOff w" _ "[c]"]
    by (auto simp: wal_inv_def w' log_bytes_append frame_bytes_def)
qed

lemma wal_inv_begin:
  assumes "wal_inv cs w ps" "flush_begin w = Some t"
  shows "wal_inv cs w (ps @ [Begun t])"
  using assms boundary_all [of cs] by (auto simp: wal_inv_def flush_begin_def split: if_splits)

lemma wal_inv_sync:
  assumes "wal_inv cs w (ps @ Begun t # qs)" "flush_sync w = (w', e)"
  shows "wal_inv cs w' (ps @ Synced t e # qs)"
proof (cases e)
  case None
  with assms(2) obtain r where w': "w' = w\<lparr>w_file := (w_file w)\<lparr>f_stable := length (f_bytes (w_file w)), f_syncs := r\<rparr>\<rparr>"
    by (auto simp: flush_sync_def file_sync_def split: list.splits bool.splits)
  have "list_all (flush_ok cs (w_file w')) (ps @ qs)"
    using assms(1) flush_ok_mono [of cs "w_file w" _ "w_file w'" "[]"]
    by (auto simp: wal_inv_def w' list_all_iff)
  moreover have "boundary cs (length (f_bytes (w_file w))) (w_syncedOff w)"
    using assms(1) boundary_mono [of cs _ _ _ "[]"] by (auto simp: wal_inv_def)
  ultimately show ?thesis
    using assms(1) None by (auto simp: wal_inv_def w')
next
  case (Some err)
  with assms(2) obtain r where w': "w' = w\<lparr>w_file := (w_file w)\<lparr>f_syncs := r\<rparr>\<rparr>"
    by (auto simp: flush_sync_def file_sync_def split: list.splits bool.splits)
  have "flush_ok cs (w_file w') p = flush_ok cs (w_file w) p" for p
    by (cases "(cs, w_file w, p)" rule: flush_ok.cases) (auto simp: w')
  then show ?thesis
    using assms(1) Some by (auto simp: wal_inv_def w' list_all_iff)
qed

lemma wal_inv_end:
  assumes "wal_inv cs w (ps @ Synced t e # qs)"
  shows "wal_inv cs (flush_end t e w) (ps @ qs)"
  using assms by (auto simp: wal_inv_def flush_end_def split: option.splits)

lemma wal_run_inv: "wal_run cs w ps \<Longrightarrow> wal_inv cs w ps"
proof (induction rule: wal_run.induct)
  case (run_start ss)
  show ?case by (simp add: wal_inv_def OpenWAL_def open_file_def boundary_def)
next
  case (run_refused cs w ps c w' e)
  then have "w' = w" by (intro Append_refused) (auto simp: wal_inv_def)
  with run_refused show ?case by simp
qed (blast intro: wal_inv_append wal_inv_begin wal_inv_sync wal_inv_end)+



end
