(* ===== verification/Budget_State.thy ===== *)
theory Budget_State
  imports Wal
begin

text \<open>
  The state of one budget (\<^verbatim>\<open>internal/budget\<close>): the escrow and array-escrow records, the
  budget record, the published read view (\<^verbatim>\<open>readview.go\<close>), the logging of a command
  (\<open>logCmd\<close> of \<^verbatim>\<open>durable.go\<close>) and the burst token bucket (\<^verbatim>\<open>burst.go\<close>).

  A method that takes \<open>bd.mu\<close> for its whole body is one function from the state to the new state
  and the result. \<open>defer bd.publishLocked()\<close> is \<open>published\<close>, applied to what the body returns.
\<close>

section \<open>Records\<close>

datatype status = Active | Lapsed

record escrow =
  e_JobID :: string
  e_C :: Units
  e_Reserved :: Units
  e_W :: Seconds
  e_Started :: bool
  e_BurstResv :: Units
  e_Submitted :: Seconds

record taskState =
  t_idx :: i64
  t_started :: bool
  t_settled :: bool
  t_burstResv :: Units

record arrayEscrow =
  a_ArrayID :: string
  a_C :: Units
  a_W :: Seconds
  a_N :: i64
  a_Remaining :: i64
  a_Reserved :: Units
  a_Submitted :: Seconds
  a_tasks :: "(i64, taskState) gomap"

record readView =
  v_B :: Units
  v_BurstPot :: Units
  v_RLive :: Units
  v_FracAcc :: Units
  v_LastTouch :: Seconds
  v_B0 :: Units
  v_TS :: Seconds
  v_TE :: Seconds
  v_BurstEnabled :: bool
  v_BurstCeilingPct :: f64
  v_BurstDrawCap :: Units

record budget =
  C :: Units
  TS :: Seconds
  TE :: Seconds
  B :: Units
  ReservedTotal :: Units
  Consumed :: Units
  WriteOff :: Units
  B0 :: Units
  BillInfraFailures :: bool
  AllowRequeue :: bool
  K :: f64
  BurstEnabled :: bool
  BurstCeilingPct :: f64
  BurstDrawCap :: Units
  burstPot :: Units
  fracAcc :: Units
  rLive :: Units
  lastTouch :: Seconds
  escrows :: "(string, escrow) gomap"
  arrays :: "(string, arrayEscrow) gomap"
  status :: status
  wal_of :: "wal option"
  dir :: string
  replaying :: bool
  readView :: "readView option"

section \<open>Publishing, logging, construction\<close>

definition publishLocked :: "budget \<Rightarrow> budget" where
  "publishLocked bd = bd\<lparr>readView := Some
     \<lparr>v_B = B bd, v_BurstPot = burstPot bd, v_RLive = rLive bd, v_FracAcc = fracAcc bd,
      v_LastTouch = lastTouch bd, v_B0 = B0 bd, v_TS = TS bd, v_TE = TE bd,
      v_BurstEnabled = BurstEnabled bd, v_BurstCeilingPct = BurstCeilingPct bd,
      v_BurstDrawCap = BurstDrawCap bd\<rparr>\<rparr>"

definition published :: "budget \<times> 'r \<Rightarrow> budget \<times> 'r" where
  "published p = (publishLocked (fst p), snd p)"

definition ReadSnapshot :: "budget \<Rightarrow> readView" where
  "ReadSnapshot bd =
     (case readView bd of
        Some v \<Rightarrow> v
      | None \<Rightarrow> \<lparr>v_B = 0, v_BurstPot = 0, v_RLive = 0, v_FracAcc = 0, v_LastTouch = 0, v_B0 = 0,
                 v_TS = 0, v_TE = 0, v_BurstEnabled = False, v_BurstCeilingPct = 0, v_BurstDrawCap = 0\<rparr>)"

definition logCmd :: "command \<Rightarrow> budget \<Rightarrow> budget \<times> err option" where
  "logCmd c bd =
     (if replaying bd then (bd, None)
      else case wal_of bd of
          None \<Rightarrow> (bd, None)
        | Some w \<Rightarrow> (case Append c w of (w', e) \<Rightarrow> (bd\<lparr>wal_of := Some w'\<rparr>, e)))"

definition New :: "Units \<Rightarrow> Units \<Rightarrow> Units \<Rightarrow> Units \<Rightarrow> budget" where
  "New c b0 ts te =
     publishLocked
       \<lparr>C = c, TS = ts, TE = te, B = b0, ReservedTotal = 0, Consumed = 0, WriteOff = 0, B0 = b0,
        BillInfraFailures = False, AllowRequeue = False, K = 0, BurstEnabled = False,
        BurstCeilingPct = 0, BurstDrawCap = 0, burstPot = 0, fracAcc = 0, rLive = 0, lastTouch = ts,
        escrows = [], arrays = [], status = Active, wal_of = None, dir = [], replaying = False,
        readView = None\<rparr>"

section \<open>The burst token bucket\<close>

definition window :: "budget \<Rightarrow> Seconds" where
  "window bd = TE bd - TS bd"

text \<open>\<open>r0Floor\<close> panics when the window is empty; \<open>None\<close> is that panic.\<close>

definition r0Floor :: "budget \<Rightarrow> Units option" where
  "r0Floor bd = (if window bd = 0 then None else Some (go_div (B0 bd) (window bd)))"

definition burstCeiling :: "budget \<Rightarrow> Units" where
  "burstCeiling bd = i64_of_f64 (f64_mult (BurstCeilingPct bd) (f64_of_i64 (B0 bd)))"

text \<open>An empty window makes the division panic, after \<open>fracAcc\<close> was already raised.\<close>

definition accrue :: "Seconds \<Rightarrow> budget \<Rightarrow> budget \<times> outcome" where
  "accrue now bd =
     (if \<not> BurstEnabled bd then (bd, Done)
      else let dt = now - lastTouch bd
      in if dt \<le>s 0 then (bd\<lparr>lastTouch := now\<rparr>, Done)
         else let T = window bd; unusedNum = B0 bd - rLive bd * T
         in if 0 <s unusedNum then
              (let acc = fracAcc bd + unusedNum * dt
               in if T = 0 then (bd\<lparr>fracAcc := acc\<rparr>, Panic DivideByZero)
                  else let carry = go_div acc T;
                           pot = burstPot bd + carry;
                           c = burstCeiling bd
                       in if c \<le>s pot
                          then (bd\<lparr>burstPot := c, fracAcc := 0, lastTouch := now\<rparr>, Done)
                          else (bd\<lparr>burstPot := pot, fracAcc := acc - carry * T, lastTouch := now\<rparr>, Done))
            else (bd\<lparr>lastTouch := now\<rparr>, Done))"

definition burstReserveForRate :: "Units \<Rightarrow> Seconds \<Rightarrow> budget \<Rightarrow> Units option" where
  "burstReserveForRate c w bd =
     (case r0Floor bd of
        None \<Rightarrow> None
      | Some r0f \<Rightarrow>
          let base = (if rLive bd <s r0f then r0f else rLive bd);
              excess = (rLive bd + c) - base;
              excess' = (if excess <s 0 then 0 else excess)
          in Some (excess' * w))"

definition BurstSnapshot :: "Seconds \<Rightarrow> budget \<Rightarrow> budget \<times> outcome \<times> (Units \<times> Units \<times> Units)" where
  "BurstSnapshot now bd =
     (case accrue now bd of (bd', r) \<Rightarrow> (bd', r, (burstPot bd', burstCeiling bd', rLive bd')))"

definition BurstBoundsOK :: "budget \<Rightarrow> bool" where
  "BurstBoundsOK bd \<longleftrightarrow>
     \<not> (burstPot bd <s 0 \<or> burstCeiling bd <s burstPot bd) \<and> \<not> rLive bd <s 0
     \<and> \<not> (fracAcc bd <s 0 \<or> window bd \<le>s fracAcc bd)
     \<and> mall (\<lambda>_ e. \<not> e_BurstResv e <s 0) (escrows bd)"

end
