(* ===== verification/Array_Ops.thy ===== *)
theory Array_Ops
  imports Budget_Ops
begin

text \<open>
  The 1:N array layer of \<^verbatim>\<open>internal/budget/array.go\<close>: one escrow for \<open>N\<close> tasks of a common
  walltime, debited once and settled task by task. Its per-escrow check is a panic in the code
  (\<open>PerEscrowInvariant\<close>); the theory of the kernel's invariant shows it is never reached.
\<close>

definition slice :: "arrayEscrow \<Rightarrow> Units" where
  "slice ae = a_C ae * a_W ae"

definition put_array :: "string \<Rightarrow> arrayEscrow \<Rightarrow> budget \<Rightarrow> budget" where
  "put_array arrayID ae bd = bd\<lparr>arrays := AList.update arrayID ae (arrays bd)\<rparr>"

definition put_task :: "i64 \<Rightarrow> taskState \<Rightarrow> arrayEscrow \<Rightarrow> arrayEscrow" where
  "put_task idx ts ae = ae\<lparr>a_tasks := AList.update idx ts (a_tasks ae)\<rparr>"

definition new_tasks :: "i64 \<Rightarrow> (i64, taskState) gomap" where
  "new_tasks n =
     map (\<lambda>i. (word_of_nat i, \<lparr>t_idx = word_of_nat i, t_started = False, t_settled = False, t_burstResv = 0\<rparr>))
       [0..<nat (sint n)]"

definition SubmitArrayAt ::
  "string \<Rightarrow> Units \<Rightarrow> i64 \<Rightarrow> Seconds \<Rightarrow> Seconds \<Rightarrow> budget \<Rightarrow> budget \<times> outcome" where
  "SubmitArrayAt arrayID c n w now bd = published
     (if status bd \<noteq> Active then (bd, Fail ErrLapsed)
      else if now <s TS bd \<or> TE bd \<le>s now then (bd, Fail ErrLapsed)
      else if map_of (arrays bd) arrayID \<noteq> None then (bd, Fail ErrBadState)
      else if n \<le>s 0 \<or> w \<le>s 0 then (bd, Fail ErrBadState)
      else let c' = (if c \<le>s 0 then C bd else c); cost = c' * w * n
           in if B bd <s cost then (bd, Fail ErrInsufficient)
              else if \<not> rateOK cost now bd then (bd, Fail ErrRateExceeded)
              else with_log
                     (cmd0\<lparr>c_Kind := KindSubmitArray, c_ArrayID := arrayID, c_C := c', c_N := n, c_W := w, c_Now := now\<rparr>)
                     (\<lambda>bd. (put_array arrayID
                              \<lparr>a_ArrayID = arrayID, a_C = c', a_W = w, a_N = n, a_Remaining = n,
                               a_Reserved = cost, a_Submitted = now, a_tasks = new_tasks n\<rparr>
                              (bd\<lparr>B := B bd - cost, ReservedTotal := ReservedTotal bd + cost\<rparr>), Done)) bd)"

definition SubmitArray :: "string \<Rightarrow> i64 \<Rightarrow> Seconds \<Rightarrow> Seconds \<Rightarrow> budget \<Rightarrow> budget \<times> outcome" where
  "SubmitArray arrayID n w now bd = SubmitArrayAt arrayID 0 n w now bd"

definition StartTask :: "string \<Rightarrow> i64 \<Rightarrow> Seconds \<Rightarrow> budget \<Rightarrow> budget \<times> outcome" where
  "StartTask arrayID idx now bd = published
     (case map_of (arrays bd) arrayID of
        None \<Rightarrow> (bd, Fail ErrNoSuchJob)
      | Some ae \<Rightarrow>
          (case map_of (a_tasks ae) idx of
             None \<Rightarrow> (bd, Fail ErrBadState)
           | Some ts \<Rightarrow>
               if t_settled ts then (bd, Fail ErrBadState)
               else if t_started ts then (bd, Done)
               else let cmd = cmd0\<lparr>c_Kind := KindStartTask, c_ArrayID := arrayID, c_Idx := idx, c_Now := now\<rparr>;
                        mark = with_log cmd
                          (\<lambda>bd. (put_array arrayID (put_task idx (ts\<lparr>t_started := True\<rparr>) ae) bd, Done))
               in if BurstEnabled bd then
                    with_accrue now (\<lambda>bd.
                      case burstReserveForRate (a_C ae) (a_W ae) bd of
                        None \<Rightarrow> (bd, Panic DivideByZero)
                      | Some resv \<Rightarrow>
                          if 0 <s resv then
                            if 0 <s BurstDrawCap bd \<and> BurstDrawCap bd <s resv then (bd, Fail ErrBurstDrawCap)
                            else if burstPot bd <s resv then (bd, Fail ErrBurstInsuff)
                            else with_log cmd
                                   (\<lambda>bd. (put_array arrayID
                                            (put_task idx (ts\<lparr>t_burstResv := resv, t_started := True\<rparr>) ae)
                                            (bd\<lparr>burstPot := burstPot bd - resv, rLive := rLive bd + a_C ae\<rparr>), Done)) bd
                          else mark (bd\<lparr>rLive := rLive bd + a_C ae\<rparr>)) bd
                  else mark bd))"

definition settleTask :: "string \<Rightarrow> i64 \<Rightarrow> Seconds \<Rightarrow> bool \<Rightarrow> Seconds \<Rightarrow> budget \<Rightarrow> budget \<times> outcome" where
  "settleTask arrayID idx runtime writeOff now bd =
     (case map_of (arrays bd) arrayID of
        None \<Rightarrow> (bd, Fail ErrNoSuchJob)
      | Some ae \<Rightarrow>
          (case map_of (a_tasks ae) idx of
             None \<Rightarrow> (bd, Fail ErrNoSuchJob)
           | Some ts \<Rightarrow>
               if t_settled ts then (bd, Fail ErrBadState)
               else with_accrue now (\<lambda>bd.
                 let r = clamp_runtime (a_W ae) runtime;
                     bd1 = settle_money (slice ae) (a_C ae * r) writeOff bd;
                     bd2 = settle_burst (a_C ae) (a_W ae) (t_started ts) (t_burstResv ts) r bd1;
                     ae' = put_task idx (ts\<lparr>t_settled := True\<rparr>)
                             (ae\<lparr>a_Reserved := a_Reserved ae - slice ae, a_Remaining := a_Remaining ae - 1\<rparr>)
                 in if a_Reserved ae' \<noteq> a_Remaining ae' * slice ae
                    then (put_array arrayID ae' bd2, Panic PerEscrowInvariant)
                    else (publishLocked
                            (if a_Remaining ae' = 0 then bd2\<lparr>arrays := AList.delete arrayID (arrays bd2)\<rparr>
                             else put_array arrayID ae' bd2), Done)) bd))"

text \<open>\<open>logTaskCmd\<close> builds the command of a task's exit.\<close>

definition task_cmd :: "string \<Rightarrow> string \<Rightarrow> i64 \<Rightarrow> Seconds \<Rightarrow> Seconds \<Rightarrow> Seconds \<Rightarrow> command" where
  "task_cmd kind arrayID idx runtime elapsed now =
     cmd0\<lparr>c_Kind := kind, c_ArrayID := arrayID, c_Idx := idx, c_Runtime := runtime, c_Elapsed := elapsed, c_Now := now\<rparr>"

definition CompleteTask :: "string \<Rightarrow> i64 \<Rightarrow> Seconds \<Rightarrow> Seconds \<Rightarrow> budget \<Rightarrow> budget \<times> outcome" where
  "CompleteTask arrayID idx runtime now bd =
     with_log (task_cmd KindCompleteTask arrayID idx runtime 0 now)
       (settleTask arrayID idx runtime False now) bd"

definition TimeoutTask :: "string \<Rightarrow> i64 \<Rightarrow> Seconds \<Rightarrow> budget \<Rightarrow> budget \<times> outcome" where
  "TimeoutTask arrayID idx now bd =
     (case map_of (arrays bd) arrayID of
        None \<Rightarrow> (bd, Fail ErrNoSuchJob)
      | Some ae \<Rightarrow>
          with_log (task_cmd KindTimeoutTask arrayID idx 0 0 now)
            (settleTask arrayID idx (a_W ae) False now) bd)"

definition CancelTask :: "string \<Rightarrow> i64 \<Rightarrow> Seconds \<Rightarrow> Seconds \<Rightarrow> budget \<Rightarrow> budget \<times> outcome" where
  "CancelTask arrayID idx elapsed now bd =
     (case map_of (arrays bd) arrayID of
        None \<Rightarrow> (bd, Fail ErrNoSuchJob)
      | Some ae \<Rightarrow>
          (case map_of (a_tasks ae) idx of
             None \<Rightarrow> (bd, Fail ErrNoSuchJob)
           | Some ts \<Rightarrow>
               with_log (task_cmd KindCancelTask arrayID idx 0 elapsed now)
                 (settleTask arrayID idx (if t_started ts then elapsed else 0) False now) bd))"

definition InfraFailTask :: "string \<Rightarrow> i64 \<Rightarrow> Seconds \<Rightarrow> Seconds \<Rightarrow> budget \<Rightarrow> budget \<times> outcome" where
  "InfraFailTask arrayID idx elapsed now bd =
     (case map_of (arrays bd) arrayID of
        None \<Rightarrow> (bd, Fail ErrNoSuchJob)
      | Some ae \<Rightarrow>
          with_log (task_cmd KindInfraFailTask arrayID idx 0 elapsed now)
            (settleTask arrayID idx elapsed (\<not> BillInfraFailures bd) now) bd)"

definition ConservationOKArrays :: "budget \<Rightarrow> bool \<times> Units" where
  "ConservationOKArrays bd =
     (ledger_sum bd = B0 bd \<and> mall (\<lambda>_ ae. a_Reserved ae = a_Remaining ae * slice ae) (arrays bd), ledger_sum bd)"

definition LiveArrays :: "budget \<Rightarrow> nat" where
  "LiveArrays bd = length (arrays bd)"

end
