(* ===== verification/Kernel_Inv.thy ===== *)
theory Kernel_Inv
  imports Array_Ops
begin

text \<open>
  The kernel's invariant: the books balance (\<open>B0 = B + reserved + consumed + written off\<close>), the
  denormalised \<open>ReservedTotal\<close> is the sum over the live escrows and arrays, every escrow holds
  exactly its rate times its walltime, and every array holds one slice for each task not yet
  settled. All of it is 64-bit arithmetic and holds with wrap-around, for any arguments.
\<close>

section \<open>The invariant\<close>

definition escrow_inv :: "string \<Rightarrow> escrow \<Rightarrow> bool" where
  "escrow_inv k e \<longleftrightarrow> e_JobID e = k \<and> e_Reserved e = e_C e * e_W e"

definition unsettled :: "(i64, taskState) gomap \<Rightarrow> int" where
  "unsettled ts = msum (\<lambda>t. if t_settled t then 0 else 1) ts"

definition array_inv :: "string \<Rightarrow> arrayEscrow \<Rightarrow> bool" where
  "array_inv k a \<longleftrightarrow>
     a_ArrayID a = k \<and> a_Reserved a = a_Remaining a * slice a \<and> gomap_ok (a_tasks a)
     \<and> a_Remaining a = word_of_int (unsettled (a_tasks a))
     \<and> 0 < unsettled (a_tasks a) \<and> unsettled (a_tasks a) < 2 ^ 63
     \<and> mall (\<lambda>i t. t_idx t = i) (a_tasks a)"

definition kernel_inv :: "budget \<Rightarrow> bool" where
  "kernel_inv bd \<longleftrightarrow>
     B0 bd = ledger_sum bd
     \<and> ReservedTotal bd = msum e_Reserved (escrows bd) + msum a_Reserved (arrays bd)
     \<and> gomap_ok (escrows bd) \<and> gomap_ok (arrays bd)
     \<and> mall escrow_inv (escrows bd) \<and> mall array_inv (arrays bd)"

section \<open>What the helpers leave alone\<close>

named_theorems kernel_frame \<open>updates that do not touch the books\<close>

lemma kernel_inv_frame [simp, kernel_frame]:
  "kernel_inv (bd\<lparr>wal_of := x\<rparr>) = kernel_inv bd"
  "kernel_inv (bd\<lparr>burstPot := u\<rparr>) = kernel_inv bd"
  "kernel_inv (bd\<lparr>rLive := u\<rparr>) = kernel_inv bd"
  "kernel_inv (bd\<lparr>fracAcc := u\<rparr>) = kernel_inv bd"
  "kernel_inv (bd\<lparr>lastTouch := u\<rparr>) = kernel_inv bd"
  "kernel_inv (bd\<lparr>readView := v\<rparr>) = kernel_inv bd"
  "kernel_inv (bd\<lparr>status := st\<rparr>) = kernel_inv bd"
  "kernel_inv (bd\<lparr>C := u\<rparr>) = kernel_inv bd"
  "kernel_inv (bd\<lparr>TS := u\<rparr>) = kernel_inv bd"
  "kernel_inv (bd\<lparr>TE := u\<rparr>) = kernel_inv bd"
  "kernel_inv (bd\<lparr>BurstEnabled := b\<rparr>) = kernel_inv bd"
  "kernel_inv (bd\<lparr>BurstCeilingPct := x'\<rparr>) = kernel_inv bd"
  "kernel_inv (bd\<lparr>BurstDrawCap := u\<rparr>) = kernel_inv bd"
  "kernel_inv (bd\<lparr>replaying := b\<rparr>) = kernel_inv bd"
  "kernel_inv (bd\<lparr>dir := d\<rparr>) = kernel_inv bd"
  by (simp_all add: kernel_inv_def ledger_sum_def)

lemma kernel_inv_publish [simp]: "kernel_inv (publishLocked bd) = kernel_inv bd"
  by (simp add: publishLocked_def)

lemma logCmd_frame: "\<exists>x. fst (logCmd c bd) = bd\<lparr>wal_of := x\<rparr>"
proof (cases "replaying bd \<or> wal_of bd = None")
  case True
  then show ?thesis
    by (intro exI [of _ "wal_of bd"]) (auto simp: logCmd_def)
next
  case False
  then obtain w where "\<not> replaying bd" "wal_of bd = Some w" by auto
  then show ?thesis
    by (intro exI [of _ "Some (fst (Append c w))"]) (simp add: logCmd_def split: prod.split)
qed

lemma with_log_rule:
  assumes "\<And>x. Q (fst (k (bd\<lparr>wal_of := x\<rparr>)))" and "\<And>x. Q (bd\<lparr>wal_of := x\<rparr>)"
  shows "Q (fst (with_log c k bd))"
  using assms logCmd_frame [of c bd]
  by (auto simp: with_log_def split: prod.splits option.splits)

lemma accrue_frame: "\<exists>p f l. fst (accrue now bd) = bd\<lparr>burstPot := p, fracAcc := f, lastTouch := l\<rparr>"
proof -
  have same: "\<exists>p f l. bd = bd\<lparr>burstPot := p, fracAcc := f, lastTouch := l\<rparr>"
    by (intro exI [of _ "burstPot bd"] exI [of _ "fracAcc bd"] exI [of _ "lastTouch bd"]) simp
  have touch: "\<exists>p f l. bd\<lparr>lastTouch := u\<rparr> = bd\<lparr>burstPot := p, fracAcc := f, lastTouch := l\<rparr>" for u
    by (intro exI [of _ "burstPot bd"] exI [of _ "fracAcc bd"] exI [of _ u]) simp
  have frac: "\<exists>p f l. bd\<lparr>fracAcc := u\<rparr> = bd\<lparr>burstPot := p, fracAcc := f, lastTouch := l\<rparr>" for u
    by (intro exI [of _ "burstPot bd"] exI [of _ u] exI [of _ "lastTouch bd"]) simp
  have all: "\<exists>p f l. bd\<lparr>burstPot := u, fracAcc := v, lastTouch := x\<rparr>
      = bd\<lparr>burstPot := p, fracAcc := f, lastTouch := l\<rparr>" for u v x
    by blast
  show ?thesis
    unfolding accrue_def Let_def using same touch frac all by (simp only: fst_conv split: if_split) blast
qed

lemma with_accrue_rule:
  assumes "\<And>p f l. Q (fst (k (bd\<lparr>burstPot := p, fracAcc := f, lastTouch := l\<rparr>)))"
    and "\<And>p f l. Q (bd\<lparr>burstPot := p, fracAcc := f, lastTouch := l\<rparr>)"
  shows "Q (fst (with_accrue now k bd))"
  using assms accrue_frame [of now bd]
  by (auto simp: with_accrue_def split: prod.splits outcome.splits)

lemma published_rule: "Q (publishLocked (fst p)) \<Longrightarrow> Q (fst (published p))"
  by (simp add: published_def)

lemma settle_burst_frame: "\<exists>p r. settle_burst c w st resv rt bd = bd\<lparr>burstPot := p, rLive := r\<rparr>"
proof -
  have "\<exists>p r. bd = bd\<lparr>burstPot := p, rLive := r\<rparr>"
    by (intro exI [of _ "burstPot bd"] exI [of _ "rLive bd"]) simp
  moreover have "\<exists>p r. bd\<lparr>rLive := u\<rparr> = bd\<lparr>burstPot := p, rLive := r\<rparr>" for u
    by (intro exI [of _ "burstPot bd"] exI [of _ u]) simp
  moreover have "\<exists>p r. bd\<lparr>rLive := u, burstPot := v\<rparr> = bd\<lparr>burstPot := p, rLive := r\<rparr>" for u v
    by (intro exI [of _ v] exI [of _ u]) simp
  ultimately show ?thesis
    by (simp add: settle_burst_def Let_def)
qed

lemma settle_burst_inv [simp]: "kernel_inv (settle_burst c w st resv rt bd) = kernel_inv bd"
  using settle_burst_frame [of c w st resv rt bd] by auto

lemma settle_burst_sel [simp]:
  "escrows (settle_burst c w st resv rt bd) = escrows bd"
  "arrays (settle_burst c w st resv rt bd) = arrays bd"
  "B (settle_burst c w st resv rt bd) = B bd"
  "ReservedTotal (settle_burst c w st resv rt bd) = ReservedTotal bd"
  "Consumed (settle_burst c w st resv rt bd) = Consumed bd"
  "WriteOff (settle_burst c w st resv rt bd) = WriteOff bd"
  "B0 (settle_burst c w st resv rt bd) = B0 bd"
  using settle_burst_frame [of c w st resv rt bd] by auto

lemma settle_burst_upd [simp]:
  "kernel_inv ((settle_burst c w st resv rt bd)\<lparr>escrows := m\<rparr>) = kernel_inv (bd\<lparr>escrows := m\<rparr>)"
  "kernel_inv ((settle_burst c w st resv rt bd)\<lparr>arrays := m'\<rparr>) = kernel_inv (bd\<lparr>arrays := m'\<rparr>)"
  by (simp_all add: kernel_inv_def ledger_sum_def)

lemma settle_money_sel [simp]:
  "escrows (settle_money reserved used wo bd) = escrows bd"
  "arrays (settle_money reserved used wo bd) = arrays bd"
  "B0 (settle_money reserved used wo bd) = B0 bd"
  "B (settle_money reserved used wo bd) = B bd + (reserved - used)"
  "ReservedTotal (settle_money reserved used wo bd) = ReservedTotal bd - reserved"
  "Consumed (settle_money reserved used wo bd) = (if wo then Consumed bd else Consumed bd + used)"
  "WriteOff (settle_money reserved used wo bd) = (if wo then WriteOff bd + used else WriteOff bd)"
  by (simp_all add: settle_money_def Let_def)

section \<open>Every transition on 1:1 escrows keeps it\<close>

lemma kernel_inv_debit:
  assumes "kernel_inv bd" "map_of (escrows bd) k = None" "e_JobID e = k" "e_Reserved e = cost" "cost = e_C e * e_W e"
  shows "kernel_inv (put_escrow k e (bd\<lparr>B := B bd - cost, ReservedTotal := ReservedTotal bd + cost\<rparr>))"
  using assms
  by (auto simp: kernel_inv_def put_escrow_def ledger_sum_def gomap_simps escrow_inv_def algebra_simps)

lemma kernel_inv_put_same:
  assumes "kernel_inv bd" "map_of (escrows bd) k = Some e"
    "e_JobID e' = e_JobID e" "e_Reserved e' = e_Reserved e" "e_C e' = e_C e" "e_W e' = e_W e"
  shows "kernel_inv (put_escrow k e' bd)"
  using assms mall_lookup [of escrow_inv "escrows bd" k e]
  by (auto simp: kernel_inv_def put_escrow_def ledger_sum_def gomap_simps escrow_inv_def)

lemma kernel_inv_settle:
  assumes "kernel_inv bd" "m = escrows bd" "map_of m k = Some e"
  shows "kernel_inv ((settle_money (e_Reserved e) used wo bd)\<lparr>escrows := AList.delete k m\<rparr>)"
  using assms
  by (auto simp: kernel_inv_def settle_money_def ledger_sum_def gomap_simps Let_def algebra_simps)

text \<open>The rules that walk through the body of a transition.\<close>

lemma fst_if_rule: "(b \<Longrightarrow> Q (fst x)) \<Longrightarrow> (\<not> b \<Longrightarrow> Q (fst y)) \<Longrightarrow> Q (fst (if b then x else y))"
  by simp

lemma fst_option_rule:
  "(m = None \<Longrightarrow> Q (fst x)) \<Longrightarrow> (\<And>v. m = Some v \<Longrightarrow> Q (fst (f v)))
     \<Longrightarrow> Q (fst (case m of None \<Rightarrow> x | Some v \<Rightarrow> f v))"
  by (cases m) auto

lemma fst_pair_rule: "Q x \<Longrightarrow> Q (fst (x, y))"
  by simp

lemma published_inv: "kernel_inv (fst p) \<Longrightarrow> kernel_inv (fst (published p))"
  by (simp add: published_def)

lemmas kernel_walk =
  published_inv
  fst_if_rule [where Q = kernel_inv] fst_option_rule [where Q = kernel_inv]
  fst_pair_rule [where Q = kernel_inv]
  with_log_rule [where Q = kernel_inv] with_accrue_rule [where Q = kernel_inv]

lemma SubmitAt_inv: "kernel_inv bd \<Longrightarrow> kernel_inv (fst (SubmitAt jobID c w now bd))"
  unfolding SubmitAt_def Let_def
  by (intro kernel_walk kernel_inv_debit) simp_all

lemma Start_inv: "kernel_inv bd \<Longrightarrow> kernel_inv (fst (Start jobID now bd))"
  unfolding Start_def Let_def
  by (intro kernel_walk; (rule kernel_inv_put_same)?; simp)

lemma settle_inv: "kernel_inv bd \<Longrightarrow> kernel_inv (fst (settle jobID runtime wo now bd))"
  unfolding settle_def Let_def
  by (intro kernel_walk; simp add: kernel_inv_settle)

lemma Complete_inv: "kernel_inv bd \<Longrightarrow> kernel_inv (fst (Complete jobID runtime now bd))"
  unfolding Complete_def by (intro kernel_walk; simp add: settle_inv)

lemma Timeout_inv: "kernel_inv bd \<Longrightarrow> kernel_inv (fst (Timeout jobID now bd))"
  unfolding Timeout_def by (intro kernel_walk; simp add: settle_inv)

lemma Cancel_inv: "kernel_inv bd \<Longrightarrow> kernel_inv (fst (Cancel jobID elapsed now bd))"
  unfolding Cancel_def by (intro kernel_walk; simp add: settle_inv)

lemma InfraFail_inv: "kernel_inv bd \<Longrightarrow> kernel_inv (fst (InfraFail jobID elapsed now bd))"
  unfolding InfraFail_def by (intro kernel_walk; simp add: settle_inv)

lemma Lapse_inv: "kernel_inv bd \<Longrightarrow> kernel_inv (Lapse bd)"
  unfolding Lapse_def using logCmd_frame [of "cmd0\<lparr>c_Kind := KindLapse\<rparr>" bd] by auto

lemma kernel_inv_move:
  "kernel_inv bd \<Longrightarrow> kernel_inv (bd\<lparr>B := B bd + a, B0 := B0 bd + a\<rparr>)"
  "kernel_inv bd \<Longrightarrow> kernel_inv (bd\<lparr>B := B bd - a, B0 := B0 bd - a\<rparr>)"
  by (simp_all add: kernel_inv_def ledger_sum_def)

lemma TopUpXfer_inv: "kernel_inv bd \<Longrightarrow> kernel_inv (fst (TopUpXfer amount xfer now bd))"
  unfolding TopUpXfer_def by (intro kernel_walk kernel_inv_move; simp)

lemma WithdrawXfer_inv: "kernel_inv bd \<Longrightarrow> kernel_inv (fst (WithdrawXfer amount xfer now bd))"
  unfolding WithdrawXfer_def by (intro kernel_walk kernel_inv_move; simp)

lemma kernel_inv_reprice:
  assumes "kernel_inv bd" "map_of (escrows bd) k = Some e" "delta = (e_C e - r) * e_W e"
  shows "kernel_inv (put_escrow k (e\<lparr>e_C := r, e_Reserved := e_Reserved e - delta\<rparr>)
           (bd\<lparr>ReservedTotal := ReservedTotal bd - delta, B := B bd + delta\<rparr>))"
  using assms mall_lookup [of escrow_inv "escrows bd" k e]
  by (auto simp: kernel_inv_def put_escrow_def ledger_sum_def gomap_simps escrow_inv_def algebra_simps)

lemma Reprice_inv: "kernel_inv bd \<Longrightarrow> kernel_inv (fst (Reprice jobID r now bd))"
  unfolding Reprice_def Let_def by (intro kernel_walk kernel_inv_reprice; simp)

lemma SetRate_inv: "kernel_inv bd \<Longrightarrow> kernel_inv (fst (SetRate c now bd))"
  unfolding SetRate_def by (intro kernel_walk; simp)

lemma SetWindow_inv: "kernel_inv bd \<Longrightarrow> kernel_inv (fst (SetWindow ts te now bd))"
  unfolding SetWindow_def by (intro kernel_walk; simp)

lemma SetBurst_inv: "kernel_inv bd \<Longrightarrow> kernel_inv (fst (SetBurst on pct cap now bd))"
  unfolding SetBurst_def Let_def by (intro kernel_walk; simp)

section \<open>Every transition on arrays keeps it\<close>

lemma unsettled_new: "unsettled (map (\<lambda>i. (f i, \<lparr>t_idx = f i, t_started = False, t_settled = False, t_burstResv = 0\<rparr>)) xs)
    = int (length xs)"
  by (induction xs) (simp_all add: unsettled_def)

lemma new_tasks_ok:
  assumes "0 <s n"
  shows "gomap_ok (new_tasks n)" and "unsettled (new_tasks n) = sint n" and "mall (\<lambda>i t. t_idx t = i) (new_tasks n)"
proof -
  have n: "0 < sint n" "sint n < 2 ^ 63"
    using assms fits64_sint [of n] by (simp_all add: i64_simps fits64_def)
  have "unat (word_of_nat x :: i64) = x" if "x < nat (sint n)" for x
  proof -
    have "int x < 2 ^ 63" using that n by linarith
    then show ?thesis by (simp add: unat_of_nat take_bit_nat_eq_self)
  qed
  then have "inj_on (word_of_nat :: nat \<Rightarrow> i64) {0..<nat (sint n)}"
    by (intro inj_onI) (metis atLeastLessThan_iff)
  then show "gomap_ok (new_tasks n)"
    by (simp add: gomap_ok_def new_tasks_def comp_def distinct_map)
  show "unsettled (new_tasks n) = sint n"
    using n by (simp add: new_tasks_def unsettled_new)
  show "mall (\<lambda>i t. t_idx t = i) (new_tasks n)"
    by (simp add: new_tasks_def mall_def list_all_iff)
qed

lemma kernel_inv_debit_array:
  assumes "kernel_inv bd" "map_of (arrays bd) k = None" "\<not> n \<le>s 0" "cost = c * w * n"
  shows "kernel_inv (put_array k
           \<lparr>a_ArrayID = k, a_C = c, a_W = w, a_N = n, a_Remaining = n, a_Reserved = cost,
            a_Submitted = now, a_tasks = new_tasks n\<rparr>
           (bd\<lparr>B := B bd - cost, ReservedTotal := ReservedTotal bd + cost\<rparr>))"
proof -
  have n: "0 <s n" using assms(3) by (simp add: i64_simps)
  then have "0 < sint n" "sint n < 2 ^ 63"
    using fits64_sint [of n] by (simp_all add: i64_simps fits64_def)
  with assms new_tasks_ok [OF n] show ?thesis
    by (auto simp: kernel_inv_def put_array_def ledger_sum_def gomap_simps array_inv_def slice_def algebra_simps)
qed

lemma SubmitArrayAt_inv: "kernel_inv bd \<Longrightarrow> kernel_inv (fst (SubmitArrayAt arrayID c n w now bd))"
  unfolding SubmitArrayAt_def Let_def
  by (intro kernel_walk kernel_inv_debit_array; simp)

lemma unsettled_replace:
  "map_of ts i = Some t \<Longrightarrow> unsettled (AList.update i t' ts)
     = unsettled ts - (if t_settled t then 0 else 1) + (if t_settled t' then 0 else 1)"
  by (simp add: unsettled_def msum_replace)

lemma array_inv_put_task:
  assumes "array_inv k ae" "map_of (a_tasks ae) i = Some t" "t_idx t' = t_idx t" "t_settled t' = t_settled t"
  shows "array_inv k (put_task i t' ae)"
  using assms mall_lookup [of "\<lambda>i t. t_idx t = i" "a_tasks ae" i t]
  by (auto simp: array_inv_def put_task_def slice_def unsettled_replace)

lemma kernel_inv_put_array:
  assumes "kernel_inv bd" "map_of (arrays bd) k = Some ae" "array_inv k ae'" "a_Reserved ae' = a_Reserved ae"
  shows "kernel_inv (put_array k ae' bd)"
  using assms by (auto simp: kernel_inv_def put_array_def ledger_sum_def gomap_simps)

lemma kernel_inv_array: "kernel_inv bd \<Longrightarrow> map_of (arrays bd) k = Some ae \<Longrightarrow> array_inv k ae"
  by (auto simp: kernel_inv_def intro: mall_lookup)

lemma kernel_inv_put_task:
  assumes "kernel_inv bd" "map_of (arrays bd) k = Some ae" "map_of (a_tasks ae) i = Some t"
    "t_idx t' = t_idx t" "t_settled t' = t_settled t"
  shows "kernel_inv (put_array k (put_task i t' ae) bd)"
  using assms by (intro kernel_inv_put_array array_inv_put_task kernel_inv_array) (simp_all add: put_task_def)

lemma StartTask_inv: "kernel_inv bd \<Longrightarrow> kernel_inv (fst (StartTask arrayID idx now bd))"
  unfolding StartTask_def Let_def
  by (intro kernel_walk; (rule kernel_inv_put_task)?; simp)

text \<open>One task leaves: the array keeps one slice for each task still unsettled, and disappears with
  the last one. The re-derivation that \<open>settleTask\<close> panics on always holds.\<close>

lemma array_inv_settle_task:
  assumes "array_inv k ae" "map_of (a_tasks ae) i = Some t" "\<not> t_settled t"
    and ae': "ae' = put_task i (t\<lparr>t_settled := True\<rparr>)
              (ae\<lparr>a_Reserved := a_Reserved ae - slice ae, a_Remaining := a_Remaining ae - 1\<rparr>)"
  shows "a_Reserved ae' = a_Remaining ae' * slice ae"
    and "a_Remaining ae' \<noteq> 0 \<Longrightarrow> array_inv k ae'"
proof -
  have slice: "slice ae' = slice ae" by (simp add: ae' put_task_def slice_def)
  show res: "a_Reserved ae' = a_Remaining ae' * slice ae"
    using assms(1) by (simp add: ae' put_task_def array_inv_def algebra_simps)
  have u: "unsettled (a_tasks ae') = unsettled (a_tasks ae) - 1"
    using assms(2,3) by (simp add: ae' put_task_def unsettled_replace)
  have rem: "a_Remaining ae' = word_of_int (unsettled (a_tasks ae'))"
    using assms(1) by (simp add: u) (simp add: ae' put_task_def array_inv_def)
  show "array_inv k ae'" if "a_Remaining ae' \<noteq> 0"
  proof -
    have "unsettled (a_tasks ae') \<noteq> 0" using that rem by auto
    moreover have "mall (\<lambda>i t. t_idx t = i) (a_tasks ae')" "gomap_ok (a_tasks ae')" "a_ArrayID ae' = k"
      using assms mall_lookup [of "\<lambda>i t. t_idx t = i" "a_tasks ae" i t]
      by (auto simp: put_task_def array_inv_def)
    moreover have "0 < unsettled (a_tasks ae)" "unsettled (a_tasks ae) < 2 ^ 63"
      using assms(1) by (auto simp: array_inv_def)
    ultimately show ?thesis
      using res rem u slice by (simp add: array_inv_def)
  qed
qed

lemma kernel_inv_settle_task:
  assumes "kernel_inv bd" "m = arrays bd" "map_of m k = Some ae" "map_of (a_tasks ae) i = Some t" "\<not> t_settled t"
    and ae': "ae' = put_task i (t\<lparr>t_settled := True\<rparr>)
              (ae\<lparr>a_Reserved := a_Reserved ae - slice ae, a_Remaining := a_Remaining ae - 1\<rparr>)"
  shows "a_Remaining ae' \<noteq> 0 \<Longrightarrow> kernel_inv ((settle_money (slice ae) used wo bd)\<lparr>arrays := AList.update k ae' m\<rparr>)"
    and "a_Remaining ae' = 0 \<Longrightarrow> kernel_inv ((settle_money (slice ae) used wo bd)\<lparr>arrays := AList.delete k m\<rparr>)"
proof -
  have ok: "array_inv k ae" using assms(1-3) by (simp add: kernel_inv_array)
  note st = array_inv_settle_task [OF ok assms(4,5) ae']
  have r: "a_Reserved ae' = a_Reserved ae - slice ae" by (simp add: ae' put_task_def)
  show "kernel_inv ((settle_money (slice ae) used wo bd)\<lparr>arrays := AList.update k ae' m\<rparr>)"
    if "a_Remaining ae' \<noteq> 0"
    using assms(1-3) st(2) [OF that] r
    by (auto simp: kernel_inv_def settle_money_def ledger_sum_def gomap_simps Let_def algebra_simps)
  show "kernel_inv ((settle_money (slice ae) used wo bd)\<lparr>arrays := AList.delete k m\<rparr>)"
    if "a_Remaining ae' = 0"
  proof -
    have "a_Reserved ae = slice ae" using st(1) that r by simp
    with assms(1-3) show ?thesis
      by (auto simp: kernel_inv_def settle_money_def ledger_sum_def gomap_simps Let_def algebra_simps)
  qed
qed

text \<open>What \<open>settleTask\<close> does in a good state, with the panic gone.\<close>

lemma settleTask_eq:
  assumes "kernel_inv bd" "map_of (arrays bd) arrayID = Some ae" "map_of (a_tasks ae) idx = Some ts" "\<not> t_settled ts"
  shows "settleTask arrayID idx runtime wo now bd =
    with_accrue now (\<lambda>bd.
      let r = clamp_runtime (a_W ae) runtime;
          bd2 = settle_burst (a_C ae) (a_W ae) (t_started ts) (t_burstResv ts) r
                  (settle_money (slice ae) (a_C ae * r) wo bd);
          ae' = put_task idx (ts\<lparr>t_settled := True\<rparr>)
                  (ae\<lparr>a_Reserved := a_Reserved ae - slice ae, a_Remaining := a_Remaining ae - 1\<rparr>)
      in (publishLocked
            (if a_Remaining ae' = 0 then bd2\<lparr>arrays := AList.delete arrayID (arrays bd2)\<rparr>
             else put_array arrayID ae' bd2), Done)) bd"
proof -
  have "array_inv arrayID ae" using assms(1,2) by (rule kernel_inv_array)
  from array_inv_settle_task(1) [OF this assms(3,4) refl] assms(2-4) show ?thesis
    by (simp add: settleTask_def Let_def)
qed

lemma settleTask_inv:
  assumes inv: "kernel_inv bd"
  shows "kernel_inv (fst (settleTask arrayID idx runtime wo now bd))"
proof (cases "\<exists>ae ts. map_of (arrays bd) arrayID = Some ae \<and> map_of (a_tasks ae) idx = Some ts \<and> \<not> t_settled ts")
  case False
  then show ?thesis
    using inv by (auto simp: settleTask_def split: option.split)
next
  case True
  then obtain ae ts where *: "map_of (arrays bd) arrayID = Some ae" "map_of (a_tasks ae) idx = Some ts" "\<not> t_settled ts"
    by blast
  show ?thesis
    unfolding settleTask_eq [OF inv *] Let_def
    by (intro kernel_walk; simp add: inv * put_array_def kernel_inv_settle_task [OF _ _ *, OF _ _ refl])
qed

lemma CompleteTask_inv: "kernel_inv bd \<Longrightarrow> kernel_inv (fst (CompleteTask arrayID idx runtime now bd))"
  unfolding CompleteTask_def by (intro kernel_walk; simp add: settleTask_inv)

lemma TimeoutTask_inv: "kernel_inv bd \<Longrightarrow> kernel_inv (fst (TimeoutTask arrayID idx now bd))"
  unfolding TimeoutTask_def by (intro kernel_walk; simp add: settleTask_inv)

lemma CancelTask_inv: "kernel_inv bd \<Longrightarrow> kernel_inv (fst (CancelTask arrayID idx elapsed now bd))"
  unfolding CancelTask_def by (intro kernel_walk; simp add: settleTask_inv)

lemma InfraFailTask_inv: "kernel_inv bd \<Longrightarrow> kernel_inv (fst (InfraFailTask arrayID idx elapsed now bd))"
  unfolding InfraFailTask_def by (intro kernel_walk; simp add: settleTask_inv)

end
