(* ===== verification/Gate_Spec.thy ===== *)
theory Gate_Spec
  imports Kernel_Inv
begin

text \<open>
  What each money transition does, branch by branch: when the submit gate admits and what it
  debits, what a settlement bills and refunds, that an escrow settles at most once, and that a
  submission which never ran gives its whole debit back.
\<close>

section \<open>Logging and accrual leave the money alone\<close>

definition same_books :: "budget \<Rightarrow> budget \<Rightarrow> bool" where
  "same_books a b \<longleftrightarrow>
     B a = B b \<and> ReservedTotal a = ReservedTotal b \<and> Consumed a = Consumed b \<and> WriteOff a = WriteOff b
     \<and> B0 a = B0 b \<and> escrows a = escrows b \<and> arrays a = arrays b"

lemma same_books_refl [simp]: "same_books bd bd"
  by (simp add: same_books_def)

lemma publish_sel [simp]:
  "C (publishLocked bd) = C bd" "TS (publishLocked bd) = TS bd" "TE (publishLocked bd) = TE bd"
  "B (publishLocked bd) = B bd" "ReservedTotal (publishLocked bd) = ReservedTotal bd"
  "Consumed (publishLocked bd) = Consumed bd" "WriteOff (publishLocked bd) = WriteOff bd"
  "B0 (publishLocked bd) = B0 bd" "escrows (publishLocked bd) = escrows bd"
  "arrays (publishLocked bd) = arrays bd" "status (publishLocked bd) = status bd"
  "wal_of (publishLocked bd) = wal_of bd" "replaying (publishLocked bd) = replaying bd"
  "burstPot (publishLocked bd) = burstPot bd" "fracAcc (publishLocked bd) = fracAcc bd"
  "rLive (publishLocked bd) = rLive bd" "lastTouch (publishLocked bd) = lastTouch bd"
  "BurstEnabled (publishLocked bd) = BurstEnabled bd" "BurstDrawCap (publishLocked bd) = BurstDrawCap bd"
  "BurstCeilingPct (publishLocked bd) = BurstCeilingPct bd"
  "BillInfraFailures (publishLocked bd) = BillInfraFailures bd" "K (publishLocked bd) = K bd"
  by (simp_all add: publishLocked_def)

lemma accrue_sel [simp]:
  "BurstEnabled (fst (accrue now bd)) = BurstEnabled bd"
  "BurstDrawCap (fst (accrue now bd)) = BurstDrawCap bd"
  "BurstCeilingPct (fst (accrue now bd)) = BurstCeilingPct bd"
  "rLive (fst (accrue now bd)) = rLive bd"
  "B0 (fst (accrue now bd)) = B0 bd" "B (fst (accrue now bd)) = B bd"
  "ReservedTotal (fst (accrue now bd)) = ReservedTotal bd"
  "Consumed (fst (accrue now bd)) = Consumed bd" "WriteOff (fst (accrue now bd)) = WriteOff bd"
  "C (fst (accrue now bd)) = C bd" "status (fst (accrue now bd)) = status bd"
  "TS (fst (accrue now bd)) = TS bd" "TE (fst (accrue now bd)) = TE bd"
  "escrows (fst (accrue now bd)) = escrows bd" "arrays (fst (accrue now bd)) = arrays bd"
  "wal_of (fst (accrue now bd)) = wal_of bd" "replaying (fst (accrue now bd)) = replaying bd"
  "window (fst (accrue now bd)) = window bd" "burstCeiling (fst (accrue now bd)) = burstCeiling bd"
  "r0Floor (fst (accrue now bd)) = r0Floor bd"
  using accrue_frame [of now bd] by (auto simp: window_def burstCeiling_def r0Floor_def)

lemma logCmd_sel [simp]:
  "B (fst (logCmd c bd)) = B bd" "ReservedTotal (fst (logCmd c bd)) = ReservedTotal bd"
  "Consumed (fst (logCmd c bd)) = Consumed bd" "WriteOff (fst (logCmd c bd)) = WriteOff bd"
  "B0 (fst (logCmd c bd)) = B0 bd" "escrows (fst (logCmd c bd)) = escrows bd"
  "arrays (fst (logCmd c bd)) = arrays bd" "BurstEnabled (fst (logCmd c bd)) = BurstEnabled bd"
  "burstPot (fst (logCmd c bd)) = burstPot bd" "fracAcc (fst (logCmd c bd)) = fracAcc bd"
  "rLive (fst (logCmd c bd)) = rLive bd" "lastTouch (fst (logCmd c bd)) = lastTouch bd"
  "TS (fst (logCmd c bd)) = TS bd" "TE (fst (logCmd c bd)) = TE bd" "C (fst (logCmd c bd)) = C bd"
  "BurstDrawCap (fst (logCmd c bd)) = BurstDrawCap bd" "status (fst (logCmd c bd)) = status bd"
  "BurstCeilingPct (fst (logCmd c bd)) = BurstCeilingPct bd" "replaying (fst (logCmd c bd)) = replaying bd"
  using logCmd_frame [of c bd] by auto

lemma logCmd_snd_cong:
  "wal_of bd' = wal_of bd \<Longrightarrow> replaying bd' = replaying bd \<Longrightarrow> snd (logCmd c bd') = snd (logCmd c bd)"
  by (simp add: logCmd_def split: option.split prod.split)

lemma logCmd_off [simp]: "replaying bd \<or> wal_of bd = None \<Longrightarrow> logCmd c bd = (bd, None)"
  by (auto simp: logCmd_def)

lemma with_log_Done:
  "snd (logCmd c bd) = None \<Longrightarrow> with_log c k bd = k (fst (logCmd c bd))"
  by (cases "logCmd c bd") (simp add: with_log_def)

lemma with_log_Fail:
  "snd (logCmd c bd) = Some e \<Longrightarrow> with_log c k bd = (fst (logCmd c bd), Fail e)"
  by (cases "logCmd c bd") (simp add: with_log_def)

lemma with_log_cases:
  obtains (ok) "snd (logCmd c bd) = None" "with_log c k bd = k (fst (logCmd c bd))"
    | (err) e where "snd (logCmd c bd) = Some e" "with_log c k bd = (fst (logCmd c bd), Fail e)"
  using with_log_Done with_log_Fail by (cases "snd (logCmd c bd)") blast+

lemma with_accrue_Done:
  "snd (accrue now bd) = Done \<Longrightarrow> with_accrue now k bd = k (fst (accrue now bd))"
  by (cases "accrue now bd") (simp add: with_accrue_def)

lemma accrue_outcome: "snd (accrue now bd) = Done \<or> snd (accrue now bd) = Panic DivideByZero"
  by (simp add: accrue_def Let_def)

lemma accrue_Done: "\<not> BurstEnabled bd \<or> window bd \<noteq> 0 \<Longrightarrow> snd (accrue now bd) = Done"
  by (auto simp: accrue_def Let_def)

section \<open>The submit gate\<close>

definition submit_cost :: "Units \<Rightarrow> Seconds \<Rightarrow> budget \<Rightarrow> Units" where
  "submit_cost c w bd = (if c \<le>s 0 then C bd else c) * w"

definition admits :: "string \<Rightarrow> Units \<Rightarrow> Seconds \<Rightarrow> Seconds \<Rightarrow> budget \<Rightarrow> bool" where
  "admits jobID c w now bd \<longleftrightarrow>
     status bd = Active \<and> TS bd \<le>s now \<and> now <s TE bd \<and> map_of (escrows bd) jobID = None
     \<and> submit_cost c w bd \<le>s B bd \<and> rateOK (submit_cost c w bd) now bd
     \<and> snd (logCmd (cmd0\<lparr>c_Kind := KindSubmit, c_JobID := jobID, c_C := (if c \<le>s 0 then C bd else c),
                          c_W := w, c_Now := now\<rparr>) bd) = None"

lemma not_sless: "\<not> (a :: i64) <s b \<longleftrightarrow> b \<le>s a"
  by (simp add: i64_simps not_less)

lemma not_sle: "\<not> (a :: i64) \<le>s b \<longleftrightarrow> b <s a"
  by (simp add: i64_simps not_le)

lemma admits_alt:
  "admits jobID c w now bd \<longleftrightarrow>
     status bd = Active \<and> \<not> (now <s TS bd \<or> TE bd \<le>s now) \<and> map_of (escrows bd) jobID = None
     \<and> \<not> B bd <s submit_cost c w bd \<and> rateOK (submit_cost c w bd) now bd
     \<and> snd (logCmd (cmd0\<lparr>c_Kind := KindSubmit, c_JobID := jobID, c_C := (if c \<le>s 0 then C bd else c),
                          c_W := w, c_Now := now\<rparr>) bd) = None"
  unfolding admits_def de_Morgan_disj not_sless not_sle by blast

lemma published_if: "published (if b then x else y) = (if b then published x else published y)"
  by simp

lemma SubmitAt_admits:
  assumes "admits jobID c w now bd"
  shows "SubmitAt jobID c w now bd =
    (publishLocked (put_escrow jobID
       \<lparr>e_JobID = jobID, e_C = (if c \<le>s 0 then C bd else c), e_Reserved = submit_cost c w bd, e_W = w,
        e_Started = False, e_BurstResv = 0, e_Submitted = now\<rparr>
       ((fst (logCmd (cmd0\<lparr>c_Kind := KindSubmit, c_JobID := jobID, c_C := (if c \<le>s 0 then C bd else c),
                            c_W := w, c_Now := now\<rparr>) bd))
          \<lparr>B := B bd - submit_cost c w bd, ReservedTotal := ReservedTotal bd + submit_cost c w bd\<rparr>)), Done)"
  using assms unfolding admits_alt submit_cost_def
  by (simp only: SubmitAt_def Let_def with_log_Done published_def if_False simp_thms fst_conv snd_conv
      logCmd_sel if_True HOL.simp_thms)

lemma SubmitAt_rejects:
  assumes "\<not> admits jobID c w now bd"
  shows "snd (SubmitAt jobID c w now bd) \<noteq> Done" and "same_books (fst (SubmitAt jobID c w now bd)) bd"
proof -
  let ?c = "if c \<le>s 0 then C bd else c"
  let ?cmd = "cmd0\<lparr>c_Kind := KindSubmit, c_JobID := jobID, c_C := ?c, c_W := w, c_Now := now\<rparr>"
  have "(\<exists>e. SubmitAt jobID c w now bd = (publishLocked bd, Fail e))
      \<or> (\<exists>e. SubmitAt jobID c w now bd = (publishLocked (fst (logCmd ?cmd bd)), Fail e))"
  proof (cases "snd (logCmd ?cmd bd)")
    case (Some e)
    then show ?thesis
      unfolding SubmitAt_def Let_def published_def with_log_Fail [OF Some] by auto
  next
    case None
    then show ?thesis
      using assms unfolding admits_alt submit_cost_def
      by (auto simp: SubmitAt_def Let_def published_def)
  qed
  then show "snd (SubmitAt jobID c w now bd) \<noteq> Done" "same_books (fst (SubmitAt jobID c w now bd)) bd"
    by (auto simp: same_books_def)
qed


text \<open>
  C6: the submit gate (\<open>SubmitAt\<close>) succeeds exactly when the budget is active, \<open>now\<close> lies in the
  window, the job id is fresh, the cost at the effective rate is covered by the balance, the rate
  ceiling allows it and the command could be logged. Then it moves exactly that cost from the balance to the
  reservations and opens an escrow frozen at that rate; otherwise it reports an error and leaves
  every book entry and every escrow as it was.
\<close>

theorem SubmitAt_spec:
  "(snd (SubmitAt jobID c w now bd) = Done \<longleftrightarrow> admits jobID c w now bd)
   \<and> (if admits jobID c w now bd then
        B (fst (SubmitAt jobID c w now bd)) = B bd - submit_cost c w bd
        \<and> ReservedTotal (fst (SubmitAt jobID c w now bd)) = ReservedTotal bd + submit_cost c w bd
        \<and> escrows (fst (SubmitAt jobID c w now bd)) = AList.update jobID
            \<lparr>e_JobID = jobID, e_C = (if c \<le>s 0 then C bd else c), e_Reserved = submit_cost c w bd, e_W = w,
             e_Started = False, e_BurstResv = 0, e_Submitted = now\<rparr> (escrows bd)
      else same_books (fst (SubmitAt jobID c w now bd)) bd)"
proof (cases "admits jobID c w now bd")
  case True
  then show ?thesis by (simp add: SubmitAt_admits put_escrow_def)
next
  case False
  with SubmitAt_rejects [OF False] show ?thesis by simp
qed

section \<open>Settlement\<close>

lemma settle_None: "map_of (escrows bd) jobID = None \<Longrightarrow> settle jobID runtime wo now bd = (bd, Fail ErrNoSuchJob)"
  by (simp add: settle_def)

lemma settle_Some:
  assumes "map_of (escrows bd) jobID = Some e" "\<not> BurstEnabled bd \<or> window bd \<noteq> 0"
  shows "settle jobID runtime wo now bd =
    (let r = clamp_runtime (e_W e) runtime;
         bd2 = settle_burst (e_C e) (e_W e) (e_Started e) (e_BurstResv e) r
                 (settle_money (e_Reserved e) (e_C e * r) wo (fst (accrue now bd)))
     in (publishLocked (bd2\<lparr>escrows := AList.delete jobID (escrows bd)\<rparr>), Done))"
  using assms by (simp add: settle_def with_accrue_Done accrue_Done Let_def)

text \<open>The money side of a settlement, as the ledger sees it.\<close>

definition settled_books :: "string \<Rightarrow> escrow \<Rightarrow> Seconds \<Rightarrow> bool \<Rightarrow> budget \<Rightarrow> budget \<Rightarrow> bool" where
  "settled_books jobID e runtime wo bd bd' \<longleftrightarrow>
     (let used = e_C e * clamp_runtime (e_W e) runtime
      in B bd' = B bd + (e_Reserved e - used)
         \<and> ReservedTotal bd' = ReservedTotal bd - e_Reserved e
         \<and> Consumed bd' = (if wo then Consumed bd else Consumed bd + used)
         \<and> WriteOff bd' = (if wo then WriteOff bd + used else WriteOff bd)
         \<and> B0 bd' = B0 bd \<and> escrows bd' = AList.delete jobID (escrows bd) \<and> arrays bd' = arrays bd)"

lemma settle_books:
  assumes "map_of (escrows bd) jobID = Some e" "\<not> BurstEnabled bd \<or> window bd \<noteq> 0"
  shows "snd (settle jobID runtime wo now bd) = Done"
    and "settled_books jobID e runtime wo bd (fst (settle jobID runtime wo now bd))"
  by (simp_all add: settle_Some [OF assms] settled_books_def Let_def)

text \<open>The command is logged first: if that fails the exit reports the error and nothing moved.\<close>

definition exit_result ::
  "string \<Rightarrow> escrow \<Rightarrow> Seconds \<Rightarrow> bool \<Rightarrow> command \<Rightarrow> budget \<Rightarrow> budget \<times> outcome \<Rightarrow> bool" where
  "exit_result jobID e runtime wo c bd p \<longleftrightarrow>
     (case snd (logCmd c bd) of
        None \<Rightarrow> snd p = Done \<and> settled_books jobID e runtime wo bd (fst p)
      | Some x \<Rightarrow> snd p = Fail x \<and> same_books (fst p) bd)"

lemma window_logCmd [simp]: "window (fst (logCmd c bd)) = window bd"
  by (simp add: window_def)

lemma settled_books_logCmd [simp]:
  "settled_books jobID e runtime wo (fst (logCmd c bd)) = settled_books jobID e runtime wo bd"
  by (simp add: settled_books_def fun_eq_iff)

lemma exit_result_settle:
  assumes "map_of (escrows bd) jobID = Some e" "\<not> BurstEnabled bd \<or> window bd \<noteq> 0"
  shows "exit_result jobID e runtime wo c bd (with_log c (settle jobID runtime wo now) bd)"
proof (cases rule: with_log_cases [of c bd "settle jobID runtime wo now"])
  case ok
  from settle_books [where bd = "fst (logCmd c bd)" and jobID = jobID and e = e and runtime = runtime and wo = wo and now = now] assms ok show ?thesis
    by (simp add: exit_result_def)
next
  case (err e)
  then show ?thesis by (simp add: exit_result_def same_books_def)
qed

text \<open>
  C7: every way a live job ends bills its own rate times the time it is charged for, clamped to
  \<open>[0, w]\<close>, and refunds the rest of its escrow: \<open>Complete\<close> charges the runtime, \<open>Timeout\<close> the
  whole walltime, \<open>Cancel\<close> the elapsed time or nothing if the job never started, \<open>InfraFail\<close> the elapsed
  time, to the user or to the write-off as the budget is configured. The escrow is gone afterwards,
  and if the command cannot be logged nothing changes.
\<close>

theorem exits_bill_and_refund:
  assumes "map_of (escrows bd) jobID = Some e" "\<not> BurstEnabled bd \<or> window bd \<noteq> 0"
  shows "exit_result jobID e t False
      (cmd0\<lparr>c_Kind := KindComplete, c_JobID := jobID, c_Runtime := t, c_Now := now\<rparr>) bd (Complete jobID t now bd)
    \<and> exit_result jobID e (e_W e) False
      (cmd0\<lparr>c_Kind := KindTimeout, c_JobID := jobID, c_Now := now\<rparr>) bd (Timeout jobID now bd)
    \<and> exit_result jobID e (if e_Started e then t else 0) False
      (cmd0\<lparr>c_Kind := KindCancel, c_JobID := jobID, c_Elapsed := t, c_Now := now\<rparr>) bd (Cancel jobID t now bd)
    \<and> exit_result jobID e t (\<not> BillInfraFailures bd)
      (cmd0\<lparr>c_Kind := KindInfraFail, c_JobID := jobID, c_Elapsed := t, c_Now := now\<rparr>) bd (InfraFail jobID t now bd)"
  using assms(1) exit_result_settle [OF assms]
  by (simp add: Complete_def Timeout_def Cancel_def InfraFail_def)

theorem exits_bill_and_refund_witness:
  "exit_result ''j'' \<lparr>e_JobID = ''j'', e_C = 2, e_Reserved = 20, e_W = 10, e_Started = False, e_BurstResv = 0, e_Submitted = 5\<rparr>
     4 False (cmd0\<lparr>c_Kind := KindComplete, c_JobID := ''j'', c_Runtime := 4, c_Now := 9\<rparr>)
     (fst (SubmitAt ''j'' 0 10 5 (New 2 1000 0 100))) (Complete ''j'' 4 9 (fst (SubmitAt ''j'' 0 10 5 (New 2 1000 0 100))))"
proof (rule exits_bill_and_refund [THEN conjunct1])
  show "map_of (escrows (fst (SubmitAt ''j'' 0 10 5 (New 2 1000 0 100)))) ''j''
      = Some \<lparr>e_JobID = ''j'', e_C = 2, e_Reserved = 20, e_W = 10, e_Started = False, e_BurstResv = 0, e_Submitted = 5\<rparr>"
    by code_simp
  show "\<not> BurstEnabled (fst (SubmitAt ''j'' 0 10 5 (New 2 1000 0 100)))
      \<or> window (fst (SubmitAt ''j'' 0 10 5 (New 2 1000 0 100))) \<noteq> 0"
    by code_simp
qed

lemma exit_result_gone:
  "exit_result jobID e rt wo c bd p \<Longrightarrow> snd p = Done \<Longrightarrow> map_of (escrows (fst p)) jobID = None"
  by (auto simp: exit_result_def settled_books_def Let_def gomap_simps split: option.splits)

lemma settle_Done_gone:
  assumes "snd (settle jobID r wo now bd) = Done"
  shows "map_of (escrows (fst (settle jobID r wo now bd))) jobID = None"
proof (cases "map_of (escrows bd) jobID")
  case None
  with assms show ?thesis by (simp add: settle_None)
next
  case (Some e)
  have "snd (accrue now bd) = Done"
    using assms Some accrue_outcome [of now bd]
    by (cases "accrue now bd") (auto simp: settle_def with_accrue_def)
  then show ?thesis
    using Some by (simp add: settle_def with_accrue_Done Let_def gomap_simps)
qed

text \<open>
  C8: a job is settled at most once. After an exit that succeeded, every later exit of that job
  reports that there is no such escrow and changes nothing at all, the log included.
\<close>

theorem settled_at_most_once:
  assumes "p \<in> {Complete jobID t now bd, Timeout jobID now bd, Cancel jobID t now bd, InfraFail jobID t now bd}"
    and "snd p = Done"
    and "again \<in> {Complete jobID t' now', Timeout jobID now', Cancel jobID t' now', InfraFail jobID t' now'}"
  shows "again (fst p) = (fst p, Fail ErrNoSuchJob)"
proof -
  have "map_of (escrows (fst p)) jobID = None"
    if "p = with_log c (settle jobID r wo now) bd" for c r wo
    using that assms(2) settle_Done_gone
    by (cases rule: with_log_cases [of c bd "settle jobID r wo now"]) auto
  moreover have "\<exists>c r wo. p = with_log c (settle jobID r wo now) bd"
    using assms(1,2)
    by (auto simp: Complete_def Timeout_def Cancel_def InfraFail_def split: option.splits)
  ultimately have "map_of (escrows (fst p)) jobID = None" by (elim exE)
  with assms(3) show ?thesis
    by (auto simp: Complete_def Timeout_def Cancel_def InfraFail_def)
qed

theorem settled_at_most_once_witness:
  "Timeout ''j'' 12 (fst (Complete ''j'' 4 9 (fst (SubmitAt ''j'' 0 10 5 (New 2 1000 0 100)))))
   = (fst (Complete ''j'' 4 9 (fst (SubmitAt ''j'' 0 10 5 (New 2 1000 0 100)))), Fail ErrNoSuchJob)"
proof (rule settled_at_most_once [of _ "''j''" 4 9 "fst (SubmitAt ''j'' 0 10 5 (New 2 1000 0 100))" _ 0 12])
  show "snd (Complete ''j'' 4 9 (fst (SubmitAt ''j'' 0 10 5 (New 2 1000 0 100)))) = Done"
    by code_simp
qed simp_all

section \<open>Round trips\<close>

text \<open>
  A submission that is cancelled before it ran costs nothing. If the gate admits a job and it
  is cancelled without having started, whatever elapsed time the cancel reports, the balance, the reservations, the billed
  and written-off totals and the set of escrows are what they were before the submission.
\<close>

lemma submit_cancel_roundtrip:
  assumes "admits jobID c w now bd" and "0 \<le>s w"
    and "snd (Cancel jobID t now' (fst (SubmitAt jobID c w now bd))) = Done"
  shows "same_books (fst (Cancel jobID t now' (fst (SubmitAt jobID c w now bd)))) bd"
proof -
  define bd1 where "bd1 = fst (SubmitAt jobID c w now bd)"
  let ?e = "\<lparr>e_JobID = jobID, e_C = (if c \<le>s 0 then C bd else c), e_Reserved = submit_cost c w bd, e_W = w,
        e_Started = False, e_BurstResv = 0, e_Submitted = now\<rparr>"
  have e: "map_of (escrows bd1) jobID = Some ?e"
    and bd1: "B bd1 = B bd - submit_cost c w bd" "ReservedTotal bd1 = ReservedTotal bd + submit_cost c w bd"
      "Consumed bd1 = Consumed bd" "WriteOff bd1 = WriteOff bd" "B0 bd1 = B0 bd" "arrays bd1 = arrays bd"
      "AList.delete jobID (escrows bd1) = escrows bd"
    using SubmitAt_admits [OF assms(1)] assms(1)
    by (simp_all add: bd1_def put_escrow_def gomap_simps admits_def delete_update_fresh)
  let ?cmd = "cmd0\<lparr>c_Kind := KindCancel, c_JobID := jobID, c_Elapsed := t, c_Now := now'\<rparr>"
  have can: "Cancel jobID t now' bd1 = with_log ?cmd (settle jobID 0 False now') bd1"
    using e by (simp add: Cancel_def)
  have "snd (settle jobID 0 False now' (fst (logCmd ?cmd bd1))) = Done"
    and st: "Cancel jobID t now' bd1 = settle jobID 0 False now' (fst (logCmd ?cmd bd1))"
    using can assms(3) by (cases rule: with_log_cases [of ?cmd bd1 "settle jobID 0 False now'"]; simp add: bd1_def)+
  then have "snd (accrue now' (fst (logCmd ?cmd bd1))) = Done"
    using e accrue_outcome [of now' "fst (logCmd ?cmd bd1)"]
    by (cases "accrue now' (fst (logCmd ?cmd bd1))") (auto simp: settle_def with_accrue_def)
  then have "settled_books jobID ?e 0 False bd1 (fst (Cancel jobID t now' bd1))"
    unfolding st using e by (simp add: settle_def with_accrue_Done Let_def settled_books_def)
  moreover have "clamp_runtime w 0 = 0"
    using assms(2) by (simp add: clamp_runtime_def i64_simps)
  ultimately show ?thesis
    using bd1 by (simp add: same_books_def settled_books_def flip: bd1_def)
qed

section \<open>Repricing\<close>

text \<open>
  C9: a live reservation can only be lowered, and only before it runs. \<open>Reprice\<close> succeeds exactly
  for an escrow that has not started, for a positive rate no higher than the frozen one, when the command could
  be logged; it then refunds \<open>(C - r) * w\<close> to the balance, and the escrow holds \<open>r * w\<close>. In every
  other case no book entry changes.
\<close>

theorem Reprice_spec:
  assumes inv: "kernel_inv bd" and e: "map_of (escrows bd) jobID = Some e"
  shows "(snd (Reprice jobID r now bd) = Done \<longleftrightarrow>
           \<not> e_Started e \<and> 0 <s r \<and> r \<le>s e_C e
           \<and> snd (logCmd (cmd0\<lparr>c_Kind := KindReprice, c_JobID := jobID, c_C := r, c_Now := now\<rparr>) bd) = None)
    \<and> (if snd (Reprice jobID r now bd) = Done then
          B (fst (Reprice jobID r now bd)) = B bd + (e_C e - r) * e_W e
          \<and> map_of (escrows (fst (Reprice jobID r now bd))) jobID = Some (e\<lparr>e_C := r, e_Reserved := r * e_W e\<rparr>)
       else same_books (fst (Reprice jobID r now bd)) bd)"
proof -
  let ?cmd = "cmd0\<lparr>c_Kind := KindReprice, c_JobID := jobID, c_C := r, c_Now := now\<rparr>"
  have "e_Reserved e = e_C e * e_W e"
    using inv e mall_lookup [of escrow_inv "escrows bd" jobID e] by (simp add: kernel_inv_def escrow_inv_def)
  then have resv: "e_Reserved e - (e_C e - r) * e_W e = r * e_W e" by (simp add: algebra_simps)
  have guard: "0 <s r \<and> r \<le>s e_C e \<longleftrightarrow> \<not> (r \<le>s 0 \<or> e_C e <s r)" by (auto simp: i64_simps)
  show ?thesis
    unfolding guard using e resv
    by (cases "snd (logCmd ?cmd bd)")
      (auto simp: Reprice_def Let_def published_def with_log_Done with_log_Fail put_escrow_def gomap_simps same_books_def)
qed

theorem Reprice_spec_witness:
  "snd (Reprice ''j'' 1 6 (fst (SubmitAt ''j'' 0 10 5 (New 2 1000 0 100)))) = Done
   \<and> B (fst (Reprice ''j'' 1 6 (fst (SubmitAt ''j'' 0 10 5 (New 2 1000 0 100))))) = 990"
proof -
  let ?bd = "fst (SubmitAt ''j'' 0 10 5 (New 2 1000 0 100))"
  let ?e = "\<lparr>e_JobID = ''j'', e_C = 2, e_Reserved = 20, e_W = 10, e_Started = False, e_BurstResv = 0, e_Submitted = 5\<rparr>"
  have "kernel_inv ?bd" by (rule SubmitAt_inv) code_simp
  moreover have "map_of (escrows ?bd) ''j'' = Some ?e" by code_simp
  moreover have "snd (Reprice ''j'' 1 6 ?bd) = Done" "B ?bd = 980" by code_simp+
  ultimately show ?thesis
    using Reprice_spec [of ?bd "''j''" ?e 1 6] by simp
qed

end
