(* ===== verification/Dispatch.thy ===== *)
theory Dispatch
  imports Gate_Spec
begin

text \<open>
  The read side of a budget: the lock-free burst dispatch query (\<^verbatim>\<open>dispatch.go\<close>), the dry run of a
  submission (\<^verbatim>\<open>simulate.go\<close>) and the report of \<open>obol show\<close> (\<^verbatim>\<open>status.go\<close>), with the theorems that
  tie each answer to what the gates do.
\<close>

section \<open>The dispatch query\<close>

record dispatchVerdict =
  d_Dispatch :: bool
  d_Reason :: string
  d_Reserve :: Units
  d_Pot :: Units

record burstProjection =
  p_burstEnabled :: bool
  p_burstPot :: Units
  p_rLive :: Units
  p_fracAcc :: Units
  p_lastTouch :: Seconds
  p_b0 :: Units
  p_ts :: Seconds
  p_te :: Seconds
  p_burstCeilingPct :: f64
  p_burstDrawCap :: Units

definition projectBurstPot :: "burstProjection \<Rightarrow> Seconds \<Rightarrow> Units" where
  "projectBurstPot p now =
     (let pot = p_burstPot p; win = p_te p - p_ts p
      in if win \<le>s 0 then pot
         else let dt = now - p_lastTouch p
         in if dt \<le>s 0 then pot
            else let unusedNum = p_b0 p - p_rLive p * win
            in if 0 <s unusedNum then
                 (let acc = p_fracAcc p + unusedNum * dt;
                      pot' = pot + go_div acc win;
                      ceil = i64_of_f64 (f64_mult (p_burstCeilingPct p) (f64_of_i64 (p_b0 p)))
                  in if ceil <s pot' then ceil else pot')
               else pot)"

definition burstReserve :: "Units \<Rightarrow> Units \<Rightarrow> Seconds \<Rightarrow> Seconds \<Rightarrow> Units \<Rightarrow> Seconds \<Rightarrow> Units" where
  "burstReserve rL b0 ts te c w =
     (let win = te - ts
      in if win \<le>s 0 then 0
         else let r0f = go_div b0 win;
                  base = (if rL <s r0f then r0f else rL);
                  excess = (rL + c) - base;
                  excess' = (if excess <s 0 then 0 else excess)
              in excess' * w)"

definition burstDispatchVerdict :: "burstProjection \<Rightarrow> Units \<Rightarrow> Seconds \<Rightarrow> Seconds \<Rightarrow> dispatchVerdict" where
  "burstDispatchVerdict p c w now =
     (if \<not> p_burstEnabled p then \<lparr>d_Dispatch = True, d_Reason = [], d_Reserve = 0, d_Pot = 0\<rparr>
      else let pot = projectBurstPot p now;
               resv = burstReserve (p_rLive p) (p_b0 p) (p_ts p) (p_te p) c w;
               v = \<lparr>d_Dispatch = False, d_Reason = [], d_Reserve = resv, d_Pot = pot\<rparr>
      in if resv \<le>s 0 then v\<lparr>d_Dispatch := True\<rparr>
         else if 0 <s p_burstDrawCap p \<and> p_burstDrawCap p <s resv then v\<lparr>d_Reason := ''burst draw cap exceeded''\<rparr>
         else if pot <s resv then v\<lparr>d_Reason := ''insufficient burst headroom''\<rparr>
         else v\<lparr>d_Dispatch := True\<rparr>)"

definition view_projection :: "readView \<Rightarrow> burstProjection" where
  "view_projection v =
     \<lparr>p_burstEnabled = v_BurstEnabled v, p_burstPot = v_BurstPot v, p_rLive = v_RLive v,
      p_fracAcc = v_FracAcc v, p_lastTouch = v_LastTouch v, p_b0 = v_B0 v, p_ts = v_TS v, p_te = v_TE v,
      p_burstCeilingPct = v_BurstCeilingPct v, p_burstDrawCap = v_BurstDrawCap v\<rparr>"

definition MayDispatch :: "Units \<Rightarrow> Seconds \<Rightarrow> Seconds \<Rightarrow> budget \<Rightarrow> dispatchVerdict" where
  "MayDispatch c w now bd =
     (case readView bd of
        None \<Rightarrow> \<lparr>d_Dispatch = True, d_Reason = [], d_Reserve = 0, d_Pot = 0\<rparr>
      | Some v \<Rightarrow> burstDispatchVerdict (view_projection v) c w now)"

section \<open>The dry run\<close>

record simulation =
  s_Cost :: Units
  s_Admit :: bool
  s_Reason :: string
  s_Runway :: Seconds

definition projection :: "budget \<Rightarrow> burstProjection" where
  "projection bd =
     \<lparr>p_burstEnabled = BurstEnabled bd, p_burstPot = burstPot bd, p_rLive = rLive bd, p_fracAcc = fracAcc bd,
      p_lastTouch = lastTouch bd, p_b0 = B0 bd, p_ts = TS bd, p_te = TE bd,
      p_burstCeilingPct = BurstCeilingPct bd, p_burstDrawCap = BurstDrawCap bd\<rparr>"

definition burstHeadroomOK :: "Units \<Rightarrow> Seconds \<Rightarrow> Seconds \<Rightarrow> budget \<Rightarrow> bool" where
  "burstHeadroomOK c w now bd = d_Dispatch (burstDispatchVerdict (projection bd) c w now)"

definition Simulate :: "Units \<Rightarrow> Seconds \<Rightarrow> Seconds \<Rightarrow> budget \<Rightarrow> simulation" where
  "Simulate c w now bd =
     (let c' = (if c \<le>s 0 then C bd else c);
          cost = c' * w;
          sim = \<lparr>s_Cost = cost, s_Admit = False, s_Reason = [],
                 s_Runway = (if 0 <s C bd then go_div (B bd) (C bd) else - 1)\<rparr>
      in if status bd \<noteq> Active then sim\<lparr>s_Reason := ''budget lapsed''\<rparr>
         else if now <s TS bd \<or> TE bd \<le>s now then sim\<lparr>s_Reason := ''outside budget window''\<rparr>
         else if B bd <s cost then sim\<lparr>s_Reason := ''insufficient budget''\<rparr>
         else if \<not> rateOK cost now bd then sim\<lparr>s_Reason := ''burst rate ceiling exceeded''\<rparr>
         else if BurstEnabled bd \<and> \<not> burstHeadroomOK c' w now bd then sim\<lparr>s_Reason := ''insufficient burst headroom''\<rparr>
         else sim\<lparr>s_Admit := True\<rparr>)"

section \<open>The report\<close>

record report =
  r_C :: Units
  r_B0 :: Units
  r_TS :: Seconds
  r_TE :: Seconds
  r_B :: Units
  r_Reserved :: Units
  r_Consumed :: Units
  r_WriteOff :: Units
  r_LiveEscrows :: nat
  r_LiveArrays :: nat
  r_BurstEnabled :: bool
  r_BurstPot :: Units
  r_BurstCeiling :: Units
  r_RLive :: Units
  r_Lapsed :: bool
  r_ConservationOK :: bool
  r_ConservationSum :: Units

definition report_of :: "budget \<Rightarrow> report" where
  "report_of bd =
     \<lparr>r_C = C bd, r_B0 = B0 bd, r_TS = TS bd, r_TE = TE bd, r_B = B bd, r_Reserved = ReservedTotal bd,
      r_Consumed = Consumed bd, r_WriteOff = WriteOff bd, r_LiveEscrows = length (escrows bd),
      r_LiveArrays = length (arrays bd), r_BurstEnabled = BurstEnabled bd,
      r_BurstPot = (if BurstEnabled bd then burstPot bd else 0),
      r_BurstCeiling = (if BurstEnabled bd then burstCeiling bd else 0), r_RLive = rLive bd,
      r_Lapsed = (status bd = Lapsed), r_ConservationOK = (ledger_sum bd = B0 bd),
      r_ConservationSum = ledger_sum bd\<rparr>"

definition Report :: "Seconds \<Rightarrow> budget \<Rightarrow> budget \<times> outcome \<times> report" where
  "Report now bd = (case accrue now bd of (bd', r) \<Rightarrow> (bd', r, report_of bd'))"

definition TimeToEmpty :: "report \<Rightarrow> Seconds" where
  "TimeToEmpty s = (if r_C s \<le>s 0 then - 1 else go_div (r_B s) (r_C s))"

section \<open>The answers and the gates\<close>

text \<open>The view the last mutation published is still the state.\<close>

definition view_current :: "budget \<Rightarrow> bool" where
  "view_current bd \<longleftrightarrow> readView bd = readView (publishLocked bd)"

lemma view_current_publish [simp]: "view_current (publishLocked bd)"
  by (simp add: view_current_def publishLocked_def)

lemma MayDispatch_current:
  "view_current bd \<Longrightarrow> MayDispatch c w now bd = burstDispatchVerdict (projection bd) c w now"
  by (simp add: MayDispatch_def view_current_def publishLocked_def view_projection_def projection_def)

text \<open>The pot that \<open>accrue\<close> leaves is the projected one.\<close>

lemma accrue_pot:
  assumes "BurstEnabled bd" "0 <s window bd"
  shows "burstPot (fst (accrue now bd)) = projectBurstPot (projection bd) now"
    and "snd (accrue now bd) = Done"
proof -
  have nz: "window bd \<noteq> 0" and pos: "\<not> window bd \<le>s 0" and win: "window bd = TE bd - TS bd"
    using assms(2) by (auto simp: i64_simps window_def)
  show "burstPot (fst (accrue now bd)) = projectBurstPot (projection bd) now"
    using assms(1) nz pos
    by (auto simp: accrue_def projectBurstPot_def projection_def Let_def burstCeiling_def win i64_simps
        intro: i64_eq_iff [THEN iffD2])
  show "snd (accrue now bd) = Done"
    using nz by (simp add: accrue_def Let_def)
qed

lemma burstReserve_rate:
  assumes "0 <s window bd"
  shows "burstReserveForRate c w bd = Some (burstReserve (rLive bd) (B0 bd) (TS bd) (TE bd) c w)"
proof -
  have "window bd \<noteq> 0" "\<not> TE bd - TS bd \<le>s 0" using assms by (auto simp: i64_simps window_def)
  then show ?thesis
    by (simp add: burstReserveForRate_def burstReserve_def r0Floor_def Let_def window_def)
qed

text \<open>The result of \<open>Start\<close> on an escrow that has not started, read off the verdict.\<close>

definition verdict_outcome :: "dispatchVerdict \<Rightarrow> outcome" where
  "verdict_outcome v =
     (if d_Dispatch v then Done
      else if d_Reason v = ''burst draw cap exceeded'' then Fail ErrBurstDrawCap else Fail ErrBurstInsuff)"

lemma Start_verdict:
  assumes e: "map_of (escrows bd) jobID = Some e" "\<not> e_Started e"
    and win: "BurstEnabled bd \<longrightarrow> 0 <s window bd"
    and log: "snd (logCmd (cmd0\<lparr>c_Kind := KindStart, c_JobID := jobID, c_Now := now\<rparr>) bd) = None"
  shows "snd (Start jobID now bd) = verdict_outcome (burstDispatchVerdict (projection bd) (e_C e) (e_W e) now)"
proof (cases "BurstEnabled bd")
  case False
  with e log show ?thesis
    by (simp add: Start_def published_def Let_def with_log_Done verdict_outcome_def
        burstDispatchVerdict_def projection_def)
next
  case True
  obtain bd' where acc: "accrue now bd = (bd', Done)"
    using accrue_pot(2) [of bd now] True win by (metis prod.collapse)
  have bd': "bd' = fst (accrue now bd)" by (simp add: acc)
  have log': "snd (logCmd (cmd0\<lparr>c_Kind := KindStart, c_JobID := jobID, c_Now := now\<rparr>) (bd'\<lparr>rLive := x\<rparr>)) = None"
    "snd (logCmd (cmd0\<lparr>c_Kind := KindStart, c_JobID := jobID, c_Now := now\<rparr>) bd') = None" for x
    using log logCmd_snd_cong [of "bd'\<lparr>rLive := x\<rparr>" bd] logCmd_snd_cong [of bd' bd] by (simp_all add: bd')
  have pot: "burstPot bd' = projectBurstPot (projection bd) now"
    using accrue_pot(1) [of bd now] True win by (simp add: bd')
  have resv: "burstReserveForRate c w bd' = Some (burstReserve (rLive bd) (B0 bd) (TS bd) (TE bd) c w)" for c w
    using burstReserve_rate [of bd' c w] True win by (simp add: bd')
  have sel: "BurstDrawCap bd' = BurstDrawCap bd" "rLive bd' = rLive bd" by (simp_all add: bd')
  define R where "R = burstReserve (rLive bd) (B0 bd) (TS bd) (TE bd) (e_C e) (e_W e)"
  define P where "P = projectBurstPot (projection bd) now"
  have "snd (Start jobID now bd) =
      (if 0 <s R then
         if 0 <s BurstDrawCap bd \<and> BurstDrawCap bd <s R then Fail ErrBurstDrawCap
         else if P <s R then Fail ErrBurstInsuff else Done
       else Done)"
    using True e acc
    by (simp add: Start_def published_def Let_def with_accrue_def resv pot sel log' with_log_Done
        flip: R_def P_def)
  also have "\<dots> = verdict_outcome (burstDispatchVerdict (projection bd) (e_C e) (e_W e) now)"
  proof -
    have "p_burstEnabled (projection bd)" "p_burstDrawCap (projection bd) = BurstDrawCap bd"
      "burstReserve (p_rLive (projection bd)) (p_b0 (projection bd)) (p_ts (projection bd))
         (p_te (projection bd)) (e_C e) (e_W e) = R"
      using True by (simp_all add: projection_def R_def)
    moreover have "R \<le>s 0 \<longleftrightarrow> \<not> 0 <s R" by (simp add: i64_simps not_less)
    ultimately show ?thesis
      by (simp add: verdict_outcome_def burstDispatchVerdict_def Let_def flip: P_def)
  qed
  finally show ?thesis .
qed

text \<open>
  C10: the lock-free dispatch query and the dispatch gate agree. When the published view is current
  (nothing has accrued since the last mutation) and the window is not empty, \<open>MayDispatch\<close> says yes for an escrow that
  has not started exactly when \<open>Start\<close>, called at the same moment, succeeds, and a refusal carries
  the same reason: the draw cap or the missing headroom.
\<close>

theorem MayDispatch_agrees_with_Start:
  assumes "view_current bd" and "map_of (escrows bd) jobID = Some e" "\<not> e_Started e"
    and "BurstEnabled bd \<longrightarrow> 0 <s window bd"
    and "snd (logCmd (cmd0\<lparr>c_Kind := KindStart, c_JobID := jobID, c_Now := now\<rparr>) bd) = None"
  shows "snd (Start jobID now bd) = verdict_outcome (MayDispatch (e_C e) (e_W e) now bd)"
  using Start_verdict [OF assms(2-5)] assms(1) by (simp add: MayDispatch_current)

theorem MayDispatch_agrees_with_Start_witness:
  "snd (Start ''j'' 50 (fst (SubmitAt ''j'' 90 10 5 (fst (SetBurst True (1 / 2) 0 0 (New 2 1000 0 100))))))
   = Fail ErrBurstInsuff"
proof -
  let ?bd = "fst (SubmitAt ''j'' 90 10 5 (fst (SetBurst True (1 / 2) 0 0 (New 2 1000 0 100))))"
  let ?e = "\<lparr>e_JobID = ''j'', e_C = 90, e_Reserved = 900, e_W = 10, e_Started = False, e_BurstResv = 0, e_Submitted = 5\<rparr>"
  have "view_current ?bd" by (simp add: SubmitAt_def published_def)
  moreover have "map_of (escrows ?bd) ''j'' = Some ?e" by code_simp
  moreover have "BurstEnabled ?bd \<longrightarrow> 0 <s window ?bd" by code_simp
  moreover have "snd (logCmd (cmd0\<lparr>c_Kind := KindStart, c_JobID := ''j'', c_Now := 50\<rparr>) ?bd) = None" by code_simp
  moreover have "verdict_outcome (MayDispatch 90 10 50 ?bd) = Fail ErrBurstInsuff" by code_simp
  ultimately show ?thesis
    using MayDispatch_agrees_with_Start [of ?bd "''j''" ?e 50] by simp
qed

text \<open>
  C11: the dry run tells the truth. For a fresh job id, with no log attached and a window that is not empty,
  \<open>Simulate\<close> admits exactly when a \<open>SubmitAt\<close> followed at once by \<open>Start\<close> would succeed in both steps, and
  its cost is what the submission would debit. (It never changes the budget: it is a function of it.)
\<close>

theorem Simulate_agrees_with_gates:
  assumes "map_of (escrows bd) jobID = None" and "wal_of bd = None"
    and "BurstEnabled bd \<longrightarrow> 0 <s window bd"
  shows "(s_Admit (Simulate c w now bd) \<longleftrightarrow>
      snd (SubmitAt jobID c w now bd) = Done \<and> snd (Start jobID now (fst (SubmitAt jobID c w now bd))) = Done)
    \<and> (s_Admit (Simulate c w now bd) \<longrightarrow>
      B (fst (SubmitAt jobID c w now bd)) = B bd - s_Cost (Simulate c w now bd))"
proof -
  let ?c = "if c \<le>s 0 then C bd else c"
  let ?bd1 = "fst (SubmitAt jobID c w now bd)"
  have admit: "s_Admit (Simulate c w now bd) \<longleftrightarrow>
      admits jobID c w now bd \<and> (BurstEnabled bd \<longrightarrow> burstHeadroomOK ?c w now bd)"
    unfolding admits_alt submit_cost_def Simulate_def Let_def using assms(1,2) by simp
  have start: "snd (Start jobID now ?bd1) = Done \<longleftrightarrow> (BurstEnabled bd \<longrightarrow> burstHeadroomOK ?c w now bd)"
    if ok: "admits jobID c w now bd"
  proof -
    let ?e = "\<lparr>e_JobID = jobID, e_C = ?c, e_Reserved = submit_cost c w bd, e_W = w,
        e_Started = False, e_BurstResv = 0, e_Submitted = now\<rparr>"
    have bd1: "map_of (escrows ?bd1) jobID = Some ?e" "wal_of ?bd1 = None" "projection ?bd1 = projection bd"
      "BurstEnabled ?bd1 = BurstEnabled bd" "window ?bd1 = window bd"
      using assms(2) by (simp_all add: SubmitAt_admits [OF ok] put_escrow_def gomap_simps projection_def window_def)
    have "snd (Start jobID now ?bd1) = verdict_outcome (burstDispatchVerdict (projection bd) ?c w now)"
      using Start_verdict [OF bd1(1), of now] bd1 assms(3) by simp
    moreover have "d_Dispatch (burstDispatchVerdict (projection bd) ?c w now)" if "\<not> BurstEnabled bd"
      using that by (simp add: burstDispatchVerdict_def projection_def)
    ultimately show ?thesis
      by (auto simp: verdict_outcome_def burstHeadroomOK_def split: if_splits)
  qed
  have "s_Admit (Simulate c w now bd) \<longleftrightarrow>
      snd (SubmitAt jobID c w now bd) = Done \<and> snd (Start jobID now ?bd1) = Done"
    using admit start SubmitAt_rejects(1) [of jobID c w now bd] SubmitAt_admits [of jobID c w now bd]
    by (metis snd_conv)
  moreover have "s_Cost (Simulate c w now bd) = submit_cost c w bd"
    by (simp add: Simulate_def Let_def submit_cost_def)
  then have "s_Admit (Simulate c w now bd) \<longrightarrow> B ?bd1 = B bd - s_Cost (Simulate c w now bd)"
    using admit SubmitAt_admits [of jobID c w now bd] by (simp add: put_escrow_def)
  ultimately show ?thesis by (rule conjI)
qed

theorem Simulate_agrees_with_gates_witness:
  "s_Admit (Simulate 30 10 50 (fst (SetBurst True (1 / 2) 0 0 (New 2 1000 0 100))))
   \<and> snd (Start ''j'' 50 (fst (SubmitAt ''j'' 30 10 50 (fst (SetBurst True (1 / 2) 0 0 (New 2 1000 0 100)))))) = Done"
proof -
  let ?bd = "fst (SetBurst True (1 / 2) 0 0 (New 2 1000 0 100))"
  have "map_of (escrows ?bd) ''j'' = None" by code_simp
  moreover have "Option.is_none (wal_of ?bd)" by code_simp
  moreover have "BurstEnabled ?bd \<longrightarrow> 0 <s window ?bd" by code_simp
  moreover have "s_Admit (Simulate 30 10 50 ?bd)" by code_simp
  ultimately show ?thesis
    using Simulate_agrees_with_gates [of ?bd "''j''" 30 10 50] by (simp only: Option.is_none_def simp_thms)
qed

end
