(* ===== verification/Kernel_Exec.thy ===== *)
theory Kernel_Exec
  imports Dispatch
begin

text \<open>
  A budget as a state machine: every exported method that changes the state is one operation, a
  history is any sequence of them with any arguments, and what holds of every history is proved by
  one interface, \<open>guarded_system\<close>, which later theories reuse for sharper invariants.
\<close>

section \<open>Operations and histories\<close>

datatype op =
    OSubmitAt string Units Seconds Seconds
  | OSubmit string Seconds Seconds
  | OStart string Seconds
  | OComplete string Seconds Seconds
  | OTimeout string Seconds
  | OCancel string Seconds Seconds
  | OInfraFail string Seconds Seconds
  | OLapse
  | OTopUpXfer Units string Seconds
  | OTopUp Units Seconds
  | OWithdrawXfer Units string Seconds
  | OWithdraw Units Seconds
  | OReprice string Units Seconds
  | OSetRate Units Seconds
  | OSetWindow Seconds Seconds Seconds
  | OSetBurst bool f64 Units Seconds
  | OSubmitArrayAt string Units i64 Seconds Seconds
  | OSubmitArray string i64 Seconds Seconds
  | OStartTask string i64 Seconds
  | OCompleteTask string i64 Seconds Seconds
  | OTimeoutTask string i64 Seconds
  | OCancelTask string i64 Seconds Seconds
  | OInfraFailTask string i64 Seconds Seconds
  | OReport Seconds
  | OBurstSnapshot Seconds

fun exec :: "op \<Rightarrow> budget \<Rightarrow> budget \<times> outcome" where
  "exec (OSubmitAt j c w now) bd = SubmitAt j c w now bd"
| "exec (OSubmit j w now) bd = Submit j w now bd"
| "exec (OStart j now) bd = Start j now bd"
| "exec (OComplete j t now) bd = Complete j t now bd"
| "exec (OTimeout j now) bd = Timeout j now bd"
| "exec (OCancel j t now) bd = Cancel j t now bd"
| "exec (OInfraFail j t now) bd = InfraFail j t now bd"
| "exec OLapse bd = (Lapse bd, Done)"
| "exec (OTopUpXfer a x now) bd = TopUpXfer a x now bd"
| "exec (OTopUp a now) bd = TopUp a now bd"
| "exec (OWithdrawXfer a x now) bd = WithdrawXfer a x now bd"
| "exec (OWithdraw a now) bd = Withdraw a now bd"
| "exec (OReprice j r now) bd = Reprice j r now bd"
| "exec (OSetRate c now) bd = SetRate c now bd"
| "exec (OSetWindow ts te now) bd = SetWindow ts te now bd"
| "exec (OSetBurst on pct cap now) bd = SetBurst on pct cap now bd"
| "exec (OSubmitArrayAt j c n w now) bd = SubmitArrayAt j c n w now bd"
| "exec (OSubmitArray j n w now) bd = SubmitArray j n w now bd"
| "exec (OStartTask j i now) bd = StartTask j i now bd"
| "exec (OCompleteTask j i t now) bd = CompleteTask j i t now bd"
| "exec (OTimeoutTask j i now) bd = TimeoutTask j i now bd"
| "exec (OCancelTask j i t now) bd = CancelTask j i t now bd"
| "exec (OInfraFailTask j i t now) bd = InfraFailTask j i t now bd"
| "exec (OReport now) bd = (case Report now bd of (bd', r, _) \<Rightarrow> (bd', r))"
| "exec (OBurstSnapshot now) bd = (case BurstSnapshot now bd of (bd', r, _) \<Rightarrow> (bd', r))"

text \<open>The states a history passes through, and whether a guard holds before each step.\<close>

primrec run_ops :: "('o \<Rightarrow> 's \<Rightarrow> 's \<times> 'r) \<Rightarrow> 'o list \<Rightarrow> 's \<Rightarrow> 's" where
  "run_ops ex [] s = s"
| "run_ops ex (p # ps) s = run_ops ex ps (fst (ex p s))"

primrec guarded :: "('o \<Rightarrow> 's \<Rightarrow> 's \<times> 'r) \<Rightarrow> ('o \<Rightarrow> 's \<Rightarrow> bool) \<Rightarrow> 'o list \<Rightarrow> 's \<Rightarrow> bool" where
  "guarded ex g [] s \<longleftrightarrow> True"
| "guarded ex g (p # ps) s \<longleftrightarrow> g p s \<and> guarded ex g ps (fst (ex p s))"

inductive reaches :: "('o \<Rightarrow> 's \<Rightarrow> 's \<times> 'r) \<Rightarrow> 's \<Rightarrow> 's \<Rightarrow> bool" for ex where
  reach_init: "reaches ex s s"
| reach_step: "reaches ex s t \<Longrightarrow> reaches ex s (fst (ex p t))"

section \<open>The interface: an invariant of a guarded state machine\<close>

locale guarded_system =
  fixes ex :: "'o \<Rightarrow> 's \<Rightarrow> 's \<times> 'r" and g :: "'o \<Rightarrow> 's \<Rightarrow> bool" and inv :: "'s \<Rightarrow> bool"
  assumes step_inv: "inv s \<Longrightarrow> g p s \<Longrightarrow> inv (fst (ex p s))"
begin

lemma run_inv: "inv s \<Longrightarrow> guarded ex g ps s \<Longrightarrow> inv (run_ops ex ps s)"
  by (induction ps arbitrary: s) (auto intro: step_inv)

end

locale step_system =
  fixes ex :: "'o \<Rightarrow> 's \<Rightarrow> 's \<times> 'r" and inv :: "'s \<Rightarrow> bool"
  assumes any_step_inv: "inv s \<Longrightarrow> inv (fst (ex p s))"

sublocale step_system \<subseteq> guarded_system ex "\<lambda>_ _. True" inv
  by unfold_locales (rule any_step_inv)

context step_system
begin

lemma reaches_inv: "reaches ex s t \<Longrightarrow> inv s \<Longrightarrow> inv t"
  by (induction rule: reaches.induct) (auto intro: any_step_inv)

end

section \<open>Conservation\<close>

lemma kernel_inv_accrue [simp]: "kernel_inv (fst (accrue now bd)) = kernel_inv bd"
  using accrue_frame [of now bd] by auto

lemma exec_kernel_inv: "kernel_inv bd \<Longrightarrow> kernel_inv (fst (exec p bd))"
  by (cases p)
    (simp_all add: SubmitAt_inv Submit_def Start_inv Complete_inv Timeout_inv Cancel_inv InfraFail_inv Lapse_inv
      TopUpXfer_inv TopUp_def WithdrawXfer_inv Withdraw_def Reprice_inv SetRate_inv SetWindow_inv SetBurst_inv
      SubmitArrayAt_inv SubmitArray_def StartTask_inv CompleteTask_inv TimeoutTask_inv CancelTask_inv
      InfraFailTask_inv Report_def BurstSnapshot_def case_prod_beta)

interpretation books: step_system exec kernel_inv
  by unfold_locales (rule exec_kernel_inv)

lemma kernel_inv_New: "kernel_inv (New c b0 ts te)"
  by (simp add: New_def kernel_inv_def ledger_sum_def)

text \<open>
  C1: money is conserved by every history. Start from a new budget and call any exported methods in
  any order with any arguments (negative times, overflowing costs and failing log writes included): the balance, the
  reservations, the billed and the written-off totals always add up to the allocation, every array
  holds one slice per unsettled task, and the reservation total is the sum over the live escrows and
  arrays. The sums are Go's 64-bit sums, so this is the check \<open>ConservationOKArrays\<close> makes.
\<close>

theorem conservation:
  "reaches exec (New c b0 ts te) bd \<Longrightarrow>
     fst (ConservationOK bd) \<and> fst (ConservationOKArrays bd) \<and> snd (ConservationOK bd) = B0 bd
     \<and> ReservedTotal bd = msum e_Reserved (escrows bd) + msum a_Reserved (arrays bd)"
proof -
  assume "reaches exec (New c b0 ts te) bd"
  then have "kernel_inv bd" by (rule books.reaches_inv) (rule kernel_inv_New)
  then show ?thesis
    by (auto simp: kernel_inv_def ConservationOK_def ConservationOKArrays_def array_inv_def elim!: mall_mono)
qed

lemma reaches_run: "reaches ex s (run_ops ex ps s)"
proof -
  have "reaches ex s t \<Longrightarrow> reaches ex s (run_ops ex ps t)" for t
    by (induction ps arbitrary: t) (auto intro: reach_step)
  then show ?thesis by (simp add: reach_init)
qed

theorem conservation_witness:
  "fst (ConservationOKArrays (run_ops exec
      [OSubmit ''j'' 10 5, OSubmitArray ''a'' 3 4 5, OStart ''j'' 6, OCompleteTask ''a'' 1 2 9, OInfraFail ''j'' 4 12]
      (New 2 1000 0 100)))"
  using conservation [OF reaches_run] by blast

text \<open>
  C3: the panic in \<open>settleTask\<close> cannot happen. In every state that a history of a new budget
  reaches, and for every array, task, runtime and time, the per-escrow re-derivation holds: no task exit
  panics with the per-escrow invariant.
\<close>

theorem per_escrow_panic_unreachable:
  assumes "reaches exec (New c b0 ts te) bd"
  shows "snd (settleTask arrayID idx runtime wo now bd) \<noteq> Panic PerEscrowInvariant"
proof -
  have inv: "kernel_inv bd" using assms by (rule books.reaches_inv) (rule kernel_inv_New)
  show ?thesis
  proof (cases "\<exists>ae t. map_of (arrays bd) arrayID = Some ae \<and> map_of (a_tasks ae) idx = Some t \<and> \<not> t_settled t")
    case True
    then obtain ae t where *: "map_of (arrays bd) arrayID = Some ae" "map_of (a_tasks ae) idx = Some t" "\<not> t_settled t"
      by blast
    show ?thesis
      unfolding settleTask_eq [OF inv *] Let_def
      using accrue_outcome [of now bd] by (cases "accrue now bd") (auto simp: with_accrue_def)
  next
    case False
    then show ?thesis by (auto simp: settleTask_def split: option.split)
  qed
qed

theorem per_escrow_panic_unreachable_witness:
  "snd (settleTask ''a'' 2 7 False 9
     (run_ops exec [OSubmitArray ''a'' 3 4 5, OCompleteTask ''a'' 1 2 9] (New 2 1000 0 100))) \<noteq> Panic PerEscrowInvariant"
  using per_escrow_panic_unreachable [OF reaches_run] by blast

end
