(* ===== verification/Ledger.thy ===== *)
theory Ledger
  imports Kernel_Exec
begin

text \<open>
  The ledger over the integers. The kernel never checks its products and sums for overflow, so
  exactness needs the arguments to be sane (\<open>sane\<close>: non-negative walltimes, a cost and an allocation that
  fit 64 bits). Under that guard every amount is non-negative and the books balance as integers: no
  history can overdraw a budget or bill more than was allocated.
\<close>

section \<open>The invariant\<close>

definition escrow_exact :: "escrow \<Rightarrow> bool" where
  "escrow_exact e \<longleftrightarrow> 0 \<le> sint (e_C e) \<and> 0 \<le> sint (e_W e) \<and> sint (e_Reserved e) = sint (e_C e) * sint (e_W e)"

definition array_exact :: "arrayEscrow \<Rightarrow> bool" where
  "array_exact a \<longleftrightarrow>
     0 \<le> sint (a_C a) \<and> 0 \<le> sint (a_W a) \<and> sint (a_Reserved a) = unsettled (a_tasks a) * (sint (a_C a) * sint (a_W a))"

definition reserved_int :: "budget \<Rightarrow> int" where
  "reserved_int bd = msum (\<lambda>e. sint (e_Reserved e)) (escrows bd) + msum (\<lambda>a. sint (a_Reserved a)) (arrays bd)"

definition ledger_inv :: "budget \<Rightarrow> bool" where
  "ledger_inv bd \<longleftrightarrow>
     kernel_inv bd \<and> 0 \<le> sint (C bd) \<and> 0 \<le> sint (B bd) \<and> 0 \<le> sint (Consumed bd) \<and> 0 \<le> sint (WriteOff bd)
     \<and> mall (\<lambda>_. escrow_exact) (escrows bd) \<and> mall (\<lambda>_. array_exact) (arrays bd)
     \<and> sint (B0 bd) = sint (B bd) + reserved_int bd + sint (Consumed bd) + sint (WriteOff bd)"

text \<open>What a caller has to respect.\<close>

definition eff_rate :: "Units \<Rightarrow> budget \<Rightarrow> Units" where
  "eff_rate c bd = (if c \<le>s 0 then C bd else c)"

fun sane :: "op \<Rightarrow> budget \<Rightarrow> bool" where
  "sane (OSubmitAt j c w now) bd \<longleftrightarrow> 0 \<le>s w \<and> fits64 (sint (eff_rate c bd) * sint w)"
| "sane (OSubmit j w now) bd \<longleftrightarrow> 0 \<le>s w \<and> fits64 (sint (C bd) * sint w)"
| "sane (OSubmitArrayAt j c n w now) bd \<longleftrightarrow> fits64 (sint (eff_rate c bd) * sint w * sint n)"
| "sane (OSubmitArray j n w now) bd \<longleftrightarrow> fits64 (sint (C bd) * sint w * sint n)"
| "sane (OTopUpXfer a x now) bd \<longleftrightarrow> fits64 (sint (B0 bd) + sint a)"
| "sane (OTopUp a now) bd \<longleftrightarrow> fits64 (sint (B0 bd) + sint a)"
| "sane _ bd \<longleftrightarrow> True"

lemma ledger_inv_frame [simp]:
  "ledger_inv (bd\<lparr>wal_of := x\<rparr>) = ledger_inv bd"
  "ledger_inv (bd\<lparr>burstPot := u\<rparr>) = ledger_inv bd"
  "ledger_inv (bd\<lparr>rLive := u\<rparr>) = ledger_inv bd"
  "ledger_inv (bd\<lparr>fracAcc := u\<rparr>) = ledger_inv bd"
  "ledger_inv (bd\<lparr>lastTouch := u\<rparr>) = ledger_inv bd"
  "ledger_inv (bd\<lparr>readView := v\<rparr>) = ledger_inv bd"
  "ledger_inv (bd\<lparr>status := st\<rparr>) = ledger_inv bd"
  "ledger_inv (bd\<lparr>TS := u\<rparr>) = ledger_inv bd"
  "ledger_inv (bd\<lparr>TE := u\<rparr>) = ledger_inv bd"
  "ledger_inv (bd\<lparr>BurstEnabled := b\<rparr>) = ledger_inv bd"
  "ledger_inv (bd\<lparr>BurstCeilingPct := x'\<rparr>) = ledger_inv bd"
  "ledger_inv (bd\<lparr>BurstDrawCap := u\<rparr>) = ledger_inv bd"
  by (simp_all add: ledger_inv_def reserved_int_def)

lemma ledger_inv_publish [simp]: "ledger_inv (publishLocked bd) = ledger_inv bd"
  by (simp add: publishLocked_def)

lemma published_ledger: "ledger_inv (fst p) \<Longrightarrow> ledger_inv (fst (published p))"
  by (simp add: published_def)

lemmas ledger_walk =
  published_ledger
  fst_if_rule [where Q = ledger_inv] fst_option_rule [where Q = ledger_inv]
  fst_pair_rule [where Q = ledger_inv]
  with_log_rule [where Q = ledger_inv] with_accrue_rule [where Q = ledger_inv]

section \<open>Bounds from the invariant\<close>

lemma msum_nonneg: "mall (\<lambda>_ v. 0 \<le> f v) m \<Longrightarrow> 0 \<le> (msum f m :: int)"
  by (induction m) auto

lemma msum_ge: "mall (\<lambda>_ v. 0 \<le> f v) m \<Longrightarrow> map_of m k = Some v \<Longrightarrow> f v \<le> (msum f m :: int)"
proof (induction m)
  case (Cons kv m)
  then show ?case using msum_nonneg [of f m] by (cases kv) (fastforce split: if_splits)
qed simp

lemma escrow_exact_nonneg: "escrow_exact e \<Longrightarrow> 0 \<le> sint (e_Reserved e)"
  by (simp add: escrow_exact_def)

lemma array_exact_nonneg: "array_exact a \<Longrightarrow> array_inv k a \<Longrightarrow> 0 \<le> sint (a_Reserved a)"
  by (simp add: array_exact_def array_inv_def)

lemma reserved_parts_nonneg:
  assumes "ledger_inv bd"
  shows "mall (\<lambda>_ e. 0 \<le> sint (e_Reserved e)) (escrows bd)" and "mall (\<lambda>_ a. 0 \<le> sint (a_Reserved a)) (arrays bd)"
proof -
  show "mall (\<lambda>_ e. 0 \<le> sint (e_Reserved e)) (escrows bd)"
    using assms by (auto simp: ledger_inv_def elim!: mall_mono dest: escrow_exact_nonneg)
  have "mall array_inv (arrays bd)" "mall (\<lambda>_. array_exact) (arrays bd)" "gomap_ok (arrays bd)"
    using assms by (auto simp: ledger_inv_def kernel_inv_def)
  then show "mall (\<lambda>_ a. 0 \<le> sint (a_Reserved a)) (arrays bd)"
    by (simp add: mall_iff_lookup) (blast intro: array_exact_nonneg)
qed

lemma ledger_bounds:
  assumes "ledger_inv bd"
  shows "0 \<le> reserved_int bd"
    and "map_of (escrows bd) k = Some e \<Longrightarrow> escrow_exact e \<and> sint (e_Reserved e) \<le> reserved_int bd"
    and "map_of (arrays bd) j = Some a \<Longrightarrow> array_exact a \<and> array_inv j a \<and> sint (a_Reserved a) \<le> reserved_int bd"
proof -
  note n = reserved_parts_nonneg [OF assms]
  note s = msum_nonneg [OF n(1)] msum_nonneg [OF n(2)]
  show "0 \<le> reserved_int bd" using s by (simp add: reserved_int_def)
  show "escrow_exact e \<and> sint (e_Reserved e) \<le> reserved_int bd" if "map_of (escrows bd) k = Some e"
    using assms mall_lookup [of "\<lambda>_. escrow_exact" "escrows bd", OF _ that] msum_ge [OF n(1) that] s
    by (simp add: ledger_inv_def reserved_int_def)
  show "array_exact a \<and> array_inv j a \<and> sint (a_Reserved a) \<le> reserved_int bd" if "map_of (arrays bd) j = Some a"
    using assms mall_lookup [of "\<lambda>_. array_exact" "arrays bd", OF _ that] msum_ge [OF n(2) that] s
      kernel_inv_array [OF _ that]
    by (simp add: ledger_inv_def reserved_int_def)
qed

lemma B0_fits: "fits64 (sint (B0 bd))" by simp

section \<open>The money moves, exactly\<close>

lemma exact_sub: "0 \<le> sint b \<Longrightarrow> sint b \<le> sint a \<Longrightarrow> sint (a - b :: i64) = sint a - sint b"
  using fits64_sint [of a] by (intro sint_sub_exact) (simp add: fits64_def)

lemma exact_add: "0 \<le> sint a \<Longrightarrow> 0 \<le> sint b \<Longrightarrow> sint a + sint b \<le> sint (c :: i64) \<Longrightarrow> sint (a + b :: i64) = sint a + sint b"
  using fits64_sint [of c] by (intro sint_add_exact) (simp add: fits64_def)

lemma ledger_debit:
  assumes inv: "ledger_inv bd" and new: "map_of (escrows bd) k = None" and "e_JobID e = k"
    and "e_Reserved e = cost" "cost = e_C e * e_W e" "0 \<le> sint (e_C e)" "0 \<le> sint (e_W e)"
    and fits: "fits64 (sint (e_C e) * sint (e_W e))" and le: "\<not> B bd <s cost"
  shows "ledger_inv (put_escrow k e (bd\<lparr>B := B bd - cost, ReservedTotal := ReservedTotal bd + cost\<rparr>))"
proof -
  have cost: "sint cost = sint (e_C e) * sint (e_W e)"
    using assms by (simp add: sint_mult_exact)
  have "sint (B bd - cost) = sint (B bd) - sint cost"
    using cost assms by (intro exact_sub) (simp_all add: i64_simps)
  moreover have "kernel_inv (put_escrow k e (bd\<lparr>B := B bd - cost, ReservedTotal := ReservedTotal bd + cost\<rparr>))"
    using inv assms by (intro kernel_inv_debit) (simp_all add: ledger_inv_def)
  ultimately show ?thesis
    using inv new assms(4,6,7) cost le
    by (auto simp: ledger_inv_def put_escrow_def reserved_int_def gomap_simps i64_simps escrow_exact_def)
qed

lemma clamp_bounds: "0 \<le> sint w \<Longrightarrow> 0 \<le> sint (clamp_runtime w t) \<and> sint (clamp_runtime w t) \<le> sint w"
  by (auto simp: clamp_runtime_def Let_def i64_simps)

text \<open>What a settlement bills lies between zero and the reservation.\<close>

lemma used_bounds:
  assumes "0 \<le> sint c" "0 \<le> sint w" "fits64 (sint c * sint w)"
  shows "sint (c * clamp_runtime w t) = sint c * sint (clamp_runtime w t)"
    and "0 \<le> sint (c * clamp_runtime w t)" and "sint (c * clamp_runtime w t) \<le> sint c * sint w"
proof -
  let ?r = "sint (clamp_runtime w t)"
  have r: "0 \<le> ?r" "?r \<le> sint w" using clamp_bounds [OF assms(2)] by auto
  have le: "sint c * ?r \<le> sint c * sint w" using r assms(1) by (simp add: mult_left_mono)
  moreover have "0 \<le> sint c * ?r" using r assms(1) by simp
  ultimately show eq: "sint (c * clamp_runtime w t) = sint c * ?r"
    using assms(3) by (intro sint_mult_exact) (auto simp: fits64_def)
  show "0 \<le> sint (c * clamp_runtime w t)" "sint (c * clamp_runtime w t) \<le> sint c * sint w"
    using eq le r assms(1) by simp_all
qed

text \<open>The balance and the two cost totals after a settlement, for any reservation that is part of the books.\<close>

lemma settle_money_exact:
  assumes "ledger_inv bd" "0 \<le> sint used" "sint used \<le> sint reserved" "sint reserved \<le> reserved_int bd"
    and bd'_def: "bd' = settle_money reserved used wo bd"
  shows "sint (B bd') = sint (B bd) + (sint reserved - sint used)"
    and "sint (Consumed bd') = sint (Consumed bd) + (if wo then 0 else sint used)"
    and "sint (WriteOff bd') = sint (WriteOff bd) + (if wo then sint used else 0)"
proof -
  have pos: "0 \<le> sint (B bd)" "0 \<le> sint (Consumed bd)" "0 \<le> sint (WriteOff bd)"
    and sum: "sint (B0 bd) = sint (B bd) + reserved_int bd + sint (Consumed bd) + sint (WriteOff bd)"
    using assms(1) by (auto simp: ledger_inv_def)
  have ru: "sint (reserved - used) = sint reserved - sint used"
    using assms by (intro exact_sub) auto
  have "sint (B bd + (reserved - used)) = sint (B bd) + (sint reserved - sint used)"
    using assms pos sum ru by (subst exact_add [where c = "B0 bd"]) auto
  moreover have "sint (Consumed bd + used) = sint (Consumed bd) + sint used"
    "sint (WriteOff bd + used) = sint (WriteOff bd) + sint used"
    using assms pos sum by (auto intro!: exact_add [where c = "B0 bd"])
  ultimately show "sint (B bd') = sint (B bd) + (sint reserved - sint used)"
    "sint (Consumed bd') = sint (Consumed bd) + (if wo then 0 else sint used)"
    "sint (WriteOff bd') = sint (WriteOff bd) + (if wo then sint used else 0)"
    by (simp_all add: bd'_def)
qed

lemma settle_money_other [simp]: "C (settle_money reserved used wo bd) = C bd"
  by (simp add: settle_money_def Let_def)

lemma settle_burst_other [simp]: "C (settle_burst c w st resv rt bd) = C bd"
  using settle_burst_frame [of c w st resv rt bd] by auto

lemma ledger_settle:
  assumes inv: "ledger_inv bd" and m: "m = escrows bd" "map_of m k = Some e"
    and used: "used = e_C e * clamp_runtime (e_W e) t"
  shows "ledger_inv ((settle_money (e_Reserved e) used wo bd)\<lparr>escrows := AList.delete k m\<rparr>)"
proof -
  have e: "escrow_exact e" "sint (e_Reserved e) \<le> reserved_int bd"
    using ledger_bounds(2) [OF inv] m by auto
  then have eq: "sint (e_Reserved e) = sint (e_C e) * sint (e_W e)" and "fits64 (sint (e_C e) * sint (e_W e))"
    by (auto simp: escrow_exact_def dest: sym)
  then have u: "0 \<le> sint used" "sint used \<le> sint (e_Reserved e)"
    using used_bounds [of "e_C e" "e_W e" t] e(1) by (auto simp: used escrow_exact_def)
  note ex = settle_money_exact [OF inv u e(2) refl, of wo]
  have "kernel_inv ((settle_money (e_Reserved e) used wo bd)\<lparr>escrows := AList.delete k m\<rparr>)"
    using inv m by (intro kernel_inv_settle) (simp_all add: ledger_inv_def)
  with inv m ex u show ?thesis
    by (auto simp: ledger_inv_def reserved_int_def gomap_simps kernel_inv_def simp del: settle_money_sel(4-7))
qed

lemma ledger_settle_burst_upd [simp]:
  "ledger_inv ((settle_burst c w st resv rt bd)\<lparr>escrows := m\<rparr>) = ledger_inv (bd\<lparr>escrows := m\<rparr>)"
  "ledger_inv ((settle_burst c w st resv rt bd)\<lparr>arrays := m'\<rparr>) = ledger_inv (bd\<lparr>arrays := m'\<rparr>)"
  by (simp_all add: ledger_inv_def reserved_int_def)

lemma ledger_put_same:
  assumes "ledger_inv bd" "map_of (escrows bd) k = Some e"
    "e_JobID e' = e_JobID e" "e_Reserved e' = e_Reserved e" "e_C e' = e_C e" "e_W e' = e_W e"
  shows "ledger_inv (put_escrow k e' bd)"
proof -
  have "kernel_inv (put_escrow k e' bd)" using assms by (intro kernel_inv_put_same) (simp_all add: ledger_inv_def)
  moreover have "escrow_exact e'" using ledger_bounds(2) [OF assms(1,2)] assms by (simp add: escrow_exact_def)
  ultimately show ?thesis
    using assms by (auto simp: ledger_inv_def put_escrow_def reserved_int_def gomap_simps)
qed

lemma ledger_reprice:
  assumes inv: "ledger_inv bd" and e: "map_of (escrows bd) k = Some e"
    and r: "\<not> (r \<le>s 0 \<or> e_C e <s r)" and d: "delta = (e_C e - r) * e_W e"
  shows "ledger_inv (put_escrow k (e\<lparr>e_C := r, e_Reserved := e_Reserved e - delta\<rparr>)
           (bd\<lparr>ReservedTotal := ReservedTotal bd - delta, B := B bd + delta\<rparr>))"
proof -
  have ex: "escrow_exact e" "sint (e_Reserved e) \<le> reserved_int bd" using ledger_bounds(2) [OF inv e] by auto
  have rr: "0 < sint r" "sint r \<le> sint (e_C e)" using r by (auto simp: i64_simps)
  then have cr: "sint (e_C e - r) = sint (e_C e) - sint r" by (intro exact_sub) auto
  have w: "0 \<le> sint (e_W e)" and res: "sint (e_Reserved e) = sint (e_C e) * sint (e_W e)"
    using ex by (auto simp: escrow_exact_def)
  have le: "(sint (e_C e) - sint r) * sint (e_W e) \<le> sint (e_Reserved e)"
    "0 \<le> (sint (e_C e) - sint r) * sint (e_W e)"
    using rr w res by (auto intro: mult_right_mono)
  then have dd: "sint delta = (sint (e_C e) - sint r) * sint (e_W e)"
    using fits64_sint [of "e_Reserved e"] unfolding d by (subst sint_mult_exact) (auto simp: cr fits64_def)
  have sum: "sint (B0 bd) = sint (B bd) + reserved_int bd + sint (Consumed bd) + sint (WriteOff bd)"
    "0 \<le> sint (B bd)" "0 \<le> sint (Consumed bd)" "0 \<le> sint (WriteOff bd)"
    using inv by (auto simp: ledger_inv_def)
  have "sint (B bd + delta) = sint (B bd) + sint delta"
    using le dd sum ex by (intro exact_add [where c = "B0 bd"]) auto
  moreover have "sint (e_Reserved e - delta) = sint (e_Reserved e) - sint delta"
    using le dd by (intro exact_sub) auto
  moreover have "kernel_inv (put_escrow k (e\<lparr>e_C := r, e_Reserved := e_Reserved e - delta\<rparr>)
           (bd\<lparr>ReservedTotal := ReservedTotal bd - delta, B := B bd + delta\<rparr>))"
    using inv e d by (intro kernel_inv_reprice) (simp_all add: ledger_inv_def)
  ultimately show ?thesis
    using inv e dd le rr w res
    by (auto simp: ledger_inv_def put_escrow_def reserved_int_def gomap_simps escrow_exact_def algebra_simps)
qed

lemma ledger_topup:
  assumes "ledger_inv bd" "\<not> a \<le>s 0" "fits64 (sint (B0 bd) + sint a)"
  shows "ledger_inv (bd\<lparr>B := B bd + a, B0 := B0 bd + a\<rparr>)"
proof -
  have *: "sint (B0 bd + a) = sint (B0 bd) + sint a" using assms(3) by (rule sint_add_exact)
  moreover have "sint (B bd + a) = sint (B bd) + sint a"
    using assms ledger_bounds(1) [OF assms(1)] *
    by (intro exact_add [where c = "B0 bd + a"]) (auto simp: ledger_inv_def i64_simps)
  ultimately show ?thesis
    using assms kernel_inv_move(1) [of bd a] by (simp add: ledger_inv_def reserved_int_def i64_simps)
qed

lemma ledger_withdraw:
  assumes "ledger_inv bd" "\<not> a \<le>s 0" "\<not> B bd <s a"
  shows "ledger_inv (bd\<lparr>B := B bd - a, B0 := B0 bd - a\<rparr>)"
proof -
  have a: "0 \<le> sint a" "sint a \<le> sint (B bd)" "sint a \<le> sint (B0 bd)"
    using assms ledger_bounds(1) [OF assms(1)] by (auto simp: ledger_inv_def i64_simps)
  have "sint (B bd - a) = sint (B bd) - sint a" "sint (B0 bd - a) = sint (B0 bd) - sint a"
    using a by (simp_all add: exact_sub)
  then show ?thesis
    using assms kernel_inv_move(2) [of bd a] by (simp add: ledger_inv_def reserved_int_def i64_simps)
qed

section \<open>Arrays\<close>

lemma fits_factor:
  assumes "0 \<le> (x :: int)" "1 \<le> n" "fits64 (x * n)"
  shows "fits64 x"
proof -
  have "x * 1 \<le> x * n" using assms by (intro mult_left_mono) auto
  then show ?thesis using assms by (auto simp: fits64_def)
qed

lemma ledger_debit_array:
  assumes inv: "ledger_inv bd" and new: "map_of (arrays bd) k = None"
    and nw: "\<not> (n \<le>s 0 \<or> w \<le>s 0)" and c: "0 \<le> sint c" and cost: "cost = c * w * n"
    and fits: "fits64 (sint c * sint w * sint n)" and le: "\<not> B bd <s cost"
  shows "ledger_inv (put_array k
           \<lparr>a_ArrayID = k, a_C = c, a_W = w, a_N = n, a_Remaining = n, a_Reserved = cost,
            a_Submitted = now, a_tasks = new_tasks n\<rparr>
           (bd\<lparr>B := B bd - cost, ReservedTotal := ReservedTotal bd + cost\<rparr>))"
proof -
  have nw': "0 < sint n" "0 < sint w" "0 <s n" "\<not> n \<le>s 0" using nw by (auto simp: i64_simps)
  then have "fits64 (sint c * sint w)" using c fits by (intro fits_factor [OF _ _ fits]) auto
  then have sc: "sint cost = sint n * (sint c * sint w)"
    using fits by (simp add: cost sint_mult_exact)
  moreover have "0 \<le> sint cost" unfolding sc using nw' c by simp
  moreover have "sint (B bd - cost) = sint (B bd) - sint cost"
    using \<open>0 \<le> sint cost\<close> le by (intro exact_sub) (simp_all add: i64_simps)
  moreover note kernel_inv_debit_array [OF _ new nw'(4) cost, of now]
  ultimately show ?thesis
    using inv new le c nw' new_tasks_ok(2) [OF nw'(3)]
    by (auto simp: ledger_inv_def put_array_def reserved_int_def gomap_simps i64_simps array_exact_def)
qed

lemma ledger_put_task:
  assumes inv: "ledger_inv bd" and a: "map_of (arrays bd) k = Some ae" and t: "map_of (a_tasks ae) i = Some t"
    "t_idx t' = t_idx t" "t_settled t' = t_settled t"
  shows "ledger_inv (put_array k (put_task i t' ae) bd)"
proof -
  have "kernel_inv (put_array k (put_task i t' ae) bd)"
    using inv by (intro kernel_inv_put_task [OF _ a t]) (simp add: ledger_inv_def)
  moreover have "array_exact (put_task i t' ae)"
    using ledger_bounds(3) [OF inv a] t by (auto simp: array_exact_def put_task_def unsettled_replace)
  ultimately show ?thesis
    using inv a by (auto simp: ledger_inv_def put_array_def reserved_int_def gomap_simps put_task_def)
qed

lemma slice_exact:
  assumes "array_exact ae" "array_inv k ae"
  shows "sint (slice ae) = sint (a_C ae) * sint (a_W ae)" and "fits64 (sint (a_C ae) * sint (a_W ae))"
    and "sint (slice ae) \<le> sint (a_Reserved ae)"
proof -
  have u: "1 \<le> unsettled (a_tasks ae)" using assms(2) by (simp add: array_inv_def)
  have pos: "0 \<le> sint (a_C ae) * sint (a_W ae)" using assms(1) by (simp add: array_exact_def)
  have res: "sint (a_Reserved ae) = sint (a_C ae) * sint (a_W ae) * unsettled (a_tasks ae)"
    using assms(1) by (simp add: array_exact_def ac_simps)
  show fits: "fits64 (sint (a_C ae) * sint (a_W ae))"
    using fits64_sint [of "a_Reserved ae"] unfolding res by (rule fits_factor [OF pos u])
  then show eq: "sint (slice ae) = sint (a_C ae) * sint (a_W ae)" by (simp add: slice_def sint_mult_exact)
  show "sint (slice ae) \<le> sint (a_Reserved ae)"
    unfolding eq res using mult_left_mono [OF u pos] by simp
qed

lemma ledger_settle_task:
  assumes inv: "ledger_inv bd" and m: "m = arrays bd" "map_of m k = Some ae"
    and t: "map_of (a_tasks ae) i = Some t" "\<not> t_settled t"
    and used: "used = a_C ae * clamp_runtime (a_W ae) rt"
    and ae': "ae' = put_task i (t\<lparr>t_settled := True\<rparr>)
              (ae\<lparr>a_Reserved := a_Reserved ae - slice ae, a_Remaining := a_Remaining ae - 1\<rparr>)"
  shows "a_Remaining ae' \<noteq> 0 \<Longrightarrow> ledger_inv ((settle_money (slice ae) used wo bd)\<lparr>arrays := AList.update k ae' m\<rparr>)"
    and "a_Remaining ae' = 0 \<Longrightarrow> ledger_inv ((settle_money (slice ae) used wo bd)\<lparr>arrays := AList.delete k m\<rparr>)"
proof -
  have ok: "array_exact ae" "array_inv k ae" "sint (a_Reserved ae) \<le> reserved_int bd"
    using ledger_bounds(3) [OF inv] m by auto
  note sl = slice_exact [OF ok(1,2)]
  have u: "0 \<le> sint used" "sint used \<le> sint (slice ae)"
    using used_bounds [of "a_C ae" "a_W ae" rt] sl ok(1) by (auto simp: used array_exact_def)
  have le: "sint (slice ae) \<le> reserved_int bd" using sl(3) ok(3) by simp
  note ex = settle_money_exact [OF inv u le refl, of wo]
  have kinv: "kernel_inv bd" using inv by (simp add: ledger_inv_def)
  note ki = kernel_inv_settle_task [OF kinv m t ae', of used wo]
  have r: "a_Reserved ae' = a_Reserved ae - slice ae" and "0 \<le> sint (slice ae)"
    using u by (simp_all add: ae' put_task_def)
  then have rs: "sint (a_Reserved ae') = sint (a_Reserved ae) - sint (slice ae)"
    using sl(3) by (simp add: exact_sub)
  have ax: "array_exact ae'"
    using ok(1) rs sl(1) t
    by (simp add: array_exact_def) (simp add: ae' put_task_def unsettled_replace algebra_simps)
  show "ledger_inv ((settle_money (slice ae) used wo bd)\<lparr>arrays := AList.update k ae' m\<rparr>)"
    if "a_Remaining ae' \<noteq> 0"
    using inv m ex u ki(1) [OF that] rs ax
    by (auto simp: ledger_inv_def reserved_int_def gomap_simps kernel_inv_def simp del: settle_money_sel(4-7))
  show "ledger_inv ((settle_money (slice ae) used wo bd)\<lparr>arrays := AList.delete k m\<rparr>)"
    if z: "a_Remaining ae' = 0"
  proof -
    have "a_Reserved ae = slice ae" using array_inv_settle_task(1) [OF ok(2) t ae'] z r by simp
    then show ?thesis
      using inv m ex u ki(2) [OF z]
      by (auto simp: ledger_inv_def reserved_int_def gomap_simps kernel_inv_def simp del: settle_money_sel(4-7))
  qed
qed

section \<open>Every sane operation keeps the ledger\<close>

lemma eff_rate_nonneg: "ledger_inv bd \<Longrightarrow> 0 \<le> sint (eff_rate c bd)"
  by (auto simp: eff_rate_def ledger_inv_def i64_simps)

lemma SubmitAt_ledger:
  assumes "ledger_inv bd" "0 \<le>s w" "fits64 (sint (eff_rate c bd) * sint w)"
  shows "ledger_inv (fst (SubmitAt jobID c w now bd))"
  unfolding SubmitAt_def Let_def
  using assms eff_rate_nonneg [OF assms(1), of c]
  by (intro ledger_walk ledger_debit; simp add: eff_rate_def i64_simps)

lemma Start_ledger: "ledger_inv bd \<Longrightarrow> ledger_inv (fst (Start jobID now bd))"
  unfolding Start_def Let_def
  by (intro ledger_walk; (rule ledger_put_same)?; simp)

lemma settle_ledger: "ledger_inv bd \<Longrightarrow> ledger_inv (fst (settle jobID runtime wo now bd))"
  unfolding settle_def Let_def
  by (intro ledger_walk; simp add: ledger_settle)

lemma SubmitArrayAt_ledger:
  assumes "ledger_inv bd" "fits64 (sint (eff_rate c bd) * sint w * sint n)"
  shows "ledger_inv (fst (SubmitArrayAt arrayID c n w now bd))"
  unfolding SubmitArrayAt_def Let_def
  using assms eff_rate_nonneg [OF assms(1), of c]
  by (intro ledger_walk ledger_debit_array; simp add: eff_rate_def)

lemma StartTask_ledger: "ledger_inv bd \<Longrightarrow> ledger_inv (fst (StartTask arrayID idx now bd))"
  unfolding StartTask_def Let_def
  by (intro ledger_walk; (rule ledger_put_task)?; simp)

lemma settleTask_ledger:
  assumes inv: "ledger_inv bd"
  shows "ledger_inv (fst (settleTask arrayID idx runtime wo now bd))"
proof (cases "\<exists>ae ts. map_of (arrays bd) arrayID = Some ae \<and> map_of (a_tasks ae) idx = Some ts \<and> \<not> t_settled ts")
  case False
  then show ?thesis
    using inv by (auto simp: settleTask_def split: option.split)
next
  case True
  then obtain ae ts where *: "map_of (arrays bd) arrayID = Some ae" "map_of (a_tasks ae) idx = Some ts" "\<not> t_settled ts"
    by blast
  have "kernel_inv bd" using inv by (simp add: ledger_inv_def)
  from settleTask_eq [OF this *] show ?thesis
    unfolding Let_def
    by (simp only:) (intro ledger_walk; simp add: inv * put_array_def ledger_settle_task [OF _ _ *, OF _ _ refl refl])
qed

lemma exits_ledger:
  assumes "ledger_inv bd"
  shows "ledger_inv (fst (Complete j t now bd))" "ledger_inv (fst (Timeout j now bd))"
    "ledger_inv (fst (Cancel j t now bd))" "ledger_inv (fst (InfraFail j t now bd))"
    "ledger_inv (fst (CompleteTask j i t now bd))" "ledger_inv (fst (TimeoutTask j i now bd))"
    "ledger_inv (fst (CancelTask j i t now bd))" "ledger_inv (fst (InfraFailTask j i t now bd))"
  unfolding Complete_def Timeout_def Cancel_def InfraFail_def CompleteTask_def TimeoutTask_def CancelTask_def
    InfraFailTask_def
  using assms by (intro ledger_walk; simp add: settle_ledger settleTask_ledger)+

lemma transfers_ledger:
  assumes "ledger_inv bd"
  shows "fits64 (sint (B0 bd) + sint a) \<Longrightarrow> ledger_inv (fst (TopUpXfer a x now bd))"
    and "ledger_inv (fst (WithdrawXfer a x now bd))" and "ledger_inv (fst (Reprice j r now bd))"
  unfolding TopUpXfer_def WithdrawXfer_def Reprice_def Let_def
  using assms by (intro ledger_walk ledger_topup ledger_withdraw ledger_reprice; simp)+

lemma config_ledger:
  assumes "ledger_inv bd"
  shows "ledger_inv (fst (SetWindow ts te now bd))" and "ledger_inv (fst (SetBurst on pct cap now bd))"
    and "ledger_inv (fst (SetRate c now bd))"
proof -
  show "ledger_inv (fst (SetWindow ts te now bd))" "ledger_inv (fst (SetBurst on pct cap now bd))"
    unfolding SetWindow_def SetBurst_def Let_def using assms by (intro ledger_walk; simp)+
  have "ledger_inv (bd\<lparr>wal_of := x, C := c\<rparr>)" if "\<not> c \<le>s 0" for x
    using assms that by (simp add: ledger_inv_def reserved_int_def i64_simps)
  then show "ledger_inv (fst (SetRate c now bd))"
    unfolding SetRate_def using assms by (intro ledger_walk; simp)
qed

lemma reads_ledger:
  assumes "ledger_inv bd"
  shows "ledger_inv (Lapse bd)" and "ledger_inv (fst (accrue now bd))"
  using assms logCmd_frame [of "cmd0\<lparr>c_Kind := KindLapse\<rparr>" bd] accrue_frame [of now bd]
  by (auto simp: Lapse_def)

lemma exec_ledger:
  assumes "ledger_inv bd" "sane p bd"
  shows "ledger_inv (fst (exec p bd))"
  using assms SubmitAt_ledger [of bd _ 0] SubmitArrayAt_ledger [of bd 0]
  by (cases p)
    (simp_all add: SubmitAt_ledger Submit_def Start_ledger SubmitArrayAt_ledger SubmitArray_def StartTask_ledger
      exits_ledger transfers_ledger config_ledger reads_ledger TopUp_def Withdraw_def Report_def BurstSnapshot_def
      case_prod_beta eff_rate_def i64_simps)

interpretation ledger: guarded_system exec sane ledger_inv
  by unfold_locales (rule exec_ledger)

lemma ledger_inv_New: "0 \<le>s c \<Longrightarrow> 0 \<le>s b0 \<Longrightarrow> ledger_inv (New c b0 ts te)"
  using kernel_inv_New [of c b0 ts te]
  by (simp add: ledger_inv_def reserved_int_def i64_simps New_def)

lemma reserved_total_exact:
  assumes "ledger_inv bd"
  shows "sint (ReservedTotal bd) = reserved_int bd"
proof -
  have sum: "sint (B0 bd) = sint (B bd) + reserved_int bd + sint (Consumed bd) + sint (WriteOff bd)"
    "0 \<le> sint (B bd)" "0 \<le> sint (Consumed bd)" "0 \<le> sint (WriteOff bd)"
    using assms by (auto simp: ledger_inv_def)
  then have fits: "fits64 (reserved_int bd)"
    using ledger_bounds(1) [OF assms] fits64_sint [of "B0 bd"] by (auto simp: fits64_def)
  have word: "word_of_int (msum (\<lambda>v. sint (f v)) m) = (msum f m :: i64)" for f :: "'v \<Rightarrow> i64" and m :: "('k, 'v) gomap"
    by (induction m) (auto simp: split_paired_all)
  have "ReservedTotal bd = word_of_int (reserved_int bd)"
    using assms by (simp add: ledger_inv_def kernel_inv_def reserved_int_def word)
  then show ?thesis using fits by (simp add: sint_of_int_exact)
qed

text \<open>
  C2: no history of sane calls overdraws a budget. If every submitted walltime is non-negative and every cost
  and top-up fits 64 bits, then after any sequence of calls the balance, the reservations and both
  cost totals are non-negative integers that add up exactly to the allocation, without any wrap-around; so the
  balance never exceeds the allocation and never goes below zero.
\<close>

theorem no_overdraft:
  assumes "0 \<le>s c" and "0 \<le>s b0" and "guarded exec sane ops (New c b0 ts te)"
    and bd: "bd = run_ops exec ops (New c b0 ts te)"
  shows "0 \<le> sint (B bd) \<and> 0 \<le> sint (ReservedTotal bd) \<and> 0 \<le> sint (Consumed bd) \<and> 0 \<le> sint (WriteOff bd)
    \<and> sint (B0 bd) = sint (B bd) + sint (ReservedTotal bd) + sint (Consumed bd) + sint (WriteOff bd)"
proof -
  have inv: "ledger_inv bd"
    unfolding bd using assms(3) by (rule ledger.run_inv [OF ledger_inv_New [OF assms(1,2)]])
  then show ?thesis
    using reserved_total_exact [OF inv] ledger_bounds(1) [OF inv] by (auto simp: ledger_inv_def)
qed

theorem no_overdraft_witness:
  "0 \<le> sint (B (run_ops exec [OSubmit ''j'' 10 5, OSubmitArray ''a'' 3 4 5, OStart ''j'' 6,
      OCompleteTask ''a'' 1 2 9, OComplete ''j'' 4 12, OTopUp 50 13] (New 2 1000 0 100)))"
proof -
  have "guarded exec sane [OSubmit ''j'' 10 5, OSubmitArray ''a'' 3 4 5, OStart ''j'' 6,
      OCompleteTask ''a'' 1 2 9, OComplete ''j'' 4 12, OTopUp 50 13] (New 2 1000 0 100)"
    by code_simp
  moreover have "0 \<le>s (2 :: Units)" "0 \<le>s (1000 :: Units)" by code_simp+
  ultimately show ?thesis
    using no_overdraft [OF _ _ _ refl] by blast
qed

end
