(* ===== verification/Durable.thy ===== *)
theory Durable
  imports Ledger Wal_Commit
begin

text \<open>
  Durability (\<^verbatim>\<open>durable.go\<close>, \<^verbatim>\<open>snapshot.go\<close>): the snapshot of a budget and its reconstruction, the
  state directory, the creation of a durable budget, and recovery, which loads the snapshot and
  re-executes the logged commands after its offset.

  A state directory is modelled by what its two files hold: \<^verbatim>\<open>wal.log\<close> by its bytes, \<^verbatim>\<open>snapshot.json\<close>
  by the snapshot whose JSON text it is (the flat codec of the log's records is modelled byte for byte in the
  theory of the log; the nested text of a snapshot is not).
\<close>

section \<open>Snapshots\<close>

record escrowSnap =
  es_JobID :: string
  es_C :: Units
  es_Reserved :: Units
  es_W :: Seconds
  es_Started :: bool
  es_BurstResv :: Units
  es_Submitted :: Seconds

record taskSnap =
  ts_Idx :: i64
  ts_Started :: bool
  ts_Settled :: bool
  ts_BurstResv :: Units

record arraySnap =
  as_ArrayID :: string
  as_C :: Units
  as_W :: Seconds
  as_N :: i64
  as_Remaining :: i64
  as_Reserved :: Units
  as_Submitted :: Seconds
  as_Tasks :: "taskSnap list"

record snapshot =
  sn_C :: Units
  sn_B0 :: Units
  sn_TS :: Seconds
  sn_TE :: Seconds
  sn_BillInfraFailures :: bool
  sn_AllowRequeue :: bool
  sn_K :: f64
  sn_BurstEnabled :: bool
  sn_BurstCeilingPct :: f64
  sn_BurstDrawCap :: Units
  sn_B :: Units
  sn_ReservedTotal :: Units
  sn_Consumed :: Units
  sn_WriteOff :: Units
  sn_Status :: status
  sn_BurstPot :: Units
  sn_FracAcc :: Units
  sn_RLive :: Units
  sn_LastTouch :: Seconds
  sn_Escrows :: "escrowSnap list"
  sn_Arrays :: "arraySnap list"
  sn_WALOffset :: i64

definition escrow_snap :: "escrow \<Rightarrow> escrowSnap" where
  "escrow_snap e = \<lparr>es_JobID = e_JobID e, es_C = e_C e, es_Reserved = e_Reserved e, es_W = e_W e,
     es_Started = e_Started e, es_BurstResv = e_BurstResv e, es_Submitted = e_Submitted e\<rparr>"

definition task_snap :: "taskState \<Rightarrow> taskSnap" where
  "task_snap t = \<lparr>ts_Idx = t_idx t, ts_Started = t_started t, ts_Settled = t_settled t, ts_BurstResv = t_burstResv t\<rparr>"

definition array_snap :: "arrayEscrow \<Rightarrow> arraySnap" where
  "array_snap a = \<lparr>as_ArrayID = a_ArrayID a, as_C = a_C a, as_W = a_W a, as_N = a_N a, as_Remaining = a_Remaining a,
     as_Reserved = a_Reserved a, as_Submitted = a_Submitted a, as_Tasks = map (task_snap \<circ> snd) (a_tasks a)\<rparr>"

definition captureSnapshot :: "i64 \<Rightarrow> budget \<Rightarrow> snapshot" where
  "captureSnapshot walOffset bd =
     \<lparr>sn_C = C bd, sn_B0 = B0 bd, sn_TS = TS bd, sn_TE = TE bd,
      sn_BillInfraFailures = BillInfraFailures bd, sn_AllowRequeue = AllowRequeue bd, sn_K = K bd,
      sn_BurstEnabled = BurstEnabled bd, sn_BurstCeilingPct = BurstCeilingPct bd, sn_BurstDrawCap = BurstDrawCap bd,
      sn_B = B bd, sn_ReservedTotal = ReservedTotal bd, sn_Consumed = Consumed bd, sn_WriteOff = WriteOff bd,
      sn_Status = status bd, sn_BurstPot = burstPot bd, sn_FracAcc = fracAcc bd, sn_RLive = rLive bd,
      sn_LastTouch = lastTouch bd, sn_Escrows = map (escrow_snap \<circ> snd) (escrows bd),
      sn_Arrays = map (array_snap \<circ> snd) (arrays bd), sn_WALOffset = walOffset\<rparr>"

definition load_escrow :: "escrowSnap \<Rightarrow> escrow" where
  "load_escrow s = \<lparr>e_JobID = es_JobID s, e_C = es_C s, e_Reserved = es_Reserved s, e_W = es_W s,
     e_Started = es_Started s, e_BurstResv = es_BurstResv s, e_Submitted = es_Submitted s\<rparr>"

definition load_task :: "taskSnap \<Rightarrow> taskState" where
  "load_task s = \<lparr>t_idx = ts_Idx s, t_started = ts_Started s, t_settled = ts_Settled s, t_burstResv = ts_BurstResv s\<rparr>"

text \<open>The loops that fill a map from a list.\<close>

definition load_map :: "('a \<Rightarrow> 'k) \<Rightarrow> ('a \<Rightarrow> 'v) \<Rightarrow> 'a list \<Rightarrow> ('k, 'v) gomap" where
  "load_map key val xs = fold (\<lambda>x m. AList.update (key x) (val x) m) xs []"

definition load_array :: "arraySnap \<Rightarrow> arrayEscrow" where
  "load_array s = \<lparr>a_ArrayID = as_ArrayID s, a_C = as_C s, a_W = as_W s, a_N = as_N s, a_Remaining = as_Remaining s,
     a_Reserved = as_Reserved s, a_Submitted = as_Submitted s, a_tasks = load_map ts_Idx load_task (as_Tasks s)\<rparr>"

definition budgetFromSnapshot :: "snapshot \<Rightarrow> budget" where
  "budgetFromSnapshot s = publishLocked
     \<lparr>C = sn_C s, TS = sn_TS s, TE = sn_TE s, B = sn_B s, ReservedTotal = sn_ReservedTotal s,
      Consumed = sn_Consumed s, WriteOff = sn_WriteOff s, B0 = sn_B0 s,
      BillInfraFailures = sn_BillInfraFailures s, AllowRequeue = sn_AllowRequeue s, K = sn_K s,
      BurstEnabled = sn_BurstEnabled s, BurstCeilingPct = sn_BurstCeilingPct s, BurstDrawCap = sn_BurstDrawCap s,
      burstPot = sn_BurstPot s, fracAcc = sn_FracAcc s, rLive = sn_RLive s, lastTouch = sn_LastTouch s,
      escrows = load_map es_JobID load_escrow (sn_Escrows s),
      arrays = load_map as_ArrayID load_array (sn_Arrays s),
      status = sn_Status s, wal_of = None, dir = [], replaying = False, readView = None\<rparr>"

section \<open>The state directory\<close>

text \<open>
  \<open>io_fault n\<close>: the \<open>n\<close>-th file operation of the next save fails (open, write, sync, close, rename).
\<close>

record state_dir =
  d_snapshot :: "snapshot option"
  d_tmp :: "snapshot option"
  d_wal :: "string option"
  io_fault :: "nat option"

text \<open>
  The temporary file holds the whole snapshot once the write went through; until the rename the old snapshot is in
  place.
\<close>

definition saveSnapshot :: "snapshot \<Rightarrow> state_dir \<Rightarrow> state_dir \<times> err option" where
  "saveSnapshot s d =
     (let io = Some (ErrText ''i/o error'')
      in if io_fault d = Some 0 then (d, io)
         else if io_fault d = Some 1 then (d\<lparr>d_tmp := None\<rparr>, io)
         else let d' = d\<lparr>d_tmp := Some s\<rparr>
         in if io_fault d = Some 2 \<or> io_fault d = Some 3 \<or> io_fault d = Some 4 then (d', io)
            else (d'\<lparr>d_snapshot := Some s, d_tmp := None\<rparr>, None))"

definition loadSnapshot :: "state_dir \<Rightarrow> snapshot option" where
  "loadSnapshot d = d_snapshot d"

definition Snapshot :: "budget \<Rightarrow> state_dir \<Rightarrow> state_dir \<times> err option" where
  "Snapshot bd d =
     (case wal_of bd of
        None \<Rightarrow> (d, Some (ErrText ''not a durable budget''))
      | Some w \<Rightarrow> saveSnapshot (captureSnapshot (wal_Size w) bd) d)"

record burstConfig =
  bc_Enabled :: bool
  bc_CeilingPct :: f64
  bc_DrawCap :: Units

definition wal_file :: "state_dir \<Rightarrow> string" where
  "wal_file d = (case d_wal d of None \<Rightarrow> [] | Some bs \<Rightarrow> bs)"

definition NewDurableBurst ::
  "string \<Rightarrow> Units \<Rightarrow> Units \<Rightarrow> Units \<Rightarrow> Units \<Rightarrow> bool \<Rightarrow> burstConfig \<Rightarrow> state_dir \<Rightarrow> state_dir \<times> (err + budget)" where
  "NewDurableBurst path c b0 ts te sync bc d =
     (let bd = (New c b0 ts te)\<lparr>dir := path\<rparr>;
          bd1 = (if bc_Enabled bc
                 then publishLocked (bd\<lparr>BurstEnabled := True, BurstCeilingPct := bc_CeilingPct bc, BurstDrawCap := bc_DrawCap bc\<rparr>)
                 else bd)
      in case saveSnapshot (captureSnapshot 0 bd1) d of
           (d', Some e) \<Rightarrow> (d', Inl e)
         | (d', None) \<Rightarrow>
             (d'\<lparr>d_wal := Some (wal_file d')\<rparr>, Inr (bd1\<lparr>wal_of := Some (OpenWAL (open_file (wal_file d')) sync)\<rparr>)))"

definition NewDurable ::
  "string \<Rightarrow> Units \<Rightarrow> Units \<Rightarrow> Units \<Rightarrow> Units \<Rightarrow> bool \<Rightarrow> state_dir \<Rightarrow> state_dir \<times> (err + budget)" where
  "NewDurable path c b0 ts te sync d =
     NewDurableBurst path c b0 ts te sync \<lparr>bc_Enabled = False, bc_CeilingPct = 0, bc_DrawCap = 0\<rparr> d"

section \<open>Replay\<close>

definition applyCommand :: "command \<Rightarrow> budget \<Rightarrow> budget \<times> outcome" where
  "applyCommand c bd =
     (if c_Kind c = KindSubmit then SubmitAt (c_JobID c) (c_C c) (c_W c) (c_Now c) bd
      else if c_Kind c = KindStart then Start (c_JobID c) (c_Now c) bd
      else if c_Kind c = KindComplete then Complete (c_JobID c) (c_Runtime c) (c_Now c) bd
      else if c_Kind c = KindTimeout then Timeout (c_JobID c) (c_Now c) bd
      else if c_Kind c = KindCancel then Cancel (c_JobID c) (c_Elapsed c) (c_Now c) bd
      else if c_Kind c = KindInfraFail then InfraFail (c_JobID c) (c_Elapsed c) (c_Now c) bd
      else if c_Kind c = KindSubmitArray then SubmitArrayAt (c_ArrayID c) (c_C c) (c_N c) (c_W c) (c_Now c) bd
      else if c_Kind c = KindStartTask then StartTask (c_ArrayID c) (c_Idx c) (c_Now c) bd
      else if c_Kind c = KindCompleteTask then CompleteTask (c_ArrayID c) (c_Idx c) (c_Runtime c) (c_Now c) bd
      else if c_Kind c = KindTimeoutTask then TimeoutTask (c_ArrayID c) (c_Idx c) (c_Now c) bd
      else if c_Kind c = KindCancelTask then CancelTask (c_ArrayID c) (c_Idx c) (c_Elapsed c) (c_Now c) bd
      else if c_Kind c = KindInfraFailTask then InfraFailTask (c_ArrayID c) (c_Idx c) (c_Elapsed c) (c_Now c) bd
      else if c_Kind c = KindLapse then (Lapse bd, Done)
      else if c_Kind c = KindTopUp then TopUpXfer (c_Amount c) (c_Xfer c) (c_Now c) bd
      else if c_Kind c = KindWithdraw then WithdrawXfer (c_Amount c) (c_Xfer c) (c_Now c) bd
      else if c_Kind c = KindReprice then Reprice (c_JobID c) (c_C c) (c_Now c) bd
      else if c_Kind c = KindSetRate then SetRate (c_C c) (c_Now c) bd
      else if c_Kind c = KindSetWindow then SetWindow (c_TS c) (c_TE c) (c_Now c) bd
      else if c_Kind c = KindSetBurst then SetBurst (c_BurstOn c) (c_BurstPct c) (c_Amount c) (c_Now c) bd
      else (bd, Fail (ErrText ''unknown command kind'')))"

text \<open>
  \<open>OpenBudget\<close>: a panic of a replayed command takes the process down, like the error it is here.
\<close>

definition OpenBudget :: "string \<Rightarrow> bool \<Rightarrow> state_dir \<Rightarrow> outcome + budget" where
  "OpenBudget path sync d =
     (case loadSnapshot d of
        None \<Rightarrow> Inl (Fail (ErrText ''no snapshot; use NewDurable to create''))
      | Some s \<Rightarrow>
          let bd = (budgetFromSnapshot s)\<lparr>dir := path, replaying := True\<rparr>
          in case replayWAL (d_wal d) (sn_WALOffset s) applyCommand bd of
               (bd1, endOff, r) \<Rightarrow>
                 let bd2 = bd1\<lparr>replaying := False\<rparr>
                 in if r \<noteq> Done then Inl r
                    else if \<not> fst (ConservationOKArrays bd2) then Inl (Fail (ErrText ''recovery violated conservation''))
                    else Inr (bd2\<lparr>wal_of := Some (OpenWAL (open_file (wal_file d)) sync)\<rparr>))"

section \<open>Whatever the log holds\<close>

lemma applyCommand_inv: "kernel_inv bd \<Longrightarrow> kernel_inv (fst (applyCommand c bd))"
  by (simp add: applyCommand_def SubmitAt_inv Start_inv Complete_inv Timeout_inv Cancel_inv InfraFail_inv Lapse_inv TopUpXfer_inv
      WithdrawXfer_inv Reprice_inv SetRate_inv SetWindow_inv SetBurst_inv SubmitArrayAt_inv StartTask_inv CompleteTask_inv
      TimeoutTask_inv CancelTask_inv InfraFailTask_inv)

text \<open>The interface of a replay: the function applied to each command keeps an invariant.\<close>

locale replay_invariant =
  fixes fn :: "'c \<Rightarrow> 's \<Rightarrow> 's \<times> outcome" and inv :: "'s \<Rightarrow> bool"
  assumes fn_inv: "inv s \<Longrightarrow> inv (fst (fn c s))"
begin

lemma replay_loop_inv: "inv s \<Longrightarrow> inv (fst (replay_loop dec fn s good bs))"
proof (induction "length bs" arbitrary: s good bs rule: less_induct)
  case less
  let ?n = "nat (get_le32 (take 4 bs))"
  have step: "inv (fst (replay_loop dec fn s' good' (drop ?n (drop 8 bs))))" if "fn c s = (s', x)" "\<not> length bs < 8" for c s' x good'
    using less.hyps [of "drop ?n (drop 8 bs)" s' good'] fn_inv [OF less.prems, of c] that by simp
  have stop: "inv s'" if "fn c s = (s', x)" for c s' x using fn_inv [OF less.prems, of c] that by simp
  show ?case
    unfolding replay_loop.simps [of dec fn s good bs] Let_def
    using less.prems step stop by (auto split: option.split prod.split outcome.split)
qed

end

interpretation kernel_replay: replay_invariant applyCommand kernel_inv
  by unfold_locales (rule applyCommand_inv)

text \<open>Recovery balances the books whatever bytes are in the log, if the snapshot it starts from balances.\<close>

lemma OpenBudget_inv:
  assumes "OpenBudget path sync d = Inr bd" and "\<And>s. d_snapshot d = Some s \<Longrightarrow> kernel_inv (budgetFromSnapshot s)"
  shows "kernel_inv bd"
proof -
  obtain s where s: "d_snapshot d = Some s" using assms(1) by (auto simp: OpenBudget_def loadSnapshot_def split: option.splits)
  define bd0 where "bd0 = (budgetFromSnapshot s)\<lparr>dir := path, replaying := True\<rparr>"
  have "kernel_inv bd0" using assms(2) [OF s] by (simp add: bd0_def)
  then have "kernel_inv (fst (replayWAL (d_wal d) (sn_WALOffset s) applyCommand bd0))"
    by (simp add: replayWAL_def kernel_replay.replay_loop_inv split: option.split)
  then show ?thesis
    using assms(1) s by (auto simp: OpenBudget_def loadSnapshot_def Let_def bd0_def split: prod.splits if_splits)
qed

section \<open>A snapshot reads back as the state it was taken of\<close>

lemma fold_update_distinct:
  assumes "distinct (map key xs)" "\<forall>x \<in> set xs. map_of m (key x) = None"
  shows "fold (\<lambda>x m. AList.update (key x) (val x) m) xs m = m @ map (\<lambda>x. (key x, val x)) xs"
  using assms
proof (induction xs arbitrary: m)
  case (Cons x xs)
  then have "AList.update (key x) (val x) m = m @ [(key x, val x)]" by (simp add: update_new)
  moreover have "\<forall>y \<in> set xs. map_of (m @ [(key x, val x)]) (key y) = None"
    using Cons.prems by (auto simp: map_of_eq_None_iff) (metis imageI)
  ultimately show ?case using Cons by simp
qed simp

lemma load_map_snap:
  assumes "gomap_ok m" and "mall (\<lambda>k v. key (snap v) = k \<and> val (snap v) = v) m"
  shows "load_map key val (map (snap \<circ> snd) m) = m"
proof -
  have keys: "map key (map (snap \<circ> snd) m) = map fst m"
    using assms(2) by (auto simp: mall_def list_all_iff)
  have "map (\<lambda>x. (key x, val x)) (map (snap \<circ> snd) m) = m"
    using assms(2) by (induction m) (simp_all add: split_paired_all)
  moreover have "distinct (map key (map (snap \<circ> snd) m))"
    using assms(1) unfolding keys by (simp add: gomap_ok_def)
  ultimately show ?thesis
    using fold_update_distinct [of key "map (snap \<circ> snd) m" "[]" val] by (simp add: load_map_def)
qed

lemma load_escrow_snap: "escrow_inv k e \<Longrightarrow> es_JobID (escrow_snap e) = k \<and> load_escrow (escrow_snap e) = e"
  by (simp add: escrow_inv_def escrow_snap_def load_escrow_def)

lemma load_array_snap: "array_inv k a \<Longrightarrow> as_ArrayID (array_snap a) = k \<and> load_array (array_snap a) = a"
proof -
  assume inv: "array_inv k a"
  have "load_map ts_Idx load_task (map (task_snap \<circ> snd) (a_tasks a)) = a_tasks a"
  proof (rule load_map_snap)
    show "gomap_ok (a_tasks a)" using inv by (simp add: array_inv_def)
    show "mall (\<lambda>k v. ts_Idx (task_snap v) = k \<and> load_task (task_snap v) = v) (a_tasks a)"
      using inv by (auto simp: array_inv_def task_snap_def load_task_def elim!: mall_mono)
  qed
  with inv show ?thesis by (simp add: array_inv_def array_snap_def load_array_def)
qed

lemma snapshot_load:
  assumes "kernel_inv bd"
  shows "budgetFromSnapshot (captureSnapshot off bd)
    = publishLocked (bd\<lparr>wal_of := None, dir := [], replaying := False, readView := None\<rparr>)"
proof -
  have "load_map es_JobID load_escrow (map (escrow_snap \<circ> snd) (escrows bd)) = escrows bd"
    using assms by (intro load_map_snap) (auto simp: kernel_inv_def load_escrow_snap elim!: mall_mono)
  moreover have "load_map as_ArrayID load_array (map (array_snap \<circ> snd) (arrays bd)) = arrays bd"
    using assms by (intro load_map_snap) (auto simp: kernel_inv_def load_array_snap elim!: mall_mono)
  ultimately show ?thesis
    by (simp add: budgetFromSnapshot_def captureSnapshot_def publishLocked_def)
qed

text \<open>
  C12: a snapshot loses nothing. For every state a history of a new budget reaches, rebuilding a
  budget from its snapshot gives back the same budget: every field of the ledger, of the
  configuration and of the burst bucket, and every escrow, array and task; only the log handle, the
  directory and the replay flag start afresh.
\<close>

theorem snapshot_roundtrip:
  assumes "reaches exec (New c b0 ts te) bd"
  shows "budgetFromSnapshot (captureSnapshot off bd)
    = publishLocked (bd\<lparr>wal_of := None, dir := [], replaying := False, readView := None\<rparr>)"
  using books.reaches_inv [OF assms kernel_inv_New] by (rule snapshot_load)

theorem snapshot_roundtrip_witness:
  "escrows (budgetFromSnapshot (captureSnapshot 7 (run_ops exec [OSubmit ''j'' 10 5, OSubmitArray ''a'' 2 4 5] (New 2 1000 0 100))))
   = escrows (run_ops exec [OSubmit ''j'' 10 5, OSubmitArray ''a'' 2 4 5] (New 2 1000 0 100))"
  by (simp only: snapshot_roundtrip [OF reaches_run] publish_sel) simp

end
