(* ===== verification/Go_Text.thy ===== *)
theory Go_Text
  imports Go_Json
begin

text \<open>
  What the daemon uses of Go's text libraries: formatted messages, \<open>filepath.Join\<close> with its path
  cleaning, \<open>time.ParseDuration\<close> and \<open>hex.EncodeToString\<close>.

  A formatted message is kept as the list of its pieces: literal text and the arguments of
  \<open>%q\<close>, \<open>%d\<close> and \<open>%g\<close>. Nothing in the daemon reads a message back, so the rendering of a quoted
  name does not matter.
\<close>

section \<open>Messages\<close>

datatype piece = PText string | PQuoted string | PInt i64 | PFloat f64

type_synonym msg = "piece list"

definition lit :: "string \<Rightarrow> msg" where
  "lit s = [PText s]"

fun err_msg :: "err \<Rightarrow> msg" where
  "err_msg ErrInsufficient = lit ''insufficient budget''"
| "err_msg ErrRateExceeded = lit ''burst rate exceeded''"
| "err_msg ErrLapsed = lit ''budget lapsed''"
| "err_msg ErrNotActive = lit ''budget not active''"
| "err_msg ErrNoSuchJob = lit ''no such escrow''"
| "err_msg ErrBadState = lit ''illegal transition''"
| "err_msg ErrBurstDrawCap = lit ''burst draw cap exceeded''"
| "err_msg ErrBurstInsuff = lit ''insufficient burst banked''"
| "err_msg (ErrText s) = lit s"

section \<open>Paths\<close>

fun split_at :: "char \<Rightarrow> string \<Rightarrow> string list" where
  "split_at x [] = [[]]"
| "split_at x (c # s) =
     (if c = x then [] # split_at x s
      else case split_at x s of [] \<Rightarrow> [[c]] | seg # segs \<Rightarrow> (c # seg) # segs)"

fun join_with :: "string \<Rightarrow> string list \<Rightarrow> string" where
  "join_with x [] = []"
| "join_with x [s] = s"
| "join_with x (s # ss) = s @ x @ join_with x ss"

text \<open>One path element after the elements kept so far (the last one first).\<close>

definition clean_elem :: "bool \<Rightarrow> string \<Rightarrow> string list \<Rightarrow> string list" where
  "clean_elem rooted seg out =
     (if seg = [] \<or> seg = ''.'' then out
      else if seg = ''..'' then
        (case out of
           [] \<Rightarrow> if rooted then [] else [seg]
         | seg0 # out' \<Rightarrow> if seg0 = ''..'' then seg # out else out')
      else seg # out)"

definition path_clean :: "string \<Rightarrow> string" where
  "path_clean p =
     (let rooted = (p \<noteq> [] \<and> hd p = CHR ''/'');
          out = rev (fold (clean_elem rooted) (split_at (CHR ''/'') p) []);
          s = (if rooted then ''/'' else []) @ join_with ''/'' out
      in if s = [] then ''.'' else s)"

text \<open>\<open>filepath.Join\<close> of two elements: empty ones are ignored.\<close>

definition path_join :: "string \<Rightarrow> string \<Rightarrow> string" where
  "path_join a b =
     (if a = [] then (if b = [] then [] else path_clean b)
      else if b = [] then path_clean a else path_clean (a @ ''/'' @ b))"

text \<open>\<open>filepath.Base\<close>.\<close>

definition path_base :: "string \<Rightarrow> string" where
  "path_base p =
     (if p = [] then ''.''
      else let q = rev (dropWhile (\<lambda>c. c = CHR ''/'') (rev p))
           in if q = [] then ''/'' else last (split_at (CHR ''/'') q))"

section \<open>Durations\<close>

text \<open>
  \<open>time.ParseDuration\<close>, in nanoseconds. Go computes in \<open>uint64\<close>; the checks keep every value but the running
  total \<open>d\<close> below \<open>2 ^ 64\<close>, and \<open>d\<close> is reduced as Go does.
\<close>

definition unit_ns :: "string \<Rightarrow> int option" where
  "unit_ns u =
     (if u = ''ns'' then Some 1
      else if u = ''us'' \<or> u = [CHR 0xC2, CHR 0xB5, CHR ''s''] \<or> u = [CHR 0xCE, CHR 0xBC, CHR ''s''] then Some 1000
      else if u = ''ms'' then Some 1000000
      else if u = ''s'' then Some 1000000000
      else if u = ''m'' then Some 60000000000
      else if u = ''h'' then Some 3600000000000
      else None)"

text \<open>\<open>leadingInt\<close>: \<open>None\<close> on overflow.\<close>

fun leadingInt :: "int \<Rightarrow> string \<Rightarrow> (int \<times> string) option" where
  "leadingInt x [] = Some (x, [])"
| "leadingInt x (c # s) =
     (if \<not> is_digit c then Some (x, c # s)
      else if 2 ^ 63 div 10 < x then None
      else let x' = x * 10 + (byte_val c - 48) in if 2 ^ 63 < x' then None else leadingInt x' s)"

text \<open>\<open>leadingFraction\<close>: once a digit would overflow, it and the later ones are skipped.\<close>

fun leadingFraction :: "int \<Rightarrow> f64 \<Rightarrow> bool \<Rightarrow> string \<Rightarrow> int \<times> f64 \<times> string" where
  "leadingFraction x scale ovf [] = (x, scale, [])"
| "leadingFraction x scale ovf (c # s) =
     (if \<not> is_digit c then (x, scale, c # s)
      else if ovf then leadingFraction x scale True s
      else if (2 ^ 63 - 1) div 10 < x then leadingFraction x scale True s
      else let y = x * 10 + (byte_val c - 48)
           in if 2 ^ 63 < y then leadingFraction x scale True s
              else leadingFraction y (f64_mult scale 10) False s)"

lemma leadingInt_le: "leadingInt x s = Some (v, r) \<Longrightarrow> length r \<le> length s"
  by (induction s arbitrary: x v r) (auto simp: Let_def le_Suc_eq split: if_splits)

lemma leadingFraction_le: "leadingFraction x sc b s = (v, sc', r) \<Longrightarrow> length r \<le> length s"
  by (induction s arbitrary: x sc b v sc' r) (auto simp: Let_def le_Suc_eq split: if_splits)

text \<open>One \<open>number unit\<close> group: its nanoseconds and the rest of the text.\<close>

definition duration_group :: "string \<Rightarrow> (int \<times> string) option" where
  "duration_group s =
     (if s = [] \<or> \<not> (hd s = CHR ''.'' \<or> is_digit (hd s)) then None
      else case leadingInt 0 s of
        None \<Rightarrow> None
      | Some (v, s1) \<Rightarrow>
          let pre = (length s \<noteq> length s1);
              dot = (s1 \<noteq> [] \<and> hd s1 = CHR ''.'');
              (f, scale, s2) = (if dot then leadingFraction 0 1 False (tl s1) else (0, 1, s1));
              post = (dot \<and> length (tl s1) \<noteq> length s2);
              u = takeWhile (\<lambda>c. \<not> (c = CHR ''.'' \<or> is_digit c)) s2;
              s3 = dropWhile (\<lambda>c. \<not> (c = CHR ''.'' \<or> is_digit c)) s2
          in if \<not> pre \<and> \<not> post \<or> u = [] then None
             else case unit_ns u of
               None \<Rightarrow> None
             | Some un \<Rightarrow>
                 if 2 ^ 63 div un < v then None
                 else let v' = v * un + (if 0 < f then trunc_rat (f64_mult (f64_round (of_int f)) (f64_div (of_int un) scale)) else 0)
                      in if 0 < f \<and> 2 ^ 63 < v' then None else Some (v', s3))"

lemma duration_group_shorter: "duration_group s = Some (v, r) \<Longrightarrow> length r < length s"
proof -
  assume g: "duration_group s = Some (v, r)"
  then obtain v0 s1 where s: "s \<noteq> []" "leadingInt 0 s = Some (v0, s1)"
    by (auto simp: duration_group_def split: if_splits option.splits)
  define s2 where "s2 = (if s1 \<noteq> [] \<and> hd s1 = CHR ''.'' then snd (snd (leadingFraction 0 1 False (tl s1))) else s1)"
  have "length (snd (snd (leadingFraction 0 1 False (tl s1)))) \<le> length (tl s1)"
    using leadingFraction_le [of 0 1 False "tl s1"] by (cases "leadingFraction 0 1 False (tl s1)") auto
  then have le: "length s2 \<le> length s" using leadingInt_le [OF s(2)] by (auto simp: s2_def)
  have "takeWhile (\<lambda>c. \<not> (c = CHR ''.'' \<or> is_digit c)) s2 \<noteq> []
      \<and> r = dropWhile (\<lambda>c. \<not> (c = CHR ''.'' \<or> is_digit c)) s2"
    using g s by (auto simp: duration_group_def s2_def Let_def case_prod_beta split: if_splits option.splits)
  then have "length r < length s2"
    by (metis dropWhile_eq_drop length_drop length_greater_0_conv length_takeWhile_le diff_less less_le_trans)
  with le show "length r < length s" by simp
qed

function duration_groups :: "int \<Rightarrow> string \<Rightarrow> int option" where
  "duration_groups d s =
     (if s = [] then Some d
      else case duration_group s of
        None \<Rightarrow> None
      | Some (v, r) \<Rightarrow> let d' = (d + v) mod 2 ^ 64 in if 2 ^ 63 < d' then None else duration_groups d' r)"
  by pat_completeness auto
termination
  by (relation "measure (\<lambda>(_, s). length s)") (auto dest: duration_group_shorter)

declare duration_groups.simps [simp del]

definition ParseDuration :: "string \<Rightarrow> i64 option" where
  "ParseDuration s =
     (let neg = (s \<noteq> [] \<and> hd s = CHR ''-'');
          s1 = (if s \<noteq> [] \<and> (hd s = CHR ''-'' \<or> hd s = CHR ''+'') then tl s else s)
      in if s1 = ''0'' then Some 0
         else if s1 = [] then None
         else case duration_groups 0 s1 of
                None \<Rightarrow> None
              | Some d \<Rightarrow> if neg then Some (word_of_int (- d)) else if 2 ^ 63 - 1 < d then None else Some (word_of_int d))"

section \<open>Hexadecimal text\<close>

definition hexEncode :: "string \<Rightarrow> string" where
  "hexEncode bs = concat (map (\<lambda>b. [hex_digit (byte_val b div 16), hex_digit (byte_val b mod 16)]) bs)"

end
