(* ===== verification/Wire_Messages.thy ===== *)
theory Wire_Messages
  imports Go_Text
begin

text \<open>
  The message types of the socket protocol (\<^verbatim>\<open>internal/wire/wire.go\<close>): the kinds, one record per request and
  response, and the \<open>frame\<close> that carries exactly one of them. A Go pointer field is an option, \<open>nil\<close> is
  \<open>None\<close>; the values ending in \<open>0\<close> are the zero values of the types.
  The texts made for people (\<open>Reason\<close>, \<open>Decision\<close>) are messages as of \<open>Go_Text\<close>.
\<close>

section \<open>Kinds\<close>

definition KindGate :: string where "KindGate = ''gate''"
definition KindBind :: string where "KindBind = ''bind''"
definition KindSettle :: string where "KindSettle = ''settle''"
definition KindPing :: string where "KindPing = ''ping''"
definition KindStatus :: string where "KindStatus = ''status''"
definition KindTopUp_w :: string where "KindTopUp_w = ''topup''"
definition KindList :: string where "KindList = ''list''"
definition KindLog :: string where "KindLog = ''log''"
definition KindSetRate_w :: string where "KindSetRate_w = ''set_rate''"
definition KindSetWindow_w :: string where "KindSetWindow_w = ''set_window''"
definition KindResolve :: string where "KindResolve = ''resolve''"
definition KindSimulate :: string where "KindSimulate = ''simulate''"
definition KindCreate :: string where "KindCreate = ''create''"
definition KindAttach :: string where "KindAttach = ''attach''"
definition KindTransfer :: string where "KindTransfer = ''transfer''"
definition KindDispatch :: string where "KindDispatch = ''dispatch''"
definition KindReconcile :: string where "KindReconcile = ''reconcile''"
definition KindSetBurst_w :: string where "KindSetBurst_w = ''set_burst''"

definition SettleComplete :: string where "SettleComplete = ''complete''"
definition SettleTimeout :: string where "SettleTimeout = ''timeout''"
definition SettleCancel :: string where "SettleCancel = ''cancel''"
definition SettleInfraFail :: string where "SettleInfraFail = ''infrafail''"

lemmas wire_kind_defs =
  KindGate_def KindBind_def KindSettle_def KindPing_def KindStatus_def KindTopUp_w_def KindList_def KindLog_def KindSetRate_w_def KindSetWindow_w_def KindResolve_def KindSimulate_def KindCreate_def KindAttach_def KindTransfer_def KindDispatch_def KindReconcile_def KindSetBurst_w_def

lemmas settle_kind_defs = SettleComplete_def SettleTimeout_def SettleCancel_def SettleInfraFail_def

section \<open>Messages\<close>

record tres =
  tr_CPUs :: i64
  tr_GPUs :: i64
  tr_Mem :: i64

record gateRequest =
  gq_Account :: string
  gq_Partition :: string
  gq_UID :: "32 word"
  gq_TimeLimit :: i64
  gq_TRES :: tres
  gq_NTasks :: i64
  gq_Sources :: "string list"

record gateResponse =
  gp_Allow :: bool
  gp_Token :: string
  gp_Reason :: msg

definition gateResponse0 :: gateResponse where
  "gateResponse0 = \<lparr>gp_Allow = False, gp_Token = [], gp_Reason = []\<rparr>"

record bindRequest =
  bq_Token :: string
  bq_JobID :: string
  bq_NodeType :: string
  bq_IsArrayTask :: bool
  bq_Idx :: i64

record bindResponse =
  bp_OK :: bool
  bp_Reason :: msg

record settleRequest =
  sq_Token :: string
  sq_JobID :: string
  sq_Kind :: string
  sq_Runtime :: i64
  sq_Elapsed :: i64
  sq_IsArrayTask :: bool
  sq_Idx :: i64

record settleResponse =
  sp_OK :: bool
  sp_Reason :: msg

record statusRequest =
  stq_Account :: string

record statusResponse =
  stp_C :: i64
  stp_B0 :: i64
  stp_B :: i64
  stp_Reserved :: i64
  stp_Consumed :: i64
  stp_WriteOff :: i64
  stp_TS :: i64
  stp_TE :: i64
  stp_LiveEscrows :: nat
  stp_LiveArrays :: nat
  stp_BurstEnabled :: bool
  stp_BurstPot :: i64
  stp_BurstCeiling :: i64
  stp_RLive :: i64
  stp_Lapsed :: bool
  stp_ConservationOK :: bool
  stp_ConservationSum :: i64
  stp_TimeToEmpty :: i64
  stp_Account :: string
  stp_OK :: bool
  stp_Reason :: msg

definition statusResponse0 :: statusResponse where
  "statusResponse0 = \<lparr>stp_C = 0, stp_B0 = 0, stp_B = 0, stp_Reserved = 0, stp_Consumed = 0, stp_WriteOff = 0, stp_TS = 0, stp_TE = 0, stp_LiveEscrows = 0, stp_LiveArrays = 0, stp_BurstEnabled = False, stp_BurstPot = 0, stp_BurstCeiling = 0, stp_RLive = 0, stp_Lapsed = False, stp_ConservationOK = False, stp_ConservationSum = 0, stp_TimeToEmpty = 0, stp_Account = [], stp_OK = False, stp_Reason = []\<rparr>"

record topUpRequest =
  tq_Account :: string
  tq_Amount :: i64

record topUpResponse =
  tp_OK :: bool
  tp_Reason :: msg
  tp_NewBalance :: i64
  tp_NewB0 :: i64

definition topUpResponse0 :: topUpResponse where
  "topUpResponse0 = \<lparr>tp_OK = False, tp_Reason = [], tp_NewBalance = 0, tp_NewB0 = 0\<rparr>"

record listAccount =
  la_Account :: string
  la_B :: i64
  la_B0 :: i64
  la_Reserved :: i64
  la_Consumed :: i64
  la_Live :: nat
  la_Lapsed :: bool

record listResponse =
  lsp_OK :: bool
  lsp_Reason :: msg
  lsp_Accounts :: "listAccount list"

definition listResponse0 :: listResponse where
  "listResponse0 = \<lparr>lsp_OK = False, lsp_Reason = [], lsp_Accounts = []\<rparr>"

record setRateRequest =
  srq_Account :: string
  srq_Rate :: i64

record setWindowRequest =
  swq_Account :: string
  swq_TS :: i64
  swq_TE :: i64

record setBurstRequest =
  sbq_Account :: string
  sbq_Enabled :: bool
  sbq_CeilingPct :: f64
  sbq_DrawCap :: i64

record ackResponse =
  ak_OK :: bool
  ak_Reason :: msg

record resolveRequest =
  rq_Account :: string
  rq_Partition :: string
  rq_UID :: "32 word"
  rq_TimeLimit :: i64
  rq_TRES :: tres

record resolveResponse =
  rp_OK :: bool
  rp_Reason :: msg
  rp_Account :: string
  rp_Resolved :: bool
  rp_Rate :: i64
  rp_RateSource :: string
  rp_Balance :: i64
  rp_Cost :: i64
  rp_Authorized :: bool
  rp_Admits :: bool
  rp_Decision :: msg

definition resolveResponse0 :: resolveResponse where
  "resolveResponse0 = \<lparr>rp_OK = False, rp_Reason = [], rp_Account = [], rp_Resolved = False, rp_Rate = 0, rp_RateSource = [], rp_Balance = 0, rp_Cost = 0, rp_Authorized = False, rp_Admits = False, rp_Decision = []\<rparr>"

record simulateRequest =
  mq_Account :: string
  mq_Partition :: string
  mq_TimeLimit :: i64
  mq_TRES :: tres

record simulateResponse =
  mp_OK :: bool
  mp_Reason :: msg
  mp_Account :: string
  mp_Rate :: i64
  mp_RateSource :: string
  mp_Cost :: i64
  mp_Balance :: i64
  mp_Admit :: bool
  mp_Deny :: string
  mp_Runway :: i64

definition simulateResponse0 :: simulateResponse where
  "simulateResponse0 = \<lparr>mp_OK = False, mp_Reason = [], mp_Account = [], mp_Rate = 0, mp_RateSource = [], mp_Cost = 0, mp_Balance = 0, mp_Admit = False, mp_Deny = [], mp_Runway = 0\<rparr>"

record createRequest =
  cq_Account :: string
  cq_Balance :: i64
  cq_Rate :: i64
  cq_Window :: string
  cq_AllowUsers :: "string list"
  cq_AllowGroups :: "string list"
  cq_BurstEnabled :: bool
  cq_BurstCeilingPct :: f64
  cq_BurstDrawCap :: i64

record attachRequest =
  aq_Account :: string
  aq_Users :: "string list"
  aq_Groups :: "string list"
  aq_Detach :: bool

record attachResponse =
  ap_OK :: bool
  ap_Reason :: msg
  ap_AllowUsers :: "string list"
  ap_AllowGroups :: "string list"

definition attachResponse0 :: attachResponse where
  "attachResponse0 = \<lparr>ap_OK = False, ap_Reason = [], ap_AllowUsers = [], ap_AllowGroups = []\<rparr>"

record transferRequest =
  xq_From :: string
  xq_To :: string
  xq_Amount :: i64
  xq_All :: bool

record transferResponse =
  xp_OK :: bool
  xp_Reason :: msg
  xp_Moved :: i64
  xp_FromBalance :: i64
  xp_ToBalance :: i64

definition transferResponse0 :: transferResponse where
  "transferResponse0 = \<lparr>xp_OK = False, xp_Reason = [], xp_Moved = 0, xp_FromBalance = 0, xp_ToBalance = 0\<rparr>"

record dispatchRequest =
  dq_Account :: string
  dq_Partition :: string
  dq_TimeLimit :: i64
  dq_TRES :: tres

record dispatchResponse =
  dp_OK :: bool
  dp_Reason :: msg
  dp_Account :: string
  dp_Rate :: i64
  dp_RateSource :: string
  dp_Dispatch :: bool
  dp_Hold :: string
  dp_Reserve :: i64
  dp_Pot :: i64

definition dispatchResponse0 :: dispatchResponse where
  "dispatchResponse0 = \<lparr>dp_OK = False, dp_Reason = [], dp_Account = [], dp_Rate = 0, dp_RateSource = [], dp_Dispatch = False, dp_Hold = [], dp_Reserve = 0, dp_Pot = 0\<rparr>"

record reconcileRequest =
  ocq_LiveJobIDs :: "string list"

record reconcileResponse =
  ocp_OK :: bool
  ocp_Reason :: msg
  ocp_Swept :: nat

definition reconcileResponse0 :: reconcileResponse where
  "reconcileResponse0 = \<lparr>ocp_OK = False, ocp_Reason = [], ocp_Swept = 0\<rparr>"

record logRequest =
  lgq_Account :: string

record wireLogEntry =
  wl_Kind :: string
  wl_JobID :: string
  wl_ArrayID :: string
  wl_Idx :: i64
  wl_N :: i64
  wl_Rate :: i64
  wl_W :: i64
  wl_Runtime :: i64
  wl_Elapsed :: i64
  wl_Amount :: i64
  wl_TS :: i64
  wl_TE :: i64
  wl_Xfer :: string
  wl_Now :: i64

record logResponse =
  lgp_OK :: bool
  lgp_Reason :: msg
  lgp_Account :: string
  lgp_Entries :: "wireLogEntry list"

definition logResponse0 :: logResponse where
  "logResponse0 = \<lparr>lgp_OK = False, lgp_Reason = [], lgp_Account = [], lgp_Entries = []\<rparr>"

record frame =
  fr_Version :: i64
  fr_MsgKind :: string
  fr_Auth :: string
  fr_Gate :: "gateRequest option"
  fr_Bind :: "bindRequest option"
  fr_Settle :: "settleRequest option"
  fr_Status :: "statusRequest option"
  fr_TopUp :: "topUpRequest option"
  fr_List :: "unit option"
  fr_Log :: "logRequest option"
  fr_SetRate :: "setRateRequest option"
  fr_SetWindow :: "setWindowRequest option"
  fr_Resolve :: "resolveRequest option"
  fr_Simulate :: "simulateRequest option"
  fr_Create :: "createRequest option"
  fr_Attach :: "attachRequest option"
  fr_Transfer :: "transferRequest option"
  fr_Dispatch :: "dispatchRequest option"
  fr_Reconcile :: "reconcileRequest option"
  fr_SetBurst :: "setBurstRequest option"
  fr_GateResp :: "gateResponse option"
  fr_BindResp :: "bindResponse option"
  fr_SettleResp :: "settleResponse option"
  fr_StatusResp :: "statusResponse option"
  fr_TopUpResp :: "topUpResponse option"
  fr_ListResp :: "listResponse option"
  fr_LogResp :: "logResponse option"
  fr_AckResp :: "ackResponse option"
  fr_ResolveResp :: "resolveResponse option"
  fr_SimulateResp :: "simulateResponse option"
  fr_AttachResp :: "attachResponse option"
  fr_TransferResp :: "transferResponse option"
  fr_DispatchResp :: "dispatchResponse option"
  fr_ReconcileResp :: "reconcileResponse option"

definition frame0 :: frame where
  "frame0 = \<lparr>fr_Version = 0, fr_MsgKind = [], fr_Auth = [], fr_Gate = None, fr_Bind = None, fr_Settle = None, fr_Status = None, fr_TopUp = None, fr_List = None, fr_Log = None, fr_SetRate = None, fr_SetWindow = None, fr_Resolve = None, fr_Simulate = None, fr_Create = None, fr_Attach = None, fr_Transfer = None, fr_Dispatch = None, fr_Reconcile = None, fr_SetBurst = None, fr_GateResp = None, fr_BindResp = None, fr_SettleResp = None, fr_StatusResp = None, fr_TopUpResp = None, fr_ListResp = None, fr_LogResp = None, fr_AckResp = None, fr_ResolveResp = None, fr_SimulateResp = None, fr_AttachResp = None, fr_TransferResp = None, fr_DispatchResp = None, fr_ReconcileResp = None\<rparr>"

end
