(* ===== verification/Config.thy ===== *)
theory Config
  imports Durable Wire_Messages
begin

text \<open>
  The daemon's configuration and its pricing (\<^verbatim>\<open>internal/daemon/config.go\<close>, \<^verbatim>\<open>cost.go\<close>): accounts,
  node-type rates and partitions, their validation, TRES weights and the node-type rate tables. A configuration is
  the decoded value; reading the file is in \<open>Obold\<close>.
\<close>

section \<open>Configuration\<close>

record nodeRate =
  nr_Rate :: i64
  nr_Per :: string

definition go_mod :: "i64 \<Rightarrow> i64 \<Rightarrow> i64" where
  "go_mod a b = word_of_int (sint a smod sint b)"

definition per_div :: "string \<Rightarrow> i64 option" where
  "per_div p =
     (if p = [] \<or> p = ''s'' then Some 1 else if p = ''m'' then Some 60 else if p = ''h'' then Some 3600 else None)"

definition perSecond :: "nodeRate \<Rightarrow> msg + i64" where
  "perSecond r =
     (case per_div (nr_Per r) of
        None \<Rightarrow> Inl [PText ''bad per '', PQuoted (nr_Per r), PText '' (want s|m|h)'']
      | Some dv \<Rightarrow>
          if nr_Rate r \<le>s 0 then Inl (lit ''rate must be positive'')
          else if go_mod (nr_Rate r) dv \<noteq> 0
          then Inl [PText ''rate '', PInt (nr_Rate r), PText '' per '', PQuoted (nr_Per r),
                    PText '' is not a whole number of units/second ('', PInt dv, PText '' does not divide '', PInt (nr_Rate r), PText '')'']
          else Inr (go_div (nr_Rate r) dv))"

record partitionConfig =
  pc_Name :: string
  pc_NodeTypes :: "string list"

record accountConfig =
  ac_Name :: string
  ac_Balance :: i64
  ac_Rate :: i64
  ac_Window :: string
  ac_AllowUsers :: "string list"
  ac_AllowGroups :: "string list"
  ac_BurstEnabled :: bool
  ac_BurstCeilingPct :: f64
  ac_BurstDrawCap :: i64

definition account0 :: accountConfig where
  "account0 = \<lparr>ac_Name = [], ac_Balance = 0, ac_Rate = 0, ac_Window = [], ac_AllowUsers = [], ac_AllowGroups = [],
     ac_BurstEnabled = False, ac_BurstCeilingPct = 0, ac_BurstDrawCap = 0\<rparr>"

record config =
  cf_Accounts :: "accountConfig list"
  cf_AdminUsers :: "string list"
  cf_AdminGroups :: "string list"
  cf_NodeTypes :: "(string, nodeRate) gomap"
  cf_Partitions :: "partitionConfig list"

definition account_burstConfig :: "accountConfig \<Rightarrow> burstConfig" where
  "account_burstConfig a =
     \<lparr>bc_Enabled = ac_BurstEnabled a, bc_CeilingPct = ac_BurstCeilingPct a, bc_DrawCap = ac_BurstDrawCap a\<rparr>"

definition account_msg :: "accountConfig \<Rightarrow> msg \<Rightarrow> msg" where
  "account_msg a m = [PText ''account '', PQuoted (ac_Name a)] @ m"

definition validateBurst :: "accountConfig \<Rightarrow> msg option" where
  "validateBurst a =
     (if \<not> ac_BurstEnabled a then
        (if ac_BurstCeilingPct a \<noteq> 0 \<or> ac_BurstDrawCap a \<noteq> 0
         then Some (account_msg a (lit '': burst_ceiling_pct/burst_draw_cap set but burst_enabled is false''))
         else None)
      else if ac_BurstCeilingPct a \<le> 0 \<or> 1 < ac_BurstCeilingPct a
      then Some (account_msg a [PText '': burst_ceiling_pct must be in (0, 1], got '', PFloat (ac_BurstCeilingPct a)])
      else if ac_BurstDrawCap a <s 0 then Some (account_msg a (lit '': burst_draw_cap must be >= 0''))
      else None)"

text \<open>A window in nanoseconds; 30 days when none is given.\<close>

definition windowOrDefault :: "accountConfig \<Rightarrow> msg + i64" where
  "windowOrDefault a =
     (if ac_Window a = [] then Inr 2592000000000000
      else case ParseDuration (ac_Window a) of
             None \<Rightarrow> Inl (account_msg a [PText '': bad window '', PQuoted (ac_Window a)])
           | Some d \<Rightarrow> if d \<le>s 0 then Inl (account_msg a (lit '': window must be positive'')) else Inr d)"

definition restricted :: "accountConfig \<Rightarrow> bool" where
  "restricted a \<longleftrightarrow> ac_AllowUsers a \<noteq> [] \<or> ac_AllowGroups a \<noteq> []"

section \<open>Validation\<close>

fun validate_accounts :: "string set \<Rightarrow> accountConfig list \<Rightarrow> msg option" where
  "validate_accounts seen [] = None"
| "validate_accounts seen (a # as) =
     (if ac_Name a = [] then Some (lit ''account with empty name'')
      else if ac_Name a \<in> seen then Some [PText ''duplicate account '', PQuoted (ac_Name a)]
      else if ac_Balance a <s 0 then Some (account_msg a (lit '': negative balance''))
      else if ac_Rate a \<le>s 0 then Some (account_msg a (lit '': rate must be positive''))
      else case windowOrDefault a of
             Inl e \<Rightarrow> Some e
           | Inr _ \<Rightarrow>
               (case validateBurst a of Some e \<Rightarrow> Some e | None \<Rightarrow> validate_accounts (insert (ac_Name a) seen) as))"

fun validate_nodes :: "(string, nodeRate) gomap \<Rightarrow> msg option" where
  "validate_nodes [] = None"
| "validate_nodes ((name, nr) # nts) =
     (case perSecond nr of
        Inl e \<Rightarrow> Some ([PText ''node_type '', PQuoted name, PText '': ''] @ e)
      | Inr _ \<Rightarrow> validate_nodes nts)"

fun validate_partitions :: "(string, nodeRate) gomap \<Rightarrow> string set \<Rightarrow> partitionConfig list \<Rightarrow> msg option" where
  "validate_partitions nts pseen [] = None"
| "validate_partitions nts pseen (p # ps) =
     (if pc_Name p = [] then Some (lit ''partition with empty name'')
      else if pc_Name p \<in> pseen then Some [PText ''duplicate partition '', PQuoted (pc_Name p)]
      else if pc_NodeTypes p = [] then Some [PText ''partition '', PQuoted (pc_Name p), PText '': no node types'']
      else case find (\<lambda>nt. map_of nts nt = None) (pc_NodeTypes p) of
             Some nt \<Rightarrow> Some [PText ''partition '', PQuoted (pc_Name p), PText '': unknown node type '', PQuoted nt]
           | None \<Rightarrow> validate_partitions nts (insert (pc_Name p) pseen) ps)"

definition validate :: "config \<Rightarrow> msg option" where
  "validate c =
     (if cf_Accounts c = [] then Some (lit ''config has no accounts'')
      else case validate_accounts {} (cf_Accounts c) of
             Some e \<Rightarrow> Some e
           | None \<Rightarrow>
               (case validate_nodes (cf_NodeTypes c) of
                  Some e \<Rightarrow> Some e
                | None \<Rightarrow> validate_partitions (cf_NodeTypes c) {} (cf_Partitions c)))"

section \<open>Pricing\<close>

record weights =
  PerCPU :: Units
  PerGPU :: Units
  PerMem :: Units

definition weights_Zero :: "weights \<Rightarrow> bool" where
  "weights_Zero w \<longleftrightarrow> PerCPU w = 0 \<and> PerGPU w = 0 \<and> PerMem w = 0"

definition weights_Rate :: "weights \<Rightarrow> tres \<Rightarrow> Units" where
  "weights_Rate w t =
     (if weights_Zero w then 0 else PerCPU w * tr_CPUs t + PerGPU w * tr_GPUs t + PerMem w * tr_Mem t)"

record nodeCost =
  nc_rates :: "(string, Units) gomap"
  nc_partitions :: "(string, string list) gomap"

fun build_rates :: "(string, nodeRate) gomap \<Rightarrow> (string, Units) gomap \<Rightarrow> msg + (string, Units) gomap" where
  "build_rates [] m = Inr m"
| "build_rates ((name, nr) # nts) m =
     (case perSecond nr of Inl e \<Rightarrow> Inl e | Inr ps \<Rightarrow> build_rates nts (AList.update name ps m))"

definition BuildNodeCost :: "config \<Rightarrow> msg + nodeCost" where
  "BuildNodeCost cfg =
     (case build_rates (cf_NodeTypes cfg) [] of
        Inl e \<Rightarrow> Inl e
      | Inr rates \<Rightarrow>
          Inr \<lparr>nc_rates = rates,
               nc_partitions = fold (\<lambda>p m. AList.update (pc_Name p) (pc_NodeTypes p) m) (cf_Partitions cfg) []\<rparr>)"

text \<open>A \<open>nil\<close> table prices nothing. A missing map entry reads as the zero value.\<close>

definition enabled :: "nodeCost option \<Rightarrow> bool" where
  "enabled nc = (case nc of None \<Rightarrow> False | Some n \<Rightarrow> nc_rates n \<noteq> [])"

definition lookup0 :: "(string, Units) gomap \<Rightarrow> string \<Rightarrow> Units" where
  "lookup0 m k = (case map_of m k of None \<Rightarrow> 0 | Some r \<Rightarrow> r)"

definition rate :: "nodeCost option \<Rightarrow> string \<Rightarrow> Units" where
  "rate nc nodeType = (case nc of None \<Rightarrow> 0 | Some n \<Rightarrow> lookup0 (nc_rates n) nodeType)"

definition worstRate :: "nodeCost option \<Rightarrow> string \<Rightarrow> Units" where
  "worstRate nc part =
     (case nc of
        None \<Rightarrow> 0
      | Some n \<Rightarrow>
          fold (\<lambda>nt worst. let r = lookup0 (nc_rates n) nt in if worst <s r then r else worst)
            (case map_of (nc_partitions n) part of None \<Rightarrow> [] | Some nts \<Rightarrow> nts) 0)"

section \<open>Rates are exact and the worst case is the worst\<close>

lemma per_div_pos: "per_div p = Some dv \<Longrightarrow> 0 < sint dv"
  by (auto simp: per_div_def split: if_splits)

lemma perSecond_Inr:
  assumes "perSecond r = Inr p" "per_div (nr_Per r) = Some dv"
  shows "0 < sint p \<and> sint p * sint dv = sint (nr_Rate r)"
proof -
  have dv: "0 < sint dv" using per_div_pos [OF assms(2)] .
  have r: "0 < sint (nr_Rate r)" and m: "go_mod (nr_Rate r) dv = 0" and p: "p = go_div (nr_Rate r) dv"
    using assms by (auto simp: perSecond_def i64_simps split: if_splits)
  have sm: "sint (nr_Rate r) smod sint dv = sint (nr_Rate r) mod sint dv"
    using r dv by (simp add: signed_modulo_int_def sdiv_nonneg minus_div_mult_eq_mod)
  have "fits64 (sint (nr_Rate r) mod sint dv)"
    using r dv by - (rule fits64_nonneg_le [of _ "sint (nr_Rate r)"], simp_all add: zmod_le_nonneg_dividend)
  then have md: "sint (nr_Rate r) mod sint dv = 0"
    using m sm by (metis go_mod_def signed_0 sint_of_int_exact)
  have "sint p = sint (nr_Rate r) div sint dv" unfolding p using r dv by (intro sint_go_div) auto
  then have "sint p * sint dv = sint (nr_Rate r)" using md by (metis mult.commute mod_0_imp_dvd dvd_mult_div_cancel)
  with r dv show ?thesis by (metis zero_less_mult_pos2)
qed

text \<open>
  A node rate is never rounded. If \<open>perSecond\<close> accepts a rate, its result is positive and, times the seconds of
  the unit the rate is given in (1, 60 or 3600), is exactly that rate; so an hour on the node costs exactly the configured amount.
\<close>

lemma perSecond_exact:
  assumes "perSecond r = Inr p"
  shows "0 <s p \<and> (\<exists>dv \<in> {1, 60, 3600}. sint p * dv = sint (nr_Rate r))"
proof -
  obtain dv where dv: "per_div (nr_Per r) = Some dv"
    using assms by (cases "per_div (nr_Per r)") (auto simp: perSecond_def)
  moreover from this have "sint dv \<in> {1, 60, 3600}" by (auto simp: per_div_def split: if_splits)
  ultimately show ?thesis using perSecond_Inr [OF assms dv] by (auto simp: i64_simps)
qed

lemma perSecond_exact_witness:
  "perSecond \<lparr>nr_Rate = 7200, nr_Per = ''h''\<rparr> = Inr 2 \<and> 0 <s (2 :: i64)
   \<and> (\<exists>dv \<in> {1, 60, 3600}. sint (2 :: i64) * dv = sint (7200 :: i64))"
proof -
  have p: "perSecond \<lparr>nr_Rate = 7200, nr_Per = ''h''\<rparr> = Inr 2" by code_simp
  show ?thesis using p perSecond_exact [OF p] by simp
qed

lemma build_rates_ok:
  assumes "validate_nodes nts = None" "\<forall>k r. map_of m k = Some r \<longrightarrow> 0 < sint r"
  shows "\<exists>m'. build_rates nts m = Inr m' \<and> (\<forall>k r. map_of m' k = Some r \<longrightarrow> 0 < sint r)
    \<and> (\<forall>k. map_of m' k = None \<longleftrightarrow> map_of nts k = None \<and> map_of m k = None)"
  using assms
proof (induction nts arbitrary: m)
  case (Cons kv nts)
  obtain k nr where kv: "kv = (k, nr)" by (cases kv)
  obtain ps where ps: "perSecond nr = Inr ps" using Cons.prems(1) kv by (cases "perSecond nr") auto
  then obtain dv where "per_div (nr_Per nr) = Some dv"
    by (cases "per_div (nr_Per nr)") (auto simp: perSecond_def)
  then have "0 < sint ps" using perSecond_Inr [OF ps] by blast
  then have "\<forall>k' r. map_of (AList.update k ps m) k' = Some r \<longrightarrow> 0 < sint r"
    using Cons.prems(2) by (auto simp: map_of_update split: if_splits)
  moreover have "validate_nodes nts = None" using Cons.prems(1) kv ps by simp
  ultimately show ?case using Cons.IH [of "AList.update k ps m"] kv ps by (auto simp: map_of_update split: if_splits)
qed simp

lemma validate_partitions_None:
  assumes "validate_partitions nts seen ps = None"
  shows "distinct (map pc_Name ps) \<and> (\<forall>p \<in> set ps. pc_Name p \<notin> seen \<and> pc_NodeTypes p \<noteq> []
    \<and> (\<forall>nt \<in> set (pc_NodeTypes p). map_of nts nt \<noteq> None))"
  using assms
proof (induction ps arbitrary: seen)
  case (Cons p ps)
  then have "validate_partitions nts (insert (pc_Name p) seen) ps = None"
    by (auto split: if_splits option.splits)
  from Cons.IH [OF this] Cons.prems show ?case by (auto simp: find_None_iff split: if_splits option.splits)
qed simp

lemma fold_max_rate:
  fixes f :: "string \<Rightarrow> Units"
  shows "let m = fold (\<lambda>nt worst. let r = f nt in if worst <s r then r else worst) nts w in
    sint w \<le> sint m \<and> (\<forall>nt \<in> set nts. sint (f nt) \<le> sint m) \<and> (m = w \<or> (\<exists>nt \<in> set nts. m = f nt))"
proof (induction nts arbitrary: w)
  case (Cons nt nts)
  show ?case
    using Cons [of "if w <s f nt then f nt else w"] unfolding Let_def
    by (auto simp: i64_simps split: if_splits)
qed simp

lemma worstRate_max:
  assumes "map_of (nc_partitions n) p = Some nts"
  shows "(\<forall>nt \<in> set nts. rate (Some n) nt \<le>s worstRate (Some n) p) \<and> 0 \<le>s worstRate (Some n) p
    \<and> (worstRate (Some n) p = 0 \<or> (\<exists>nt \<in> set nts. worstRate (Some n) p = rate (Some n) nt))"
  using fold_max_rate [of "lookup0 (nc_rates n)" nts 0] assms
  by (simp add: worstRate_def rate_def Let_def i64_simps)

text \<open>
  C19: a validated configuration prices every partition, and by its dearest node. If \<open>validate\<close> finds no
  fault then \<open>BuildNodeCost\<close> succeeds, and for every configured partition the worst-case rate is positive, is the rate of one of its node
  types, and is no less than that of any other; each of those rates is positive. So the gate's reservation
  covers whatever node the job lands on, and the repricing at bind is always within its bounds.
\<close>

theorem validated_config_prices_partitions:
  assumes "validate cfg = None"
  shows "\<exists>nc. BuildNodeCost cfg = Inr nc \<and> (\<forall>p \<in> set (cf_Partitions cfg). 0 <s worstRate (Some nc) (pc_Name p)
    \<and> (\<exists>nt \<in> set (pc_NodeTypes p). rate (Some nc) nt = worstRate (Some nc) (pc_Name p))
    \<and> (\<forall>nt \<in> set (pc_NodeTypes p). 0 <s rate (Some nc) nt \<and> rate (Some nc) nt \<le>s worstRate (Some nc) (pc_Name p)))"
proof -
  have vn: "validate_nodes (cf_NodeTypes cfg) = None"
    and vp: "validate_partitions (cf_NodeTypes cfg) {} (cf_Partitions cfg) = None"
    using assms by (auto simp: validate_def split: if_splits option.splits)
  obtain m where m: "build_rates (cf_NodeTypes cfg) [] = Inr m" "\<forall>k r. map_of m k = Some r \<longrightarrow> 0 < sint r"
      "\<forall>k. map_of m k = None \<longleftrightarrow> map_of (cf_NodeTypes cfg) k = None"
    using build_rates_ok [OF vn, of "[]"] by auto
  note P = validate_partitions_None [OF vp]
  define nc where "nc = \<lparr>nc_rates = m, nc_partitions = map (\<lambda>p. (pc_Name p, pc_NodeTypes p)) (cf_Partitions cfg)\<rparr>"
  have "BuildNodeCost cfg = Inr nc"
    using P fold_update_distinct [of pc_Name "cf_Partitions cfg" "[]" pc_NodeTypes] by (simp add: BuildNodeCost_def m(1) nc_def)
  moreover have "0 <s worstRate (Some nc) (pc_Name p)
    \<and> (\<exists>nt \<in> set (pc_NodeTypes p). rate (Some nc) nt = worstRate (Some nc) (pc_Name p))
    \<and> (\<forall>nt \<in> set (pc_NodeTypes p). 0 <s rate (Some nc) nt \<and> rate (Some nc) nt \<le>s worstRate (Some nc) (pc_Name p))"
    if p: "p \<in> set (cf_Partitions cfg)" for p
  proof -
    have "map_of (nc_partitions nc) (pc_Name p) = Some (pc_NodeTypes p)"
      using P p by (simp add: nc_def map_of_eq_Some_iff comp_def)
    note W = worstRate_max [OF this]
    have pos: "0 < sint (rate (Some nc) nt)" if "nt \<in> set (pc_NodeTypes p)" for nt
    proof -
      have "map_of m nt \<noteq> None" using P p that m(3) by blast
      with m(2) show ?thesis by (auto simp: nc_def rate_def lookup0_def)
    qed
    obtain nt0 where "nt0 \<in> set (pc_NodeTypes p)" using P p by fastforce
    with pos W have "0 < sint (worstRate (Some nc) (pc_Name p))" by (fastforce simp: i64_simps)
    moreover from this have "worstRate (Some nc) (pc_Name p) \<noteq> 0" by auto
    ultimately show ?thesis using W pos by (auto simp: i64_simps)
  qed
  ultimately show ?thesis by blast
qed

definition sample_config :: config where
  "sample_config = \<lparr>cf_Accounts = [account0\<lparr>ac_Name := ''lab'', ac_Balance := 1000, ac_Rate := 1\<rparr>], cf_AdminUsers = [],
     cf_AdminGroups = [], cf_NodeTypes = [(''cpu'', \<lparr>nr_Rate = 3600, nr_Per = ''h''\<rparr>), (''gpu'', \<lparr>nr_Rate = 120, nr_Per = ''m''\<rparr>)],
     cf_Partitions = [\<lparr>pc_Name = ''batch'', pc_NodeTypes = [''cpu'', ''gpu'']\<rparr>]\<rparr>"

theorem validated_config_prices_partitions_witness:
  "validate sample_config = None \<and> (\<exists>nc. BuildNodeCost sample_config = Inr nc
    \<and> (\<forall>p \<in> set (cf_Partitions sample_config). 0 <s worstRate (Some nc) (pc_Name p)))"
proof -
  have v: "validate sample_config = None"
    by (simp add: sample_config_def validate_def account0_def windowOrDefault_def validateBurst_def perSecond_def per_div_def
        go_mod_def i64_simps signed_modulo_int_def signed_divide_int_def)
  show ?thesis using v validated_config_prices_partitions [OF v] by blast
qed

end
