(* ===== verification/Go_Flags.thy ===== *)
theory Go_Flags
  imports Config
begin

text \<open>
  What the command line uses of Go's library: the \<^verbatim>\<open>flag\<close> package with the value syntax of its flag types, and white space
  (\<open>strings.TrimSpace\<close> and the words of a \<open>bufio.Scanner\<close>). \<open>strconv.ParseFloat\<close> is an argument: only its result is used.
\<close>

section \<open>White space\<close>

text \<open>The UTF-8 encodings of the characters \<open>unicode.IsSpace\<close> accepts.\<close>

definition space_runes :: "string list" where
  "space_runes =
     [[CHR 0x09], [CHR 0x0A], [CHR 0x0B], [CHR 0x0C], [CHR 0x0D], [CHR 0x20], [CHR 0xC2, CHR 0x85], [CHR 0xC2, CHR 0xA0],
      [CHR 0xE1, CHR 0x9A, CHR 0x80]]
     @ map (\<lambda>c. [CHR 0xE2, CHR 0x80, c])
         [CHR 0x80, CHR 0x81, CHR 0x82, CHR 0x83, CHR 0x84, CHR 0x85, CHR 0x86, CHR 0x87, CHR 0x88, CHR 0x89, CHR 0x8A, CHR 0xA8, CHR 0xA9, CHR 0xAF]
     @ [[CHR 0xE2, CHR 0x81, CHR 0x9F], [CHR 0xE3, CHR 0x80, CHR 0x80]]"

text \<open>The number of bytes of a leading space, 0 if there is none.\<close>

definition space_len :: "string list \<Rightarrow> string \<Rightarrow> nat" where
  "space_len sps s = (case find (\<lambda>p. take (length p) s = p) sps of None \<Rightarrow> 0 | Some p \<Rightarrow> length p)"

lemma space_len_Nil [simp]: "space_len sps [] = 0"
  by (auto simp: space_len_def find_Some_iff split: option.splits)

function trim_left :: "string list \<Rightarrow> string \<Rightarrow> string" where
  "trim_left sps s = (if space_len sps s = 0 then s else trim_left sps (drop (space_len sps s) s))"
  by pat_completeness auto
termination
proof (relation "measure (\<lambda>(_, s). length s)", goal_cases)
  case (2 sps s)
  then show ?case by (cases s) auto
qed simp

declare trim_left.simps [simp del]

definition TrimSpace :: "string \<Rightarrow> string" where
  "TrimSpace s = rev (trim_left (map rev space_runes) (rev (trim_left space_runes s)))"

text \<open>\<open>bufio.ScanWords\<close>, with the word read so far.\<close>

function scan_words :: "string \<Rightarrow> string \<Rightarrow> string list" where
  "scan_words cur s =
     (if s = [] then (if cur = [] then [] else [rev cur])
      else if space_len space_runes s = 0 then scan_words (hd s # cur) (tl s)
      else (if cur = [] then [] else [rev cur]) @ scan_words [] (drop (space_len space_runes s) s))"
  by pat_completeness auto
termination
  by (relation "measure (\<lambda>(_, s). length s)") auto

declare scan_words.simps [simp del]

section \<open>Numbers and booleans\<close>

text \<open>\<open>underscoreOK\<close>: an underscore stands between digits, a base prefix counting as one.\<close>

fun underscore_scan :: "bool \<Rightarrow> char \<Rightarrow> string \<Rightarrow> bool" where
  "underscore_scan hx i [] \<longleftrightarrow> i \<noteq> CHR ''_''"
| "underscore_scan hx i (c # s) \<longleftrightarrow>
     (if is_digit c \<or> hx \<and> (c \<in> set ''abcdefABCDEF'') then underscore_scan hx CHR ''0'' s
      else if c = CHR ''_'' then i = CHR ''0'' \<and> underscore_scan hx CHR ''_'' s
      else i \<noteq> CHR ''_'' \<and> underscore_scan hx CHR ''!'' s)"

definition underscoreOK :: "string \<Rightarrow> bool" where
  "underscoreOK s =
     (if 2 \<le> length s \<and> s ! 0 = CHR ''0'' \<and> s ! 1 \<in> set ''bBoOxX''
      then underscore_scan (s ! 1 \<in> set ''xX'') CHR ''0'' (drop 2 s)
      else underscore_scan False CHR ''^'' s)"

definition digit_of :: "char \<Rightarrow> int option" where
  "digit_of c =
     (if is_digit c then Some (byte_val c - 48)
      else if 97 \<le> byte_val c \<and> byte_val c \<le> 122 then Some (byte_val c - 87)
      else if 65 \<le> byte_val c \<and> byte_val c \<le> 90 then Some (byte_val c - 55)
      else None)"

fun digits_value :: "int \<Rightarrow> int \<Rightarrow> string \<Rightarrow> int option" where
  "digits_value base n [] = Some n"
| "digits_value base n (c # s) =
     (if c = CHR ''_'' then digits_value base n s
      else case digit_of c of
             None \<Rightarrow> None
           | Some d \<Rightarrow> if base \<le> d then None else digits_value base (n * base + d) s)"

text \<open>\<open>strconv.ParseUint(s, 0, 64)\<close> and \<open>strconv.ParseInt(s, 0, 64)\<close>: the base is in the prefix.\<close>

definition ParseUint0 :: "string \<Rightarrow> int option" where
  "ParseUint0 s =
     (if s = [] then None
      else let (base, ds) =
             (if s ! 0 = CHR ''0'' then
                (if 3 \<le> length s \<and> s ! 1 \<in> set ''bB'' then (2, drop 2 s)
                 else if 3 \<le> length s \<and> s ! 1 \<in> set ''oO'' then (8, drop 2 s)
                 else if 3 \<le> length s \<and> s ! 1 \<in> set ''xX'' then (16, drop 2 s)
                 else (8, drop 1 s))
              else (10, s))
           in case digits_value base 0 ds of
                None \<Rightarrow> None
              | Some n \<Rightarrow> if 2 ^ 64 \<le> n \<or> CHR ''_'' \<in> set ds \<and> \<not> underscoreOK s then None else Some n)"

definition ParseInt0 :: "string \<Rightarrow> i64 option" where
  "ParseInt0 s =
     (let neg = (s \<noteq> [] \<and> hd s = CHR ''-'');
          u = (if s \<noteq> [] \<and> (hd s = CHR ''-'' \<or> hd s = CHR ''+'') then tl s else s)
      in case ParseUint0 u of
           None \<Rightarrow> None
         | Some n \<Rightarrow> if (if neg then 2 ^ 63 < n else 2 ^ 63 \<le> n) then None else Some (word_of_int (if neg then - n else n)))"

text \<open>\<open>strconv.ParseInt(s, 10, 64)\<close>: decimal digits with an optional sign.\<close>

definition ParseInt10 :: "string \<Rightarrow> i64 option" where
  "ParseInt10 s = parse_int (if s \<noteq> [] \<and> hd s = CHR ''+'' \<and> (tl s \<noteq> [] \<longrightarrow> hd (tl s) \<noteq> CHR ''-'') then tl s else s)"

definition ParseBool :: "string \<Rightarrow> bool option" where
  "ParseBool s =
     (if s \<in> {''1'', ''t'', ''T'', ''TRUE'', ''true'', ''True''} then Some True
      else if s \<in> {''0'', ''f'', ''F'', ''FALSE'', ''false'', ''False''} then Some False
      else None)"

text \<open>\<open>int64(d.Seconds())\<close>: the seconds go through \<open>float64\<close>.\<close>

definition whole_seconds :: "i64 \<Rightarrow> i64" where
  "whole_seconds d =
     i64_of_f64 (f64_round (f64_of_i64 (go_div d 1000000000) + f64_div (f64_of_i64 (go_mod d 1000000000)) 1000000000))"

section \<open>Flags\<close>

datatype fkind = KStr | KInt | KUint | KFloat | KBool | KDur

datatype fval = VStr string | VInt i64 | VUint int | VFloat f64 | VBool bool | VDur i64

text \<open>\<open>Set\<close> of the value types. A \<open>stringList\<close> flag is a string flag whose values are all kept.\<close>

definition read_flag :: "(string \<Rightarrow> f64 option) \<Rightarrow> fkind \<Rightarrow> string \<Rightarrow> fval option" where
  "read_flag pf k s =
     (case k of
        KStr \<Rightarrow> Some (VStr s)
      | KInt \<Rightarrow> map_option VInt (ParseInt0 s)
      | KUint \<Rightarrow> map_option VUint (ParseUint0 s)
      | KFloat \<Rightarrow> map_option VFloat (pf s)
      | KBool \<Rightarrow> map_option VBool (ParseBool s)
      | KDur \<Rightarrow> map_option VDur (ParseDuration s))"

datatype farg = Positional | Dashes | BadFlag | Named string "string option"

definition flag_arg :: "string \<Rightarrow> farg" where
  "flag_arg s =
     (if length s < 2 \<or> hd s \<noteq> CHR ''-'' then Positional
      else if s = ''--'' then Dashes
      else let name = (if s ! 1 = CHR ''-'' then drop 2 s else drop 1 s)
           in if name = [] \<or> hd name = CHR ''-'' \<or> hd name = CHR ''='' then BadFlag
              else let rest = dropWhile (\<lambda>c. c \<noteq> CHR ''='') (tl name)
                   in Named (hd name # takeWhile (\<lambda>c. c \<noteq> CHR ''='') (tl name)) (if rest = [] then None else Some (tl rest)))"

text \<open>
  \<open>FlagSet.Parse\<close>: the values set, the latest first, and the arguments left; \<open>None\<close> is an error (\<^verbatim>\<open>-h\<close> is one).
\<close>

function parse_flags ::
  "(string \<Rightarrow> f64 option) \<Rightarrow> (string \<times> fkind) list \<Rightarrow> (string \<times> fval) list \<Rightarrow> string list \<Rightarrow> ((string \<times> fval) list \<times> string list) option"
where
  "parse_flags pf specs vals [] = Some (vals, [])"
| "parse_flags pf specs vals (a # args) =
     (case flag_arg a of
        Positional \<Rightarrow> Some (vals, a # args)
      | Dashes \<Rightarrow> Some (vals, args)
      | BadFlag \<Rightarrow> None
      | Named name v \<Rightarrow>
          (case map_of specs name of
             None \<Rightarrow> None
           | Some k \<Rightarrow>
               let separate = (v = None \<and> k \<noteq> KBool)
               in if separate \<and> args = [] then None
                  else case read_flag pf k (case v of Some x \<Rightarrow> x | None \<Rightarrow> if k = KBool then ''true'' else hd args) of
                         None \<Rightarrow> None
                       | Some fv \<Rightarrow> parse_flags pf specs ((name, fv) # vals) (if separate then tl args else args)))"
  by pat_completeness auto
termination
  by (relation "measure (\<lambda>(_, _, _, args). length args)") auto

text \<open>The value of a flag after parsing: the last one set, else the default.\<close>

definition str_flag :: "(string \<times> fval) list \<Rightarrow> string \<Rightarrow> string \<Rightarrow> string" where
  "str_flag vals name d = (case map_of vals name of Some (VStr s) \<Rightarrow> s | _ \<Rightarrow> d)"

definition int_flag :: "(string \<times> fval) list \<Rightarrow> string \<Rightarrow> i64 \<Rightarrow> i64" where
  "int_flag vals name d = (case map_of vals name of Some (VInt a) \<Rightarrow> a | _ \<Rightarrow> d)"

definition uint_flag :: "(string \<times> fval) list \<Rightarrow> string \<Rightarrow> int" where
  "uint_flag vals name = (case map_of vals name of Some (VUint a) \<Rightarrow> a | _ \<Rightarrow> 0)"

definition float_flag :: "(string \<times> fval) list \<Rightarrow> string \<Rightarrow> f64" where
  "float_flag vals name = (case map_of vals name of Some (VFloat a) \<Rightarrow> a | _ \<Rightarrow> 0)"

definition bool_flag :: "(string \<times> fval) list \<Rightarrow> string \<Rightarrow> bool" where
  "bool_flag vals name = (case map_of vals name of Some (VBool b) \<Rightarrow> b | _ \<Rightarrow> False)"

definition dur_flag :: "(string \<times> fval) list \<Rightarrow> string \<Rightarrow> i64" where
  "dur_flag vals name = (case map_of vals name of Some (VDur a) \<Rightarrow> a | _ \<Rightarrow> 0)"

definition list_flag :: "(string \<times> fval) list \<Rightarrow> string \<Rightarrow> string list" where
  "list_flag vals name = rev (concat (map (\<lambda>(n, v). case v of VStr s \<Rightarrow> if n = name then [s] else [] | _ \<Rightarrow> []) vals))"

end
