(* ===== verification/Wire.thy ===== *)
theory Wire
  imports Wire_Messages Wal
begin

text \<open>
  Framing of the socket protocol (\<open>WriteFrame\<close>, \<open>ReadFrame\<close> and the request constructors of
  \<^verbatim>\<open>internal/wire/wire.go\<close>): \<open>[u32 len][u32 crc32][payload]\<close>, little-endian, the framing the write-ahead log has. The JSON
  encoding of a frame is a pair of arguments \<open>enc\<close> and \<open>dec\<close> (\<open>json.Marshal\<close>, \<open>json.Unmarshal\<close>); the round trip
  assumes of them that decoding undoes encoding on the frame at hand.

  A connection is read as the bytes that will arrive on it before it closes.
\<close>

section \<open>Model\<close>

definition ProtocolVersion :: i64 where
  "ProtocolVersion = 1"

definition MaxFrameSize :: int where
  "MaxFrameSize = 1048576"

datatype wireErr = ErrVersion | ErrTooLarge | ErrCorrupt | ErrShortRead | ErrEOF | ErrDecode | ErrWrite

definition WriteFrame :: "(frame \<Rightarrow> string) \<Rightarrow> frame \<Rightarrow> gofile \<Rightarrow> gofile \<times> wireErr option" where
  "WriteFrame enc f w =
     (let payload = enc (f\<lparr>fr_Version := ProtocolVersion\<rparr>)
      in if MaxFrameSize < int (length payload) \<or> 2 ^ 32 - 1 < int (length payload) then (w, Some ErrTooLarge)
         else case file_write (frame_hdr payload) w of
                (w1, Some e) \<Rightarrow> (w1, Some ErrWrite)
              | (w1, None) \<Rightarrow>
                  (case file_write payload w1 of (w2, Some e) \<Rightarrow> (w2, Some ErrWrite) | (w2, None) \<Rightarrow> (w2, None)))"

text \<open>The frame or the error, and what is left to read.\<close>

definition ReadFrame :: "(string \<Rightarrow> frame option) \<Rightarrow> string \<Rightarrow> (wireErr + frame) \<times> string" where
  "ReadFrame dec r =
     (if r = [] then (Inl ErrEOF, [])
      else if length r < 8 then (Inl ErrShortRead, [])
      else let n = get_le32 (take 4 r); want = get_le32 (take 4 (drop 4 r)); rest = drop 8 r
           in if MaxFrameSize < n then (Inl ErrTooLarge, rest)
              else if int (length rest) < n then (Inl ErrShortRead, [])
              else let payload = take (nat n) rest; rest' = drop (nat n) rest
                   in if uint (crc32 payload) \<noteq> want then (Inl ErrCorrupt, rest')
                      else case dec payload of
                             None \<Rightarrow> (Inl ErrDecode, rest')
                           | Some f \<Rightarrow> if fr_Version f \<noteq> ProtocolVersion then (Inl ErrVersion, rest') else (Inr f, rest'))"

subsection \<open>Request constructors\<close>

definition GateFrame :: "gateRequest \<Rightarrow> frame" where
  "GateFrame req = frame0\<lparr>fr_MsgKind := KindGate, fr_Gate := Some req\<rparr>"

definition BindFrame :: "bindRequest \<Rightarrow> frame" where
  "BindFrame req = frame0\<lparr>fr_MsgKind := KindBind, fr_Bind := Some req\<rparr>"

definition BindNodeFrame :: "string \<Rightarrow> string \<Rightarrow> string \<Rightarrow> frame" where
  "BindNodeFrame token jobid nodeType = frame0\<lparr>fr_MsgKind := KindBind,
     fr_Bind := Some \<lparr>bq_Token = token, bq_JobID = jobid, bq_NodeType = nodeType, bq_IsArrayTask = False, bq_Idx = 0\<rparr>\<rparr>"

definition SettleFrame :: "settleRequest \<Rightarrow> frame" where
  "SettleFrame req = frame0\<lparr>fr_MsgKind := KindSettle, fr_Settle := Some req\<rparr>"

definition PingFrame :: frame where
  "PingFrame = frame0\<lparr>fr_MsgKind := KindPing\<rparr>"

definition StatusFrame :: "string \<Rightarrow> frame" where
  "StatusFrame account = frame0\<lparr>fr_MsgKind := KindStatus, fr_Status := Some \<lparr>stq_Account = account\<rparr>\<rparr>"

definition TopUpFrame :: "string \<Rightarrow> i64 \<Rightarrow> frame" where
  "TopUpFrame account amount =
     frame0\<lparr>fr_MsgKind := KindTopUp_w, fr_TopUp := Some \<lparr>tq_Account = account, tq_Amount = amount\<rparr>\<rparr>"

definition ListFrame :: frame where
  "ListFrame = frame0\<lparr>fr_MsgKind := KindList, fr_List := Some ()\<rparr>"

definition LogFrame :: "string \<Rightarrow> frame" where
  "LogFrame account = frame0\<lparr>fr_MsgKind := KindLog, fr_Log := Some \<lparr>lgq_Account = account\<rparr>\<rparr>"

definition SetRateFrame :: "string \<Rightarrow> i64 \<Rightarrow> frame" where
  "SetRateFrame account rate =
     frame0\<lparr>fr_MsgKind := KindSetRate_w, fr_SetRate := Some \<lparr>srq_Account = account, srq_Rate = rate\<rparr>\<rparr>"

definition SetWindowFrame :: "string \<Rightarrow> i64 \<Rightarrow> i64 \<Rightarrow> frame" where
  "SetWindowFrame account ts te =
     frame0\<lparr>fr_MsgKind := KindSetWindow_w, fr_SetWindow := Some \<lparr>swq_Account = account, swq_TS = ts, swq_TE = te\<rparr>\<rparr>"

definition ResolveFrame :: "resolveRequest \<Rightarrow> frame" where
  "ResolveFrame req = frame0\<lparr>fr_MsgKind := KindResolve, fr_Resolve := Some req\<rparr>"

definition SimulateFrame :: "simulateRequest \<Rightarrow> frame" where
  "SimulateFrame req = frame0\<lparr>fr_MsgKind := KindSimulate, fr_Simulate := Some req\<rparr>"

definition CreateFrame :: "createRequest \<Rightarrow> frame" where
  "CreateFrame req = frame0\<lparr>fr_MsgKind := KindCreate, fr_Create := Some req\<rparr>"

definition AttachFrame :: "attachRequest \<Rightarrow> frame" where
  "AttachFrame req = frame0\<lparr>fr_MsgKind := KindAttach, fr_Attach := Some req\<rparr>"

definition TransferFrame :: "transferRequest \<Rightarrow> frame" where
  "TransferFrame req = frame0\<lparr>fr_MsgKind := KindTransfer, fr_Transfer := Some req\<rparr>"

definition DispatchFrame :: "dispatchRequest \<Rightarrow> frame" where
  "DispatchFrame req = frame0\<lparr>fr_MsgKind := KindDispatch, fr_Dispatch := Some req\<rparr>"

definition ReconcileFrame :: "reconcileRequest \<Rightarrow> frame" where
  "ReconcileFrame req = frame0\<lparr>fr_MsgKind := KindReconcile, fr_Reconcile := Some req\<rparr>"

definition SetBurstFrame :: "setBurstRequest \<Rightarrow> frame" where
  "SetBurstFrame req = frame0\<lparr>fr_MsgKind := KindSetBurst_w, fr_SetBurst := Some req\<rparr>"

section \<open>Round trip\<close>

lemma file_write_healthy: "f_writes w = [] \<Longrightarrow> file_write bs w = (w\<lparr>f_bytes := f_bytes w @ bs\<rparr>, None)"
  by (simp add: file_write_def)

lemma WriteFrame_healthy:
  assumes "f_writes w = []" "int (length (enc (f\<lparr>fr_Version := ProtocolVersion\<rparr>))) \<le> MaxFrameSize"
  shows "WriteFrame enc f w =
    (w\<lparr>f_bytes := f_bytes w @ frame_bytes (enc (f\<lparr>fr_Version := ProtocolVersion\<rparr>))\<rparr>, None)"
proof -
  let ?w1 = "w\<lparr>f_bytes := f_bytes w @ frame_hdr (enc (f\<lparr>fr_Version := ProtocolVersion\<rparr>))\<rparr>"
  have "f_writes ?w1 = []" using assms(1) by simp
  then show ?thesis
    using assms by (simp add: WriteFrame_def Let_def file_write_healthy frame_bytes_def MaxFrameSize_def)
qed

lemma ReadFrame_frame:
  assumes "int (length p) \<le> MaxFrameSize"
  shows "ReadFrame dec (frame_bytes p @ rest) =
    (case dec p of None \<Rightarrow> (Inl ErrDecode, rest)
     | Some f \<Rightarrow> if fr_Version f \<noteq> ProtocolVersion then (Inl ErrVersion, rest) else (Inr f, rest))"
proof -
  have short: "int (length p) < 2 ^ 32" using assms by (simp add: MaxFrameSize_def)
  define r where "r = frame_bytes p @ rest"
  have "take 4 r = take 4 (frame_hdr p)" "take 4 (drop 4 r) = take 4 (drop 4 (frame_hdr p))" "drop 8 r = p @ rest"
    by (simp_all add: r_def frame_bytes_def)
  then have "get_le32 (take 4 r) = int (length p)" "get_le32 (take 4 (drop 4 r)) = uint (crc32 p)" "drop 8 r = p @ rest"
    using frame_hdr_fields [OF short] by simp_all
  moreover have "8 \<le> length r" by (simp add: r_def frame_bytes_def)
  moreover from this have "r \<noteq> []" by auto
  ultimately have "ReadFrame dec r =
    (case dec p of None \<Rightarrow> (Inl ErrDecode, rest)
     | Some f \<Rightarrow> if fr_Version f \<noteq> ProtocolVersion then (Inl ErrVersion, rest) else (Inr f, rest))"
    using assms by (simp add: ReadFrame_def Let_def)
  then show ?thesis by (simp only: r_def)
qed

text \<open>
  C18: what one side writes is what the other side reads. If the encoding of the stamped frame decodes to it
  and fits the 1 MiB limit, then writing it to a stream that does not fail succeeds, and reading that stream
  from where it stood yields exactly that frame, stamped with the protocol version, and leaves whatever
  was sent after it.
\<close>

theorem wire_roundtrip:
  assumes "f_writes w = []" and "int (length (enc (f\<lparr>fr_Version := ProtocolVersion\<rparr>))) \<le> MaxFrameSize"
    and "dec (enc (f\<lparr>fr_Version := ProtocolVersion\<rparr>)) = Some (f\<lparr>fr_Version := ProtocolVersion\<rparr>)"
  shows "snd (WriteFrame enc f w) = None
    \<and> ReadFrame dec (drop (length (f_bytes w)) (f_bytes (fst (WriteFrame enc f w))) @ later)
      = (Inr (f\<lparr>fr_Version := ProtocolVersion\<rparr>), later)"
  using assms by (simp add: WriteFrame_healthy ReadFrame_frame)

theorem wire_roundtrip_witness:
  "ReadFrame (\<lambda>s. if s = ''ping'' then Some (PingFrame\<lparr>fr_Version := 1\<rparr>) else None)
     (f_bytes (fst (WriteFrame (\<lambda>f. fr_MsgKind f) PingFrame (open_file []))) @ ''x'')
   = (Inr (PingFrame\<lparr>fr_Version := 1\<rparr>), ''x'')"
  using wire_roundtrip [where w = "open_file []" and f = PingFrame and later = "''x''" and enc = fr_MsgKind
      and dec = "\<lambda>s. if s = ''ping'' then Some (PingFrame\<lparr>fr_Version := 1\<rparr>) else None"]
  by (simp add: open_file_def PingFrame_def frame0_def KindPing_def MaxFrameSize_def ProtocolVersion_def)

text \<open>
  Nothing unchecked gets through. Whenever \<open>ReadFrame\<close> returns a frame, the bytes it consumed are a header and a
  payload of the announced length, at most 1 MiB, whose checksum matches the header, that decodes to the frame, and the
  frame carries this protocol version. In every other case it returns an error and no frame.
\<close>

lemma ReadFrame_checked:
  assumes "ReadFrame dec r = (Inr f, rest)"
  shows "\<exists>hdr payload. r = hdr @ payload @ rest \<and> length hdr = 8 \<and> int (length payload) = get_le32 (take 4 hdr)
    \<and> int (length payload) \<le> MaxFrameSize \<and> uint (crc32 payload) = get_le32 (drop 4 hdr)
    \<and> dec payload = Some f \<and> fr_Version f = ProtocolVersion"
proof -
  let ?n = "get_le32 (take 4 r)"
  have n: "0 \<le> ?n" by (simp add: get_le32_def byte_val_range)
  have r8: "\<not> length r < 8" "r \<noteq> []" and facts: "\<not> MaxFrameSize < ?n" "\<not> int (length (drop 8 r)) < ?n"
      "uint (crc32 (take (nat ?n) (drop 8 r))) = get_le32 (take 4 (drop 4 r))"
      "dec (take (nat ?n) (drop 8 r)) = Some f" "fr_Version f = ProtocolVersion" "rest = drop (nat ?n) (drop 8 r)"
    using assms by (auto simp: ReadFrame_def Let_def split: if_splits option.splits)
  have "r = take 8 r @ take (nat ?n) (drop 8 r) @ rest" unfolding facts(6) by (simp only: append_take_drop_id)
  moreover have "int (length (take (nat ?n) (drop 8 r))) = ?n" using facts(2) n by simp
  moreover have "take 4 (take 8 r) = take 4 r" "drop 4 (take 8 r) = take 4 (drop 4 r)" by (simp_all add: drop_take)
  moreover have "length (take 8 r) = 8" using r8 by simp
  ultimately show ?thesis using facts by (intro exI [of _ "take 8 r"] exI [of _ "take (nat ?n) (drop 8 r)"]) simp
qed

lemma ReadFrame_checked_witness:
  "ReadFrame (\<lambda>s. if s = ''ping'' then Some (PingFrame\<lparr>fr_Version := 1\<rparr>) else None) (frame_bytes ''ping'')
     = (Inr (PingFrame\<lparr>fr_Version := 1\<rparr>), [])
   \<and> (\<exists>hdr payload. frame_bytes ''ping'' = hdr @ payload @ [] \<and> length hdr = 8
        \<and> int (length payload) = get_le32 (take 4 hdr) \<and> int (length payload) \<le> MaxFrameSize)"
proof -
  let ?dec = "\<lambda>s. if s = ''ping'' then Some (PingFrame\<lparr>fr_Version := 1\<rparr>) else None"
  have r: "ReadFrame ?dec (frame_bytes ''ping'') = (Inr (PingFrame\<lparr>fr_Version := 1\<rparr>), [])"
    using ReadFrame_frame [of "''ping''" ?dec "[]"] by (simp add: MaxFrameSize_def ProtocolVersion_def)
  show ?thesis using r ReadFrame_checked [OF r] by blast
qed

end
