(* ===== verification/Cli.thy ===== *)
theory Cli
  imports Go_Flags Wire
begin

text \<open>
  The command line \<^verbatim>\<open>obol\<close> (\<^verbatim>\<open>internal/cli\<close>): \<open>Run\<close>, the verbs and the round trip to the daemon.

  \<^item> The \<open>world\<close> is what a run takes from outside: environment variables, files, standard input, the clock, the connection (whether
    dialling succeeds, the faults of its write side and the bytes that come back for the bytes sent) and the JSON codec of frames. Texts the code
    does not produce itself (of an error, of a quoted string) come from it too.
  \<^item> A result is the exit status and what was printed. A printed line is a list of pieces as in \<open>Go_Text\<close>, each with the
    width of its column, negative for left-justified. The usage text and what the \<^verbatim>\<open>flag\<close> package prints on an error are not spelled out.
\<close>

section \<open>Client\<close>

record world =
  w_getenv :: "string \<Rightarrow> string"
  w_readFile :: "string \<Rightarrow> msg + string"
  w_stdin :: string
  w_now :: Seconds
  w_dial :: "string \<Rightarrow> string \<Rightarrow> msg option"
  w_setDeadline :: "msg option"
  w_conn :: gofile
  w_answer :: "string \<Rightarrow> string \<Rightarrow> string \<Rightarrow> string"
  w_enc :: "frame \<Rightarrow> string"
  w_dec :: "string \<Rightarrow> frame option"
  w_wireText :: "wireErr \<Rightarrow> msg"
  w_quote :: "string \<Rightarrow> string"
  w_formatFloat :: "f64 \<Rightarrow> string"
  w_parseFloat :: "string \<Rightarrow> f64 option"
  w_parseRFC3339 :: "string \<Rightarrow> i64 option"

definition DefaultSocket :: string where
  "DefaultSocket = ''/run/obol/obold.sock''"

text \<open>The network, the address and the token.\<close>

definition resolveTarget :: "world \<Rightarrow> string \<Rightarrow> msg + (string \<times> string \<times> string)" where
  "resolveTarget w socket =
     (let addr = TrimSpace (w_getenv w ''OBOL_ADDR'')
      in if addr = [] then Inr (''unix'', socket, [])
         else let tok = TrimSpace (w_getenv w ''OBOL_AUTH_TOKEN''); f = TrimSpace (w_getenv w ''OBOL_AUTH_TOKEN_FILE'')
              in case (if tok = [] \<and> f \<noteq> [] then map_sum (\<lambda>e. [PText ''read OBOL_AUTH_TOKEN_FILE: ''] @ e) TrimSpace (w_readFile w f)
                       else Inr tok) of
                   Inl e \<Rightarrow> Inl e
                 | Inr t \<Rightarrow>
                     if t = [] then Inl (lit ''OBOL_ADDR set but no token (set OBOL_AUTH_TOKEN or OBOL_AUTH_TOKEN_FILE)'')
                     else Inr (''tcp'', addr, t))"

definition roundTrip :: "world \<Rightarrow> string \<Rightarrow> frame \<Rightarrow> msg + frame" where
  "roundTrip w socket req =
     (case resolveTarget w socket of
        Inl e \<Rightarrow> Inl e
      | Inr (network, address, token) \<Rightarrow>
          let req' = (if token \<noteq> [] then req\<lparr>fr_Auth := token\<rparr> else req)
          in case w_dial w network address of
               Some e \<Rightarrow> Inl ([PText (''connect to obold at '' @ address @ '': '')] @ e)
             | None \<Rightarrow>
                 (case w_setDeadline w of
                    Some e \<Rightarrow> Inl e
                  | None \<Rightarrow>
                      (case WriteFrame (w_enc w) req' (w_conn w) of
                         (_, Some e) \<Rightarrow> Inl ([PText ''send request: ''] @ w_wireText w e)
                       | (sent, None) \<Rightarrow>
                           (case ReadFrame (w_dec w) (w_answer w network address (f_bytes sent)) of
                              (Inl e, _) \<Rightarrow> Inl ([PText ''read response: ''] @ w_wireText w e)
                            | (Inr resp, _) \<Rightarrow> Inr resp))))"

section \<open>Output\<close>

type_synonym line = "(int \<times> piece) list"

datatype printed = Usage | FlagError | Line line

record result =
  x_code :: int
  x_out :: "printed list"
  x_err :: "printed list"

definition plain :: "msg \<Rightarrow> printed" where
  "plain m = Line (map (Pair 0) m)"

definition cli_fail :: "msg \<Rightarrow> result" where
  "cli_fail e = \<lparr>x_code = 1, x_out = [], x_err = [plain ([PText ''obol: ''] @ e)]\<rparr>"

definition prints :: "int \<Rightarrow> msg list \<Rightarrow> result" where
  "prints code ms = \<lparr>x_code = code, x_out = map plain ms, x_err = []\<rparr>"

text \<open>Parsing the flags of a verb and its round trip; every verb has the flag \<^verbatim>\<open>socket\<close>.\<close>

definition with_flags :: "world \<Rightarrow> (string \<times> fkind) list \<Rightarrow> string list \<Rightarrow> ((string \<times> fval) list \<Rightarrow> string list \<Rightarrow> result) \<Rightarrow> result" where
  "with_flags w specs args k =
     (case parse_flags (w_parseFloat w) ((''socket'', KStr) # specs) [] args of
        None \<Rightarrow> \<lparr>x_code = 2, x_out = [], x_err = [FlagError]\<rparr>
      | Some (vals, rest) \<Rightarrow> k vals rest)"

definition socketFlag :: "(string \<times> fval) list \<Rightarrow> string" where
  "socketFlag vals = str_flag vals ''socket'' DefaultSocket"

definition with_reply :: "world \<Rightarrow> string \<Rightarrow> frame \<Rightarrow> (frame \<Rightarrow> result) \<Rightarrow> result" where
  "with_reply w socket req k = (case roundTrip w socket req of Inl e \<Rightarrow> cli_fail e | Inr resp \<Rightarrow> k resp)"

definition show_bool :: "bool \<Rightarrow> piece" where
  "show_bool b = PText (if b then ''true'' else ''false'')"

definition PNat :: "nat \<Rightarrow> piece" where
  "PNat n = PText (nat_dec (int n))"

definition fmtTTE :: "i64 \<Rightarrow> msg" where
  "fmtTTE secs = (if secs <s 0 then lit ''never (no burn)'' else [PInt secs, PText ''s''])"

definition lapsedTag :: "bool \<Rightarrow> string" where
  "lapsedTag lapsed = (if lapsed then '' LAPSED'' else [])"

definition okTag :: "bool \<Rightarrow> string" where
  "okTag ok = (if ok then ''OK'' else ''VIOLATED'')"

definition reasonOf :: "frame \<Rightarrow> msg" where
  "reasonOf resp =
     (case fr_BindResp resp of
        Some b \<Rightarrow> bp_Reason b
      | None \<Rightarrow> (case fr_SettleResp resp of Some b \<Rightarrow> sp_Reason b | None \<Rightarrow> lit ''unknown''))"

section \<open>Verbs\<close>

definition cmdPing :: "world \<Rightarrow> string list \<Rightarrow> result" where
  "cmdPing w args =
     with_flags w [] args (\<lambda>vals _.
     with_reply w (socketFlag vals) PingFrame (\<lambda>resp.
       if fr_MsgKind resp \<noteq> KindPing then cli_fail [PText ''unexpected reply kind '', PQuoted (fr_MsgKind resp)]
       else prints 0 [lit ''ok'']))"

definition show_lines :: "statusResponse \<Rightarrow> msg list" where
  "show_lines s =
     [[PText (''Account:       '' @ stp_Account s)],
      [PText ''Balance:       '', PInt (stp_B s), PText '' / '', PInt (stp_B0 s)],
      [PText ''Reserved:      '', PInt (stp_Reserved s)],
      [PText ''Consumed:      '', PInt (stp_Consumed s)],
      [PText ''Write-off:     '', PInt (stp_WriteOff s)],
      [PText ''Cost rate:     '', PInt (stp_C s), PText ''/s''],
      PText ''Time-to-empty: '' # fmtTTE (stp_TimeToEmpty s),
      [PText ''Window:        ['', PInt (stp_TS s), PText '', '', PInt (stp_TE s), PText ('')'' @ lapsedTag (stp_Lapsed s))],
      [PText ''Live:          '', PNat (stp_LiveEscrows s), PText '' escrows, '', PNat (stp_LiveArrays s), PText '' arrays''],
      (if stp_BurstEnabled s
       then [PText ''Burst:         pot '', PInt (stp_BurstPot s), PText '' / ceiling '', PInt (stp_BurstCeiling s), PText '', rLive '', PInt (stp_RLive s)]
       else lit ''Burst:         disabled''),
      [PText (''Conservation:  '' @ okTag (stp_ConservationOK s) @ '' (sum ''), PInt (stp_ConservationSum s), PText '', B0 '', PInt (stp_B0 s), PText '')'']]"

definition cmdShow :: "world \<Rightarrow> string list \<Rightarrow> result" where
  "cmdShow w args =
     with_flags w [(''account'', KStr)] args (\<lambda>vals _.
     with_reply w (socketFlag vals) (StatusFrame (str_flag vals ''account'' [])) (\<lambda>resp.
       case fr_StatusResp resp of
         None \<Rightarrow> cli_fail (lit ''empty status response'')
       | Some s \<Rightarrow>
           if \<not> stp_OK s then cli_fail (stp_Reason s)
           else if \<not> stp_ConservationOK s then (cli_fail (lit ''conservation VIOLATED''))\<lparr>x_out := map plain (show_lines s)\<rparr>
           else prints 0 (show_lines s)))"

definition tres_flags :: "(string \<times> fkind) list" where
  "tres_flags = [(''cpus'', KInt), (''gpus'', KInt), (''mem'', KInt)]"

definition tres_of :: "(string \<times> fval) list \<Rightarrow> tres" where
  "tres_of vals = \<lparr>tr_CPUs = int_flag vals ''cpus'' 0, tr_GPUs = int_flag vals ''gpus'' 0, tr_Mem = int_flag vals ''mem'' 0\<rparr>"

definition gate_request :: "(string \<times> fval) list \<Rightarrow> gateRequest" where
  "gate_request vals =
     \<lparr>gq_Account = str_flag vals ''account'' [], gq_Partition = str_flag vals ''partition'' [], gq_UID = word_of_int (uint_flag vals ''uid''),
      gq_TimeLimit = int_flag vals ''time-limit'' 0, gq_TRES = tres_of vals, gq_NTasks = int_flag vals ''ntasks'' 1,
      gq_Sources = list_flag vals ''source''\<rparr>"

definition gate_flags :: "(string \<times> fkind) list" where
  "gate_flags =
     [(''account'', KStr), (''partition'', KStr), (''time-limit'', KInt), (''ntasks'', KInt), (''uid'', KUint), (''source'', KStr)] @ tres_flags"

definition cmdGate :: "world \<Rightarrow> string list \<Rightarrow> result" where
  "cmdGate w args =
     with_flags w gate_flags args (\<lambda>vals _.
       if int_flag vals ''time-limit'' 0 \<le>s 0 then cli_fail (lit ''--time-limit must be > 0'')
       else if 2 ^ 32 - 1 < uint_flag vals ''uid'' then cli_fail (lit ''--uid out of range'')
       else with_reply w (socketFlag vals) (GateFrame (gate_request vals)) (\<lambda>resp.
         case fr_GateResp resp of
           None \<Rightarrow> cli_fail (lit ''empty gate response'')
         | Some g \<Rightarrow>
             if \<not> gp_Allow g then prints 3 [PText ''reject: '' # gp_Reason g]
             else prints 0 [[PText (''allow '' @ gp_Token g)]]))"

definition cmdBind :: "world \<Rightarrow> string list \<Rightarrow> result" where
  "cmdBind w args =
     with_flags w [(''token'', KStr), (''jobid'', KStr), (''node-type'', KStr), (''idx'', KInt)] args (\<lambda>vals _.
       let token = str_flag vals ''token'' []; jobid = str_flag vals ''jobid'' []; idx = int_flag vals ''idx'' (- 1)
       in if token = [] \<or> jobid = [] then cli_fail (lit ''--token and --jobid are required'')
          else let fr = BindNodeFrame token jobid (str_flag vals ''node-type'' []);
                   fr' = (if 0 \<le>s idx then fr\<lparr>fr_Bind := map_option (\<lambda>b. b\<lparr>bq_IsArrayTask := True, bq_Idx := idx\<rparr>) (fr_Bind fr)\<rparr> else fr)
               in with_reply w (socketFlag vals) fr' (\<lambda>resp.
                    if (case fr_BindResp resp of None \<Rightarrow> True | Some b \<Rightarrow> \<not> bp_OK b) then cli_fail (PText ''bind rejected: '' # reasonOf resp)
                    else prints 0 [lit ''ok'']))"

definition parseSettleKind :: "string \<Rightarrow> msg + string" where
  "parseSettleKind s =
     (if s = ''complete'' then Inr SettleComplete
      else if s = ''timeout'' then Inr SettleTimeout
      else if s = ''cancel'' then Inr SettleCancel
      else if s = ''infrafail'' then Inr SettleInfraFail
      else Inl [PText ''--kind must be complete|timeout|cancel|infrafail, got '', PQuoted s])"

text \<open>The text of a message, and \<open>strings.Contains\<close>.\<close>

definition text_of :: "world \<Rightarrow> msg \<Rightarrow> string" where
  "text_of w m = concat (map (\<lambda>p. case p of PText s \<Rightarrow> s | PQuoted s \<Rightarrow> w_quote w s | PInt a \<Rightarrow> json_int a | PFloat x \<Rightarrow> w_formatFloat w x) m)"

fun str_contains :: "string \<Rightarrow> string \<Rightarrow> bool" where
  "str_contains [] sub \<longleftrightarrow> sub = []"
| "str_contains (c # s) sub \<longleftrightarrow> take (length sub) (c # s) = sub \<or> str_contains s sub"

definition isAlreadySettled :: "string \<Rightarrow> bool" where
  "isAlreadySettled reason \<longleftrightarrow> str_contains reason ''no such escrow'' \<or> str_contains reason ''unknown job''"

definition settle_request :: "(string \<times> fval) list \<Rightarrow> string \<Rightarrow> settleRequest" where
  "settle_request vals sk =
     (let idx = int_flag vals ''idx'' (- 1)
      in \<lparr>sq_Token = str_flag vals ''token'' [], sq_JobID = str_flag vals ''jobid'' [], sq_Kind = sk, sq_Runtime = int_flag vals ''runtime'' 0,
          sq_Elapsed = int_flag vals ''elapsed'' 0, sq_IsArrayTask = (0 \<le>s idx), sq_Idx = (if 0 \<le>s idx then idx else 0)\<rparr>)"

definition settle_flags :: "(string \<times> fkind) list" where
  "settle_flags =
     [(''jobid'', KStr), (''token'', KStr), (''kind'', KStr), (''runtime'', KInt), (''elapsed'', KInt), (''idx'', KInt), (''if-present'', KBool)]"

definition cmdSettle :: "world \<Rightarrow> string list \<Rightarrow> result" where
  "cmdSettle w args =
     with_flags w settle_flags args (\<lambda>vals _.
       if str_flag vals ''jobid'' [] = [] \<and> str_flag vals ''token'' [] = [] then cli_fail (lit ''one of --jobid or --token is required'')
       else case parseSettleKind (str_flag vals ''kind'' []) of
              Inl e \<Rightarrow> cli_fail e
            | Inr sk \<Rightarrow>
                with_reply w (socketFlag vals) (SettleFrame (settle_request vals sk)) (\<lambda>resp.
                  if (case fr_SettleResp resp of None \<Rightarrow> True | Some b \<Rightarrow> \<not> sp_OK b) then
                    (if bool_flag vals ''if-present'' \<and> isAlreadySettled (text_of w (reasonOf resp)) then prints 0 [lit ''already settled'']
                     else cli_fail (PText ''settle rejected: '' # reasonOf resp))
                  else prints 0 [lit ''ok'']))"

definition cmdTopUp :: "world \<Rightarrow> string list \<Rightarrow> result" where
  "cmdTopUp w args =
     with_flags w [(''account'', KStr), (''amount'', KInt)] args (\<lambda>vals _.
       let account = str_flag vals ''account'' []; amount = int_flag vals ''amount'' 0
       in if account = [] \<or> amount \<le>s 0 then cli_fail (lit ''--account and a positive --amount are required'')
          else with_reply w (socketFlag vals) (TopUpFrame account amount) (\<lambda>resp.
            case fr_TopUpResp resp of
              None \<Rightarrow> cli_fail (lit ''topup rejected: empty response'')
            | Some r \<Rightarrow>
                if \<not> tp_OK r then cli_fail (PText ''topup rejected: '' # tp_Reason r)
                else prints 0 [[PText (''ok: '' @ account @ '' balance ''), PInt (tp_NewBalance r), PText '' (allocation '', PInt (tp_NewB0 r), PText '')'']]))"

definition list_line :: "listAccount \<Rightarrow> printed" where
  "list_line a = Line [(- 20, PText (la_Account a)), (0, PText '' ''), (12, PInt (la_B a)), (0, PText '' ''), (12, PInt (la_B0 a)), (0, PText '' ''),
     (8, PNat (la_Live a)), (0, PText ('' '' @ (if la_Lapsed a then ''lapsed'' else ''active'')))]"

definition cmdList :: "world \<Rightarrow> string list \<Rightarrow> result" where
  "cmdList w args =
     with_flags w [] args (\<lambda>vals _.
     with_reply w (socketFlag vals) ListFrame (\<lambda>resp.
       case fr_ListResp resp of
         None \<Rightarrow> cli_fail (lit ''list failed'')
       | Some r \<Rightarrow>
           if \<not> lsp_OK r then cli_fail (lit ''list failed'')
           else \<lparr>x_code = 0,
                 x_out = Line [(- 20, PText ''ACCOUNT''), (0, PText '' ''), (12, PText ''BALANCE''), (0, PText '' ''), (12, PText ''ALLOCATION''), (0, PText '' ''),
                               (8, PText ''LIVE''), (0, PText '' STATUS'')] # map list_line (lsp_Accounts r),
                 x_err = []\<rparr>))"

definition logCostDetail :: "wireLogEntry \<Rightarrow> msg" where
  "logCostDetail e =
     (if wl_Rate e \<noteq> 0 then [PText '' rate='', PInt (wl_Rate e)] else []) @ (if wl_W e \<noteq> 0 then [PText '' w='', PInt (wl_W e)] else [])
     @ (if wl_Runtime e \<noteq> 0 then [PText '' runtime='', PInt (wl_Runtime e)] else [])
     @ (if wl_Elapsed e \<noteq> 0 then [PText '' elapsed='', PInt (wl_Elapsed e)] else [])"

definition logDetail :: "wireLogEntry \<Rightarrow> msg" where
  "logDetail e =
     (if wl_Kind e = ''topup'' \<or> wl_Kind e = ''withdraw'' then
        [PText ''amount='', PInt (wl_Amount e)] @ (if wl_Xfer e \<noteq> [] then [PText ('' xfer='' @ wl_Xfer e)] else [])
      else if wl_Kind e = ''set-rate'' then [PText ''rate='', PInt (wl_Rate e)]
      else if wl_Kind e = ''set-window'' then [PText ''window=['', PInt (wl_TS e), PText '','', PInt (wl_TE e), PText '')'']
      else if wl_ArrayID e \<noteq> [] then
        [PText (''array='' @ wl_ArrayID e)] @ (if 0 <s wl_N e then [PText '' n='', PInt (wl_N e)] else [])
        @ (if wl_Idx e \<noteq> 0 \<or> wl_Kind e = ''start-task'' then [PText '' idx='', PInt (wl_Idx e)] else []) @ logCostDetail e
      else if wl_JobID e \<noteq> [] then [PText (''job='' @ wl_JobID e)] @ logCostDetail e
      else [])"

definition log_line :: "wireLogEntry \<Rightarrow> printed" where
  "log_line e = Line ([(0, PText ''t=''), (- 8, PInt (wl_Now e)), (0, PText '' ''), (- 22, PText (wl_Kind e)), (0, PText '' '')] @ map (Pair 0) (logDetail e))"

definition cmdLog :: "world \<Rightarrow> string list \<Rightarrow> result" where
  "cmdLog w args =
     with_flags w [(''account'', KStr)] args (\<lambda>vals _.
     with_reply w (socketFlag vals) (LogFrame (str_flag vals ''account'' [])) (\<lambda>resp.
       case fr_LogResp resp of
         None \<Rightarrow> cli_fail (lit ''log failed: empty response'')
       | Some r \<Rightarrow>
           if \<not> lgp_OK r then cli_fail (PText ''log failed: '' # lgp_Reason r)
           else \<lparr>x_code = 0,
                 x_out = plain [PText (''# transaction log for account '' @ lgp_Account r @ '' (''), PNat (length (lgp_Entries r)), PText '' entries)'']
                         # map log_line (lgp_Entries r),
                 x_err = []\<rparr>))"

definition ackResult :: "frame \<Rightarrow> msg \<Rightarrow> result" where
  "ackResult resp okMsg =
     (case fr_AckResp resp of
        None \<Rightarrow> cli_fail (lit ''rejected: empty response'')
      | Some a \<Rightarrow> if \<not> ak_OK a then cli_fail (PText ''rejected: '' # ak_Reason a) else prints 0 [PText ''ok: '' # okMsg])"

definition cmdSetRate :: "world \<Rightarrow> string list \<Rightarrow> result" where
  "cmdSetRate w args =
     with_flags w [(''account'', KStr), (''rate'', KInt)] args (\<lambda>vals _.
       let account = str_flag vals ''account'' []; rt = int_flag vals ''rate'' 0
       in if account = [] \<or> rt \<le>s 0 then cli_fail (lit ''--account and a positive --rate are required'')
          else with_reply w (socketFlag vals) (SetRateFrame account rt) (\<lambda>resp.
                 ackResult resp [PText (''rate for '' @ account @ '' set to ''), PInt rt, PText ''/s'']))"

definition cmdSetBurst :: "world \<Rightarrow> string list \<Rightarrow> result" where
  "cmdSetBurst w args =
     with_flags w [(''account'', KStr), (''ceiling-pct'', KFloat), (''draw-cap'', KInt), (''disable'', KBool)] args (\<lambda>vals _.
       let account = str_flag vals ''account'' []; pct = float_flag vals ''ceiling-pct''; dcap = int_flag vals ''draw-cap'' 0;
           disable = bool_flag vals ''disable''
       in if account = [] then cli_fail (lit ''--account is required'')
          else if disable = (0 < pct) then cli_fail (lit ''provide exactly one of --ceiling-pct (to enable) or --disable'')
          else let req = (if disable then \<lparr>sbq_Account = account, sbq_Enabled = False, sbq_CeilingPct = 0, sbq_DrawCap = 0\<rparr>
                          else \<lparr>sbq_Account = account, sbq_Enabled = True, sbq_CeilingPct = pct, sbq_DrawCap = dcap\<rparr>)
               in with_reply w (socketFlag vals) (SetBurstFrame req) (\<lambda>resp.
                    ackResult resp (if sbq_Enabled req
                      then [PText (''burst for '' @ account @ '' enabled (ceiling ''), PFloat pct, PText '', draw cap '', PInt dcap, PText '')'']
                      else [PText (''burst for '' @ account @ '' disabled'')])))"

definition parseTime :: "world \<Rightarrow> string \<Rightarrow> msg + i64" where
  "parseTime w s =
     (case ParseInt10 s of
        Some n \<Rightarrow> Inr n
      | None \<Rightarrow> (case w_parseRFC3339 w s of Some t \<Rightarrow> Inr t | None \<Rightarrow> Inl [PText ''want RFC3339 or epoch seconds, got '', PQuoted s]))"

text \<open>The window \<^verbatim>\<open>set-window\<close> asks for.\<close>

definition window_of :: "world \<Rightarrow> (string \<times> fval) list \<Rightarrow> msg + (Seconds \<times> Seconds)" where
  "window_of w vals =
     (let win = dur_flag vals ''window''; start = str_flag vals ''start'' []; stop = str_flag vals ''end'' []
      in if 0 <s win then Inr (w_now w, w_now w + whole_seconds win)
         else if start \<noteq> [] \<and> stop \<noteq> [] then
           (case parseTime w start of
              Inl e \<Rightarrow> Inl (PText ''--start: '' # e)
            | Inr ts \<Rightarrow> (case parseTime w stop of Inl e \<Rightarrow> Inl (PText ''--end: '' # e) | Inr te \<Rightarrow> Inr (ts, te)))
         else Inl (lit ''provide --window, or both --start and --end''))"

definition cmdSetWindow :: "world \<Rightarrow> string list \<Rightarrow> result" where
  "cmdSetWindow w args =
     with_flags w [(''account'', KStr), (''window'', KDur), (''start'', KStr), (''end'', KStr)] args (\<lambda>vals _.
       let account = str_flag vals ''account'' []
       in if account = [] then cli_fail (lit ''--account is required'')
          else case window_of w vals of
                 Inl e \<Rightarrow> cli_fail e
               | Inr (ts, te) \<Rightarrow>
                   with_reply w (socketFlag vals) (SetWindowFrame account ts te) (\<lambda>resp.
                     ackResult resp [PText (''window for '' @ account @ '' set to [''), PInt ts, PText '', '', PInt te, PText '')'']))"

definition resolve_lines :: "resolveResponse \<Rightarrow> msg list" where
  "resolve_lines r =
     [[PText (''Account:    '' @ rp_Account r)], [PText ''Resolved:   '', show_bool (rp_Resolved r)]]
     @ (if rp_Resolved r
        then [[PText ''Rate:       '', PInt (rp_Rate r), PText (''/s ('' @ rp_RateSource r @ '')'')], [PText ''Balance:    '', PInt (rp_Balance r)]]
             @ (if 0 <s rp_Cost r then [[PText ''Cost:       '', PInt (rp_Cost r)]] else []) @ [[PText ''Authorized: '', show_bool (rp_Authorized r)]]
        else [])
     @ [[PText ''Admits:     '', show_bool (rp_Admits r)], PText ''Why:        '' # rp_Decision r]"

definition cmdResolve :: "world \<Rightarrow> string list \<Rightarrow> result" where
  "cmdResolve w args =
     with_flags w [(''account'', KStr), (''partition'', KStr), (''time-limit'', KInt), (''uid'', KUint)] args (\<lambda>vals _.
       let account = str_flag vals ''account'' []
       in if account = [] then cli_fail (lit ''--account is required'')
          else if 2 ^ 32 - 1 < uint_flag vals ''uid'' then cli_fail (lit ''--uid out of range'')
          else with_reply w (socketFlag vals) (ResolveFrame \<lparr>rq_Account = account, rq_Partition = str_flag vals ''partition'' [], rq_UID = word_of_int (uint_flag vals ''uid''),
                 rq_TimeLimit = int_flag vals ''time-limit'' 0, rq_TRES = \<lparr>tr_CPUs = 0, tr_GPUs = 0, tr_Mem = 0\<rparr>\<rparr>) (\<lambda>resp.
            case fr_ResolveResp resp of
              None \<Rightarrow> cli_fail (lit ''empty resolve response'')
            | Some r \<Rightarrow> if \<not> rp_OK r then cli_fail (rp_Reason r) else prints (if rp_Admits r then 0 else 3) (resolve_lines r)))"

definition cmdSimulate :: "world \<Rightarrow> string list \<Rightarrow> result" where
  "cmdSimulate w args =
     with_flags w ([(''account'', KStr), (''partition'', KStr), (''time-limit'', KInt)] @ tres_flags) args (\<lambda>vals _.
       let account = str_flag vals ''account'' []; limit = int_flag vals ''time-limit'' 0
       in if account = [] \<or> limit \<le>s 0 then cli_fail (lit ''--account and a positive --time-limit are required'')
          else with_reply w (socketFlag vals) (SimulateFrame \<lparr>mq_Account = account, mq_Partition = str_flag vals ''partition'' [], mq_TimeLimit = limit, mq_TRES = tres_of vals\<rparr>) (\<lambda>resp.
            case fr_SimulateResp resp of
              None \<Rightarrow> cli_fail (lit ''empty simulate response'')
            | Some r \<Rightarrow>
                if \<not> mp_OK r then cli_fail (mp_Reason r)
                else prints (if mp_Admit r then 0 else 3)
                       [[PText (''Account:  '' @ mp_Account r)], [PText ''Rate:     '', PInt (mp_Rate r), PText (''/s ('' @ mp_RateSource r @ '')'')],
                        [PText ''Cost:     '', PInt (mp_Cost r)], [PText ''Balance:  '', PInt (mp_Balance r)], PText ''Runway:   '' # fmtTTE (mp_Runway r),
                        [PText (if mp_Admit r then ''Verdict:  WOULD FUND'' else ''Verdict:  WOULD NOT FUND ('' @ mp_Deny r @ '')'')]]))"

definition cmdDispatch :: "world \<Rightarrow> string list \<Rightarrow> result" where
  "cmdDispatch w args =
     with_flags w ([(''account'', KStr), (''partition'', KStr), (''time-limit'', KInt)] @ tres_flags) args (\<lambda>vals _.
       let account = str_flag vals ''account'' []; limit = int_flag vals ''time-limit'' 0
       in if account = [] \<or> limit \<le>s 0 then cli_fail (lit ''--account and a positive --time-limit are required'')
          else with_reply w (socketFlag vals) (DispatchFrame \<lparr>dq_Account = account, dq_Partition = str_flag vals ''partition'' [], dq_TimeLimit = limit, dq_TRES = tres_of vals\<rparr>) (\<lambda>resp.
            case fr_DispatchResp resp of
              None \<Rightarrow> cli_fail (lit ''empty dispatch response'')
            | Some r \<Rightarrow>
                if \<not> dp_OK r then cli_fail (dp_Reason r)
                else prints (if dp_Dispatch r then 0 else 3)
                       [[PText (''Account:  '' @ dp_Account r)], [PText ''Rate:     '', PInt (dp_Rate r), PText (''/s ('' @ dp_RateSource r @ '')'')],
                        [PText ''Reserve:  '', PInt (dp_Reserve r), PText '' tokens''], [PText ''Pot:      '', PInt (dp_Pot r)],
                        [PText (if dp_Dispatch r then ''Verdict:  WOULD DISPATCH'' else ''Verdict:  WOULD HOLD ('' @ dp_Hold r @ '')'')]]))"

text \<open>The words of standard input. A scanner stops silently at a word that does not fit its buffer of 64 KiB.\<close>

definition stdin_ids :: "string \<Rightarrow> string list" where
  "stdin_ids inp = filter (\<lambda>tok. tok \<noteq> []) (map TrimSpace (takeWhile (\<lambda>wd. length wd < 65536) (scan_words [] inp)))"

definition reconcile_ids :: "world \<Rightarrow> string \<Rightarrow> string list \<Rightarrow> result" where
  "reconcile_ids w socket ids =
     with_reply w socket (ReconcileFrame \<lparr>ocq_LiveJobIDs = ids\<rparr>) (\<lambda>resp.
       case fr_ReconcileResp resp of
         None \<Rightarrow> cli_fail (lit ''reconcile rejected: empty response'')
       | Some r \<Rightarrow>
           if \<not> ocp_OK r then cli_fail (PText ''reconcile rejected: '' # ocp_Reason r)
           else prints 0 [[PText ''ok: reclaimed '', PNat (ocp_Swept r), PText '' orphaned escrow(s) ('', PNat (length ids), PText '' live job ids)'']])"

definition cmdReconcile :: "world \<Rightarrow> string list \<Rightarrow> result" where
  "cmdReconcile w args =
     with_flags w [] args (\<lambda>vals rest. reconcile_ids w (socketFlag vals) (if rest = [] then stdin_ids (w_stdin w) else rest))"

definition cmdCreate :: "world \<Rightarrow> string list \<Rightarrow> result" where
  "cmdCreate w args =
     with_flags w [(''account'', KStr), (''balance'', KInt), (''rate'', KInt), (''window'', KStr), (''burst-ceiling-pct'', KFloat), (''burst-draw-cap'', KInt),
         (''allow-user'', KStr), (''allow-group'', KStr)] args (\<lambda>vals _.
       let account = str_flag vals ''account'' []; bal = int_flag vals ''balance'' 0; rt = int_flag vals ''rate'' 0; pct = float_flag vals ''burst-ceiling-pct''
       in if account = [] \<or> rt \<le>s 0 \<or> bal <s 0 then cli_fail (lit ''--account, a positive --rate, and a non-negative --balance are required'')
          else with_reply w (socketFlag vals) (CreateFrame \<lparr>cq_Account = account, cq_Balance = bal, cq_Rate = rt, cq_Window = str_flag vals ''window'' [],
                 cq_AllowUsers = list_flag vals ''allow-user'', cq_AllowGroups = list_flag vals ''allow-group'', cq_BurstEnabled = (0 < pct),
                 cq_BurstCeilingPct = pct, cq_BurstDrawCap = int_flag vals ''burst-draw-cap'' 0\<rparr>) (\<lambda>resp.
            ackResult resp [PText (''account '' @ account @ '' created (balance ''), PInt bal, PText '', rate '', PInt rt, PText ''/s)'']))"

definition go_list :: "string list \<Rightarrow> string" where
  "go_list xs = ''['' @ join_with '' '' xs @ '']''"

definition utf8_arrow :: string where
  "utf8_arrow = [CHR 0xE2, CHR 0x86, CHR 0x92]"

definition cmdAttach :: "world \<Rightarrow> bool \<Rightarrow> string list \<Rightarrow> result" where
  "cmdAttach w detach args =
     with_flags w [(''account'', KStr), (''user'', KStr), (''group'', KStr)] args (\<lambda>vals _.
       let name = (if detach then ''detach'' else ''attach''); account = str_flag vals ''account'' [];
           users = list_flag vals ''user''; groups = list_flag vals ''group''
       in if account = [] \<or> users = [] \<and> groups = [] then cli_fail (lit ''--account and at least one --user or --group are required'')
          else with_reply w (socketFlag vals) (AttachFrame \<lparr>aq_Account = account, aq_Users = users, aq_Groups = groups, aq_Detach = detach\<rparr>) (\<lambda>resp.
            case fr_AttachResp resp of
              None \<Rightarrow> cli_fail (lit (name @ '' rejected: empty response''))
            | Some r \<Rightarrow>
                if \<not> ap_OK r then cli_fail (PText (name @ '' rejected: '') # ap_Reason r)
                else prints 0 [[PText (''ok: '' @ name @ '' access for '' @ account @ '' '' @ utf8_arrow @ '' '' @
                       (if ap_AllowUsers r \<noteq> [] \<or> ap_AllowGroups r \<noteq> []
                        then ''users='' @ go_list (ap_AllowUsers r) @ '' groups='' @ go_list (ap_AllowGroups r)
                        else ''open (no restriction)''))]]))"

definition cmdTransfer :: "world \<Rightarrow> string list \<Rightarrow> result" where
  "cmdTransfer w args =
     with_flags w [(''from'', KStr), (''to'', KStr), (''amount'', KInt), (''all'', KBool)] args (\<lambda>vals _.
       let from = str_flag vals ''from'' []; dest = str_flag vals ''to'' []; amount = int_flag vals ''amount'' 0; al = bool_flag vals ''all''
       in if from = [] \<or> dest = [] then cli_fail (lit ''--from and --to are required'')
          else if al = (0 <s amount) then cli_fail (lit ''provide exactly one of --amount (positive) or --all'')
          else with_reply w (socketFlag vals) (TransferFrame \<lparr>xq_From = from, xq_To = dest, xq_Amount = amount, xq_All = al\<rparr>) (\<lambda>resp.
            case fr_TransferResp resp of
              None \<Rightarrow> prints 3 [lit ''reject: empty response'']
            | Some r \<Rightarrow>
                if \<not> xp_OK r then prints 3 [PText ''reject: '' # xp_Reason r]
                else prints 0 [[PText ''moved '', PInt (xp_Moved r), PText ('': '' @ from @ '' '' @ utf8_arrow @ '' '' @ dest @ '' ('' @ from @ '' now ''),
                       PInt (xp_FromBalance r), PText ('', '' @ dest @ '' now ''), PInt (xp_ToBalance r), PText '')'']]))"

section \<open>Entry point\<close>

definition has_prefix :: "string \<Rightarrow> string \<Rightarrow> bool" where
  "has_prefix p s \<longleftrightarrow> take (length p) s = p"

function hoist :: "string list \<Rightarrow> string list \<Rightarrow> string list" where
  "hoist leading [] = leading"
| "hoist leading (a # args) =
     (if a = ''--socket'' \<or> a = ''-socket'' then
        (case args of [] \<Rightarrow> hoist leading [] | v # args' \<Rightarrow> hoist (leading @ [a, v]) args')
      else if has_prefix ''--socket='' a \<or> has_prefix ''-socket='' a then hoist (leading @ [a]) args
      else a # args @ leading)"
  by pat_completeness auto
termination
  by (relation "measure (\<lambda>(_, args). length args)") auto

definition hoistGlobalFlags :: "string list \<Rightarrow> string list" where
  "hoistGlobalFlags args = hoist [] args"

definition Run :: "world \<Rightarrow> string list \<Rightarrow> result" where
  "Run w args =
     (case hoistGlobalFlags args of
        [] \<Rightarrow> \<lparr>x_code = 2, x_out = [], x_err = [Usage]\<rparr>
      | verb # rest \<Rightarrow>
          if verb = ''show'' then cmdShow w rest
          else if verb = ''gate'' then cmdGate w rest
          else if verb = ''bind'' then cmdBind w rest
          else if verb = ''settle'' then cmdSettle w rest
          else if verb = ''topup'' then cmdTopUp w rest
          else if verb = ''list'' then cmdList w rest
          else if verb = ''log'' then cmdLog w rest
          else if verb = ''set-rate'' then cmdSetRate w rest
          else if verb = ''set-window'' then cmdSetWindow w rest
          else if verb = ''set-burst'' then cmdSetBurst w rest
          else if verb = ''resolve'' then cmdResolve w rest
          else if verb = ''simulate'' \<or> verb = ''estimate'' then cmdSimulate w rest
          else if verb = ''dispatch'' \<or> verb = ''may-dispatch'' then cmdDispatch w rest
          else if verb = ''reconcile'' then cmdReconcile w rest
          else if verb = ''create'' then cmdCreate w rest
          else if verb = ''attach'' then cmdAttach w False rest
          else if verb = ''detach'' then cmdAttach w True rest
          else if verb = ''transfer'' then cmdTransfer w rest
          else if verb = ''ping'' then cmdPing w rest
          else if verb = ''help'' \<or> verb = ''-h'' \<or> verb = ''--help'' then \<lparr>x_code = 0, x_out = [Usage], x_err = []\<rparr>
          else \<lparr>x_code = 2, x_out = [], x_err = [plain [PText ''obol: unknown command '', PQuoted verb], Usage]\<rparr>)"

end
