(* ===== verification/Janitor.thy ===== *)
theory Janitor
  imports Ledger
begin

text \<open>
  The two janitors (\<^verbatim>\<open>janitor.go\<close>): \<open>SweepUnbound\<close> ages out reservations that never started,
  \<open>SweepOrphans\<close> settles started work the scheduler no longer knows. Both collect under the lock what they will
  settle and then settle it with the ordinary transitions, one lock at a time; the model runs them
  with no other caller in between.
\<close>

section \<open>Model\<close>

datatype orphanPolicy = OrphanConsumeFull | OrphanRefundFull

text \<open>Settle the collected work in order and count the successes; a panic ends the process.\<close>

fun sweep :: "('k \<Rightarrow> budget \<Rightarrow> budget \<times> outcome) \<Rightarrow> 'k list \<Rightarrow> budget \<times> nat \<times> outcome \<Rightarrow> budget \<times> nat \<times> outcome" where
  "sweep stp [] s = s"
| "sweep stp (k # ks) (bd, n, Done) =
     (case stp k bd of
        (bd', Done) \<Rightarrow> sweep stp ks (bd', n + 1, Done)
      | (bd', Fail e) \<Rightarrow> sweep stp ks (bd', n, Done)
      | (bd', Panic p) \<Rightarrow> (bd', n, Panic p))"
| "sweep stp (k # ks) s = s"

definition stale :: "Seconds \<Rightarrow> Seconds \<Rightarrow> escrow \<Rightarrow> bool" where
  "stale ttl now e \<longleftrightarrow> \<not> e_Started e \<and> ttl \<le>s now - e_Submitted e"

definition unbound_array :: "Seconds \<Rightarrow> Seconds \<Rightarrow> arrayEscrow \<Rightarrow> bool" where
  "unbound_array ttl now ae \<longleftrightarrow> \<not> now - a_Submitted ae <s ttl \<and> \<not> list_ex (t_started \<circ> snd) (a_tasks ae)"

definition SweepUnbound :: "Seconds \<Rightarrow> Seconds \<Rightarrow> budget \<Rightarrow> budget \<times> nat \<times> outcome" where
  "SweepUnbound ttl now bd =
     (let ids = map fst (filter (\<lambda>(jid, e). stale ttl now e) (escrows bd));
          tasks = concat (map (\<lambda>(aid, ae). if unbound_array ttl now ae
                    then map (\<lambda>(idx, ts). (aid, idx)) (filter (\<lambda>(idx, ts). \<not> t_settled ts) (a_tasks ae)) else [])
                  (arrays bd))
      in sweep (\<lambda>(aid, idx). CancelTask aid idx 0 now) tasks
           (sweep (\<lambda>jid. Cancel jid 0 now) ids (bd, 0, Done)))"

definition orphan :: "string set \<Rightarrow> string \<Rightarrow> escrow \<Rightarrow> bool" where
  "orphan liveIDs jid e \<longleftrightarrow> e_Started e \<and> jid \<notin> liveIDs"

definition SweepOrphans :: "string set \<Rightarrow> orphanPolicy \<Rightarrow> Seconds \<Rightarrow> budget \<Rightarrow> budget \<times> nat \<times> outcome" where
  "SweepOrphans liveIDs policy now bd =
     (let ids = map fst (filter (\<lambda>(jid, e). orphan liveIDs jid e) (escrows bd));
          tasks = concat (map (\<lambda>(aid, ae). if aid \<in> liveIDs then []
                    else map (\<lambda>(idx, ts). (aid, idx)) (filter (\<lambda>(idx, ts). t_started ts \<and> \<not> t_settled ts) (a_tasks ae)))
                  (arrays bd))
      in sweep (\<lambda>(aid, idx). case policy of OrphanRefundFull \<Rightarrow> CancelTask aid idx 0 now
                              | OrphanConsumeFull \<Rightarrow> TimeoutTask aid idx now) tasks
           (sweep (\<lambda>jid. case policy of OrphanRefundFull \<Rightarrow> Cancel jid 0 now | OrphanConsumeFull \<Rightarrow> Timeout jid now)
              ids (bd, 0, Done)))"

section \<open>What one settlement of a sweep keeps\<close>

text \<open>No log to fail and no empty window to divide by.\<close>

definition quiet :: "budget \<Rightarrow> bool" where
  "quiet bd \<longleftrightarrow> (replaying bd \<or> wal_of bd = None) \<and> (\<not> BurstEnabled bd \<or> window bd \<noteq> 0)"

locale settler =
  fixes stp :: "'k \<Rightarrow> budget \<Rightarrow> budget \<times> outcome" and inv :: "budget \<Rightarrow> bool"
  assumes stp_inv: "inv bd \<Longrightarrow> inv (fst (stp k bd))"
    and stp_no_panic: "inv bd \<Longrightarrow> snd (stp k bd) \<noteq> Panic p"
begin

lemma sweep_inv: "inv bd \<Longrightarrow> inv (fst (sweep stp ks (bd, n, Done))) \<and> snd (snd (sweep stp ks (bd, n, Done))) = Done"
proof (induction ks arbitrary: bd n)
  case (Cons k ks)
  obtain bd' r where r: "stp k bd = (bd', r)" by (cases "stp k bd")
  with Cons stp_inv [of bd k] stp_no_panic [of bd k] show ?case by (cases r) auto
qed simp

end

text \<open>The exits a sweep uses, as one family.\<close>

definition exit_of :: "bool \<Rightarrow> string \<Rightarrow> Seconds \<Rightarrow> budget \<Rightarrow> budget \<times> outcome" where
  "exit_of refund jid now = (if refund then Cancel jid 0 now else Timeout jid now)"

definition task_exit_of :: "bool \<Rightarrow> string \<times> i64 \<Rightarrow> Seconds \<Rightarrow> budget \<Rightarrow> budget \<times> outcome" where
  "task_exit_of refund k now = (if refund then CancelTask (fst k) (snd k) 0 now else TimeoutTask (fst k) (snd k) now)"

lemma settle_frame:
  assumes "quiet bd"
  shows "quiet (fst (settle j t wo now bd))" and "snd (settle j t wo now bd) \<noteq> Panic p"
    and "arrays (fst (settle j t wo now bd)) = arrays bd"
    and "map_of (escrows (fst (settle j t wo now bd))) k = (if k = j then None else map_of (escrows bd) k)"
    and "B0 (fst (settle j t wo now bd)) = B0 bd"
proof -
  have acc: "snd (accrue now bd) = Done" using assms by (auto simp: quiet_def intro: accrue_Done)
  have sb: "wal_of (settle_burst c w st resv rt b) = wal_of b" "replaying (settle_burst c w st resv rt b) = replaying b"
    "BurstEnabled (settle_burst c w st resv rt b) = BurstEnabled b" "window (settle_burst c w st resv rt b) = window b" for c w st resv rt b
    using settle_burst_frame [of c w st resv rt b] by (auto simp: window_def)
  have sm: "wal_of (settle_money x y z b) = wal_of b" "replaying (settle_money x y z b) = replaying b"
    "BurstEnabled (settle_money x y z b) = BurstEnabled b" "window (settle_money x y z b) = window b" for x y z b
    by (simp_all add: settle_money_def Let_def window_def)
  have win: "window (b\<lparr>escrows := m\<rparr>) = window b" "window (publishLocked b) = window b" for b m
    by (simp_all add: window_def)
  show "quiet (fst (settle j t wo now bd))" "snd (settle j t wo now bd) \<noteq> Panic p"
    "arrays (fst (settle j t wo now bd)) = arrays bd" "B0 (fst (settle j t wo now bd)) = B0 bd"
    "map_of (escrows (fst (settle j t wo now bd))) k = (if k = j then None else map_of (escrows bd) k)"
    using assms
    by (auto simp: settle_def with_accrue_Done acc Let_def quiet_def sb sm win gomap_simps split: option.split)
qed

lemma settleTask_frame:
  assumes "quiet bd" "kernel_inv bd"
  shows "quiet (fst (settleTask j i t wo now bd))" and "snd (settleTask j i t wo now bd) \<noteq> Panic p"
    and "escrows (fst (settleTask j i t wo now bd)) = escrows bd" and "B0 (fst (settleTask j i t wo now bd)) = B0 bd"
    and "k \<noteq> j \<Longrightarrow> map_of (arrays (fst (settleTask j i t wo now bd))) k = map_of (arrays bd) k"
proof -
  have acc: "snd (accrue now bd) = Done" using assms by (auto simp: quiet_def intro: accrue_Done)
  have sb: "wal_of (settle_burst c w st resv rt b) = wal_of b" "replaying (settle_burst c w st resv rt b) = replaying b"
    "BurstEnabled (settle_burst c w st resv rt b) = BurstEnabled b" "window (settle_burst c w st resv rt b) = window b" for c w st resv rt b
    using settle_burst_frame [of c w st resv rt b] by (auto simp: window_def)
  have sm: "wal_of (settle_money x y z b) = wal_of b" "replaying (settle_money x y z b) = replaying b"
    "BurstEnabled (settle_money x y z b) = BurstEnabled b" "window (settle_money x y z b) = window b" for x y z b
    by (simp_all add: settle_money_def Let_def window_def)
  have win: "window (b\<lparr>arrays := m\<rparr>) = window b" "window (publishLocked b) = window b" for b m
    by (simp_all add: window_def)
  have "quiet (fst (settleTask j i t wo now bd)) \<and> snd (settleTask j i t wo now bd) \<noteq> Panic p
    \<and> escrows (fst (settleTask j i t wo now bd)) = escrows bd \<and> B0 (fst (settleTask j i t wo now bd)) = B0 bd
    \<and> (k \<noteq> j \<longrightarrow> map_of (arrays (fst (settleTask j i t wo now bd))) k = map_of (arrays bd) k)"
  proof (cases "\<exists>ae ts. map_of (arrays bd) j = Some ae \<and> map_of (a_tasks ae) i = Some ts \<and> \<not> t_settled ts")
    case True
    then obtain ae ts where *: "map_of (arrays bd) j = Some ae" "map_of (a_tasks ae) i = Some ts" "\<not> t_settled ts" by blast
    show ?thesis
      unfolding settleTask_eq [OF assms(2) *] with_accrue_Done [OF acc] Let_def
      using assms(1) by (simp add: quiet_def sb sm win put_array_def gomap_simps)
  next
    case False
    then show ?thesis using assms(1) by (auto simp: settleTask_def split: option.split)
  qed
  then show "quiet (fst (settleTask j i t wo now bd))" "snd (settleTask j i t wo now bd) \<noteq> Panic p"
    "escrows (fst (settleTask j i t wo now bd)) = escrows bd" "B0 (fst (settleTask j i t wo now bd)) = B0 bd"
    "k \<noteq> j \<Longrightarrow> map_of (arrays (fst (settleTask j i t wo now bd))) k = map_of (arrays bd) k" by blast+
qed

text \<open>The money an exit at either end of the walltime moves: nothing is billed, or nothing is refunded.\<close>

definition exit_money :: "bool \<Rightarrow> budget \<Rightarrow> budget \<Rightarrow> bool" where
  "exit_money refund bd bd' \<longleftrightarrow>
     B0 bd' = B0 bd \<and> WriteOff bd' = WriteOff bd \<and> (if refund then Consumed bd' = Consumed bd else B bd' = B bd)"

lemma clamp_zero: "0 \<le> sint w \<Longrightarrow> clamp_runtime w 0 = 0"
  by (simp add: clamp_runtime_def i64_simps)

lemma clamp_full: "0 \<le> sint w \<Longrightarrow> clamp_runtime w w = w"
  by (simp add: clamp_runtime_def i64_simps)

lemma settle_exit_money:
  assumes inv: "ledger_inv bd" and q: "quiet bd" and e: "map_of (escrows bd) j = Some e"
  shows "exit_money refund bd (fst (settle j (if refund then 0 else e_W e) False now bd))"
proof -
  have "escrow_exact e" "e_Reserved e = e_C e * e_W e"
    using ledger_bounds(2) [OF inv e] inv mall_lookup [of escrow_inv "escrows bd" j e, OF _ e]
    by (simp_all add: ledger_inv_def kernel_inv_def escrow_inv_def)
  then show ?thesis
    using settle_books(2) [OF e, of "if refund then 0 else e_W e" False now] q
    by (auto simp: quiet_def settled_books_def exit_money_def escrow_exact_def clamp_zero clamp_full Let_def)
qed

lemma settleTask_exit_money:
  assumes inv: "ledger_inv bd" and q: "quiet bd" and a: "map_of (arrays bd) j = Some ae"
  shows "exit_money refund bd (fst (settleTask j i (if refund then 0 else a_W ae) False now bd))"
proof (cases "\<exists>ts. map_of (a_tasks ae) i = Some ts \<and> \<not> t_settled ts")
  case True
  then obtain ts where ts: "map_of (a_tasks ae) i = Some ts" "\<not> t_settled ts" by blast
  have acc: "snd (accrue now bd) = Done" using q by (auto simp: quiet_def intro: accrue_Done)
  have w: "0 \<le> sint (a_W ae)" using ledger_bounds(3) [OF inv a] by (simp add: array_exact_def)
  have "kernel_inv bd" using inv by (simp add: ledger_inv_def)
  then show ?thesis
    unfolding settleTask_eq [OF _ a ts] with_accrue_Done [OF acc] Let_def
    using w by (simp add: settleTask_eq [OF _ a ts] with_accrue_Done [OF acc] Let_def exit_money_def put_array_def clamp_zero clamp_full slice_def)
next
  case False
  then show ?thesis using a by (auto simp: settleTask_def exit_money_def split: option.split)
qed

section \<open>Sweeping\<close>

definition sweep_inv :: "bool \<Rightarrow> budget \<Rightarrow> budget \<Rightarrow> bool" where
  "sweep_inv refund bd0 bd \<longleftrightarrow> ledger_inv bd \<and> quiet bd \<and> exit_money refund bd0 bd"

lemma exit_money_trans: "exit_money r a b \<Longrightarrow> exit_money r b c \<Longrightarrow> exit_money r a c"
  by (auto simp: exit_money_def split: if_splits)

lemma quiet_with_log: "quiet bd \<Longrightarrow> with_log c k bd = k bd"
  by (simp add: with_log_def quiet_def)

lemma exit_of_settle:
  assumes "quiet bd"
  shows "exit_of refund j now bd =
    (case map_of (escrows bd) j of None \<Rightarrow> (bd, Fail ErrNoSuchJob)
     | Some e \<Rightarrow> settle j (if refund then 0 else e_W e) False now bd)"
  using assms by (auto simp: exit_of_def Cancel_def Timeout_def quiet_with_log split: option.split)

lemma exit_of_inv:
  assumes "sweep_inv refund bd0 bd"
  shows "sweep_inv refund bd0 (fst (exit_of refund j now bd))" and "snd (exit_of refund j now bd) \<noteq> Panic p"
proof -
  have q: "quiet bd" "ledger_inv bd" "exit_money refund bd0 bd" using assms by (simp_all add: sweep_inv_def)
  have "sweep_inv refund bd0 (fst (exit_of refund j now bd)) \<and> snd (exit_of refund j now bd) \<noteq> Panic p"
  proof (cases "map_of (escrows bd) j")
    case None
    then show ?thesis using assms by (simp add: exit_of_settle [OF q(1)])
  next
    case (Some e)
    then show ?thesis
      unfolding exit_of_settle [OF q(1)] sweep_inv_def
      using settle_frame(1,2) [OF q(1)] settle_ledger [OF q(2)] exit_money_trans [OF q(3) settle_exit_money [OF q(2,1) Some]]
      by simp
  qed
  then show "sweep_inv refund bd0 (fst (exit_of refund j now bd))" "snd (exit_of refund j now bd) \<noteq> Panic p" by blast+
qed

lemma exit_of_escrows:
  assumes "sweep_inv refund bd0 bd"
  shows "map_of (escrows (fst (exit_of refund j now bd))) k = (if k = j then None else map_of (escrows bd) k)"
    and "arrays (fst (exit_of refund j now bd)) = arrays bd"
proof -
  have "quiet bd" using assms by (simp add: sweep_inv_def)
  then show "map_of (escrows (fst (exit_of refund j now bd))) k = (if k = j then None else map_of (escrows bd) k)"
    "arrays (fst (exit_of refund j now bd)) = arrays bd"
    using settle_frame(3,4) [of bd] by (auto simp: exit_of_settle split: option.split)
qed

lemma task_exit_inv:
  assumes "sweep_inv refund bd0 bd"
  shows "sweep_inv refund bd0 (fst (task_exit_of refund k now bd))" and "snd (task_exit_of refund k now bd) \<noteq> Panic p"
    and "escrows (fst (task_exit_of refund k now bd)) = escrows bd"
    and "a \<noteq> fst k \<Longrightarrow> map_of (arrays (fst (task_exit_of refund k now bd))) a = map_of (arrays bd) a"
proof -
  have q: "quiet bd" "ledger_inv bd" "exit_money refund bd0 bd" and ki: "kernel_inv bd"
    using assms by (simp_all add: sweep_inv_def ledger_inv_def)
  have "task_exit_of refund k now bd = (bd, Fail ErrNoSuchJob)
      \<or> (\<exists>ae. map_of (arrays bd) (fst k) = Some ae
           \<and> task_exit_of refund k now bd = settleTask (fst k) (snd k) (if refund then 0 else a_W ae) False now bd)"
    using q(1) by (auto simp: task_exit_of_def CancelTask_def TimeoutTask_def quiet_with_log split: option.split)
  then show "sweep_inv refund bd0 (fst (task_exit_of refund k now bd))" "snd (task_exit_of refund k now bd) \<noteq> Panic p"
    "escrows (fst (task_exit_of refund k now bd)) = escrows bd"
    "a \<noteq> fst k \<Longrightarrow> map_of (arrays (fst (task_exit_of refund k now bd))) a = map_of (arrays bd) a"
    using assms q settleTask_frame [OF q(1) ki] settleTask_ledger [OF q(2)] settleTask_exit_money [OF q(2,1)]
    by (auto simp: sweep_inv_def intro: exit_money_trans)
qed

interpretation jobs: settler "\<lambda>jid. exit_of refund jid now" "sweep_inv refund bd0" for refund now bd0
  by unfold_locales (rule exit_of_inv, assumption)+

interpretation tasks: settler "\<lambda>k. task_exit_of refund k now" "sweep_inv refund bd0" for refund now bd0
  by unfold_locales (rule task_exit_inv, assumption)+

lemma sweep_jobs:
  assumes "sweep_inv refund bd0 bd"
  shows "map_of (escrows (fst (sweep (\<lambda>jid. exit_of refund jid now) ks (bd, n, Done)))) k
      = (if k \<in> set ks then None else map_of (escrows bd) k)
    \<and> arrays (fst (sweep (\<lambda>jid. exit_of refund jid now) ks (bd, n, Done))) = arrays bd"
  using assms
proof (induction ks arbitrary: bd n)
  case (Cons j ks)
  obtain bd' r where r: "exit_of refund j now bd = (bd', r)" by (cases "exit_of refund j now bd")
  have "sweep_inv refund bd0 bd'" "r \<noteq> Panic p" for p
    using exit_of_inv [OF Cons.prems, of j now] r by auto
  moreover have "map_of (escrows bd') k = (if k = j then None else map_of (escrows bd) k)" "arrays bd' = arrays bd"
    using exit_of_escrows [OF Cons.prems, of j now] r by auto
  ultimately show ?case using Cons.IH [of bd'] r by (cases r) auto
qed simp

lemma sweep_tasks:
  assumes "sweep_inv refund bd0 bd"
  shows "escrows (fst (sweep (\<lambda>k. task_exit_of refund k now) ks (bd, n, Done))) = escrows bd
    \<and> (a \<notin> fst ` set ks \<longrightarrow> map_of (arrays (fst (sweep (\<lambda>k. task_exit_of refund k now) ks (bd, n, Done)))) a = map_of (arrays bd) a)"
  using assms
proof (induction ks arbitrary: bd n)
  case (Cons j ks)
  obtain bd' r where r: "task_exit_of refund j now bd = (bd', r)" by (cases "task_exit_of refund j now bd")
  have "sweep_inv refund bd0 bd'" "r \<noteq> Panic p" for p
    using task_exit_inv(1,2) [OF Cons.prems, of j now] r by auto
  moreover have "escrows bd' = escrows bd" "a \<noteq> fst j \<Longrightarrow> map_of (arrays bd') a = map_of (arrays bd) a"
    using task_exit_inv(3,4) [OF Cons.prems] r by (metis fst_conv)+
  ultimately show ?case using Cons.IH [of bd'] r by (cases r) auto
qed simp

text \<open>Both janitors are a sweep of jobs, then a sweep of tasks.\<close>

lemma sweep_both:
  assumes inv: "ledger_inv bd" "quiet bd"
    and p: "p = sweep (\<lambda>k. task_exit_of refund k now) ts (sweep (\<lambda>jid. exit_of refund jid now) js (bd, 0, Done))"
  shows "snd (snd p) = Done" and "sweep_inv refund bd (fst p)"
    and "map_of (escrows (fst p)) k = (if k \<in> set js then None else map_of (escrows bd) k)"
    and "a \<notin> fst ` set ts \<Longrightarrow> map_of (arrays (fst p)) a = map_of (arrays bd) a"
proof -
  have s0: "sweep_inv refund bd bd" using inv by (simp add: sweep_inv_def exit_money_def)
  obtain bd1 n where 1: "sweep (\<lambda>jid. exit_of refund jid now) js (bd, 0, Done) = (bd1, n, Done)"
    and s1: "sweep_inv refund bd bd1"
    using jobs.sweep_inv [OF s0, of now js 0] by (metis prod.collapse)
  show "snd (snd p) = Done" "sweep_inv refund bd (fst p)"
    using tasks.sweep_inv [OF s1, of now ts n] unfolding p 1 by blast+
  show "map_of (escrows (fst p)) k = (if k \<in> set js then None else map_of (escrows bd) k)"
    "a \<notin> fst ` set ts \<Longrightarrow> map_of (arrays (fst p)) a = map_of (arrays bd) a"
    using sweep_tasks [OF s1, of now ts n a] sweep_jobs [OF s0, of now js 0 k] unfolding p 1 by auto
qed

lemma SweepUnbound_sweep:
  "SweepUnbound ttl now bd = sweep (\<lambda>k. task_exit_of True k now)
     (concat (map (\<lambda>(aid, ae). if unbound_array ttl now ae
        then map (\<lambda>(idx, ts). (aid, idx)) (filter (\<lambda>(idx, ts). \<not> t_settled ts) (a_tasks ae)) else []) (arrays bd)))
     (sweep (\<lambda>jid. exit_of True jid now) (map fst (filter (\<lambda>(jid, e). stale ttl now e) (escrows bd))) (bd, 0, Done))"
  by (simp add: SweepUnbound_def exit_of_def task_exit_of_def case_prod_unfold)

lemma SweepOrphans_sweep:
  "SweepOrphans liveIDs policy now bd = sweep (\<lambda>k. task_exit_of (policy = OrphanRefundFull) k now)
     (concat (map (\<lambda>(aid, ae). if aid \<in> liveIDs then []
        else map (\<lambda>(idx, ts). (aid, idx)) (filter (\<lambda>(idx, ts). t_started ts \<and> \<not> t_settled ts) (a_tasks ae))) (arrays bd)))
     (sweep (\<lambda>jid. exit_of (policy = OrphanRefundFull) jid now)
        (map fst (filter (\<lambda>(jid, e). orphan liveIDs jid e) (escrows bd))) (bd, 0, Done))"
  by (cases policy) (simp_all add: SweepOrphans_def exit_of_def task_exit_of_def case_prod_unfold)

lemma swept_keys:
  assumes "gomap_ok m"
  shows "k \<in> set (map fst (filter (\<lambda>(j, e). P j e) m)) \<longleftrightarrow> (case map_of m k of None \<Rightarrow> False | Some e \<Rightarrow> P k e)"
proof (cases "map_of m k")
  case None
  then have "(k, e) \<notin> set m" for e by (metis fst_conv imageI map_of_eq_None_iff)
  with None show ?thesis by auto
next
  case (Some e)
  then have "(k, e') \<in> set m \<longleftrightarrow> e' = e" for e'
    using assms by (metis gomap_ok_def map_of_eq_Some_iff option.inject)
  with Some show ?thesis by (auto simp: image_iff)
qed

lemma kept_arrays:
  assumes "gomap_ok m" "map_of m a = Some ae" "\<not> P a ae \<or> (\<forall>(i, t) \<in> set (a_tasks ae). \<not> Q t)"
  shows "a \<notin> fst ` set (concat (map (\<lambda>(aid, ae). if P aid ae
        then map (\<lambda>(idx, ts). (aid, idx)) (filter (\<lambda>(idx, ts). Q ts) (a_tasks ae)) else []) m))"
proof -
  have "ae' = ae" if "(a, ae') \<in> set m" for ae' using that assms(1,2) by (simp add: gomap_ok_def)
  with assms(3) show ?thesis by (fastforce split: if_splits)
qed





end
