(* ===== verification/Registry.thy ===== *)
theory Registry
  imports Config Janitor
begin

text \<open>
  The registry of accounts (\<^verbatim>\<open>internal/daemon/registry.go\<close>, \<^verbatim>\<open>accountmeta.go\<close>): one budget per account, its access lists
  and its directory on disk.

  \<^item> A \<open>*budget.Budget\<close> is the account name it is registered under: the registry never drops or replaces a budget
    while it runs, so the name identifies the object, and two holders of the same name share it.
  \<^item> The disk is a map from cleaned paths to account directories. The log of a live budget is in the budget; its directory
    holds the snapshot, the log as of the last start, and \<^verbatim>\<open>account.json\<close>.
  \<^item> \<open>env\<close> is what the operating system supplies: the readings of the clock, random bytes, and the daemon's own file
    operations that fail.
\<close>

section \<open>State\<close>

record env =
  e_clock :: "nat \<Rightarrow> Seconds"
  e_ticks :: nat
  e_rand :: "nat \<Rightarrow> string option"
  e_draws :: nat
  e_io :: "bool list"

record accountMeta =
  am_Name :: string
  am_AllowUsers :: "string list"
  am_AllowGroups :: "string list"

record account_dir =
  ad_state :: state_dir
  ad_meta :: "accountMeta option"

record transferRecord =
  tx_XferID :: string
  tx_From :: string
  tx_To :: string
  tx_Amount :: Units
  tx_Now :: Seconds

record registry =
  rg_budgets :: "(string, budget) gomap"
  rg_access :: "(string, accountConfig) gomap"
  rg_stateDir :: string
  rg_sync :: bool
  rg_hasClock :: bool
  rg_adminUsers :: "string list"
  rg_adminGroups :: "string list"
  rg_disk :: "(string, account_dir) gomap"
  rg_journal :: "(string, transferRecord) gomap"
  rg_env :: env

text \<open>An error with its text, or a panic, which ends the process.\<close>

datatype fault = Err msg | Crash panic

definition reg_now :: "registry \<Rightarrow> Seconds \<times> registry" where
  "reg_now r = (e_clock (rg_env r) (e_ticks (rg_env r)), r\<lparr>rg_env := (rg_env r)\<lparr>e_ticks := e_ticks (rg_env r) + 1\<rparr>\<rparr>)"

text \<open>16 random bytes, or a failing random source.\<close>

definition rand_bytes :: "registry \<Rightarrow> string option \<times> registry" where
  "rand_bytes r = (e_rand (rg_env r) (e_draws (rg_env r)), r\<lparr>rg_env := (rg_env r)\<lparr>e_draws := e_draws (rg_env r) + 1\<rparr>\<rparr>)"

text \<open>One file operation of the daemon: whether it fails.\<close>

definition io_fails :: "registry \<Rightarrow> bool \<times> registry" where
  "io_fails r =
     (case e_io (rg_env r) of [] \<Rightarrow> (False, r) | b # bs \<Rightarrow> (b, r\<lparr>rg_env := (rg_env r)\<lparr>e_io := bs\<rparr>\<rparr>))"

definition io_error :: msg where
  "io_error = lit ''i/o error''"

text \<open>A method call on the budget an account name stands for.\<close>

definition put_budget :: "string \<Rightarrow> budget \<Rightarrow> registry \<Rightarrow> registry" where
  "put_budget k bd r = r\<lparr>rg_budgets := AList.update k bd (rg_budgets r)\<rparr>"

definition call :: "string \<Rightarrow> (budget \<Rightarrow> budget \<times> outcome) \<Rightarrow> registry \<Rightarrow> registry \<times> outcome" where
  "call k f r =
     (case map_of (rg_budgets r) k of
        None \<Rightarrow> (r, Panic NilDereference)
      | Some bd \<Rightarrow> (case f bd of (bd', x) \<Rightarrow> (put_budget k bd' r, x)))"

definition call_Report :: "string \<Rightarrow> Seconds \<Rightarrow> registry \<Rightarrow> registry \<times> outcome \<times> report" where
  "call_Report k now r =
     (case map_of (rg_budgets r) k of
        None \<Rightarrow> (r, Panic NilDereference, report_of (New 0 0 0 0))
      | Some bd \<Rightarrow> (case Report now bd of (bd', x, rep) \<Rightarrow> (put_budget k bd' r, x, rep)))"

definition balance_of :: "string \<Rightarrow> registry \<Rightarrow> Units" where
  "balance_of k r = (case map_of (rg_budgets r) k of None \<Rightarrow> 0 | Some bd \<Rightarrow> Balance bd)"

section \<open>Lookup\<close>

definition adminEnforced :: "registry \<Rightarrow> bool" where
  "adminEnforced r \<longleftrightarrow> rg_adminUsers r \<noteq> [] \<or> rg_adminGroups r \<noteq> []"

definition accessOf :: "string \<Rightarrow> registry \<Rightarrow> accountConfig option" where
  "accessOf account r = map_of (rg_access r) account"

definition ErrNoBudget :: "string \<Rightarrow> msg" where
  "ErrNoBudget account = [PText ''no budget for account: '', PQuoted account]"

definition ErrExists :: "string \<Rightarrow> msg" where
  "ErrExists account = [PText ''account already exists: '', PQuoted account]"

definition Resolve :: "string \<Rightarrow> registry \<Rightarrow> msg + string" where
  "Resolve account r =
     (if map_of (rg_budgets r) account \<noteq> None then Inr account
      else if length (rg_budgets r) = 1 \<and> map_of (rg_budgets r) ''default'' \<noteq> None then Inr ''default''
      else Inl (ErrNoBudget account))"

definition Names :: "registry \<Rightarrow> string list" where
  "Names r = map fst (rg_budgets r)"

definition Single :: "registry \<Rightarrow> string option" where
  "Single r = (case rg_budgets r of [(n, _)] \<Rightarrow> Some n | _ \<Rightarrow> None)"

section \<open>Account metadata\<close>

text \<open>Write the temporary file, then rename it over \<^verbatim>\<open>account.json\<close>.\<close>

definition writeAccountMeta :: "string \<Rightarrow> accountConfig \<Rightarrow> registry \<Rightarrow> registry \<times> msg option" where
  "writeAccountMeta path a r =
     (case map_of (rg_disk r) path of
        None \<Rightarrow> (r, Some io_error)
      | Some ad \<Rightarrow>
          (case io_fails r of
             (True, r1) \<Rightarrow> (r1, Some io_error)
           | (False, r1) \<Rightarrow>
               (case io_fails r1 of
                  (True, r2) \<Rightarrow> (r2, Some io_error)
                | (False, r2) \<Rightarrow>
                    (r2\<lparr>rg_disk := AList.update path
                         (ad\<lparr>ad_meta := Some \<lparr>am_Name = ac_Name a, am_AllowUsers = ac_AllowUsers a,
                                            am_AllowGroups = ac_AllowGroups a\<rparr>\<rparr>) (rg_disk r2)\<rparr>, None))))"

definition readAccountMeta :: "string \<Rightarrow> account_dir \<Rightarrow> accountConfig" where
  "readAccountMeta path ad =
     (case ad_meta ad of
        None \<Rightarrow> account0\<lparr>ac_Name := path_base path\<rparr>
      | Some m \<Rightarrow>
          account0\<lparr>ac_Name := (if am_Name m = [] then path_base path else am_Name m),
                   ac_AllowUsers := am_AllowUsers m, ac_AllowGroups := am_AllowGroups m\<rparr>)"

section \<open>Creating and opening accounts\<close>

text \<open>The directory as a fresh open finds it: the log of a budget that is live in it is the live log.\<close>

definition live_wal :: "string \<Rightarrow> registry \<Rightarrow> string option" where
  "live_wal path r =
     (case find (\<lambda>(_, bd). dir bd = path \<and> wal_of bd \<noteq> None) (rg_budgets r) of
        None \<Rightarrow> None
      | Some (_, bd) \<Rightarrow> map_option (\<lambda>w. f_bytes (w_file w)) (wal_of bd))"

definition dir_image :: "string \<Rightarrow> registry \<Rightarrow> account_dir option" where
  "dir_image path r =
     map_option (\<lambda>ad. case live_wal path r of
                        None \<Rightarrow> ad
                      | Some bs \<Rightarrow> ad\<lparr>ad_state := (ad_state ad)\<lparr>d_wal := Some bs\<rparr>\<rparr>)
       (map_of (rg_disk r) path)"

definition open_dir :: "string \<Rightarrow> registry \<Rightarrow> outcome + budget" where
  "open_dir path r =
     (case dir_image path r of
        None \<Rightarrow> Inl (Fail (ErrText ''no snapshot; use NewDurable to create''))
      | Some ad \<Rightarrow> OpenBudget path (rg_sync r) (ad_state ad))"

definition empty_dir :: state_dir where
  "empty_dir = \<lparr>d_snapshot = None, d_tmp = None, d_wal = None, io_fault = None\<rparr>"

text \<open>\<open>NewDurableBurst\<close> in a directory of the disk; \<open>os.MkdirAll\<close> makes it if it is missing.\<close>

definition new_dir ::
  "string \<Rightarrow> Units \<Rightarrow> Units \<Rightarrow> Seconds \<Rightarrow> Seconds \<Rightarrow> burstConfig \<Rightarrow> registry \<Rightarrow> registry \<times> (msg + budget)" where
  "new_dir path c b0 ts te bc r =
     (case io_fails r of
        (True, r1) \<Rightarrow> (r1, Inl io_error)
      | (False, r1) \<Rightarrow>
          let ad = (case dir_image path r1 of None \<Rightarrow> \<lparr>ad_state = empty_dir, ad_meta = None\<rparr> | Some ad \<Rightarrow> ad)
          in case NewDurableBurst path c b0 ts te (rg_sync r1) bc (ad_state ad) of
               (d', res) \<Rightarrow>
                 (r1\<lparr>rg_disk := AList.update path (ad\<lparr>ad_state := d'\<rparr>) (rg_disk r1)\<rparr>,
                  case res of Inl e \<Rightarrow> Inl (err_msg e) | Inr bd \<Rightarrow> Inr bd))"

definition account_path :: "string \<Rightarrow> registry \<Rightarrow> string" where
  "account_path name r = path_join (rg_stateDir r) name"

text \<open>The common end of \<open>create\<close>: write the metadata, then register.\<close>

definition register :: "accountConfig \<Rightarrow> budget \<Rightarrow> registry \<Rightarrow> registry \<times> fault option" where
  "register a bd r =
     (case writeAccountMeta (account_path (ac_Name a) r) a r of
        (r1, Some e) \<Rightarrow> (r1, Some (Err e))
      | (r1, None) \<Rightarrow>
          (r1\<lparr>rg_budgets := AList.update (ac_Name a) bd (rg_budgets r1),
              rg_access := AList.update (ac_Name a) a (rg_access r1)\<rparr>, None))"

text \<open>A directory that cannot be opened gets a new budget, whose window starts now.\<close>

definition create_fresh :: "accountConfig \<Rightarrow> i64 \<Rightarrow> registry \<Rightarrow> registry \<times> fault option" where
  "create_fresh a win r =
     (let start = fst (reg_now r)
      in case new_dir (account_path (ac_Name a) r) (ac_Rate a) (ac_Balance a) start (start + go_div win 1000000000)
                (account_burstConfig a) (snd (reg_now r)) of
           (r2, Inl e) \<Rightarrow> (r2, Some (Err e))
         | (r2, Inr bd) \<Rightarrow> register a bd r2)"

definition create_account :: "accountConfig \<Rightarrow> registry \<Rightarrow> registry \<times> fault option" where
  "create_account a r =
     (case open_dir (account_path (ac_Name a) r) r of
        Inr bd \<Rightarrow> register a bd r
      | Inl (Panic p) \<Rightarrow> (r, Some (Crash p))
      | Inl _ \<Rightarrow> (case windowOrDefault a of Inl e \<Rightarrow> (r, Some (Err e)) | Inr win \<Rightarrow> create_fresh a win r))"

definition Create :: "accountConfig \<Rightarrow> registry \<Rightarrow> registry \<times> fault option" where
  "Create a r =
     (if \<not> rg_hasClock r \<or> rg_stateDir r = [] then (r, Some (Err (lit ''runtime account creation requires obold -config'')))
      else if ac_Name a = [] then (r, Some (Err (lit ''account name required'')))
      else if ac_Rate a \<le>s 0 then (r, Some (Err (lit ''rate must be positive'')))
      else if ac_Balance a <s 0 then (r, Some (Err (lit ''balance must be non-negative'')))
      else case windowOrDefault a of
             Inl e \<Rightarrow> (r, Some (Err e))
           | Inr _ \<Rightarrow>
               (case validateBurst a of
                  Some e \<Rightarrow> (r, Some (Err e))
                | None \<Rightarrow>
                    if map_of (rg_budgets r) (ac_Name a) \<noteq> None then (r, Some (Err (ErrExists (ac_Name a))))
                    else create_account a r))"

definition SetAccess :: "string \<Rightarrow> string list \<Rightarrow> string list \<Rightarrow> registry \<Rightarrow> registry \<times> msg option" where
  "SetAccess account users groups r =
     (if rg_stateDir r = [] then (r, Some (lit ''runtime access changes require obold -config''))
      else case map_of (rg_access r) account of
             None \<Rightarrow> (r, Some (ErrNoBudget account))
           | Some a \<Rightarrow>
               let a' = a\<lparr>ac_AllowUsers := users, ac_AllowGroups := groups\<rparr>
               in case writeAccountMeta (account_path account r) a' r of
                    (r1, Some e) \<Rightarrow> (r1, Some e)
                  | (r1, None) \<Rightarrow> (r1\<lparr>rg_access := AList.update account a' (rg_access r1)\<rparr>, None))"

section \<open>Start-up discovery\<close>

text \<open>The directories directly under the state directory, by name; \<open>os.ReadDir\<close> sorts them.\<close>

definition string_le :: "string \<Rightarrow> string \<Rightarrow> bool" where
  "string_le s t \<longleftrightarrow> s = t \<or> (s, t) \<in> lexord {(a, b). byte_val a < byte_val b}"

fun insert_name :: "string \<Rightarrow> string list \<Rightarrow> string list" where
  "insert_name s [] = [s]"
| "insert_name s (t # ts) = (if string_le s t then s # t # ts else t # insert_name s ts)"

definition dir_entries :: "registry \<Rightarrow> string list" where
  "dir_entries r =
     fold insert_name
       (map path_base (filter (\<lambda>p. p = path_join (rg_stateDir r) (path_base p)) (map fst (rg_disk r)))) []"

definition fault_of :: "msg \<Rightarrow> outcome \<Rightarrow> fault" where
  "fault_of pre x = (case x of Panic p \<Rightarrow> Crash p | Fail e \<Rightarrow> Err (pre @ err_msg e) | Done \<Rightarrow> Err pre)"

fun discover_entries :: "string list \<Rightarrow> registry \<Rightarrow> registry \<times> fault option" where
  "discover_entries [] r = (r, None)"
| "discover_entries (e # es) r =
     (let path = path_join (rg_stateDir r) e
      in case map_of (rg_disk r) path of
           None \<Rightarrow> discover_entries es r
         | Some ad \<Rightarrow>
             if d_snapshot (ad_state ad) = None then discover_entries es r
             else case OpenBudget path (rg_sync r) (ad_state ad) of
                    Inl x \<Rightarrow> (r, Some (fault_of [PText ''recover account '', PQuoted e, PText '': ''] x))
                  | Inr bd \<Rightarrow>
                      let a = readAccountMeta path ad
                      in discover_entries es
                           (r\<lparr>rg_budgets := AList.update (ac_Name a) bd (rg_budgets r),
                              rg_access := AList.update (ac_Name a) a (rg_access r)\<rparr>))"

definition discover :: "registry \<Rightarrow> registry \<times> fault option" where
  "discover r = discover_entries (dir_entries r) r"

section \<open>Sweeps over all accounts\<close>

fun sweep_accounts :: "(budget \<Rightarrow> budget \<times> nat \<times> outcome) \<Rightarrow> string list \<Rightarrow> registry \<times> nat \<times> outcome \<Rightarrow> registry \<times> nat \<times> outcome" where
  "sweep_accounts f [] s = s"
| "sweep_accounts f (k # ks) (r, n, Done) =
     (case map_of (rg_budgets r) k of
        None \<Rightarrow> (r, n, Panic NilDereference)
      | Some bd \<Rightarrow> (case f bd of (bd', m, x) \<Rightarrow> sweep_accounts f ks (put_budget k bd' r, n + m, x)))"
| "sweep_accounts f (k # ks) s = s"

definition reg_SweepUnbound :: "Seconds \<Rightarrow> Seconds \<Rightarrow> registry \<Rightarrow> registry \<times> nat \<times> outcome" where
  "reg_SweepUnbound ttl now r = sweep_accounts (SweepUnbound ttl now) (Names r) (r, 0, Done)"

definition reg_SweepOrphans :: "string set \<Rightarrow> orphanPolicy \<Rightarrow> Seconds \<Rightarrow> registry \<Rightarrow> registry \<times> nat \<times> outcome" where
  "reg_SweepOrphans liveKeys policy now r = sweep_accounts (SweepOrphans liveKeys policy now) (Names r) (r, 0, Done)"

text \<open>Closing every log; \<open>cerr k\<close> is the error of closing the file of account \<open>k\<close>. The first error is returned.\<close>

definition close_budget :: "err option \<Rightarrow> budget \<Rightarrow> budget \<times> err option" where
  "close_budget cerr bd =
     (case wal_of bd of
        None \<Rightarrow> (bd, None)
      | Some w \<Rightarrow> (case Close cerr w of (w', e) \<Rightarrow> (bd\<lparr>wal_of := Some w'\<rparr>, e)))"

definition reg_Close :: "(string \<Rightarrow> err option) \<Rightarrow> registry \<Rightarrow> registry \<times> err option" where
  "reg_Close cerr r =
     (let closed = map (\<lambda>(k, bd). (k, close_budget (cerr k) bd)) (rg_budgets r)
      in (r\<lparr>rg_budgets := map (\<lambda>(k, bd, _). (k, bd)) closed\<rparr>,
          case filter (\<lambda>e. e \<noteq> None) (map (snd \<circ> snd) closed) of [] \<Rightarrow> None | e # _ \<Rightarrow> e))"

end
