(* ===== verification/Registry_Spec.thy ===== *)
theory Registry_Spec
  imports Registry
begin

text \<open>
  What the registry promises: every account's budget only ever changes by kernel transitions (\<open>evolves\<close>), a created account
  resolves, reads back from its directory and survives a restart, and where that last promise fails.
\<close>

section \<open>Budgets change by kernel transitions only\<close>

lemma reaches_trans:
  assumes "reaches ex s t" "reaches ex t u"
  shows "reaches ex s u"
  using assms(2,1) by induction (auto intro: reach_step)

lemma reaches_exec: "reaches exec bd (fst (exec p bd))"
  by (intro reach_step reach_init)

text \<open>The books of every open account balance, and so do those of every snapshot on disk.\<close>

definition snaps_sound :: "(string, account_dir) gomap \<Rightarrow> bool" where
  "snaps_sound disk \<longleftrightarrow>
     (\<forall>p ad s. map_of disk p = Some ad \<longrightarrow> d_snapshot (ad_state ad) = Some s \<longrightarrow> kernel_inv (budgetFromSnapshot s))"

definition sound :: "registry \<Rightarrow> bool" where
  "sound r \<longleftrightarrow> (\<forall>k bd. map_of (rg_budgets r) k = Some bd \<longrightarrow> kernel_inv bd) \<and> snaps_sound (rg_disk r)"

definition evolves :: "registry \<Rightarrow> registry \<Rightarrow> bool" where
  "evolves r r' \<longleftrightarrow>
     (\<forall>k bd. map_of (rg_budgets r) k = Some bd \<longrightarrow> (\<exists>bd'. map_of (rg_budgets r') k = Some bd' \<and> reaches exec bd bd'))
     \<and> (sound r \<longrightarrow> sound r')"

lemma evolves_refl [simp, intro]: "evolves r r"
  by (auto simp: evolves_def intro: reach_init)

lemma evolves_same: "rg_budgets r' = rg_budgets r \<Longrightarrow> (snaps_sound (rg_disk r) \<Longrightarrow> snaps_sound (rg_disk r')) \<Longrightarrow> evolves r r'"
  by (auto simp: evolves_def sound_def intro: reach_init)

lemma evolves_trans [trans]: "evolves r s \<Longrightarrow> evolves s t \<Longrightarrow> evolves r t"
  unfolding evolves_def by (meson reaches_trans)

lemma evolves_put:
  assumes "map_of (rg_budgets r) k = Some bd" "reaches exec bd bd'"
  shows "evolves r (put_budget k bd' r)"
  using assms books.reaches_inv [OF assms(2)]
  by (auto simp: evolves_def sound_def put_budget_def map_of_update intro: reach_init split: if_splits)

lemma snaps_sound_update:
  "snaps_sound disk \<Longrightarrow> (\<And>s. d_snapshot (ad_state ad) = Some s \<Longrightarrow> kernel_inv (budgetFromSnapshot s)) \<Longrightarrow> snaps_sound (AList.update p ad disk)"
  by (auto simp: snaps_sound_def map_of_update split: if_splits)

text \<open>The interface: a budget method whose effect is a sequence of kernel transitions.\<close>

locale kernel_method =
  fixes f :: "budget \<Rightarrow> budget \<times> outcome"
  assumes method_reaches: "reaches exec bd (fst (f bd))"
begin

lemma call_evolves: "evolves r (fst (call k f r))"
  by (auto simp: call_def case_prod_beta intro: evolves_put method_reaches split: option.splits)

end

interpretation kernel_exec: kernel_method "exec p" for p
  by unfold_locales (rule reaches_exec)

text \<open>The kernel methods the daemon calls, each an instance of the interface.\<close>

lemma method_op:
  "SubmitAt j c w now = exec (OSubmitAt j c w now)"
  "SubmitArrayAt j c n w now = exec (OSubmitArrayAt j c n w now)"
  "Start j now = exec (OStart j now)"
  "StartTask j i now = exec (OStartTask j i now)"
  "Reprice j c now = exec (OReprice j c now)"
  "Complete j t now = exec (OComplete j t now)"
  "Timeout j now = exec (OTimeout j now)"
  "Cancel j t now = exec (OCancel j t now)"
  "InfraFail j t now = exec (OInfraFail j t now)"
  "CompleteTask j i t now = exec (OCompleteTask j i t now)"
  "TimeoutTask j i now = exec (OTimeoutTask j i now)"
  "CancelTask j i t now = exec (OCancelTask j i t now)"
  "InfraFailTask j i t now = exec (OInfraFailTask j i t now)"
  "TopUp a now = exec (OTopUp a now)"
  "TopUpXfer a x now = exec (OTopUpXfer a x now)"
  "WithdrawXfer a x now = exec (OWithdrawXfer a x now)"
  "SetRate c now = exec (OSetRate c now)"
  "SetWindow ts te now = exec (OSetWindow ts te now)"
  "SetBurst on pct cap now = exec (OSetBurst on pct cap now)"
  by (simp_all add: fun_eq_iff)

lemma call_method_evolves:
  "evolves r (fst (call k (SubmitAt j c w now) r))"
  "evolves r (fst (call k (SubmitArrayAt j c n w now) r))"
  "evolves r (fst (call k (Start j now) r))"
  "evolves r (fst (call k (StartTask j i now) r))"
  "evolves r (fst (call k (Reprice j c now) r))"
  "evolves r (fst (call k (Complete j t now) r))"
  "evolves r (fst (call k (Timeout j now) r))"
  "evolves r (fst (call k (Cancel j t now) r))"
  "evolves r (fst (call k (InfraFail j t now) r))"
  "evolves r (fst (call k (CompleteTask j i t now) r))"
  "evolves r (fst (call k (TimeoutTask j i now) r))"
  "evolves r (fst (call k (CancelTask j i t now) r))"
  "evolves r (fst (call k (InfraFailTask j i t now) r))"
  "evolves r (fst (call k (TopUp a now) r))"
  "evolves r (fst (call k (TopUpXfer a x now) r))"
  "evolves r (fst (call k (WithdrawXfer a x now) r))"
  "evolves r (fst (call k (SetRate c now) r))"
  "evolves r (fst (call k (SetWindow ts te now) r))"
  "evolves r (fst (call k (SetBurst on pct cap now) r))"
  unfolding method_op by (rule kernel_exec.call_evolves)+

lemma Report_reaches: "reaches exec bd (fst (Report now bd))"
  using reaches_exec [of bd "OReport now"] by (simp add: case_prod_beta)

lemma call_Report_evolves: "evolves r (fst (call_Report k now r))"
  by (auto simp: call_Report_def case_prod_beta intro: evolves_put Report_reaches split: option.splits)

lemma reg_now_evolves [simp]: "evolves r (snd (reg_now r))"
  by (rule evolves_same) (simp_all add: reg_now_def)

lemma rand_bytes_evolves [simp]: "evolves r (snd (rand_bytes r))"
  by (rule evolves_same) (simp_all add: rand_bytes_def)

text \<open>A file operation, a clock reading or a random draw only moves the environment on.\<close>

lemma io_fails_env: "io_fails r = (b, r') \<Longrightarrow> \<exists>e. r' = r\<lparr>rg_env := e\<rparr>"
  by (cases "e_io (rg_env r)") (auto simp: io_fails_def intro: exI [of _ "rg_env r"])

subsection \<open>Sweeps\<close>

lemma sweep_reaches:
  assumes "\<And>k bd. reaches exec bd (fst (stp k bd))" "reaches exec bd0 (fst s)"
  shows "reaches exec bd0 (fst (sweep stp ks s))"
  using assms(2)
proof (induction ks arbitrary: s)
  case (Cons k ks)
  obtain bd n x where s: "s = (bd, n, x)" by (cases s)
  have step: "reaches exec bd0 (fst (stp k bd))"
    using Cons.prems assms(1) [of bd k] by (auto simp: s intro: reaches_trans)
  then show ?case
    using Cons.prems Cons.IH by (cases x) (auto simp: s split: prod.splits outcome.splits)
qed simp

lemma exits_reach:
  "reaches exec bd (fst (Cancel j t now bd))" "reaches exec bd (fst (Timeout j now bd))"
  "reaches exec bd (fst (CancelTask j i t now bd))" "reaches exec bd (fst (TimeoutTask j i now bd))"
  unfolding method_op by (rule reaches_exec)+

lemma SweepUnbound_reaches: "reaches exec bd (fst (SweepUnbound ttl now bd))"
  unfolding SweepUnbound_def Let_def
  by (intro sweep_reaches) (auto intro: exits_reach reach_init)

lemma SweepOrphans_reaches: "reaches exec bd (fst (SweepOrphans live policy now bd))"
  unfolding SweepOrphans_def Let_def
  by (intro sweep_reaches) (auto intro: exits_reach reach_init split: orphanPolicy.splits)

lemma sweep_accounts_evolves:
  assumes "\<And>bd. reaches exec bd (fst (f bd))"
  shows "evolves (fst s) (fst (sweep_accounts f ks s))"
proof (induction ks arbitrary: s)
  case (Cons k ks)
  obtain r n x where s: "s = (r, n, x)" by (cases s)
  have "evolves r (fst (sweep_accounts f ks (put_budget k (fst (f bd)) r, n + fst (snd (f bd)), snd (snd (f bd)))))"
    if "map_of (rg_budgets r) k = Some bd" for bd
    using evolves_trans [OF evolves_put [OF that assms] Cons.IH [of "(put_budget k (fst (f bd)) r, n + fst (snd (f bd)), snd (snd (f bd)))", simplified]] .
  then show ?case
    by (cases x) (auto simp: s case_prod_beta split: option.splits)
qed simp

lemma reg_sweeps_evolve:
  "evolves r (fst (reg_SweepUnbound ttl now r))" "evolves r (fst (reg_SweepOrphans live policy now r))"
  using sweep_accounts_evolves [of "SweepUnbound ttl now" "(r, 0, Done)", OF SweepUnbound_reaches]
    sweep_accounts_evolves [of "SweepOrphans live policy now" "(r, 0, Done)", OF SweepOrphans_reaches]
  by (simp_all add: reg_SweepUnbound_def reg_SweepOrphans_def)

section \<open>Created accounts\<close>

text \<open>The budget of an account made in an empty directory, and what a restart makes of that directory.\<close>

definition new_budget :: "string \<Rightarrow> Units \<Rightarrow> Units \<Rightarrow> Seconds \<Rightarrow> Seconds \<Rightarrow> burstConfig \<Rightarrow> budget" where
  "new_budget path c b0 ts te bc =
     (let bd = (New c b0 ts te)\<lparr>dir := path\<rparr>
      in if bc_Enabled bc
         then publishLocked (bd\<lparr>BurstEnabled := True, BurstCeilingPct := bc_CeilingPct bc, BurstDrawCap := bc_DrawCap bc\<rparr>)
         else bd)"

lemma NewDurableBurst_empty:
  "NewDurableBurst path c b0 ts te sync bc empty_dir =
    (empty_dir\<lparr>d_snapshot := Some (captureSnapshot 0 (new_budget path c b0 ts te bc)), d_wal := Some []\<rparr>,
     Inr ((new_budget path c b0 ts te bc)\<lparr>wal_of := Some (OpenWAL (open_file []) sync)\<rparr>))"
  by (simp add: NewDurableBurst_def empty_dir_def saveSnapshot_def Let_def wal_file_def new_budget_def)

lemma new_budget_inv: "kernel_inv (new_budget path c b0 ts te bc)"
  using kernel_inv_New [of c b0 ts te] by (auto simp: new_budget_def Let_def)

lemma writeAccountMeta_sound:
  assumes "writeAccountMeta path a r = (r', e)" "snaps_sound (rg_disk r)"
  shows "snaps_sound (rg_disk r')"
  using assms
  by (auto simp: writeAccountMeta_def split: option.splits prod.splits bool.splits dest!: io_fails_env intro!: snaps_sound_update)
    (auto simp: snaps_sound_def)

lemma NewDurableBurst_sound:
  assumes "NewDurableBurst path c b0 ts te sync bc d = (d', res)"
    and "\<And>s. d_snapshot d = Some s \<Longrightarrow> kernel_inv (budgetFromSnapshot s)" "d_snapshot d' = Some s"
  shows "kernel_inv (budgetFromSnapshot s)" 
proof -
  have "d_snapshot d' = d_snapshot d \<or> d_snapshot d' = Some (captureSnapshot 0 (new_budget path c b0 ts te bc))"
    using assms(1) by (auto simp: NewDurableBurst_def saveSnapshot_def Let_def new_budget_def split: prod.splits option.splits if_splits)
  then show ?thesis using assms(2,3) new_budget_inv by (auto simp: snapshot_load [OF new_budget_inv])
qed

lemma NewDurableBurst_inv: "NewDurableBurst path c b0 ts te sync bc d = (d', Inr bd) \<Longrightarrow> kernel_inv bd"
  using new_budget_inv [of path c b0 ts te bc]
  by (auto simp: NewDurableBurst_def Let_def new_budget_def split: prod.splits option.splits if_splits)


lemma writeAccountMeta_frame:
  assumes "writeAccountMeta path a r = (r', e)"
  shows "rg_budgets r' = rg_budgets r" "rg_access r' = rg_access r" "rg_stateDir r' = rg_stateDir r"
    "rg_sync r' = rg_sync r"
  using assms by (auto simp: writeAccountMeta_def split: option.splits prod.splits bool.splits dest!: io_fails_env)

lemma writeAccountMeta_stored:
  assumes "writeAccountMeta path a r = (r', None)"
  shows "\<exists>ad. map_of (rg_disk r) path = Some ad
    \<and> rg_disk r' = AList.update path (ad\<lparr>ad_meta := Some \<lparr>am_Name = ac_Name a, am_AllowUsers = ac_AllowUsers a,
        am_AllowGroups = ac_AllowGroups a\<rparr>\<rparr>) (rg_disk r)"
  using assms by (auto simp: writeAccountMeta_def split: option.splits prod.splits bool.splits dest!: io_fails_env)

lemma register_registers:
  assumes "register a bd r = (r', None)"
  shows "rg_budgets r' = AList.update (ac_Name a) bd (rg_budgets r)" "rg_access r' = AList.update (ac_Name a) a (rg_access r)"
    "rg_stateDir r' = rg_stateDir r" "rg_sync r' = rg_sync r"
    "\<exists>ad. map_of (rg_disk r) (account_path (ac_Name a) r) = Some ad
      \<and> rg_disk r' = AList.update (account_path (ac_Name a) r) (ad\<lparr>ad_meta := Some \<lparr>am_Name = ac_Name a,
          am_AllowUsers = ac_AllowUsers a, am_AllowGroups = ac_AllowGroups a\<rparr>\<rparr>) (rg_disk r)"
  using assms writeAccountMeta_frame [of "account_path (ac_Name a) r" a r] writeAccountMeta_stored [of "account_path (ac_Name a) r" a r]
  by (auto simp: register_def split: prod.splits option.splits)

lemma new_dir_frame:
  assumes "new_dir path c b0 ts te bc r = (r', x)"
  shows "rg_budgets r' = rg_budgets r" "rg_access r' = rg_access r" "rg_stateDir r' = rg_stateDir r" "rg_sync r' = rg_sync r"
  using assms by (auto simp: new_dir_def Let_def split: prod.splits bool.splits dest!: io_fails_env)

lemma dir_image_sound:
  "snaps_sound (rg_disk r) \<Longrightarrow> dir_image path r = Some ad \<Longrightarrow> d_snapshot (ad_state ad) = Some s \<Longrightarrow> kernel_inv (budgetFromSnapshot s)"
  by (auto simp: dir_image_def snaps_sound_def split: option.splits)

lemma new_dir_sound:
  assumes "new_dir path c b0 ts te bc r = (r', x)" "snaps_sound (rg_disk r)"
  shows "snaps_sound (rg_disk r')" "x = Inr bd \<Longrightarrow> kernel_inv bd"
proof -
  obtain f r1 where io: "io_fails r = (f, r1)" by fastforce
  have snd1: "snaps_sound (rg_disk r1)" using io_fails_env [OF io] assms(2) by auto
  define ad where "ad = (case dir_image path r1 of None \<Rightarrow> \<lparr>ad_state = empty_dir, ad_meta = None\<rparr> | Some ad \<Rightarrow> ad)"
  have ad: "d_snapshot (ad_state ad) = Some s \<Longrightarrow> kernel_inv (budgetFromSnapshot s)" for s
    using dir_image_sound [OF snd1] by (auto simp: ad_def empty_dir_def split: option.splits)
  obtain d' res where n: "NewDurableBurst path c b0 ts te (rg_sync r1) bc (ad_state ad) = (d', res)" by fastforce
  have eq: "(r', x) = (if f then (r1, Inl io_error)
      else (r1\<lparr>rg_disk := AList.update path (ad\<lparr>ad_state := d'\<rparr>) (rg_disk r1)\<rparr>, case res of Inl e \<Rightarrow> Inl (err_msg e) | Inr bd \<Rightarrow> Inr bd))"
    using assms(1) n by (auto simp: new_dir_def io ad_def [symmetric])
  have "snaps_sound (AList.update path (ad\<lparr>ad_state := d'\<rparr>) (rg_disk r1))"
    using snd1 NewDurableBurst_sound [OF n ad] by (intro snaps_sound_update) auto
  then show "snaps_sound (rg_disk r')" using eq snd1 by (auto split: if_splits)
  show "x = Inr bd \<Longrightarrow> kernel_inv bd" using eq n NewDurableBurst_inv by (auto split: if_splits sum.splits)
qed

lemma register_sound:
  assumes "register a bd r = (r', x)" "sound r" "kernel_inv bd"
  shows "sound r'"
proof -
  obtain r1 e where m: "writeAccountMeta (account_path (ac_Name a) r) a r = (r1, e)" by fastforce
  have "sound r1" using assms(2) writeAccountMeta_frame(1) [OF m] writeAccountMeta_sound [OF m] by (simp add: sound_def)
  then show ?thesis
    using assms(1,3) m by (cases e) (auto simp: register_def sound_def map_of_update split: if_splits)
qed

lemma open_dir_inv: "open_dir path r = Inr bd \<Longrightarrow> snaps_sound (rg_disk r) \<Longrightarrow> kernel_inv bd"
  by (auto simp: open_dir_def split: option.splits intro: OpenBudget_inv dir_image_sound)

lemma reg_now_frame [simp]:
  "rg_budgets (snd (reg_now r)) = rg_budgets r" "rg_access (snd (reg_now r)) = rg_access r"
  "rg_disk (snd (reg_now r)) = rg_disk r" "rg_stateDir (snd (reg_now r)) = rg_stateDir r"
  "rg_sync (snd (reg_now r)) = rg_sync r" "rg_journal (snd (reg_now r)) = rg_journal r"
  by (simp_all add: reg_now_def)

text \<open>What \<open>Create\<close> did when it succeeded: it registered a budget, opened from the directory or made in it.\<close>

definition made_fresh :: "accountConfig \<Rightarrow> registry \<Rightarrow> budget \<Rightarrow> registry \<Rightarrow> bool" where
  "made_fresh a r bd r1 \<longleftrightarrow> (\<exists>win. windowOrDefault a = Inr win
     \<and> new_dir (account_path (ac_Name a) r) (ac_Rate a) (ac_Balance a) (fst (reg_now r)) (fst (reg_now r) + go_div win 1000000000)
          (account_burstConfig a) (snd (reg_now r)) = (r1, Inr bd))"

lemma create_fresh_cases:
  assumes "create_fresh a win r = (r', x)"
  obtains e where "x = Some (Err e)" "rg_budgets r' = rg_budgets r"
  | bd r1 where "new_dir (account_path (ac_Name a) r) (ac_Rate a) (ac_Balance a) (fst (reg_now r)) (fst (reg_now r) + go_div win 1000000000)
          (account_burstConfig a) (snd (reg_now r)) = (r1, Inr bd)" "register a bd r1 = (r', x)"
proof -
  obtain r1 y where n: "new_dir (account_path (ac_Name a) r) (ac_Rate a) (ac_Balance a) (fst (reg_now r))
      (fst (reg_now r) + go_div win 1000000000) (account_burstConfig a) (snd (reg_now r)) = (r1, y)"
    by fastforce
  have "rg_budgets r1 = rg_budgets r" using new_dir_frame(1) [OF n] by simp
  then show thesis using that assms n by (cases y) (auto simp: create_fresh_def Let_def)
qed

lemma Create_Done:
  assumes "Create a r = (r', None)"
  obtains bd r1 where "map_of (rg_budgets r) (ac_Name a) = None" "rg_stateDir r \<noteq> []" "ac_Name a \<noteq> []"
    "rg_budgets r1 = rg_budgets r" "rg_access r1 = rg_access r" "rg_stateDir r1 = rg_stateDir r" "rg_sync r1 = rg_sync r"
    "register a bd r1 = (r', None)" "open_dir (account_path (ac_Name a) r) r = Inr bd \<and> r1 = r \<or> made_fresh a r bd r1"
proof -
  have g: "rg_stateDir r \<noteq> []" "ac_Name a \<noteq> []" "map_of (rg_budgets r) (ac_Name a) = None"
      and c: "create_account a r = (r', None)"
    using assms by (auto simp: Create_def split: if_splits sum.splits option.splits)
  show thesis
  proof (cases "open_dir (account_path (ac_Name a) r) r")
    case (Inr bd)
    then show thesis using c g by (intro that [of r bd]) (auto simp: create_account_def)
  next
    case (Inl x)
    then obtain win where win: "windowOrDefault a = Inr win" "create_fresh a win r = (r', None)"
      using c by (auto simp: create_account_def split: outcome.splits sum.splits)
    then obtain bd r1 where n: "new_dir (account_path (ac_Name a) r) (ac_Rate a) (ac_Balance a) (fst (reg_now r))
        (fst (reg_now r) + go_div win 1000000000) (account_burstConfig a) (snd (reg_now r)) = (r1, Inr bd)"
      and reg: "register a bd r1 = (r', None)"
      using create_fresh_cases [OF win(2)] by (metis option.distinct(1))
    show thesis using g win n reg new_dir_frame [OF n] by (intro that [of r1 bd]) (auto simp: made_fresh_def)
  qed
qed

lemma register_Some_budgets:
  assumes "register a bd r = (r', Some f)"
  shows "rg_budgets r' = rg_budgets r"
  using assms writeAccountMeta_frame(1) [of "account_path (ac_Name a) r" a r]
  by (auto simp: register_def split: prod.splits option.splits)

lemma create_account_Some_budgets:
  assumes "create_account a r = (r', Some f)"
  shows "rg_budgets r' = rg_budgets r"
proof -
  have "rg_budgets r' = rg_budgets r" if c: "create_fresh a win r = (r', Some f)" for win
    using c
  proof (cases rule: create_fresh_cases)
    case (2 bd r1)
    then show ?thesis using register_Some_budgets [of a bd r1] new_dir_frame(1) [OF 2(1)] by simp
  qed simp
  then show ?thesis
    using assms by (auto simp: create_account_def register_Some_budgets split: sum.splits outcome.splits)
qed

lemma create_account_sound:
  assumes "create_account a r = (r', x)" "sound r"
  shows "sound r'"
proof -
  have snaps: "snaps_sound (rg_disk r)" using assms(2) by (simp add: sound_def)
  have "sound r'" if "create_fresh a win r = (r', x)" for win
    using that
  proof -
    obtain r1 y where n: "new_dir (account_path (ac_Name a) r) (ac_Rate a) (ac_Balance a) (fst (reg_now r))
        (fst (reg_now r) + go_div win 1000000000) (account_burstConfig a) (snd (reg_now r)) = (r1, y)"
      by fastforce
    have "sound r1" using assms(2) new_dir_frame(1) [OF n] new_dir_sound(1) [OF n] snaps by (simp add: sound_def)
    then show ?thesis
      using that n new_dir_sound(2) [OF n] snaps register_sound by (cases y) (auto simp: create_fresh_def Let_def)
  qed
  then show ?thesis
    using assms open_dir_inv [OF _ snaps] register_sound
    by (auto simp: create_account_def split: sum.splits outcome.splits)
qed

lemma Create_evolves: "evolves r (fst (Create a r))"
proof -
  have sound: "sound (fst (Create a r))" if "sound r"
    using that create_account_sound [of a r "fst (create_account a r)" "snd (create_account a r)"]
    by (auto simp: Create_def split: if_splits sum.splits option.splits)
  have "\<exists>bd'. map_of (rg_budgets (fst (Create a r))) k = Some bd' \<and> reaches exec bd bd'" if k: "map_of (rg_budgets r) k = Some bd" for k bd
  proof (cases "snd (Create a r)")
    case None
    then obtain r' where c: "Create a r = (r', None)" by (metis prod.collapse)
    then show ?thesis
    proof (cases rule: Create_Done)
      case (1 bd1 r1)
      then show ?thesis
        using register_registers(1) [of a bd1 r1 r'] c k by (auto simp: map_of_update intro: reach_init)
    qed
  next
    case (Some f)
    then have "rg_budgets (fst (Create a r)) = rg_budgets r"
      using create_account_Some_budgets [of a r "fst (create_account a r)" f]
      by (auto simp: Create_def prod_eq_iff split: if_splits sum.splits option.splits)
    then show ?thesis using k by (auto intro: reach_init)
  qed
  then show ?thesis using sound by (simp add: evolves_def)
qed

text \<open>
  A created account is there, as asked for, and nothing else moved. After a successful \<open>Create\<close> the name
  resolves to its own budget with the given access lists; every other account's budget and lists are
  what they were; and the account's \<^verbatim>\<open>account.json\<close> reads back as exactly its name and lists. Creating the same name again
  is refused and changes nothing.
\<close>

lemma Create_registers:
  assumes "Create a r = (r', None)"
  shows "Resolve (ac_Name a) r' = Inr (ac_Name a) \<and> accessOf (ac_Name a) r' = Some a
    \<and> (k \<noteq> ac_Name a \<longrightarrow> map_of (rg_budgets r') k = map_of (rg_budgets r) k \<and> accessOf k r' = accessOf k r)
    \<and> (\<exists>ad. map_of (rg_disk r') (account_path (ac_Name a) r') = Some ad
        \<and> readAccountMeta (account_path (ac_Name a) r') ad
          = account0\<lparr>ac_Name := ac_Name a, ac_AllowUsers := ac_AllowUsers a, ac_AllowGroups := ac_AllowGroups a\<rparr>)
    \<and> (ac_Name a' = ac_Name a \<longrightarrow> fst (Create a' r') = r' \<and> snd (Create a' r') \<noteq> None)"
proof -
  obtain bd r1 where d: "rg_budgets r1 = rg_budgets r" "rg_access r1 = rg_access r" "rg_stateDir r1 = rg_stateDir r"
      "register a bd r1 = (r', None)" "ac_Name a \<noteq> []"
    using Create_Done [OF assms] by metis
  note R = register_registers [OF d(4)]
  have p: "account_path (ac_Name a) r' = account_path (ac_Name a) r1" by (simp add: account_path_def R(3))
  have "fst (Create a' r') = r' \<and> snd (Create a' r') \<noteq> None" if "ac_Name a' = ac_Name a"
    using that by (auto simp: Create_def R(1) map_of_update split: sum.splits option.splits)
  then show ?thesis
    using R(5) d(1,2,5) by (auto simp: Resolve_def accessOf_def R(1,2) p map_of_update readAccountMeta_def account0_def)
qed

section \<open>Restart\<close>

text \<open>A name that is one clean path element.\<close>

definition plain_name :: "string \<Rightarrow> bool" where
  "plain_name n \<longleftrightarrow> n \<noteq> [] \<and> CHR ''/'' \<notin> set n \<and> n \<noteq> ''.'' \<and> n \<noteq> ''..''"

lemma split_at_none: "x \<notin> set s \<Longrightarrow> split_at x s = [s]"
  by (induction s) auto

lemma split_at_append: "split_at x (a @ x # b) = split_at x a @ split_at x b"
proof (induction a)
  case (Cons c a)
  have "split_at x a \<noteq> []" by (cases a) (auto split: list.splits)
  then show ?case using Cons by (auto split: list.splits)
qed simp

lemma join_with_snoc: "join_with x (ss @ [s]) = (if ss = [] then s else join_with x ss @ x @ s)"
proof (induction ss)
  case (Cons t ss)
  then show ?case by (cases ss) auto
qed simp

lemma path_base_join:
  assumes "plain_name n" "sd \<noteq> []"
  shows "path_base (path_join sd n) = n"
proof -
  have n: "n \<noteq> []" "CHR ''/'' \<notin> set n" using assms(1) by (auto simp: plain_name_def)
  define rt where "rt \<longleftrightarrow> hd sd = CHR ''/''"
  define out where "out = rev (fold (clean_elem rt) (split_at (CHR ''/'') sd) [])"
  have cl: "clean_elem rt n xs = n # xs" for xs using assms(1) by (simp add: plain_name_def clean_elem_def)
  have "rev (fold (clean_elem rt) (split_at (CHR ''/'') (sd @ ''/'' @ n)) []) = out @ [n]"
    by (simp add: split_at_append split_at_none n cl out_def)
  moreover have "join_with ''/'' (out @ [n]) \<noteq> []" using n by (simp add: join_with_snoc)
  ultimately have p: "path_join sd n = (if rt then ''/'' else []) @ join_with ''/'' (out @ [n])"
    using assms(2) n unfolding path_join_def path_clean_def Let_def rt_def by simp
  have "\<exists>pre. path_join sd n = pre @ n \<and> (pre = [] \<or> (\<exists>q. pre = q @ [CHR ''/'']))"
    unfolding p join_with_snoc by auto
  then obtain pre where pre: "path_join sd n = pre @ n" "pre = [] \<or> (\<exists>q. pre = q @ [CHR ''/''])" by blast
  have "dropWhile (\<lambda>c. c = CHR ''/'') (rev (pre @ n)) = rev (pre @ n)"
    using n by (cases n rule: rev_cases) auto
  moreover have "last (split_at (CHR ''/'') (pre @ n)) = n"
    using pre(2) n by (auto simp: split_at_append split_at_none)
  ultimately show ?thesis using n by (simp add: path_base_def pre(1) Let_def)
qed

lemma set_insert_name [simp]: "set (insert_name s ts) = insert s (set ts)"
  by (induction ts) auto

lemma set_fold_insert: "set (fold insert_name ss ts) = set ss \<union> set ts"
  by (induction ss arbitrary: ts) auto

text \<open>The disk a restart finds: every live log as it was written, and nothing open yet.\<close>

definition halted :: "registry \<Rightarrow> registry" where
  "halted r = r\<lparr>rg_budgets := [], rg_access := [],
     rg_disk := map (\<lambda>(p, ad). (p, case live_wal p r of None \<Rightarrow> ad
                                  | Some bs \<Rightarrow> ad\<lparr>ad_state := (ad_state ad)\<lparr>d_wal := Some bs\<rparr>\<rparr>)) (rg_disk r)\<rparr>"

lemma map_of_map_keyed: "map_of (map (\<lambda>(k, v). (k, f k v)) m) q = map_option (f q) (map_of m q)"
  by (induction m) auto

lemma discover_entries_finds:
  assumes "discover_entries es r = (r', None)"
    and "\<And>e ad. e \<in> set es \<Longrightarrow> e \<noteq> n \<Longrightarrow> map_of (rg_disk r) (path_join (rg_stateDir r) e) = Some ad \<Longrightarrow>
      ac_Name (readAccountMeta (path_join (rg_stateDir r) e) ad) \<noteq> n"
    and "map_of (rg_disk r) (path_join (rg_stateDir r) n) = Some ad" "d_snapshot (ad_state ad) \<noteq> None"
    and "OpenBudget (path_join (rg_stateDir r) n) (rg_sync r) (ad_state ad) = Inr bd"
    and "readAccountMeta (path_join (rg_stateDir r) n) ad = a" "ac_Name a = n"
    and "n \<in> set es \<or> map_of (rg_budgets r) n = Some bd \<and> map_of (rg_access r) n = Some a"
  shows "map_of (rg_budgets r') n = Some bd \<and> map_of (rg_access r') n = Some a"
  using assms
proof (induction es arbitrary: r)
  case (Cons e es)
  let ?p = "path_join (rg_stateDir r) e"
  consider (skip) "map_of (rg_disk r) ?p = None \<or> (\<exists>ad. map_of (rg_disk r) ?p = Some ad \<and> d_snapshot (ad_state ad) = None)"
    | (opened) ad' bd' where "map_of (rg_disk r) ?p = Some ad'" "d_snapshot (ad_state ad') \<noteq> None"
        "OpenBudget ?p (rg_sync r) (ad_state ad') = Inr bd'"
    using Cons.prems(1) by (auto simp: Let_def split: option.splits if_splits sum.splits)
  then show ?case
  proof cases
    case skip
    then have "e \<noteq> n" using Cons.prems(3,4) by auto
    moreover have "discover_entries es r = (r', None)" using Cons.prems(1) skip by auto
    ultimately show ?thesis using Cons.prems by (intro Cons.IH [of r]) auto
  next
    case opened
    define a' where "a' = readAccountMeta ?p ad'"
    define s where "s = r\<lparr>rg_budgets := AList.update (ac_Name a') bd' (rg_budgets r), rg_access := AList.update (ac_Name a') a' (rg_access r)\<rparr>"
    have d: "discover_entries es s = (r', None)" using Cons.prems(1) opened by (simp add: Let_def s_def a'_def)
    have f: "rg_disk s = rg_disk r" "rg_stateDir s = rg_stateDir r" "rg_sync s = rg_sync r" by (simp_all add: s_def)
    have "e = n \<Longrightarrow> a' = a \<and> bd' = bd" using Cons.prems opened by (auto simp: a'_def)
    moreover have "e \<noteq> n \<Longrightarrow> ac_Name a' \<noteq> n" using Cons.prems(2) opened by (auto simp: a'_def)
    ultimately have "n \<in> set es \<or> map_of (rg_budgets s) n = Some bd \<and> map_of (rg_access s) n = Some a"
      using Cons.prems(7,8) by (cases "e = n") (auto simp: s_def map_of_update)
    then show ?thesis using d Cons.prems(2-7) by (intro Cons.IH [of s]) (simp_all add: f)
  qed
qed simp

lemma open_new_budget:
  assumes "d_snapshot d = Some (captureSnapshot 0 (new_budget path c b0 ts te bc))" "d_wal d = Some []"
  obtains bd where "OpenBudget path sync d = Inr bd" "same_books bd (new_budget path c b0 ts te bc)"
    "C bd = c" "TS bd = ts" "TE bd = te" "BurstEnabled bd = bc_Enabled bc"
proof -
  let ?n = "new_budget path c b0 ts te bc"
  let ?l = "publishLocked (?n\<lparr>wal_of := None, dir := [], replaying := False, readView := None\<rparr>)"
  have rep: "replayWAL (Some []) 0 applyCommand b = (b, 0, Done)" for b
    by (simp add: replayWAL_def replay_loop.simps)
  have off: "sn_WALOffset (captureSnapshot 0 ?n) = 0" by (simp add: captureSnapshot_def)
  have "ledger_sum ?n = B0 ?n" "arrays ?n = []" by (simp_all add: new_budget_def New_def ledger_sum_def publishLocked_def Let_def)
  then have cons: "fst (ConservationOKArrays (?l\<lparr>dir := path, replaying := False\<rparr>))"
    by (simp add: ConservationOKArrays_def ledger_sum_def publishLocked_def)
  show thesis
  proof (rule that [of "?l\<lparr>dir := path, replaying := False, wal_of := Some (OpenWAL (open_file []) sync)\<rparr>"])
    show "OpenBudget path sync d = Inr (?l\<lparr>dir := path, replaying := False, wal_of := Some (OpenWAL (open_file []) sync)\<rparr>)"
      using assms cons rep off by (simp add: OpenBudget_def loadSnapshot_def Let_def snapshot_load [OF new_budget_inv] wal_file_def)
  qed (simp_all add: same_books_def new_budget_def New_def publishLocked_def Let_def)
qed

lemma made_fresh_dir:
  assumes "made_fresh a r bd r1" "map_of (rg_disk r) (account_path (ac_Name a) r) = None"
  obtains ts te where
    "bd = (new_budget (account_path (ac_Name a) r) (ac_Rate a) (ac_Balance a) ts te (account_burstConfig a))\<lparr>wal_of := Some (OpenWAL (open_file []) (rg_sync r))\<rparr>"
    "rg_disk r1 = AList.update (account_path (ac_Name a) r)
       \<lparr>ad_state = empty_dir\<lparr>d_snapshot := Some (captureSnapshot 0 (new_budget (account_path (ac_Name a) r) (ac_Rate a) (ac_Balance a) ts te (account_burstConfig a))),
          d_wal := Some []\<rparr>, ad_meta = None\<rparr> (rg_disk r)"
proof -
  let ?p = "account_path (ac_Name a) r"
  obtain ts te where n: "new_dir ?p (ac_Rate a) (ac_Balance a) ts te (account_burstConfig a) (snd (reg_now r)) = (r1, Inr bd)"
    using assms(1) by (auto simp: made_fresh_def)
  obtain b r0 where io: "io_fails (snd (reg_now r)) = (b, r0)" by fastforce
  have r0: "rg_disk r0 = rg_disk r" "rg_sync r0 = rg_sync r" using io_fails_env [OF io] by auto
  have "dir_image ?p r0 = None" using assms(2) by (simp add: dir_image_def r0)
  then show thesis
    using n by (intro that [of ts te]) (auto simp: new_dir_def io Let_def NewDurableBurst_empty r0 split: bool.splits)
qed

lemma find_last: "\<forall>x \<in> set xs. \<not> P x \<Longrightarrow> P y \<Longrightarrow> find P (xs @ [y]) = Some y"
  by (induction xs) auto

lemma new_budget_sel [simp]:
  "dir (new_budget path c b0 ts te bc) = path" "C (new_budget path c b0 ts te bc) = c"
  "TS (new_budget path c b0 ts te bc) = ts" "TE (new_budget path c b0 ts te bc) = te"
  "BurstEnabled (new_budget path c b0 ts te bc) = bc_Enabled bc"
  by (simp_all add: new_budget_def New_def publishLocked_def Let_def)

text \<open>The directory of an account made in an empty place, and the disk a restart finds after that.\<close>

definition fresh_account_dir :: "accountConfig \<Rightarrow> budget \<Rightarrow> account_dir" where
  "fresh_account_dir a bd =
     \<lparr>ad_state = empty_dir\<lparr>d_snapshot := Some (captureSnapshot 0 bd), d_wal := Some []\<rparr>,
      ad_meta = Some \<lparr>am_Name = ac_Name a, am_AllowUsers = ac_AllowUsers a, am_AllowGroups = ac_AllowGroups a\<rparr>\<rparr>"

lemma readAccountMeta_fresh:
  "ac_Name a \<noteq> [] \<Longrightarrow> readAccountMeta p (fresh_account_dir a bd)
    = account0\<lparr>ac_Name := ac_Name a, ac_AllowUsers := ac_AllowUsers a, ac_AllowGroups := ac_AllowGroups a\<rparr>"
  by (simp add: readAccountMeta_def fresh_account_dir_def account0_def)

lemma created_on_disk:
  assumes c: "Create a r = (r', None)" and fresh: "map_of (rg_disk r) (account_path (ac_Name a) r) = None"
    and unused: "\<forall>kv \<in> set (rg_budgets r). dir (snd kv) \<noteq> account_path (ac_Name a) r"
  obtains bd ts te where "bd = new_budget (account_path (ac_Name a) r) (ac_Rate a) (ac_Balance a) ts te (account_burstConfig a)"
    "map_of (rg_budgets r') (ac_Name a) = Some (bd\<lparr>wal_of := Some (OpenWAL (open_file []) (rg_sync r))\<rparr>)"
    "rg_stateDir r' = rg_stateDir r" "ac_Name a \<noteq> []" "rg_stateDir r \<noteq> []"
    "\<And>q. map_of (rg_disk (halted r')) q = (if q = account_path (ac_Name a) r then Some (fresh_account_dir a bd) else
      map_option (\<lambda>ad. case live_wal q r' of None \<Rightarrow> ad | Some bs \<Rightarrow> ad\<lparr>ad_state := (ad_state ad)\<lparr>d_wal := Some bs\<rparr>\<rparr>) (map_of (rg_disk r) q))"
  using c
proof (cases rule: Create_Done)
  case (1 b r1)
  let ?n = "ac_Name a" and ?p = "account_path (ac_Name a) r"
  have "made_fresh a r b r1" using 1(9) fresh by (auto simp: open_dir_def dir_image_def)
  from this fresh obtain ts te where b: "b = (new_budget ?p (ac_Rate a) (ac_Balance a) ts te (account_burstConfig a))\<lparr>wal_of := Some (OpenWAL (open_file []) (rg_sync r))\<rparr>"
    and d1: "rg_disk r1 = AList.update ?p \<lparr>ad_state = empty_dir\<lparr>d_snapshot := Some (captureSnapshot 0 (new_budget ?p (ac_Rate a) (ac_Balance a) ts te (account_burstConfig a))),
          d_wal := Some []\<rparr>, ad_meta = None\<rparr> (rg_disk r)"
    by (rule made_fresh_dir)
  define bd where "bd = new_budget ?p (ac_Rate a) (ac_Balance a) ts te (account_burstConfig a)"
  note R = register_registers [OF 1(8)]
  have p1: "account_path ?n r1 = ?p" by (simp add: account_path_def 1(6))
  have lookup': "map_of (rg_disk r') q = (if q = ?p then Some (fresh_account_dir a bd) else map_of (rg_disk r) q)" for q
    using R(5) by (auto simp: p1 d1 map_of_update fresh_account_dir_def bd_def)
  have buds: "rg_budgets r' = rg_budgets r @ [(?n, b)]" using R(1) 1(1,4) by (simp add: update_new)
  have "find (\<lambda>(_, bd). dir bd = ?p \<and> wal_of bd \<noteq> None) (rg_budgets r') = Some (?n, b)"
    using unused unfolding buds by (intro find_last) (auto simp: b)
  then have "live_wal ?p r' = Some []" by (simp add: live_wal_def b OpenWAL_def open_file_def)
  then have "map_of (rg_disk (halted r')) q = (if q = ?p then Some (fresh_account_dir a bd) else
      map_option (\<lambda>ad. case live_wal q r' of None \<Rightarrow> ad | Some bs \<Rightarrow> ad\<lparr>ad_state := (ad_state ad)\<lparr>d_wal := Some bs\<rparr>\<rparr>) (map_of (rg_disk r) q))" for q
    using lookup' [of q] by (auto simp: halted_def map_of_map_keyed fresh_account_dir_def)
  then show thesis
    by (rule that [OF bd_def, rotated -1]) (use R(3) 1(1,2,3,6) in \<open>simp_all add: buds b bd_def map_add_def\<close>)
qed

text \<open>
  C20: a created account survives a restart. Take a successful \<open>Create\<close> of an account whose name is one clean path element, in a directory
  that did not exist, with a name no other directory claims. If the daemon then stops and its start-up discovery succeeds, the account is
  registered again with the same balance, books, rate and window and the same access lists.
\<close>

theorem created_account_survives_restart:
  assumes c: "Create a r = (r', None)" and plain: "plain_name (ac_Name a)"
    and fresh: "map_of (rg_disk r) (account_path (ac_Name a) r) = None"
    and others: "\<forall>p ad. map_of (rg_disk r) p = Some ad \<longrightarrow> ac_Name (readAccountMeta p ad) \<noteq> ac_Name a"
    and unused: "\<forall>kv \<in> set (rg_budgets r). dir (snd kv) \<noteq> account_path (ac_Name a) r"
    and up: "discover (halted r') = (r'', None)"
  shows "\<exists>bd bd'. map_of (rg_budgets r') (ac_Name a) = Some bd \<and> map_of (rg_budgets r'') (ac_Name a) = Some bd'
    \<and> same_books bd' bd \<and> C bd' = C bd \<and> TS bd' = TS bd \<and> TE bd' = TE bd \<and> BurstEnabled bd' = BurstEnabled bd
    \<and> accessOf (ac_Name a) r''
      = Some (account0\<lparr>ac_Name := ac_Name a, ac_AllowUsers := ac_AllowUsers a, ac_AllowGroups := ac_AllowGroups a\<rparr>)"
proof -
  let ?n = "ac_Name a" and ?p = "account_path (ac_Name a) r"
  obtain bd ts te where bd: "bd = new_budget ?p (ac_Rate a) (ac_Balance a) ts te (account_burstConfig a)"
      "map_of (rg_budgets r') ?n = Some (bd\<lparr>wal_of := Some (OpenWAL (open_file []) (rg_sync r))\<rparr>)"
      "rg_stateDir r' = rg_stateDir r" "?n \<noteq> []" "rg_stateDir r \<noteq> []"
    and lookup: "map_of (rg_disk (halted r')) q = (if q = ?p then Some (fresh_account_dir a bd) else
      map_option (\<lambda>ad. case live_wal q r' of None \<Rightarrow> ad | Some bs \<Rightarrow> ad\<lparr>ad_state := (ad_state ad)\<lparr>d_wal := Some bs\<rparr>\<rparr>) (map_of (rg_disk r) q))" for q
    by (rule created_on_disk [OF c fresh unused]) (rule that; assumption)
  have pj: "path_join (rg_stateDir (halted r')) ?n = ?p" by (simp add: halted_def bd(3) account_path_def)
  obtain bd' where o: "OpenBudget ?p (rg_sync (halted r')) (ad_state (fresh_account_dir a bd)) = Inr bd'" "same_books bd' bd"
      "C bd' = ac_Rate a" "TS bd' = ts" "TE bd' = te" "BurstEnabled bd' = bc_Enabled (account_burstConfig a)"
    unfolding bd(1) by (rule open_new_budget [of "ad_state (fresh_account_dir a bd)"]) (simp_all add: fresh_account_dir_def bd(1))
  have base: "path_base ?p = ?n" unfolding account_path_def by (rule path_base_join [OF plain bd(5)])
  have "?p \<in> set (map fst (rg_disk (halted r')))" using lookup [of ?p] by (force dest: map_of_SomeD)
  then have "?n \<in> set (dir_entries (halted r'))" using base pj by (force simp: dir_entries_def set_fold_insert)
  moreover have "ac_Name (readAccountMeta (path_join (rg_stateDir (halted r')) e) ad') \<noteq> ?n"
    if e: "e \<in> set (dir_entries (halted r'))" "e \<noteq> ?n" "map_of (rg_disk (halted r')) (path_join (rg_stateDir (halted r')) e) = Some ad'" for e ad'
  proof -
    have "path_base (path_join (rg_stateDir (halted r')) e) = e" using e(1) by (auto simp: dir_entries_def set_fold_insert)
    then have "path_join (rg_stateDir (halted r')) e \<noteq> ?p" using e(2) base by metis
    then obtain ad0 where "map_of (rg_disk r) (path_join (rg_stateDir (halted r')) e) = Some ad0" "ad_meta ad' = ad_meta ad0"
      using e(3) unfolding lookup by (auto split: option.splits)
    moreover from this have "readAccountMeta q ad' = readAccountMeta q ad0" for q by (simp add: readAccountMeta_def)
    ultimately show ?thesis using others by metis
  qed
  ultimately have "map_of (rg_budgets r'') ?n = Some bd' \<and> map_of (rg_access r'') ?n = Some (readAccountMeta ?p (fresh_account_dir a bd))"
    using up o(1) pj lookup [of ?p] readAccountMeta_fresh [OF bd(4)]
    by (intro discover_entries_finds [where es = "dir_entries (halted r')" and r = "halted r'" and ad = "fresh_account_dir a bd"])
      (auto simp: discover_def fresh_account_dir_def account0_def)
  then show ?thesis
    using o(2-6) bd(1,2) by (auto simp: same_books_def accessOf_def readAccountMeta_fresh [OF bd(4)])
qed

text \<open>A daemon on an empty state directory, with a clock that always reads 100.\<close>

definition empty_registry :: registry where
  "empty_registry = \<lparr>rg_budgets = [], rg_access = [], rg_stateDir = ''/s'', rg_sync = False, rg_hasClock = True, rg_adminUsers = [],
     rg_adminGroups = [], rg_disk = [], rg_journal = [],
     rg_env = \<lparr>e_clock = (\<lambda>_. 100), e_ticks = 0, e_rand = (\<lambda>n. Some (replicate 16 (char_of n))), e_draws = 0, e_io = []\<rparr>\<rparr>"

definition lab :: accountConfig where
  "lab = account0\<lparr>ac_Name := ''lab'', ac_Balance := 1000, ac_Rate := 2, ac_AllowUsers := [''ann'']\<rparr>"

theorem created_account_survives_restart_witness:
  "\<exists>r'' bd. discover (halted (fst (Create lab empty_registry))) = (r'', None)
     \<and> map_of (rg_budgets r'') ''lab'' = Some bd \<and> B bd = 1000 \<and> C bd = 2"
proof -
  have "snd (Create lab empty_registry) = None" by code_simp
  then have c: "Create lab empty_registry = (fst (Create lab empty_registry), None)" by (simp add: prod_eq_iff)
  have "snd (discover (halted (fst (Create lab empty_registry)))) = None" by code_simp
  then have up: "discover (halted (fst (Create lab empty_registry))) = (fst (discover (halted (fst (Create lab empty_registry)))), None)"
    by (simp add: prod_eq_iff)
  have b: "map_option (\<lambda>bd. (B bd, C bd)) (map_of (rg_budgets (fst (Create lab empty_registry))) ''lab'') = Some (1000, 2)" by code_simp
  have n: "ac_Name lab = ''lab''" by (simp add: lab_def)
  have "rg_disk empty_registry = []" "rg_budgets empty_registry = []" by (simp_all add: empty_registry_def)
  then show ?thesis
    using created_account_survives_restart [OF c _ _ _ _ up] b up
    by (fastforce simp: n plain_name_def same_books_def)
qed


end
