(* ===== verification/Recovery.thy ===== *)
theory Recovery
  imports Durable
begin

text \<open>
  Recovery re-executes the log, so it is right when every logged command does to the recovered
  budget what it did to the live one. \<open>follows\<close> states that for one command, each operation is shown
  to either change nothing or be followed by its command, and the recovery theorem composes these
  steps with the round trips of the snapshot and of the log's bytes. It is for budgets without the
  burst bucket, whose accruals are not all logged.
\<close>

section \<open>The command of an operation\<close>

fun op_cmd :: "op \<Rightarrow> budget \<Rightarrow> command" where
  "op_cmd (OSubmitAt j c w now) bd =
     cmd0\<lparr>c_Kind := KindSubmit, c_JobID := j, c_C := (if c \<le>s 0 then C bd else c), c_W := w, c_Now := now\<rparr>"
| "op_cmd (OSubmit j w now) bd = cmd0\<lparr>c_Kind := KindSubmit, c_JobID := j, c_C := C bd, c_W := w, c_Now := now\<rparr>"
| "op_cmd (OStart j now) bd = cmd0\<lparr>c_Kind := KindStart, c_JobID := j, c_Now := now\<rparr>"
| "op_cmd (OComplete j t now) bd = cmd0\<lparr>c_Kind := KindComplete, c_JobID := j, c_Runtime := t, c_Now := now\<rparr>"
| "op_cmd (OTimeout j now) bd = cmd0\<lparr>c_Kind := KindTimeout, c_JobID := j, c_Now := now\<rparr>"
| "op_cmd (OCancel j t now) bd = cmd0\<lparr>c_Kind := KindCancel, c_JobID := j, c_Elapsed := t, c_Now := now\<rparr>"
| "op_cmd (OInfraFail j t now) bd = cmd0\<lparr>c_Kind := KindInfraFail, c_JobID := j, c_Elapsed := t, c_Now := now\<rparr>"
| "op_cmd OLapse bd = cmd0\<lparr>c_Kind := KindLapse\<rparr>"
| "op_cmd (OTopUpXfer a x now) bd = cmd0\<lparr>c_Kind := KindTopUp, c_Amount := a, c_Xfer := x, c_Now := now\<rparr>"
| "op_cmd (OTopUp a now) bd = cmd0\<lparr>c_Kind := KindTopUp, c_Amount := a, c_Xfer := [], c_Now := now\<rparr>"
| "op_cmd (OWithdrawXfer a x now) bd = cmd0\<lparr>c_Kind := KindWithdraw, c_Amount := a, c_Xfer := x, c_Now := now\<rparr>"
| "op_cmd (OWithdraw a now) bd = cmd0\<lparr>c_Kind := KindWithdraw, c_Amount := a, c_Xfer := [], c_Now := now\<rparr>"
| "op_cmd (OReprice j r now) bd = cmd0\<lparr>c_Kind := KindReprice, c_JobID := j, c_C := r, c_Now := now\<rparr>"
| "op_cmd (OSetRate c now) bd = cmd0\<lparr>c_Kind := KindSetRate, c_C := c, c_Now := now\<rparr>"
| "op_cmd (OSetWindow ts te now) bd = cmd0\<lparr>c_Kind := KindSetWindow, c_TS := ts, c_TE := te, c_Now := now\<rparr>"
| "op_cmd (OSetBurst on pct cap now) bd =
     cmd0\<lparr>c_Kind := KindSetBurst, c_BurstOn := on, c_BurstPct := pct, c_Amount := cap, c_Now := now\<rparr>"
| "op_cmd (OSubmitArrayAt j c n w now) bd =
     cmd0\<lparr>c_Kind := KindSubmitArray, c_ArrayID := j, c_C := (if c \<le>s 0 then C bd else c), c_N := n, c_W := w, c_Now := now\<rparr>"
| "op_cmd (OSubmitArray j n w now) bd =
     cmd0\<lparr>c_Kind := KindSubmitArray, c_ArrayID := j, c_C := C bd, c_N := n, c_W := w, c_Now := now\<rparr>"
| "op_cmd (OStartTask j i now) bd = cmd0\<lparr>c_Kind := KindStartTask, c_ArrayID := j, c_Idx := i, c_Now := now\<rparr>"
| "op_cmd (OCompleteTask j i t now) bd = task_cmd KindCompleteTask j i t 0 now"
| "op_cmd (OTimeoutTask j i now) bd = task_cmd KindTimeoutTask j i 0 0 now"
| "op_cmd (OCancelTask j i t now) bd = task_cmd KindCancelTask j i 0 t now"
| "op_cmd (OInfraFailTask j i t now) bd = task_cmd KindInfraFailTask j i 0 t now"
| "op_cmd (OReport now) bd = cmd0"
| "op_cmd (OBurstSnapshot now) bd = cmd0"

definition task_live :: "string \<Rightarrow> i64 \<Rightarrow> budget \<Rightarrow> bool" where
  "task_live j i bd \<longleftrightarrow>
     (case map_of (arrays bd) j of
        None \<Rightarrow> False
      | Some ae \<Rightarrow> (case map_of (a_tasks ae) i of None \<Rightarrow> False | Some t \<Rightarrow> \<not> t_settled t))"

definition has_task :: "string \<Rightarrow> i64 \<Rightarrow> budget \<Rightarrow> bool" where
  "has_task j i bd \<longleftrightarrow>
     (case map_of (arrays bd) j of None \<Rightarrow> False | Some ae \<Rightarrow> map_of (a_tasks ae) i \<noteq> None)"

text \<open>
  The calls recovery can follow: the log can encode their command, they leave burst off, and a task
  exit that gets as far as the log is for a task still to be settled. (The task exits log before they
  validate.)
\<close>

fun replayable :: "op \<Rightarrow> budget \<Rightarrow> bool" where
  "replayable (OSetBurst on pct cap now) bd \<longleftrightarrow> \<not> on"
| "replayable (OCompleteTask j i t now) bd \<longleftrightarrow> task_live j i bd"
| "replayable (OTimeoutTask j i now) bd \<longleftrightarrow> map_of (arrays bd) j \<noteq> None \<longrightarrow> task_live j i bd"
| "replayable (OCancelTask j i t now) bd \<longleftrightarrow> has_task j i bd \<longrightarrow> task_live j i bd"
| "replayable (OInfraFailTask j i t now) bd \<longleftrightarrow> map_of (arrays bd) j \<noteq> None \<longrightarrow> task_live j i bd"
| "replayable _ bd \<longleftrightarrow> True"

definition replay_ok :: "op \<Rightarrow> budget \<Rightarrow> bool" where
  "replay_ok p bd \<longleftrightarrow> replayable p bd \<and> command_ok (op_cmd p bd)"

section \<open>Live and recovered states\<close>

definition healthy :: "wal \<Rightarrow> bool" where
  "healthy w \<longleftrightarrow> f_writes (w_file w) = [] \<and> w_syncErr w = None"

definition live :: "budget \<Rightarrow> bool" where
  "live bd \<longleftrightarrow> kernel_inv bd \<and> \<not> replaying bd \<and> \<not> BurstEnabled bd
     \<and> (case wal_of bd of None \<Rightarrow> False | Some w \<Rightarrow> healthy w)"

definition mirror :: "readView option \<Rightarrow> budget \<Rightarrow> budget" where
  "mirror u bd = bd\<lparr>wal_of := None, replaying := True, readView := u\<rparr>"

definition silent :: "budget \<Rightarrow> budget \<Rightarrow> bool" where
  "silent bd bd' \<longleftrightarrow> (\<exists>v. bd' = bd\<lparr>readView := v\<rparr>)"

definition follows :: "command \<Rightarrow> budget \<Rightarrow> budget \<Rightarrow> bool" where
  "follows c bd bd' \<longleftrightarrow>
     wal_of bd' = Some (fst (Append c (the (wal_of bd)))) \<and> \<not> replaying bd' \<and> \<not> BurstEnabled bd'
     \<and> (\<forall>u. \<exists>u'. applyCommand c (mirror u bd) = (mirror u' bd', Done))"

text \<open>The state changes of the transitions do not look at the log, the replay flag or the view.\<close>

definition core_fun :: "(budget \<Rightarrow> budget) \<Rightarrow> bool" where
  "core_fun f \<longleftrightarrow>
     (\<forall>b x. f (b\<lparr>wal_of := x\<rparr>) = (f b)\<lparr>wal_of := x\<rparr>) \<and> (\<forall>b x. f (b\<lparr>replaying := x\<rparr>) = (f b)\<lparr>replaying := x\<rparr>)
     \<and> (\<forall>b x. f (b\<lparr>readView := x\<rparr>) = (f b)\<lparr>readView := x\<rparr>)"

lemma Append_healthy:
  assumes "healthy w" "command_ok c"
  shows "snd (Append c w) = None" and "healthy (fst (Append c w))"
    and "f_bytes (w_file (fst (Append c w))) = f_bytes (w_file w) @ frame_bytes (marshal_Command c)"
    and "w_writeOff (fst (Append c w)) = w_writeOff w + word_of_nat (8 + length (marshal_Command c))"
  using assms by (auto simp: healthy_def command_ok_def Append_no_fault Let_def)

lemma live_log:
  assumes "live bd" "command_ok c"
  shows "logCmd c bd = (bd\<lparr>wal_of := Some (fst (Append c (the (wal_of bd))))\<rparr>, None)"
proof -
  obtain w where w: "wal_of bd = Some w" "healthy w" "\<not> replaying bd"
    using assms(1) by (auto simp: live_def split: option.splits)
  then show ?thesis
    using Append_healthy(1) [OF w(2) assms(2)]
    by (cases "Append c w") (simp add: logCmd_def)
qed

lemma mirror_sel [simp]:
  "replaying (mirror u bd)" "wal_of (mirror u bd) = None"
  "C (mirror u bd) = C bd" "TS (mirror u bd) = TS bd" "TE (mirror u bd) = TE bd" "B (mirror u bd) = B bd"
  "ReservedTotal (mirror u bd) = ReservedTotal bd" "escrows (mirror u bd) = escrows bd"
  "arrays (mirror u bd) = arrays bd" "status (mirror u bd) = status bd" "K (mirror u bd) = K bd"
  "BurstEnabled (mirror u bd) = BurstEnabled bd" "BillInfraFailures (mirror u bd) = BillInfraFailures bd"
  "B0 (mirror u bd) = B0 bd" "Consumed (mirror u bd) = Consumed bd" "WriteOff (mirror u bd) = WriteOff bd"
  by (simp_all add: mirror_def)

lemma mirror_inv [simp]: "kernel_inv (mirror u bd) = kernel_inv bd"
  by (simp add: mirror_def)

lemma core_fun_sel:
  assumes "core_fun f"
  shows "wal_of (f b) = wal_of b" and "replaying (f b) = replaying b"
proof -
  have e: "f b = (f b)\<lparr>wal_of := wal_of b\<rparr>" "f b = (f b)\<lparr>replaying := replaying b\<rparr>"
    using assms [unfolded core_fun_def, THEN conjunct1, rule_format, where b = b and x = "wal_of b"]
      assms [unfolded core_fun_def, THEN conjunct2, THEN conjunct1, rule_format, where b = b and x = "replaying b"] by simp_all
  show "wal_of (f b) = wal_of b" by (subst e(1)) simp
  show "replaying (f b) = replaying b" by (subst e(2)) simp
qed

lemma followsI:
  assumes live: "live bd" and ok: "command_ok c" and core: "core_fun f" and off: "\<not> BurstEnabled (f bd)"
    and res: "bd' = publishLocked (f (fst (logCmd c bd)))"
    and app: "\<And>u. applyCommand c (mirror u bd) = (publishLocked (f (mirror u bd)), Done)"
  shows "follows c bd bd'"
proof -
  let ?w = "Some (fst (Append c (the (wal_of bd))))"
  have bd': "bd' = publishLocked ((f bd)\<lparr>wal_of := ?w\<rparr>)"
    using core unfolding res live_log [OF live ok] by (simp add: core_fun_def)
  have "publishLocked (f (mirror u bd)) = mirror (readView (publishLocked (f bd))) bd'" for u
    using core unfolding bd' mirror_def by (simp add: core_fun_def publishLocked_def)
  moreover have "\<not> replaying bd'"
    using live core_fun_sel(2) [OF core] unfolding bd' by (simp add: live_def)
  ultimately show ?thesis
    using app off unfolding follows_def bd' by (auto simp: publishLocked_def)
qed

section \<open>Each operation is silent or followed by its command\<close>

lemma silent_publish [simp]: "silent bd bd" "silent bd (publishLocked bd)"
  unfolding silent_def by (rule exI [of _ "readView bd"], simp) (simp add: publishLocked_def, blast)

definition replays :: "op \<Rightarrow> budget \<Rightarrow> bool" where
  "replays p bd \<longleftrightarrow> silent bd (fst (exec p bd)) \<or> follows (op_cmd p bd) bd (fst (exec p bd))"

text \<open>The two shapes of a transition once its guards have passed.\<close>

lemma replays_published:
  assumes "live bd" "command_ok c" "core_fun f" "\<not> BurstEnabled (f bd)"
    and "\<And>u. applyCommand c (mirror u bd) = published (with_log c (\<lambda>b. (f b, Done)) (mirror u bd))"
  shows "follows c bd (fst (published (with_log c (\<lambda>b. (f b, Done)) bd)))"
  using assms live_log [OF assms(1,2)]
  by (intro followsI [where f = f]) (simp_all add: published_def with_log_Done)

lemma replays_plain:
  assumes "live bd" "command_ok c" "core_fun f" "\<not> BurstEnabled (f bd)"
    and "\<And>b. escrows b = escrows bd \<Longrightarrow> arrays b = arrays bd \<Longrightarrow> \<not> BurstEnabled b \<Longrightarrow> kernel_inv b \<Longrightarrow> k b = (publishLocked (f b), Done)"
    and "\<And>u. applyCommand c (mirror u bd) = with_log c k (mirror u bd)"
  shows "follows c bd (fst (with_log c k bd))"
proof (rule followsI [where f = f, OF assms(1-4)])
  have bd: "kernel_inv bd" "\<not> BurstEnabled bd" using assms(1) by (auto simp: live_def)
  show "fst (with_log c k bd) = publishLocked (f (fst (logCmd c bd)))"
    using bd live_log [OF assms(1,2)] by (simp add: with_log_Done assms(5))
  show "applyCommand c (mirror u bd) = (publishLocked (f (mirror u bd)), Done)" for u
    using bd by (simp add: assms(5,6) with_log_Done)
qed

lemma accrue_off: "\<not> BurstEnabled bd \<Longrightarrow> with_accrue now k bd = k bd"
  by (simp add: with_accrue_def accrue_def)

lemma settle_burst_off: "\<not> BurstEnabled bd \<Longrightarrow> settle_burst c w st resv rt bd = bd"
  by (simp add: settle_burst_def)

lemma settle_money_burst [simp]: "BurstEnabled (settle_money reserved used wo bd) = BurstEnabled bd"
  by (simp add: settle_money_def Let_def)

lemma settle_replays:
  assumes live: "live bd" and ok: "command_ok c" and e: "map_of (escrows bd) j = Some e"
    and app: "\<And>u. applyCommand c (mirror u bd) = with_log c (settle j t wo now) (mirror u bd)"
  shows "follows c bd (fst (with_log c (settle j t wo now) bd))"
proof (rule replays_plain [OF live ok _ _ _ app])
  let ?f = "\<lambda>b. (settle_money (e_Reserved e) (e_C e * clamp_runtime (e_W e) t) wo b)
    \<lparr>escrows := AList.delete j (escrows b)\<rparr>"
  show "core_fun ?f" by (simp add: core_fun_def settle_money_def Let_def)
  show "\<not> BurstEnabled (?f bd)" using live by (simp add: live_def)
  show "settle j t wo now b = (publishLocked (?f b), Done)"
    if "escrows b = escrows bd" "\<not> BurstEnabled b" for b
    using that e by (simp add: settle_def accrue_off settle_burst_off Let_def)
qed

lemma settleTask_replays:
  assumes live: "live bd" and ok: "command_ok c" and t: "task_live j i bd"
    and app: "\<And>u. applyCommand c (mirror u bd) = with_log c (settleTask j i rt wo now) (mirror u bd)"
  shows "follows c bd (fst (with_log c (settleTask j i rt wo now) bd))"
proof -
  obtain ae ts where *: "map_of (arrays bd) j = Some ae" "map_of (a_tasks ae) i = Some ts" "\<not> t_settled ts"
    using t by (auto simp: task_live_def split: option.splits)
  let ?ae = "put_task i (ts\<lparr>t_settled := True\<rparr>)
                  (ae\<lparr>a_Reserved := a_Reserved ae - slice ae, a_Remaining := a_Remaining ae - 1\<rparr>)"
  let ?f = "\<lambda>b. (settle_money (slice ae) (a_C ae * clamp_runtime (a_W ae) rt) wo b)
    \<lparr>arrays := (if a_Remaining ?ae = 0 then AList.delete j (arrays b) else AList.update j ?ae (arrays b))\<rparr>"
  show ?thesis
  proof (rule replays_plain [OF live ok _ _ _ app])
    show "core_fun ?f" by (simp add: core_fun_def settle_money_def Let_def)
    show "\<not> BurstEnabled (?f bd)" using live by (simp add: live_def)
    show "settleTask j i rt wo now b = (publishLocked (?f b), Done)"
      if "arrays b = arrays bd" "\<not> BurstEnabled b" "kernel_inv b" for b
      using that * by (simp add: settleTask_eq accrue_off settle_burst_off Let_def put_array_def)
  qed
qed

lemma applyCommand_op:
  "applyCommand (cmd0\<lparr>c_Kind := KindSubmit, c_JobID := j, c_C := c, c_W := w, c_Now := now\<rparr>) b = SubmitAt j c w now b"
  "applyCommand (cmd0\<lparr>c_Kind := KindStart, c_JobID := j, c_Now := now\<rparr>) b = Start j now b"
  "applyCommand (cmd0\<lparr>c_Kind := KindComplete, c_JobID := j, c_Runtime := t, c_Now := now\<rparr>) b = Complete j t now b"
  "applyCommand (cmd0\<lparr>c_Kind := KindTimeout, c_JobID := j, c_Now := now\<rparr>) b = Timeout j now b"
  "applyCommand (cmd0\<lparr>c_Kind := KindCancel, c_JobID := j, c_Elapsed := t, c_Now := now\<rparr>) b = Cancel j t now b"
  "applyCommand (cmd0\<lparr>c_Kind := KindInfraFail, c_JobID := j, c_Elapsed := t, c_Now := now\<rparr>) b = InfraFail j t now b"
  "applyCommand (cmd0\<lparr>c_Kind := KindLapse\<rparr>) b = (Lapse b, Done)"
  "applyCommand (cmd0\<lparr>c_Kind := KindTopUp, c_Amount := a, c_Xfer := x, c_Now := now\<rparr>) b = TopUpXfer a x now b"
  "applyCommand (cmd0\<lparr>c_Kind := KindWithdraw, c_Amount := a, c_Xfer := x, c_Now := now\<rparr>) b = WithdrawXfer a x now b"
  "applyCommand (cmd0\<lparr>c_Kind := KindReprice, c_JobID := j, c_C := c, c_Now := now\<rparr>) b = Reprice j c now b"
  "applyCommand (cmd0\<lparr>c_Kind := KindSetRate, c_C := c, c_Now := now\<rparr>) b = SetRate c now b"
  "applyCommand (cmd0\<lparr>c_Kind := KindSetWindow, c_TS := ts, c_TE := te, c_Now := now\<rparr>) b = SetWindow ts te now b"
  "applyCommand (cmd0\<lparr>c_Kind := KindSetBurst, c_BurstOn := on, c_BurstPct := pct, c_Amount := a, c_Now := now\<rparr>) b
     = SetBurst on pct a now b"
  "applyCommand (cmd0\<lparr>c_Kind := KindSubmitArray, c_ArrayID := j, c_C := c, c_N := n, c_W := w, c_Now := now\<rparr>) b
     = SubmitArrayAt j c n w now b"
  "applyCommand (cmd0\<lparr>c_Kind := KindStartTask, c_ArrayID := j, c_Idx := i, c_Now := now\<rparr>) b = StartTask j i now b"
  "applyCommand (task_cmd KindCompleteTask j i t 0 now) b = CompleteTask j i t now b"
  "applyCommand (task_cmd KindTimeoutTask j i 0 0 now) b = TimeoutTask j i now b"
  "applyCommand (task_cmd KindCancelTask j i 0 t now) b = CancelTask j i t now b"
  "applyCommand (task_cmd KindInfraFailTask j i 0 t now) b = InfraFailTask j i t now b"
  by (simp_all add: applyCommand_def kind_defs task_cmd_def)

text \<open>The effective rate that is logged is its own effective rate.\<close>

lemma rate_idem: "(if (if c \<le>s 0 then r else c) \<le>s 0 then r else (if c \<le>s 0 then r else c)) = (if c \<le>s 0 then r else c :: i64)"
  by simp

lemma rateOK_mirror [simp]: "rateOK cost now (mirror u bd) = rateOK cost now bd"
  by (simp add: rateOK_def Let_def)

lemma SubmitAt_replays:
  assumes live: "live bd" and ok: "command_ok (op_cmd (OSubmitAt j c w now) bd)"
  shows "replays (OSubmitAt j c w now) bd"
proof (cases "admits j c w now bd")
  case True
  let ?c = "if c \<le>s 0 then C bd else c"
  let ?f = "\<lambda>b. put_escrow j \<lparr>e_JobID = j, e_C = ?c, e_Reserved = submit_cost c w bd, e_W = w,
      e_Started = False, e_BurstResv = 0, e_Submitted = now\<rparr>
      (b\<lparr>B := B b - submit_cost c w bd, ReservedTotal := ReservedTotal b + submit_cost c w bd\<rparr>)"
  have adm: "admits j ?c w now (mirror u bd)" and cost: "submit_cost ?c w (mirror u bd) = submit_cost c w bd" for u
    using True by (simp_all only: admits_def submit_cost_def rate_idem mirror_sel rateOK_mirror logCmd_off simp_thms snd_conv)
  have "follows (op_cmd (OSubmitAt j c w now) bd) bd (fst (SubmitAt j c w now bd))"
  proof (rule followsI [OF live ok, where f = ?f])
    show "core_fun ?f" by (simp add: core_fun_def put_escrow_def)
    show "\<not> BurstEnabled (?f bd)" using live by (simp add: live_def put_escrow_def)
    show "fst (SubmitAt j c w now bd) = publishLocked (?f (fst (logCmd (op_cmd (OSubmitAt j c w now) bd) bd)))"
      by (simp only: SubmitAt_admits [OF True] op_cmd.simps fst_conv logCmd_sel)
    show "applyCommand (op_cmd (OSubmitAt j c w now) bd) (mirror u bd) = (publishLocked (?f (mirror u bd)), Done)" for u
      by (simp only: op_cmd.simps applyCommand_op SubmitAt_admits [OF adm] cost rate_idem mirror_sel logCmd_off fst_conv simp_thms)
  qed
  then show ?thesis by (simp add: replays_def)
next
  case False
  have "snd (logCmd (op_cmd (OSubmitAt j c w now) bd) bd) = None" using live_log [OF live ok] by simp
  with False have "\<exists>e. SubmitAt j c w now bd = (publishLocked bd, Fail e)"
    unfolding admits_alt submit_cost_def op_cmd.simps by (auto simp: SubmitAt_def Let_def published_def)
  then show ?thesis by (auto simp: replays_def)
qed

lemma SubmitArrayAt_replays:
  assumes live: "live bd" and ok: "command_ok (op_cmd (OSubmitArrayAt j c n w now) bd)"
  shows "replays (OSubmitArrayAt j c n w now) bd"
proof -
  define c' where "c' = (if c \<le>s 0 then C bd else c)"
  define cost where "cost = c' * w * n"
  let ?cmd = "cmd0\<lparr>c_Kind := KindSubmitArray, c_ArrayID := j, c_C := c', c_N := n, c_W := w, c_Now := now\<rparr>"
  let ?f = "\<lambda>b. put_array j \<lparr>a_ArrayID = j, a_C = c', a_W = w, a_N = n, a_Remaining = n, a_Reserved = cost,
      a_Submitted = now, a_tasks = new_tasks n\<rparr> (b\<lparr>B := B b - cost, ReservedTotal := ReservedTotal b + cost\<rparr>)"
  have idem: "(if c' \<le>s 0 then C bd else c') = c'" by (simp add: c'_def)
  have ok': "command_ok ?cmd" using ok by (simp add: c'_def)
  define adm where "adm b \<longleftrightarrow> \<not> (status b \<noteq> Active \<or> now <s TS b \<or> TE b \<le>s now \<or> map_of (arrays b) j \<noteq> None \<or> n \<le>s 0 \<or> w \<le>s 0
      \<or> B b <s cost \<or> \<not> rateOK cost now b)" for b
  have yes: "SubmitArrayAt j c1 n w now b = published (with_log ?cmd (\<lambda>b. (?f b, Done)) b)"
    if "adm b" "(if c1 \<le>s 0 then C b else c1) = c'" for b c1
    using that(1) unfolding adm_def cost_def SubmitArrayAt_def Let_def that(2) by simp
  have no: "\<exists>e. SubmitArrayAt j c1 n w now b = (publishLocked b, Fail e)"
    if "\<not> adm b" "(if c1 \<le>s 0 then C b else c1) = c'" for b c1
    using that(1) unfolding adm_def cost_def SubmitArrayAt_def Let_def that(2) by (auto simp: published_def)
  show ?thesis
  proof (cases "adm bd")
    case True
    then have "adm (mirror u bd)" for u by (simp add: adm_def)
    then have "applyCommand ?cmd (mirror u bd) = published (with_log ?cmd (\<lambda>b. (?f b, Done)) (mirror u bd))" for u
      unfolding applyCommand_op by (intro yes) (simp, simp only: mirror_sel idem)
    then have "follows ?cmd bd (fst (published (with_log ?cmd (\<lambda>b. (?f b, Done)) bd)))"
      using live ok' by (intro replays_published) (simp_all add: core_fun_def put_array_def live_def)
    then show ?thesis
      using yes [OF True, of c] by (simp add: replays_def flip: c'_def)
  next
    case False
    from no [OF False, of c] show ?thesis by (auto simp: replays_def simp flip: c'_def)
  qed
qed

text \<open>The remaining transitions have no argument the log rewrites.\<close>

lemma publishing_replays:
  assumes "live bd" "command_ok (op_cmd p bd)" "core_fun f" "\<not> BurstEnabled (f bd)"
    and "\<And>b. escrows b = escrows bd \<Longrightarrow> arrays b = arrays bd \<Longrightarrow> B b = B bd \<Longrightarrow> BurstEnabled b = BurstEnabled bd \<Longrightarrow>
          applyCommand (op_cmd p bd) b = published (with_log (op_cmd p bd) (\<lambda>b. (f b, Done)) b)"
    and "exec p bd = applyCommand (op_cmd p bd) bd"
  shows "replays p bd"
  using replays_published [OF assms(1-4)] assms(5,6) by (simp add: replays_def)

lemma transfer_replays:
  assumes "live bd"
  shows "command_ok (op_cmd (OTopUpXfer a x now) bd) \<Longrightarrow> replays (OTopUpXfer a x now) bd"
    and "command_ok (op_cmd (OWithdrawXfer a x now) bd) \<Longrightarrow> replays (OWithdrawXfer a x now) bd"
proof -
  show "replays (OTopUpXfer a x now) bd" if ok: "command_ok (op_cmd (OTopUpXfer a x now) bd)"
  proof (cases "a \<le>s 0")
    case True
    then show ?thesis by (simp add: replays_def TopUpXfer_def published_def)
  next
    case False
    with assms show ?thesis
      by (intro publishing_replays [OF assms ok, where f = "\<lambda>b. b\<lparr>B := B b + a, B0 := B0 b + a\<rparr>"])
        (simp_all add: core_fun_def live_def applyCommand_op TopUpXfer_def)
  qed
  show "replays (OWithdrawXfer a x now) bd" if ok: "command_ok (op_cmd (OWithdrawXfer a x now) bd)"
  proof (cases "a \<le>s 0 \<or> B bd <s a")
    case True
    then show ?thesis by (auto simp: replays_def WithdrawXfer_def published_def)
  next
    case False
    with assms show ?thesis
      by (intro publishing_replays [OF assms ok, where f = "\<lambda>b. b\<lparr>B := B b - a, B0 := B0 b - a\<rparr>"])
        (simp_all add: core_fun_def live_def applyCommand_op WithdrawXfer_def)
  qed
qed

lemma config_replays:
  assumes "live bd"
  shows "command_ok (op_cmd (OSetRate c now) bd) \<Longrightarrow> replays (OSetRate c now) bd"
    and "command_ok (op_cmd (OSetWindow ts te now) bd) \<Longrightarrow> replays (OSetWindow ts te now) bd"
    and "command_ok (op_cmd (OSetBurst False pct cap now) bd) \<Longrightarrow> replays (OSetBurst False pct cap now) bd"
proof -
  show "replays (OSetRate c now) bd" if ok: "command_ok (op_cmd (OSetRate c now) bd)"
  proof (cases "c \<le>s 0")
    case True
    then show ?thesis by (simp add: replays_def SetRate_def published_def)
  next
    case False
    with assms show ?thesis
      by (intro publishing_replays [OF assms ok, where f = "\<lambda>b. b\<lparr>C := c\<rparr>"])
        (simp_all add: core_fun_def live_def applyCommand_op SetRate_def)
  qed
  show "replays (OSetWindow ts te now) bd" if ok: "command_ok (op_cmd (OSetWindow ts te now) bd)"
  proof (cases "te \<le>s ts")
    case True
    then show ?thesis by (simp add: replays_def SetWindow_def published_def)
  next
    case False
    with assms show ?thesis
      by (intro publishing_replays [OF assms ok, where f = "\<lambda>b. b\<lparr>TS := ts, TE := te\<rparr>"])
        (simp_all add: core_fun_def live_def applyCommand_op SetWindow_def)
  qed
  show "replays (OSetBurst False pct cap now) bd" if ok: "command_ok (op_cmd (OSetBurst False pct cap now) bd)"
  proof (cases "pct \<noteq> 0 \<or> cap \<noteq> 0")
    case True
    then show ?thesis by (auto simp: replays_def SetBurst_def published_def)
  next
    case False
    with assms show ?thesis
      by (intro publishing_replays [OF assms ok, where f = "\<lambda>b. b\<lparr>BurstEnabled := False, BurstCeilingPct := 0,
            BurstDrawCap := 0, burstPot := 0, rLive := 0, fracAcc := 0\<rparr>"])
        (simp_all add: core_fun_def live_def applyCommand_op SetBurst_def)
  qed
qed

lemma escrow_replays:
  assumes "live bd"
  shows "command_ok (op_cmd (OStart j now) bd) \<Longrightarrow> replays (OStart j now) bd"
    and "command_ok (op_cmd (OReprice j r now) bd) \<Longrightarrow> replays (OReprice j r now) bd"
proof -
  have off: "\<not> BurstEnabled bd" using assms by (simp add: live_def)
  show "replays (OStart j now) bd" if ok: "command_ok (op_cmd (OStart j now) bd)"
  proof (cases "\<exists>e. map_of (escrows bd) j = Some e \<and> \<not> e_Started e")
    case True
    then obtain e where "map_of (escrows bd) j = Some e" "\<not> e_Started e" by blast
    with off show ?thesis
      by (intro publishing_replays [OF assms ok, where f = "\<lambda>b. put_escrow j (e\<lparr>e_Started := True\<rparr>) b"])
        (simp_all add: core_fun_def applyCommand_op Start_def Let_def put_escrow_def)
  next
    case False
    then show ?thesis by (auto simp: replays_def Start_def published_def split: option.splits)
  qed
  show "replays (OReprice j r now) bd" if ok: "command_ok (op_cmd (OReprice j r now) bd)"
  proof (cases "\<exists>e. map_of (escrows bd) j = Some e \<and> \<not> e_Started e \<and> \<not> (r \<le>s 0 \<or> e_C e <s r)")
    case True
    then obtain e where "map_of (escrows bd) j = Some e" "\<not> e_Started e" "\<not> (r \<le>s 0 \<or> e_C e <s r)" by blast
    with off show ?thesis
      by (intro publishing_replays [OF assms ok, where f = "\<lambda>b. put_escrow j
            (e\<lparr>e_C := r, e_Reserved := e_Reserved e - (e_C e - r) * e_W e\<rparr>)
            (b\<lparr>ReservedTotal := ReservedTotal b - (e_C e - r) * e_W e, B := B b + (e_C e - r) * e_W e\<rparr>)"])
        (simp_all add: core_fun_def applyCommand_op Reprice_def Let_def put_escrow_def)
  next
    case False
    then show ?thesis by (auto simp: replays_def Reprice_def Let_def published_def split: option.splits)
  qed
qed

lemma StartTask_replays:
  assumes "live bd" and ok: "command_ok (op_cmd (OStartTask j i now) bd)"
  shows "replays (OStartTask j i now) bd"
proof (cases "\<exists>ae t. map_of (arrays bd) j = Some ae \<and> map_of (a_tasks ae) i = Some t \<and> \<not> t_settled t \<and> \<not> t_started t")
  case True
  then obtain ae t where "map_of (arrays bd) j = Some ae" "map_of (a_tasks ae) i = Some t" "\<not> t_settled t" "\<not> t_started t"
    by blast
  moreover have "\<not> BurstEnabled bd" using assms(1) by (simp add: live_def)
  ultimately show ?thesis
    by (intro publishing_replays [OF assms, where f = "\<lambda>b. put_array j (put_task i (t\<lparr>t_started := True\<rparr>) ae) b"])
      (simp_all add: core_fun_def applyCommand_op StartTask_def Let_def put_array_def)
next
  case False
  then show ?thesis by (auto simp: replays_def StartTask_def Let_def published_def split: option.splits)
qed

lemma Lapse_replays:
  assumes live: "live bd" and ok: "command_ok (op_cmd OLapse bd)"
  shows "replays OLapse bd"
proof -
  let ?w = "Some (fst (Append (op_cmd OLapse bd) (the (wal_of bd))))"
  have lapse: "Lapse bd = bd\<lparr>wal_of := ?w, status := Lapsed\<rparr>"
    using live_log [OF live ok] by (simp add: Lapse_def)
  have "applyCommand (op_cmd OLapse bd) (mirror u bd) = (mirror u (Lapse bd), Done)" for u
    unfolding lapse op_cmd.simps applyCommand_op by (simp add: Lapse_def) (simp add: mirror_def)
  then have "follows (op_cmd OLapse bd) bd (Lapse bd)"
    using live lapse by (auto simp: follows_def live_def)
  then show ?thesis by (simp add: replays_def)
qed

lemma exit_replays:
  assumes live: "live bd"
  shows "command_ok (op_cmd (OComplete j t now) bd) \<Longrightarrow> replays (OComplete j t now) bd"
    and "command_ok (op_cmd (OTimeout j now) bd) \<Longrightarrow> replays (OTimeout j now) bd"
    and "command_ok (op_cmd (OCancel j t now) bd) \<Longrightarrow> replays (OCancel j t now) bd"
    and "command_ok (op_cmd (OInfraFail j t now) bd) \<Longrightarrow> replays (OInfraFail j t now) bd"
  by (cases "map_of (escrows bd) j";
      auto simp: replays_def Complete_def Timeout_def Cancel_def InfraFail_def applyCommand_op
        intro!: settle_replays [OF live])+

lemma task_exit_replays:
  assumes live: "live bd"
  shows "replay_ok (OCompleteTask j i t now) bd \<Longrightarrow> replays (OCompleteTask j i t now) bd"
    and "replay_ok (OTimeoutTask j i now) bd \<Longrightarrow> replays (OTimeoutTask j i now) bd"
    and "replay_ok (OCancelTask j i t now) bd \<Longrightarrow> replays (OCancelTask j i t now) bd"
    and "replay_ok (OInfraFailTask j i t now) bd \<Longrightarrow> replays (OInfraFailTask j i t now) bd"
  by (auto simp: replay_ok_def replays_def CompleteTask_def TimeoutTask_def CancelTask_def InfraFailTask_def
        applyCommand_op has_task_def split: option.splits intro!: settleTask_replays [OF live])

lemma replays_all:
  assumes live: "live bd" and ok: "replay_ok p bd"
  shows "replays p bd"
proof (cases p)
  case (OSubmit j w now)
  with SubmitAt_replays [OF live, of j 0 w now] ok show ?thesis
    by (simp add: replays_def Submit_def replay_ok_def)
next
  case (OSubmitArray j n w now)
  with SubmitArrayAt_replays [OF live, of j 0 n w now] ok show ?thesis
    by (simp add: replays_def SubmitArray_def replay_ok_def)
next
  case (OTopUp a now)
  with transfer_replays(1) [OF live, of a "[]" now] ok show ?thesis
    by (simp add: replays_def TopUp_def replay_ok_def)
next
  case (OWithdraw a now)
  with transfer_replays(2) [OF live, of a "[]" now] ok show ?thesis
    by (simp add: replays_def Withdraw_def replay_ok_def)
next
  case (OReport now)
  with live show ?thesis by (simp add: replays_def live_def Report_def accrue_def)
next
  case (OBurstSnapshot now)
  with live show ?thesis by (simp add: replays_def live_def BurstSnapshot_def accrue_def)
qed (use ok in \<open>auto simp: replay_ok_def SubmitAt_replays SubmitArrayAt_replays escrow_replays exit_replays Lapse_replays
    transfer_replays config_replays StartTask_replays task_exit_replays live\<close>)

section \<open>Recovery\<close>

definition log_of :: "budget \<Rightarrow> string" where
  "log_of bd = f_bytes (w_file (the (wal_of bd)))"

lemma live_silent:
  assumes "live bd" "silent bd bd'"
  shows "live bd'" and "log_of bd' = log_of bd" and "mirror u bd' = mirror u bd"
  using assms by (auto simp: silent_def live_def log_of_def mirror_def)

lemma live_follows:
  assumes live: "live bd" and ok: "command_ok c" and f: "follows c bd bd'" and inv: "kernel_inv bd'"
  shows "live bd'" and "log_of bd' = log_of bd @ frame_bytes (marshal_Command c)"
proof -
  obtain w where w: "wal_of bd = Some w" "healthy w" using live by (auto simp: live_def split: option.splits)
  then show "live bd'" "log_of bd' = log_of bd @ frame_bytes (marshal_Command c)"
    using f inv Append_healthy [OF w(2) ok] by (auto simp: follows_def live_def log_of_def)
qed

text \<open>The log of a run, and the states its prefixes replay to.\<close>

lemma run_log:
  assumes "live bd" "guarded exec replay_ok ops bd"
  shows "\<exists>cs. list_all command_ok cs \<and> live (run_ops exec ops bd)
     \<and> log_of (run_ops exec ops bd) = log_of bd @ log_bytes marshal_Command cs
     \<and> (\<forall>m \<le> length cs. \<exists>k \<le> length ops. (m = length cs \<longrightarrow> k = length ops)
          \<and> (\<forall>u. \<exists>u'. apply_list applyCommand (take m cs) (mirror u bd) = (mirror u' (run_ops exec (take k ops) bd), Done)))"
  using assms
proof (induction ops arbitrary: bd)
  case Nil
  then show ?case by (intro exI [of _ "[]"]) auto
next
  case (Cons p ops)
  let ?bd = "fst (exec p bd)"
  have ok: "replay_ok p bd" "guarded exec replay_ok ops ?bd" using Cons.prems by simp_all
  have inv: "kernel_inv ?bd" using Cons.prems exec_kernel_inv by (auto simp: live_def)
  from replays_all [OF Cons.prems(1) ok(1)] consider "silent bd ?bd" | "follows (op_cmd p bd) bd ?bd"
    by (auto simp: replays_def)
  then show ?case
  proof cases
    case 1
    note s = live_silent [OF Cons.prems(1) 1]
    from Cons.IH [OF s(1) ok(2)] obtain cs where cs: "list_all command_ok cs" "live (run_ops exec ops ?bd)"
      "log_of (run_ops exec ops ?bd) = log_of bd @ log_bytes marshal_Command cs"
      "\<forall>m \<le> length cs. \<exists>k \<le> length ops. (m = length cs \<longrightarrow> k = length ops)
          \<and> (\<forall>u. \<exists>u'. apply_list applyCommand (take m cs) (mirror u bd) = (mirror u' (run_ops exec (take k ops) ?bd), Done))"
      unfolding s(2,3) by blast
    have "\<exists>k \<le> length (p # ops). (m = length cs \<longrightarrow> k = length (p # ops))
          \<and> (\<forall>u. \<exists>u'. apply_list applyCommand (take m cs) (mirror u bd) = (mirror u' (run_ops exec (take k (p # ops)) bd), Done))"
      if m: "m \<le> length cs" for m
    proof -
      from cs(4) m obtain k where "k \<le> length ops" "m = length cs \<longrightarrow> k = length ops"
        "\<forall>u. \<exists>u'. apply_list applyCommand (take m cs) (mirror u bd) = (mirror u' (run_ops exec (take k ops) ?bd), Done)"
        by blast
      then show ?thesis by (intro exI [of _ "Suc k"]) simp
    qed
    with cs(1-3) show ?thesis by (intro exI [of _ cs]) simp
  next
    case 2
    have cok: "command_ok (op_cmd p bd)" using ok(1) by (simp add: replay_ok_def)
    note s = live_follows [OF Cons.prems(1) cok 2 inv]
    from Cons.IH [OF s(1) ok(2)] obtain cs where cs: "list_all command_ok cs" "live (run_ops exec ops ?bd)"
      "log_of (run_ops exec ops ?bd) = log_of ?bd @ log_bytes marshal_Command cs"
      "\<forall>m \<le> length cs. \<exists>k \<le> length ops. (m = length cs \<longrightarrow> k = length ops)
          \<and> (\<forall>u. \<exists>u'. apply_list applyCommand (take m cs) (mirror u ?bd) = (mirror u' (run_ops exec (take k ops) ?bd), Done))"
      by blast
    let ?cs = "op_cmd p bd # cs"
    have "\<exists>k \<le> length (p # ops). (m = length ?cs \<longrightarrow> k = length (p # ops))
          \<and> (\<forall>u. \<exists>u'. apply_list applyCommand (take m ?cs) (mirror u bd) = (mirror u' (run_ops exec (take k (p # ops)) bd), Done))"
      if m: "m \<le> length ?cs" for m
    proof (cases m)
      case 0
      then show ?thesis by (intro exI [of _ 0]) auto
    next
      case (Suc m')
      with m cs(4) obtain k where k: "k \<le> length ops" "m' = length cs \<longrightarrow> k = length ops"
        "\<forall>u. \<exists>u'. apply_list applyCommand (take m' cs) (mirror u ?bd) = (mirror u' (run_ops exec (take k ops) ?bd), Done)"
        by (metis Suc_le_mono length_Cons)
      have "\<exists>u'. apply_list applyCommand (take m ?cs) (mirror u bd) = (mirror u' (run_ops exec (take k ops) ?bd), Done)" for u
      proof -
        obtain u1 where "applyCommand (op_cmd p bd) (mirror u bd) = (mirror u1 ?bd, Done)"
          using 2 unfolding follows_def by blast
        with k(3) Suc show ?thesis by simp
      qed
      with k(1,2) Suc show ?thesis by (intro exI [of _ "Suc k"]) simp
    qed
    with cs(1-3) cok s(2) show ?thesis by (intro exI [of _ ?cs]) simp
  qed
qed

lemma live_attach:
  assumes "kernel_inv s" "\<not> replaying s" "\<not> BurstEnabled s"
  shows "live (s\<lparr>wal_of := Some (OpenWAL (open_file []) sync)\<rparr>)"
    and "log_of (s\<lparr>wal_of := Some (OpenWAL (open_file []) sync)\<rparr>) = []"
  using assms by (simp_all add: live_def healthy_def OpenWAL_def open_file_def log_of_def)

text \<open>What \<open>OpenBudget\<close> gives for a snapshot of \<open>bd\<close> and a log of whole records and a torn tail.\<close>

definition reopened :: "bool \<Rightarrow> state_dir \<Rightarrow> budget \<Rightarrow> readView option \<Rightarrow> budget" where
  "reopened sync d bd v = bd\<lparr>wal_of := Some (OpenWAL (open_file (wal_file d)) sync), readView := v\<rparr>"

lemma OpenBudget_replay:
  assumes live: "live bd" and fits: "int (length (log_of bd)) < 2 ^ 63"
    and snap: "d_snapshot d = Some (captureSnapshot (word_of_nat (length (log_of bd))) bd)"
    and log: "d_wal d = Some (log_of bd @ log_bytes marshal_Command cs @ tail)"
    and cs: "list_all command_ok cs" and tail: "\<And>s good. replay_loop unmarshal_Command applyCommand s good tail = (s, good, Done)"
    and app: "\<And>u. \<exists>u'. apply_list applyCommand cs (mirror u bd) = (mirror u' bd', Done)"
    and live': "live bd'"
  shows "\<exists>v. OpenBudget (dir bd) sync d = Inr (reopened sync d bd' v)"
proof -
  let ?off = "word_of_nat (length (log_of bd)) :: i64"
  have off: "sint ?off = int (length (log_of bd))"
    using fits sint_of_int_exact [of "int (length (log_of bd))"] by (simp add: fits64_def)
  define s where "s = (budgetFromSnapshot (captureSnapshot ?off bd))\<lparr>dir := dir bd, replaying := True\<rparr>"
  have "kernel_inv bd" "\<not> replaying bd" using live by (simp_all add: live_def)
  then have s: "s = mirror (readView (publishLocked bd)) bd"
    unfolding s_def snapshot_load [OF \<open>kernel_inv bd\<close>] by (simp add: mirror_def publishLocked_def)
  obtain u' where u': "apply_list applyCommand cs s = (mirror u' bd', Done)" using app unfolding s by blast
  have "\<exists>g. replay_loop unmarshal_Command applyCommand s ?off (log_bytes marshal_Command cs @ tail) = (mirror u' bd', g, Done)"
    using cmd_codec.replay_log [OF cs tail, of s ?off] unfolding u' by auto
  then obtain g where g: "replayWAL (d_wal d) ?off applyCommand s = (mirror u' bd', g, Done)"
    using off log by (auto simp: replayWAL_def i64_simps)
  have "fst (ConservationOKArrays (mirror u' bd'\<lparr>replaying := False\<rparr>))"
    using live' by (auto simp: live_def kernel_inv_def ConservationOKArrays_def array_inv_def mirror_def ledger_sum_def elim!: mall_mono)
  then have "OpenBudget (dir bd) sync d
      = Inr (mirror u' bd'\<lparr>replaying := False, wal_of := Some (OpenWAL (open_file (wal_file d)) sync)\<rparr>)"
    using g snap unfolding s_def by (simp add: OpenBudget_def loadSnapshot_def captureSnapshot_def)
  moreover have "\<not> replaying bd'" using live' by (simp add: live_def)
  ultimately show ?thesis
    by (intro exI [of _ u']) (simp add: reopened_def mirror_def)
qed



section \<open>Where recovery goes wrong\<close>

text \<open>
  C39: a task exit that is refused can make a budget unrecoverable. The task exits write their
  command before they look at the task, so completing a task that is already settled reports \<open>ErrBadState\<close> and changes
  nothing, but leaves its command in the log; \<open>OpenBudget\<close> then fails on that log with the same error.
\<close>

theorem settled_task_exit_poisons_log:
  assumes live: "live bd" and fits: "int (length (log_of bd)) < 2 ^ 63"
    and task: "map_of (arrays bd) j = Some ae" "map_of (a_tasks ae) i = Some ts" "t_settled ts"
    and ok: "command_ok (task_cmd KindCompleteTask j i t 0 now)"
    and snap: "d_snapshot d = Some (captureSnapshot (word_of_nat (length (log_of bd))) bd)"
    and log: "d_wal d = Some (log_of (fst (CompleteTask j i t now bd)))"
  shows "snd (CompleteTask j i t now bd) = Fail ErrBadState \<and> same_books (fst (CompleteTask j i t now bd)) bd
    \<and> OpenBudget (dir bd) sync d = Inl (Fail ErrBadState)"
proof -
  let ?c = "task_cmd KindCompleteTask j i t 0 now"
  have lc: "logCmd ?c bd = (bd\<lparr>wal_of := Some (fst (Append ?c (the (wal_of bd))))\<rparr>, None)" by (rule live_log [OF live ok])
  have res: "CompleteTask j i t now bd = (fst (logCmd ?c bd), Fail ErrBadState)"
    using task lc by (simp add: CompleteTask_def with_log_Done settleTask_def)
  obtain w where w: "wal_of bd = Some w" "healthy w" using live by (auto simp: live_def split: option.splits)
  have logs: "d_wal d = Some (log_of bd @ log_bytes marshal_Command [?c])"
    using log res lc w Append_healthy(3) [OF w(2) ok] by (simp add: log_of_def)
  let ?off = "word_of_nat (length (log_of bd)) :: i64"
  have off: "sint ?off = int (length (log_of bd))"
    using fits sint_of_int_exact [of "int (length (log_of bd))"] by (simp add: fits64_def)
  define s where "s = (budgetFromSnapshot (captureSnapshot ?off bd))\<lparr>dir := dir bd, replaying := True\<rparr>"
  have "kernel_inv bd" using live by (simp add: live_def)
  then have "arrays s = arrays bd" "replaying s" by (simp_all add: s_def snapshot_load publishLocked_def)
  then have ap: "apply_list applyCommand [?c] s = (s, Fail ErrBadState)"
    using task by (simp add: applyCommand_op CompleteTask_def with_log_Done settleTask_def)
  have "\<exists>g. replay_loop unmarshal_Command applyCommand s ?off (log_bytes marshal_Command [?c] @ []) = (s, g, Fail ErrBadState)"
    using cmd_codec.replay_log [of "[?c]" applyCommand "[]" s ?off] ok ap by (simp add: replay_loop.simps [of _ _ _ _ "[]"])
  then obtain g where "replayWAL (d_wal d) ?off applyCommand s = (s, g, Fail ErrBadState)"
    using off logs by (auto simp: replayWAL_def i64_simps simp del: log_bytes.simps)
  then have "OpenBudget (dir bd) sync d = Inl (Fail ErrBadState)"
    using snap unfolding s_def by (simp add: OpenBudget_def loadSnapshot_def captureSnapshot_def)
  with res show ?thesis by (simp add: same_books_def)
qed

theorem settled_task_exit_poisons_log_witness:
  "OpenBudget [] True
     \<lparr>d_snapshot = Some (captureSnapshot 0 ((run_ops exec [OSubmitArray ''a'' 2 4 5, OCompleteTask ''a'' 0 1 6] (New 2 1000 0 100))
        \<lparr>wal_of := Some (OpenWAL (open_file []) True)\<rparr>)), d_tmp = None,
      d_wal = Some (log_of (fst (CompleteTask ''a'' 0 1 7
        ((run_ops exec [OSubmitArray ''a'' 2 4 5, OCompleteTask ''a'' 0 1 6] (New 2 1000 0 100))
           \<lparr>wal_of := Some (OpenWAL (open_file []) True)\<rparr>)))), io_fault = None\<rparr> = Inl (Fail ErrBadState)"
proof -
  let ?s = "run_ops exec [OSubmitArray ''a'' 2 4 5, OCompleteTask ''a'' 0 1 6] (New 2 1000 0 100)"
  let ?bd = "?s\<lparr>wal_of := Some (OpenWAL (open_file []) True)\<rparr>"
  let ?ae = "\<lparr>a_ArrayID = ''a'', a_C = 2, a_W = 4, a_N = 2, a_Remaining = 1, a_Reserved = 8, a_Submitted = 5,
     a_tasks = [(0, \<lparr>t_idx = 0, t_started = False, t_settled = True, t_burstResv = 0\<rparr>),
                (1, \<lparr>t_idx = 1, t_started = False, t_settled = False, t_burstResv = 0\<rparr>)]\<rparr>"
  let ?d = "\<lparr>d_snapshot = Some (captureSnapshot 0 ?bd), d_tmp = None,
      d_wal = Some (log_of (fst (CompleteTask ''a'' 0 1 7 ?bd))), io_fault = None\<rparr>"
  have "kernel_inv ?s" by (rule books.reaches_inv [OF reaches_run kernel_inv_New])
  moreover have s: "\<not> replaying ?s" "\<not> BurstEnabled ?s" "map_of (arrays ?s) ''a'' = Some ?ae" "dir ?s = []"
    by code_simp+
  ultimately have bd: "live ?bd" "log_of ?bd = []" by (simp_all only: live_attach simp_thms)
  have ok: "command_ok (task_cmd KindCompleteTask ''a'' 0 1 0 7)" by code_simp
  let ?t = "\<lparr>t_idx = 0, t_started = False, t_settled = True, t_burstResv = 0\<rparr>"
  have t: "map_of (a_tasks ?ae) 0 = Some ?t" "t_settled ?t" by simp_all
  have d: "map_of (arrays ?bd) ''a'' = Some ?ae" "int (length (log_of ?bd)) < 2 ^ 63"
    "d_snapshot ?d = Some (captureSnapshot (word_of_nat (length (log_of ?bd))) ?bd)" "dir ?bd = []"
    unfolding bd(2) using s(3,4) by (simp_all del: run_ops.simps exec.simps)
  show ?thesis
    using settled_task_exit_poisons_log [OF bd(1) d(2,1) t ok d(3), of True] unfolding d(4)
    by (simp del: run_ops.simps exec.simps)
qed

text \<open>Three bytes of a torn header swallow the length byte of the next record, which makes it unreadable.\<close>

lemma of_char_nonneg: "0 \<le> (of_char c :: int)"
  by (metis of_nat_0_le_iff of_nat_of_char)

lemma torn_header_stops:
  assumes q: "0 < length q mod 256" and short: "length (take 3 (frame_bytes p) @ frame_bytes q) < 2 ^ 24"
  shows "replay_loop dec fn s good (take 3 (frame_bytes p) @ frame_bytes q) = (s, good, Done)"
proof -
  obtain b0 b1 b2 where p: "take 3 (frame_bytes p) = [b0, b1, b2]"
    by (auto simp: frame_bytes_def frame_hdr_def put_le32_def)
  have "byte_val (char_of (length q)) = int (length q mod 256)"
    by (metis of_char_of of_nat_of_char)
  then obtain d rest where rest: "frame_bytes q = d # rest" "byte_val d = int (length q mod 256)"
    by (auto simp: frame_bytes_def frame_hdr_def put_le32_def simp del: of_nat_of_char)
  have "1 \<le> byte_val d" using q rest(2) by simp
  then have "2 ^ 24 \<le> get_le32 [b0, b1, b2, d]"
    using of_char_nonneg [of b0] of_char_nonneg [of b1] of_char_nonneg [of b2]
    by (simp add: get_le32_def)
  then have "length (drop 8 (b0 # b1 # b2 # d # rest)) < nat (get_le32 (take 4 (b0 # b1 # b2 # d # rest)))"
    using short unfolding p rest(1) by simp
  then show ?thesis
    unfolding p rest(1) by (subst replay_loop.simps) (simp add: Let_def)
qed

text \<open>
  C40: a torn record makes recovery forget what is logged after it. \<open>OpenBudget\<close> ignores the torn
  tail it stops at and leaves it in the file, so the next append lands behind it. If a crash
  left three bytes of a record, then a submission that the recovered budget accepts and logs is
  gone after the next recovery (for a log under 16 MB and a record whose length is not a multiple of
  256): the budget comes back as it was before the submission.
\<close>

theorem torn_tail_hides_later_submit:
  assumes live: "live bd" and fits: "int (length (log_of bd)) < 2 ^ 63"
    and snap: "d_snapshot d = Some (captureSnapshot (word_of_nat (length (log_of bd))) bd)"
    and torn: "d_wal d = Some (log_of bd @ take 3 (frame_bytes p))"
    and adm: "admits j c w now bd" and ok: "command_ok (op_cmd (OSubmitAt j c w now) bd)"
    and len: "0 < length (marshal_Command (op_cmd (OSubmitAt j c w now) bd)) mod 256"
      "11 + length (marshal_Command (op_cmd (OSubmitAt j c w now) bd)) < 2 ^ 24"
  shows "\<exists>bd1 v. OpenBudget (dir bd) sync d = Inr bd1 \<and> snd (SubmitAt j c w now bd1) = Done
    \<and> OpenBudget (dir bd) sync (d\<lparr>d_wal := Some (log_of (fst (SubmitAt j c w now bd1)))\<rparr>)
      = Inr (reopened sync (d\<lparr>d_wal := Some (log_of (fst (SubmitAt j c w now bd1)))\<rparr>) bd v)"
proof -
  have 3: "replay_loop unmarshal_Command applyCommand s good (take 3 (frame_bytes p)) = (s, good, Done)" for s good
  proof -
    have "length (take 3 (frame_bytes p)) < 8" by simp
    then show ?thesis by (subst replay_loop.simps) (simp only: if_True)
  qed
  have app: "\<exists>u'. apply_list applyCommand [] (mirror u bd) = (mirror u' bd, Done)" for u by auto
  obtain v where open1: "OpenBudget (dir bd) sync d = Inr (reopened sync d bd v)"
    using OpenBudget_replay [OF live fits snap _ _ 3 app live, where sync = sync] torn by auto
  define bd1 where "bd1 = reopened sync d bd v"
  let ?cmd = "op_cmd (OSubmitAt j c w now) bd"
  have bd1: "live bd1" "log_of bd1 = log_of bd @ take 3 (frame_bytes p)" "op_cmd (OSubmitAt j c w now) bd1 = ?cmd"
    using live torn
    by (simp_all add: bd1_def reopened_def live_def healthy_def OpenWAL_def open_file_def log_of_def wal_file_def)
  have sel: "status bd1 = status bd" "TS bd1 = TS bd" "TE bd1 = TE bd" "escrows bd1 = escrows bd" "B bd1 = B bd"
    "C bd1 = C bd" "K bd1 = K bd" "ReservedTotal bd1 = ReservedTotal bd" by (simp_all add: bd1_def reopened_def)
  have log1: "snd (logCmd ?cmd bd1) = None" using live_log [OF bd1(1) ok] by simp
  have adm1: "admits j c w now bd1"
    using adm log1 unfolding admits_def submit_cost_def rateOK_def sel op_cmd.simps by simp
  obtain w1 where w1: "wal_of bd1 = Some w1" "healthy w1" using bd1(1) by (auto simp: live_def split: option.splits)
  have "log_of (fst (SubmitAt j c w now bd1)) = log_of (fst (logCmd ?cmd bd1))"
    using bd1(3) unfolding SubmitAt_admits [OF adm1] by (simp add: log_of_def put_escrow_def)
  also have "\<dots> = log_of bd @ take 3 (frame_bytes p) @ frame_bytes (marshal_Command ?cmd)"
    using bd1(2) live_log [OF bd1(1) ok] w1 Append_healthy(3) [OF w1(2) ok] by (simp add: log_of_def)
  finally have log2: "log_of (fst (SubmitAt j c w now bd1)) = log_of bd @ take 3 (frame_bytes p) @ frame_bytes (marshal_Command ?cmd)" .
  have stop: "replay_loop unmarshal_Command applyCommand s good (take 3 (frame_bytes p) @ frame_bytes (marshal_Command ?cmd)) = (s, good, Done)" for s good
    using len by (intro torn_header_stops) (simp_all add: frame_bytes_def)
  obtain v' where "OpenBudget (dir bd) sync (d\<lparr>d_wal := Some (log_of (fst (SubmitAt j c w now bd1)))\<rparr>)
      = Inr (reopened sync (d\<lparr>d_wal := Some (log_of (fst (SubmitAt j c w now bd1)))\<rparr>) bd v')"
    using OpenBudget_replay [OF live fits _ _ _ stop app live, where d = "d\<lparr>d_wal := Some (log_of (fst (SubmitAt j c w now bd1)))\<rparr>"
        and sync = sync] snap log2
    by auto
  moreover have "snd (SubmitAt j c w now bd1) = Done" by (simp add: SubmitAt_admits [OF adm1])
  ultimately show ?thesis using open1 unfolding bd1_def by blast
qed

lemma rateOK_wal [simp]: "rateOK cost now (s\<lparr>wal_of := x\<rparr>) = rateOK cost now s"
  by (simp add: rateOK_def)

lemma admits_attach:
  assumes "admits j c w now s" "snd (logCmd (op_cmd (OSubmitAt j c w now) (s\<lparr>wal_of := x\<rparr>)) (s\<lparr>wal_of := x\<rparr>)) = None"
  shows "admits j c w now (s\<lparr>wal_of := x\<rparr>)"
  using assms by (auto simp: admits_def submit_cost_def split: if_splits)

theorem torn_tail_hides_later_submit_witness:
  "\<exists>bd1 v. OpenBudget [] True
      \<lparr>d_snapshot = Some (captureSnapshot 0 ((New 2 1000 0 100)\<lparr>wal_of := Some (OpenWAL (open_file []) True)\<rparr>)), d_tmp = None,
       d_wal = Some (take 3 (frame_bytes ''torn'')), io_fault = None\<rparr> = Inr bd1
    \<and> snd (SubmitAt ''j'' 0 10 5 bd1) = Done"
proof -
  let ?bd = "(New 2 1000 0 100)\<lparr>wal_of := Some (OpenWAL (open_file []) True)\<rparr>"
  let ?d = "\<lparr>d_snapshot = Some (captureSnapshot 0 ?bd), d_tmp = None, d_wal = Some (take 3 (frame_bytes ''torn'')), io_fault = None\<rparr>"
  let ?cmd = "cmd0\<lparr>c_Kind := KindSubmit, c_JobID := ''j'', c_C := 2, c_W := 10, c_Now := 5\<rparr>"
  have bd: "log_of ?bd = []" "dir ?bd = []" "live ?bd" "C ?bd = 2"
    using live_attach [OF kernel_inv_New, of 2 1000 0 100 True] by (simp_all add: New_def publishLocked_def)
  have cmd: "op_cmd (OSubmitAt ''j'' 0 10 5) ?bd = ?cmd" by (simp add: bd(4))
  have ok: "command_ok ?cmd" by code_simp
  have adm: "admits ''j'' 0 10 5 ?bd"
  proof (rule admits_attach)
    show "admits ''j'' 0 10 5 (New 2 1000 0 100)" by code_simp
    show "snd (logCmd (op_cmd (OSubmitAt ''j'' 0 10 5) ?bd) ?bd) = None"
      unfolding cmd live_log [OF bd(3) ok] by (rule snd_conv)
  qed
  have "length (marshal_Command ?cmd) = 38" by code_simp
  then have len: "0 < length (marshal_Command ?cmd) mod 256" "11 + length (marshal_Command ?cmd) < 2 ^ 24" by simp_all
  have p: "int (length (log_of ?bd)) < 2 ^ 63"
    "d_snapshot ?d = Some (captureSnapshot (word_of_nat (length (log_of ?bd))) ?bd)"
    "d_wal ?d = Some (log_of ?bd @ take 3 (frame_bytes ''torn''))"
    unfolding bd(1) by simp_all
  from torn_tail_hides_later_submit [OF bd(3) p adm, unfolded cmd, OF ok len, of True] show ?thesis
    unfolding bd(2) by blast
qed

end
