(* ===== verification/Audit_Log.thy ===== *)
theory Audit_Log
  imports Durable
begin

text \<open>
  The audit log (\<^verbatim>\<open>auditlog.go\<close>): the write-ahead log read back for people (\<open>ReadLog\<close>) and searched
  for the legs of a transfer (\<open>HasXfer\<close>).
\<close>

record logEntry =
  le_Kind :: string
  le_JobID :: string
  le_ArrayID :: string
  le_Idx :: i64
  le_N :: i64
  le_Rate :: Units
  le_W :: Seconds
  le_Runtime :: Seconds
  le_Elapsed :: Seconds
  le_Amount :: Units
  le_TS :: Seconds
  le_TE :: Seconds
  le_Xfer :: string
  le_Now :: Seconds

definition kind_names :: "(string \<times> string) list" where
  "kind_names =
     [(KindSubmit, ''submit''), (KindStart, ''start''), (KindComplete, ''settle:complete''),
      (KindTimeout, ''settle:timeout''), (KindCancel, ''settle:cancel''), (KindInfraFail, ''settle:infrafail''),
      (KindSubmitArray, ''submit-array''), (KindStartTask, ''start-task''), (KindCompleteTask, ''settle-task:complete''),
      (KindTimeoutTask, ''settle-task:timeout''), (KindCancelTask, ''settle-task:cancel''),
      (KindInfraFailTask, ''settle-task:infrafail''), (KindLapse, ''lapse''), (KindTopUp, ''topup''),
      (KindWithdraw, ''withdraw''), (KindReprice, ''reprice''), (KindSetRate, ''set-rate''),
      (KindSetWindow, ''set-window''), (KindSetBurst, ''set-burst'')]"

definition commandKindName :: "string \<Rightarrow> string" where
  "commandKindName k = (case map_of kind_names k of None \<Rightarrow> k | Some n \<Rightarrow> n)"

definition log_entry :: "command \<Rightarrow> logEntry" where
  "log_entry c =
     \<lparr>le_Kind = commandKindName (c_Kind c), le_JobID = c_JobID c, le_ArrayID = c_ArrayID c, le_Idx = c_Idx c,
      le_N = c_N c, le_Rate = c_C c, le_W = c_W c, le_Runtime = c_Runtime c, le_Elapsed = c_Elapsed c,
      le_Amount = c_Amount c, le_TS = c_TS c, le_TE = c_TE c, le_Xfer = c_Xfer c, le_Now = c_Now c\<rparr>"

definition ReadLog :: "string option \<Rightarrow> outcome + logEntry list" where
  "ReadLog wal_log =
     (case replayWAL wal_log 0 (\<lambda>c es. (es @ [log_entry c], Done)) [] of
        (es, _, r) \<Rightarrow> if r \<noteq> Done then Inl r else Inr es)"

definition HasXfer :: "string option \<Rightarrow> string \<Rightarrow> string \<Rightarrow> outcome + bool" where
  "HasXfer wal_log kind xfer =
     (case replayWAL wal_log 0 (\<lambda>c found. (found \<or> (c_Kind c = kind \<and> c_Xfer c = xfer), Done)) False of
        (found, _, r) \<Rightarrow> if r \<noteq> Done then Inl r else Inr found)"

text \<open>\<open>Log\<close> reads the log of the budget's own directory, if it has one.\<close>

definition Log :: "budget \<Rightarrow> string option \<Rightarrow> outcome + logEntry list" where
  "Log bd wal_log = (if dir bd = [] then Inr [] else ReadLog wal_log)"

lemma apply_list_map: "apply_list (\<lambda>c es. (es @ [f c], Done)) cs es = (es @ map f cs, Done)"
  by (induction cs arbitrary: es) auto

lemma apply_list_ex: "apply_list (\<lambda>c b. (b \<or> P c, Done)) cs b = (b \<or> list_ex P cs, Done)"
  by (induction cs arbitrary: b) auto

lemma replayWAL_whole:
  assumes "list_all command_ok cs"
  shows "\<exists>g. replayWAL (Some (log_bytes marshal_Command cs)) 0 fn s = (fst (apply_list fn cs s), g, snd (apply_list fn cs s))"
proof -
  have "replay_loop unmarshal_Command fn s good [] = (s, good, Done)" for s good
    by (simp add: replay_loop.simps)
  from cmd_codec.replay_log [OF assms this, of s 0] show ?thesis
    by (simp add: replayWAL_def)
qed

lemma HasXfer_commands:
  assumes "list_all command_ok cs"
  shows "HasXfer (Some (log_bytes marshal_Command cs)) kind xfer = Inr (list_ex (\<lambda>c. c_Kind c = kind \<and> c_Xfer c = xfer) cs)"
proof -
  obtain g where "replayWAL (Some (log_bytes marshal_Command cs)) 0
        (\<lambda>c found. (found \<or> (c_Kind c = kind \<and> c_Xfer c = xfer), Done)) False
      = (list_ex (\<lambda>c. c_Kind c = kind \<and> c_Xfer c = xfer) cs, g, Done)"
    using replayWAL_whole [OF assms, of "\<lambda>c found. (found \<or> (c_Kind c = kind \<and> c_Xfer c = xfer), Done)" False]
    by (auto simp: apply_list_ex)
  then show ?thesis by (simp add: HasXfer_def)
qed

text \<open>
  C15: the audit log is complete and in order. For a log of committed commands, \<open>ReadLog\<close> returns one
  entry per command, in commit order, with the fields the command was written with; and \<open>HasXfer\<close>
  answers yes exactly when one of them is of that kind and carries that transfer id. Neither
  fails.
\<close>

theorem audit_log_complete:
  assumes "list_all command_ok cs"
  shows "ReadLog (Some (log_bytes marshal_Command cs)) = Inr (map log_entry cs)
    \<and> HasXfer (Some (log_bytes marshal_Command cs)) kind xfer = Inr (list_ex (\<lambda>c. c_Kind c = kind \<and> c_Xfer c = xfer) cs)"
proof -
  obtain g where "replayWAL (Some (log_bytes marshal_Command cs)) 0 (\<lambda>c es. (es @ [log_entry c], Done)) []
      = (map log_entry cs, g, Done)"
    using replayWAL_whole [OF assms, of "\<lambda>c es. (es @ [log_entry c], Done)" "[]"] by (auto simp: apply_list_map)
  then show ?thesis using HasXfer_commands [OF assms] by (simp add: ReadLog_def)
qed

theorem audit_log_complete_witness:
  "HasXfer (Some (log_bytes marshal_Command [cmd0\<lparr>c_Kind := KindTopUp, c_Amount := 5, c_Xfer := ''x1''\<rparr>])) KindTopUp ''x1'' = Inr True"
proof -
  have "list_all command_ok [cmd0\<lparr>c_Kind := KindTopUp, c_Amount := 5, c_Xfer := ''x1''\<rparr>]" by code_simp
  from audit_log_complete [OF this, of KindTopUp "''x1''"] show ?thesis by simp
qed

text \<open>
  The labels of the audit log are faithful: two different kinds of command never share a label.
\<close>

lemma commandKindName_inj:
  "inj_on commandKindName (set (map fst kind_names))"
proof -
  have "distinct (map (commandKindName \<circ> fst) kind_names)"
    by (simp add: kind_names_def commandKindName_def kind_defs)
  then show ?thesis
    by (metis distinct_map list.map_comp)
qed

end
