(* ===== verification/Transfers.thy ===== *)
theory Transfers
  imports Registry_Spec Recovery Audit_Log
begin

text \<open>
  Transfers between accounts (\<^verbatim>\<open>internal/daemon/transfer.go\<close>) and the start of the registry, which completes the interrupted ones
  (\<open>NewRegistry\<close> of \<^verbatim>\<open>registry.go\<close>). A transfer journals itself, withdraws, deposits and drops the journal record; each leg is an ordinary
  logged kernel command tagged with the transfer's id.
\<close>

section \<open>Model\<close>

definition mintXferID :: "registry \<Rightarrow> string option \<times> registry" where
  "mintXferID r = (case rand_bytes r of (b, r') \<Rightarrow> (map_option (\<lambda>bs. ''xfer:'' @ hexEncode bs) b, r'))"

definition sanitizeXfer :: "string \<Rightarrow> string" where
  "sanitizeXfer x = map (\<lambda>c. if c = CHR '':'' \<or> c = CHR ''/'' then CHR ''_'' else c) x"

definition journal_name :: "string \<Rightarrow> string" where
  "journal_name x = sanitizeXfer x @ ''.json''"

text \<open>A sequence of file operations stops at the first that fails.\<close>

primrec io_steps :: "nat \<Rightarrow> registry \<Rightarrow> bool \<times> registry" where
  "io_steps 0 r = (True, r)"
| "io_steps (Suc n) r = (case io_fails r of (True, r') \<Rightarrow> (False, r') | (False, r') \<Rightarrow> io_steps n r')"

text \<open>\<open>MkdirAll\<close>, open, write, sync, close and rename; the record is there once the rename went through.\<close>

definition writeTransferRecord :: "transferRecord \<Rightarrow> registry \<Rightarrow> registry \<times> msg option" where
  "writeTransferRecord rec r =
     (case io_steps 6 r of
        (False, r') \<Rightarrow> (r', Some io_error)
      | (True, r') \<Rightarrow> (r'\<lparr>rg_journal := AList.update (journal_name (tx_XferID rec)) rec (rg_journal r')\<rparr>, None))"

definition deleteTransferRecord :: "string \<Rightarrow> registry \<Rightarrow> registry \<times> msg option" where
  "deleteTransferRecord xferID r =
     (if map_of (rg_journal r) (journal_name xferID) = None then (r, None)
      else case io_fails r of
             (True, r') \<Rightarrow> (r', Some io_error)
           | (False, r') \<Rightarrow> (r'\<lparr>rg_journal := AList.delete (journal_name xferID) (rg_journal r')\<rparr>, None))"

text \<open>The checks before anything is written, the amount, and the two budgets.\<close>

definition transfer_plan :: "string \<Rightarrow> string \<Rightarrow> Units \<Rightarrow> bool \<Rightarrow> registry \<Rightarrow> msg + (string \<times> string \<times> Units)" where
  "transfer_plan from to amount al r =
     (if rg_stateDir r = [] \<or> \<not> rg_hasClock r then Inl (lit ''transfers require obold -config'')
      else if from = to then Inl [PText ''cannot transfer to the same account '', PQuoted from]
      else case Resolve from r of
             Inl e \<Rightarrow> Inl ([PText ''source ''] @ e)
           | Inr kf \<Rightarrow>
               (case Resolve to r of
                  Inl e \<Rightarrow> Inl ([PText ''destination ''] @ e)
                | Inr kt \<Rightarrow>
                    let amt = (if al then balance_of kf r else amount)
                    in if amt \<le>s 0 then Inl [PText ''nothing to transfer (amount '', PInt amt, PText '')'']
                       else if balance_of kf r <s amt
                       then Inl [PText ''source has '', PInt (balance_of kf r), PText '' available, cannot transfer '', PInt amt]
                       else Inr (kf, kt, amt)))"

definition withdraw_leg :: "string \<Rightarrow> transferRecord \<Rightarrow> registry \<Rightarrow> registry \<times> outcome" where
  "withdraw_leg kf rec r = call kf (WithdrawXfer (tx_Amount rec) (tx_XferID rec) (tx_Now rec)) r"

definition deposit_leg :: "string \<Rightarrow> transferRecord \<Rightarrow> registry \<Rightarrow> registry \<times> outcome" where
  "deposit_leg kt rec r = call kt (TopUpXfer (tx_Amount rec) (tx_XferID rec) (tx_Now rec)) r"

text \<open>What \<open>Transfer\<close> does once its record is in the journal.\<close>

definition transfer_legs :: "string \<Rightarrow> string \<Rightarrow> transferRecord \<Rightarrow> registry \<Rightarrow> registry \<times> Units \<times> fault option" where
  "transfer_legs kf kt rec r =
     (case withdraw_leg kf rec r of
        (r1, Panic p) \<Rightarrow> (r1, 0, Some (Crash p))
      | (r1, Fail e) \<Rightarrow>
          (fst (deleteTransferRecord (tx_XferID rec) r1), 0,
           Some (Err ([PText (''withdraw from '' @ tx_From rec @ '': '')] @ err_msg e)))
      | (r1, Done) \<Rightarrow>
          (case deposit_leg kt rec r1 of
             (r2, Panic p) \<Rightarrow> (r2, 0, Some (Crash p))
           | (r2, Fail e) \<Rightarrow>
               (r2, 0, Some (Err ([PText (''deposit to '' @ tx_To rec @ '' (transfer '' @ tx_XferID rec
                                  @ '' will be completed on restart): '')] @ err_msg e)))
           | (r2, Done) \<Rightarrow>
               (case deleteTransferRecord (tx_XferID rec) r2 of
                  (r3, Some e) \<Rightarrow> (r3, tx_Amount rec, Some (Err ([PText ''transfer committed but journal cleanup failed: ''] @ e)))
                | (r3, None) \<Rightarrow> (r3, tx_Amount rec, None))))"

definition Transfer :: "string \<Rightarrow> string \<Rightarrow> Units \<Rightarrow> bool \<Rightarrow> registry \<Rightarrow> registry \<times> Units \<times> fault option" where
  "Transfer from to amount al r =
     (case transfer_plan from to amount al r of
        Inl e \<Rightarrow> (r, 0, Some (Err e))
      | Inr (kf, kt, amt) \<Rightarrow>
          (case mintXferID r of
             (None, r1) \<Rightarrow> (r1, 0, Some (Err (lit ''random source failed'')))
           | (Some xferID, r1) \<Rightarrow>
               let rec = \<lparr>tx_XferID = xferID, tx_From = from, tx_To = to, tx_Amount = amt, tx_Now = fst (reg_now r1)\<rparr>
               in case writeTransferRecord rec (snd (reg_now r1)) of
                    (r2, Some e) \<Rightarrow> (r2, 0, Some (Err ([PText ''journal transfer: ''] @ e)))
                  | (r2, None) \<Rightarrow> transfer_legs kf kt rec r2))"

section \<open>Recovery\<close>

definition wal_bytes :: "budget \<Rightarrow> string option" where
  "wal_bytes bd = map_option (\<lambda>w. f_bytes (w_file w)) (wal_of bd)"

definition completeTransfer :: "transferRecord \<Rightarrow> registry \<Rightarrow> registry \<times> fault option" where
  "completeTransfer rec r =
     (let t = [PText (''transfer '' @ tx_XferID rec)]
      in case map_of (rg_budgets r) (tx_From rec) of
           None \<Rightarrow> (r, Some (Err (t @ [PText '' names unknown source account '', PQuoted (tx_From rec)])))
         | Some fromBd \<Rightarrow>
             (case map_of (rg_budgets r) (tx_To rec) of
                None \<Rightarrow> (r, Some (Err (t @ [PText '' names unknown destination account '', PQuoted (tx_To rec)])))
              | Some toBd \<Rightarrow>
                  (case HasXfer (wal_bytes fromBd) KindWithdraw (tx_XferID rec) of
                     Inl x \<Rightarrow> (r, Some (fault_of [] x))
                   | Inr withdrew \<Rightarrow>
                       (case HasXfer (wal_bytes toBd) KindTopUp (tx_XferID rec) of
                          Inl x \<Rightarrow> (r, Some (fault_of [] x))
                        | Inr deposited \<Rightarrow>
                            if \<not> withdrew \<and> deposited
                            then (r, Some (Err (t @ [PText '' corrupt: deposit committed without withdraw''])))
                            else if \<not> withdrew then (r, None)
                            else if \<not> deposited then
                              (case deposit_leg (tx_To rec) rec r of
                                 (r', Done) \<Rightarrow> (r', None)
                               | (r', x) \<Rightarrow> (r', Some (fault_of [PText (''recover deposit leg of '' @ tx_XferID rec @ '': '')] x)))
                            else (r, None)))))"

text \<open>The journal files in the order \<open>os.ReadDir\<close> lists them; only \<^verbatim>\<open>.json\<close> files are records.\<close>

definition journal_entries :: "registry \<Rightarrow> string list" where
  "journal_entries r = filter (\<lambda>n. drop (length n - 5) n = ''.json'') (fold insert_name (map fst (rg_journal r)) [])"

fun recover_entries :: "string list \<Rightarrow> registry \<Rightarrow> registry \<times> fault option" where
  "recover_entries [] r = (r, None)"
| "recover_entries (n # ns) r =
     (case map_of (rg_journal r) n of
        None \<Rightarrow> (r, Some (Err [PText ''read transfer journal '', PQuoted n]))
      | Some rec \<Rightarrow>
          (case completeTransfer rec r of
             (r1, Some e) \<Rightarrow> (r1, Some e)
           | (r1, None) \<Rightarrow>
               (case deleteTransferRecord (tx_XferID rec) r1 of
                  (r2, Some e) \<Rightarrow> (r2, Some (Err ([PText ''clear recovered transfer '', PQuoted (tx_XferID rec)] @ e)))
                | (r2, None) \<Rightarrow> recover_entries ns r2)))"

definition recoverTransfers :: "registry \<Rightarrow> registry \<times> fault option" where
  "recoverTransfers r = recover_entries (journal_entries r) r"

section \<open>Starting the registry\<close>

fun create_missing :: "accountConfig list \<Rightarrow> registry \<Rightarrow> registry \<times> fault option" where
  "create_missing [] r = (r, None)"
| "create_missing (a # as) r =
     (if map_of (rg_budgets r) (ac_Name a) \<noteq> None then create_missing as r
      else case create_account a r of
             (r1, Some (Err e)) \<Rightarrow> (r1, Some (Err ([PText ''account '', PQuoted (ac_Name a), PText '': ''] @ e)))
           | (r1, Some (Crash p)) \<Rightarrow> (r1, Some (Crash p))
           | (r1, None) \<Rightarrow> create_missing as r1)"

text \<open>
  \<open>NewRegistry\<close> on the disk, journal and environment of \<open>r0\<close>. When a step fails the partly built registry is closed and dropped.
\<close>

definition NewRegistry :: "config \<Rightarrow> string \<Rightarrow> bool \<Rightarrow> registry \<Rightarrow> registry \<times> fault option" where
  "NewRegistry cfg stateDir sync r0 =
     (let r = r0\<lparr>rg_budgets := [], rg_access := [], rg_stateDir := stateDir, rg_sync := sync, rg_hasClock := True,
                 rg_adminUsers := cf_AdminUsers cfg, rg_adminGroups := cf_AdminGroups cfg\<rparr>
      in case discover r of
           (r1, Some e) \<Rightarrow> (r1, Some e)
         | (r1, None) \<Rightarrow>
             (case create_missing (cf_Accounts cfg) r1 of
                (r2, Some e) \<Rightarrow> (r2, Some e)
              | (r2, None) \<Rightarrow>
                  if rg_stateDir r2 \<noteq> [] then
                    (case recoverTransfers r2 of
                       (r3, Some (Err e)) \<Rightarrow> (r3, Some (Err ([PText ''transfer recovery: ''] @ e)))
                     | (r3, Some (Crash p)) \<Rightarrow> (r3, Some (Crash p))
                     | (r3, None) \<Rightarrow> (r3, None))
                  else (r2, None)))"

end
