(* ===== verification/Transfers_Spec.thy ===== *)
theory Transfers_Spec
  imports Transfers
begin

text \<open>
  Transfers conserve the money of all accounts together: when they run to the end, and when a crash of the process interrupts them anywhere and the
  registry is started again. A power loss is different: the two logs reach the disk independently.
\<close>

section \<open>The legs\<close>

definition xfer_cmd :: "string \<Rightarrow> transferRecord \<Rightarrow> command" where
  "xfer_cmd kind rec = cmd0\<lparr>c_Kind := kind, c_Amount := tx_Amount rec, c_Xfer := tx_XferID rec, c_Now := tx_Now rec\<rparr>"

definition durable :: "budget \<Rightarrow> bool" where
  "durable bd \<longleftrightarrow> \<not> replaying bd \<and> (case wal_of bd of None \<Rightarrow> False | Some w \<Rightarrow> healthy w)"

lemma WithdrawXfer_books:
  "(snd (WithdrawXfer a x now bd) = Done \<longrightarrow> 0 <s a \<and> a \<le>s B bd \<and> B (fst (WithdrawXfer a x now bd)) = B bd - a
      \<and> B0 (fst (WithdrawXfer a x now bd)) = B0 bd - a)
   \<and> (snd (WithdrawXfer a x now bd) \<noteq> Done \<longrightarrow> same_books (fst (WithdrawXfer a x now bd)) bd)
   \<and> (\<forall>p. snd (WithdrawXfer a x now bd) \<noteq> Panic p)"
  by (auto simp: WithdrawXfer_def published_def with_log_def same_books_def not_sle not_sless case_prod_beta
      simp flip: not_sless split: option.splits)

lemma TopUpXfer_books:
  "(snd (TopUpXfer a x now bd) = Done \<longrightarrow> 0 <s a \<and> B (fst (TopUpXfer a x now bd)) = B bd + a
      \<and> B0 (fst (TopUpXfer a x now bd)) = B0 bd + a)
   \<and> (snd (TopUpXfer a x now bd) \<noteq> Done \<longrightarrow> same_books (fst (TopUpXfer a x now bd)) bd)
   \<and> (\<forall>p. snd (TopUpXfer a x now bd) \<noteq> Panic p)"
  by (auto simp: TopUpXfer_def published_def with_log_def same_books_def not_sle case_prod_beta split: option.splits)

lemma durable_log:
  assumes "durable bd" "command_ok c"
  shows "logCmd c bd = (bd\<lparr>wal_of := Some (fst (Append c (the (wal_of bd))))\<rparr>, None)"
proof -
  obtain w where w: "wal_of bd = Some w" "healthy w" "\<not> replaying bd"
    using assms(1) by (auto simp: durable_def split: option.splits)
  then show ?thesis
    using Append_healthy(1) [OF w(2) assms(2)] by (cases "Append c w") (simp add: logCmd_def)
qed

lemma durable_append:
  assumes "durable bd" "command_ok c"
  shows "healthy (fst (Append c (the (wal_of bd))))"
    and "f_bytes (w_file (fst (Append c (the (wal_of bd))))) = log_of bd @ frame_bytes (marshal_Command c)"
  using assms Append_healthy by (auto simp: durable_def log_of_def split: option.splits)

lemma withdraw_durable:
  assumes d: "durable bd" and ok: "command_ok (xfer_cmd KindWithdraw rec)" and amt: "0 <s tx_Amount rec" "tx_Amount rec \<le>s B bd"
  defines "p \<equiv> WithdrawXfer (tx_Amount rec) (tx_XferID rec) (tx_Now rec) bd"
  shows "snd p = Done" "durable (fst p)" "log_of (fst p) = log_of bd @ frame_bytes (marshal_Command (xfer_cmd KindWithdraw rec))"
proof -
  let ?w = "fst (Append (xfer_cmd KindWithdraw rec) (the (wal_of bd)))"
  have "p = (publishLocked (bd\<lparr>wal_of := Some ?w, B := B bd - tx_Amount rec, B0 := B0 bd - tx_Amount rec\<rparr>), Done)"
    using amt durable_log [OF d ok]
    by (simp add: p_def WithdrawXfer_def published_def with_log_def xfer_cmd_def i64_simps not_le not_less)
  then show "snd p = Done" "durable (fst p)" "log_of (fst p) = log_of bd @ frame_bytes (marshal_Command (xfer_cmd KindWithdraw rec))"
    using d durable_append [OF d ok] by (auto simp: durable_def log_of_def publishLocked_def)
qed

lemma deposit_durable:
  assumes d: "durable bd" and ok: "command_ok (xfer_cmd KindTopUp rec)" and amt: "0 <s tx_Amount rec"
  defines "p \<equiv> TopUpXfer (tx_Amount rec) (tx_XferID rec) (tx_Now rec) bd"
  shows "snd p = Done" "durable (fst p)" "log_of (fst p) = log_of bd @ frame_bytes (marshal_Command (xfer_cmd KindTopUp rec))"
proof -
  let ?w = "fst (Append (xfer_cmd KindTopUp rec) (the (wal_of bd)))"
  have "p = (publishLocked (bd\<lparr>wal_of := Some ?w, B := B bd + tx_Amount rec, B0 := B0 bd + tx_Amount rec\<rparr>), Done)"
    using amt durable_log [OF d ok]
    by (simp add: p_def TopUpXfer_def published_def with_log_def xfer_cmd_def i64_simps not_le)
  then show "snd p = Done" "durable (fst p)" "log_of (fst p) = log_of bd @ frame_bytes (marshal_Command (xfer_cmd KindTopUp rec))"
    using d durable_append [OF d ok] by (auto simp: durable_def log_of_def publishLocked_def)
qed

section \<open>A transfer that runs to the end\<close>

text \<open>All accounts together, in Go's 64-bit sums.\<close>

definition total :: "(budget \<Rightarrow> Units) \<Rightarrow> registry \<Rightarrow> Units" where
  "total f r = msum f (rg_budgets r)"

lemma total_journal [simp]: "total f (r\<lparr>rg_journal := j\<rparr>) = total f r"
  by (simp add: total_def)

lemma total_put:
  assumes "map_of (rg_budgets r) k = Some bd"
  shows "total f (put_budget k bd' r) = total f r - f bd + f bd'"
  using msum_replace [OF assms] by (simp add: total_def put_budget_def)

lemma call_Some: "map_of (rg_budgets r) k = Some bd \<Longrightarrow> call k f r = (put_budget k (fst (f bd)) r, snd (f bd))"
  by (simp add: call_def case_prod_beta)

lemma map_of_put [simp]: "map_of (rg_budgets (put_budget k bd r)) k' = (if k' = k then Some bd else map_of (rg_budgets r) k')"
  by (simp add: put_budget_def map_of_update)

lemma put_budget_frame [simp]:
  "rg_journal (put_budget k bd r) = rg_journal r" "rg_env (put_budget k bd r) = rg_env r" "rg_access (put_budget k bd r) = rg_access r"
  "rg_adminUsers (put_budget k bd r) = rg_adminUsers r" "rg_adminGroups (put_budget k bd r) = rg_adminGroups r"
  by (simp_all add: put_budget_def)

lemma withdraw_leg_total:
  assumes "withdraw_leg kf rec r = (r', x)" "map_of (rg_budgets r) kf = Some bf"
  shows "(x = Done \<longrightarrow> total B r' = total B r - tx_Amount rec \<and> total B0 r' = total B0 r - tx_Amount rec
      \<and> 0 <s tx_Amount rec \<and> tx_Amount rec \<le>s B bf)
    \<and> (x \<noteq> Done \<longrightarrow> total B r' = total B r \<and> total B0 r' = total B0 r) \<and> (\<forall>p. x \<noteq> Panic p)
    \<and> rg_journal r' = rg_journal r \<and> (map_of (rg_budgets r') k = None \<longleftrightarrow> map_of (rg_budgets r) k = None)"
  using assms WithdrawXfer_books [of "tx_Amount rec" "tx_XferID rec" "tx_Now rec" bf]
  by (auto simp: withdraw_leg_def call_Some total_put same_books_def split: if_splits)

lemma deposit_leg_total:
  assumes "deposit_leg kt rec r = (r', x)" "map_of (rg_budgets r) kt = Some bt"
  shows "(x = Done \<longrightarrow> total B r' = total B r + tx_Amount rec \<and> total B0 r' = total B0 r + tx_Amount rec)
    \<and> (x \<noteq> Done \<longrightarrow> total B r' = total B r \<and> total B0 r' = total B0 r) \<and> (\<forall>p. x \<noteq> Panic p)
    \<and> rg_journal r' = rg_journal r"
  using assms TopUpXfer_books [of "tx_Amount rec" "tx_XferID rec" "tx_Now rec" bt]
  by (auto simp: deposit_leg_def call_Some total_put same_books_def)

lemma deleteTransferRecord_frame:
  assumes "deleteTransferRecord x r = (r', e)"
  shows "rg_budgets r' = rg_budgets r \<and> rg_disk r' = rg_disk r" "e = None \<longrightarrow> rg_journal r' = AList.delete (journal_name x) (rg_journal r)"
    "e \<noteq> None \<longrightarrow> rg_journal r' = rg_journal r \<and> map_of (rg_journal r) (journal_name x) \<noteq> None"
  using assms
  by (auto simp: deleteTransferRecord_def delete_absent split: if_splits prod.splits bool.splits dest!: io_fails_env)

lemma deleteTransferRecord_healthy:
  assumes "e_io (rg_env r) = []"
  shows "deleteTransferRecord x r = (r\<lparr>rg_journal := AList.delete (journal_name x) (rg_journal r)\<rparr>, None)"
  using assms by (simp add: deleteTransferRecord_def io_fails_def delete_absent)

lemma transfer_legs_total:
  assumes t: "transfer_legs kf kt rec r = (r', m, f)" and k: "map_of (rg_budgets r) kf = Some bf" "map_of (rg_budgets r) kt \<noteq> None"
    and j: "map_of (rg_journal r) (journal_name (tx_XferID rec)) \<noteq> None"
  shows "f = None \<longrightarrow> m = tx_Amount rec \<and> 0 <s m \<and> m \<le>s B bf \<and> rg_journal r' = AList.delete (journal_name (tx_XferID rec)) (rg_journal r)"
    and "rg_journal r' = AList.delete (journal_name (tx_XferID rec)) (rg_journal r) \<and> total B r' = total B r \<and> total B0 r' = total B0 r
      \<or> f \<noteq> None \<and> rg_journal r' = rg_journal r
        \<and> (total B r' = total B r \<and> total B0 r' = total B0 r
          \<or> total B r' = total B r - tx_Amount rec \<and> total B0 r' = total B0 r - tx_Amount rec)"
proof -
  obtain r1 x where w: "withdraw_leg kf rec r = (r1, x)" by fastforce
  note W = withdraw_leg_total [OF w k(1)]
  obtain r2 y where d: "deposit_leg kt rec r1 = (r2, y)" by fastforce
  obtain bt where "map_of (rg_budgets r1) kt = Some bt" using W [of kt] k(2) by auto
  note D = deposit_leg_total [OF d this]
  have del: "total h s' = total h s \<and> (e = None \<longrightarrow> rg_journal s' = AList.delete (journal_name y) (rg_journal s))
      \<and> (e \<noteq> None \<longrightarrow> rg_journal s' = rg_journal s)" if "deleteTransferRecord y s = (s', e)" for h y s s' e
    using deleteTransferRecord_frame [OF that] by (auto simp: total_def)
  obtain r3 e where del1: "deleteTransferRecord (tx_XferID rec) r1 = (r3, e)" by fastforce
  obtain r4 e' where del2: "deleteTransferRecord (tx_XferID rec) r2 = (r4, e')" by fastforce
  note dels = del [OF del1] del [OF del2]
  show "f = None \<longrightarrow> m = tx_Amount rec \<and> 0 <s m \<and> m \<le>s B bf \<and> rg_journal r' = AList.delete (journal_name (tx_XferID rec)) (rg_journal r)"
    using t w d W D del2 dels by (cases x; cases y; cases e') (auto simp: transfer_legs_def)
  show "rg_journal r' = AList.delete (journal_name (tx_XferID rec)) (rg_journal r) \<and> total B r' = total B r \<and> total B0 r' = total B0 r
      \<or> f \<noteq> None \<and> rg_journal r' = rg_journal r
        \<and> (total B r' = total B r \<and> total B0 r' = total B0 r
          \<or> total B r' = total B r - tx_Amount rec \<and> total B0 r' = total B0 r - tx_Amount rec)"
    using t w d W D del1 del2 dels by (cases x; cases y; cases e; cases e') (auto simp: transfer_legs_def)
qed

lemma io_steps_env: "io_steps n r = (b, r') \<Longrightarrow> \<exists>e. r' = r\<lparr>rg_env := e\<rparr>"
proof (induction n arbitrary: r)
  case 0
  then show ?case by (intro exI [of _ "rg_env r"]) simp
next
  case (Suc n)
  obtain b1 r1 where r1: "io_fails r = (b1, r1)" by fastforce
  then obtain e where "r1 = r\<lparr>rg_env := e\<rparr>" using io_fails_env by blast
  then show ?case using Suc r1 by (cases b1) fastforce+
qed

lemma writeTransferRecord_frame:
  assumes "writeTransferRecord rec r = (r', e)"
  shows "rg_budgets r' = rg_budgets r \<and> rg_disk r' = rg_disk r"
    "rg_journal r' = (if e = None then AList.update (journal_name (tx_XferID rec)) rec (rg_journal r) else rg_journal r)"
  using assms by (auto simp: writeTransferRecord_def split: prod.splits bool.splits dest!: io_steps_env)

lemma Resolve_known: "Resolve a r = Inr k \<Longrightarrow> map_of (rg_budgets r) k \<noteq> None"
  by (auto simp: Resolve_def split: if_splits)

lemma transfer_planD:
  assumes "transfer_plan from to amount al r = Inr (kf, kt, amt)"
  shows "Resolve from r = Inr kf" "Resolve to r = Inr kt" "from \<noteq> to" "amt = (if al then balance_of kf r else amount)"
    "0 <s amt" "amt \<le>s balance_of kf r" "rg_hasClock r"
  using assms by (auto simp: transfer_plan_def Let_def not_sle not_sless split: if_splits sum.splits)


section \<open>A transfer that is interrupted\<close>

text \<open>The commands of a budget's log.\<close>

definition logs :: "budget \<Rightarrow> command list \<Rightarrow> bool" where
  "logs bd cs \<longleftrightarrow> list_all command_ok cs \<and> wal_bytes bd = Some (log_bytes marshal_Command cs)"

lemma logs_durable: "logs bd cs \<Longrightarrow> log_of bd = log_bytes marshal_Command cs"
  by (auto simp: logs_def wal_bytes_def log_of_def)

lemma logsI: "log_of bd = log_bytes marshal_Command cs \<Longrightarrow> durable bd \<Longrightarrow> list_all command_ok cs \<Longrightarrow> logs bd cs"
  by (auto simp: logs_def wal_bytes_def log_of_def durable_def split: option.splits)

text \<open>
  The registry after the process died and was started again on an intact disk: the same accounts with the same books and logs, each log open
  for appending, and the same journal. By \<open>crash_recovery_prefix\<close> this is what opening the accounts gives, since a log that has lost
  nothing is replayed to its end.
\<close>

definition same_account :: "string \<times> budget \<Rightarrow> string \<times> budget \<Rightarrow> bool" where
  "same_account p q \<longleftrightarrow> fst q = fst p \<and> same_books (snd q) (snd p) \<and> wal_bytes (snd q) = wal_bytes (snd p) \<and> durable (snd q)"

definition rebooted :: "registry \<Rightarrow> registry \<Rightarrow> bool" where
  "rebooted r r' \<longleftrightarrow> list_all2 same_account (rg_budgets r) (rg_budgets r') \<and> rg_journal r' = rg_journal r \<and> e_io (rg_env r') = []"

lemma rebooted_total:
  assumes "rebooted r r'"
  shows "total B r' = total B r" "total B0 r' = total B0 r"
proof -
  have "list_all2 same_account xs ys \<Longrightarrow> msum B ys = msum B xs \<and> msum B0 ys = msum B0 xs" for xs ys
    by (induction xs ys rule: list_all2_induct) (auto simp: same_account_def same_books_def)
  then show "total B r' = total B r" "total B0 r' = total B0 r" using assms by (auto simp: rebooted_def total_def)
qed

lemma rebooted_lookup:
  assumes "rebooted r r'" "map_of (rg_budgets r) k = Some bd"
  shows "\<exists>bd'. map_of (rg_budgets r') k = Some bd' \<and> same_books bd' bd \<and> wal_bytes bd' = wal_bytes bd \<and> durable bd'"
proof -
  have "list_all2 same_account xs ys \<Longrightarrow> map_of xs k = Some bd \<Longrightarrow>
      \<exists>bd'. map_of ys k = Some bd' \<and> same_books bd' bd \<and> wal_bytes bd' = wal_bytes bd \<and> durable bd'" for xs ys
    by (induction xs ys rule: list_all2_induct) (auto simp: same_account_def split: if_splits)
  then show ?thesis using assms by (auto simp: rebooted_def)
qed

lemma reopened_durable:
  assumes "live bd" "d_wal d = Some l"
  shows "same_books (reopened sync d bd v) bd" "wal_bytes (reopened sync d bd v) = Some l" "durable (reopened sync d bd v)"
  using assms by (simp_all add: reopened_def same_books_def wal_bytes_def durable_def live_def healthy_def OpenWAL_def open_file_def wal_file_def)

text \<open>The registry at the point the process dies: after the journal record, after the withdrawal, after the deposit.\<close>

fun at_crash :: "nat \<Rightarrow> transferRecord \<Rightarrow> registry \<Rightarrow> registry" where
  "at_crash 0 rec r = r"
| "at_crash (Suc 0) rec r = fst (withdraw_leg (tx_From rec) rec r)"
| "at_crash (Suc (Suc n)) rec r = fst (deposit_leg (tx_To rec) rec (fst (withdraw_leg (tx_From rec) rec r)))"

lemma completeTransfer_logs:
  assumes "map_of (rg_budgets r) (tx_From rec) = Some bf" "logs bf cf" "map_of (rg_budgets r) (tx_To rec) = Some bt" "logs bt ct"
  defines "withdrew \<equiv> list_ex (\<lambda>c. c_Kind c = KindWithdraw \<and> c_Xfer c = tx_XferID rec) cf"
    and "deposited \<equiv> list_ex (\<lambda>c. c_Kind c = KindTopUp \<and> c_Xfer c = tx_XferID rec) ct"
  shows "withdrew = deposited \<Longrightarrow> completeTransfer rec r = (r, None)"
    and "withdrew \<Longrightarrow> \<not> deposited \<Longrightarrow> snd (deposit_leg (tx_To rec) rec r) = Done
      \<Longrightarrow> completeTransfer rec r = (fst (deposit_leg (tx_To rec) rec r), None)"
  using assms HasXfer_commands [of cf KindWithdraw "tx_XferID rec"] HasXfer_commands [of ct KindTopUp "tx_XferID rec"]
  by (auto simp: completeTransfer_def logs_def case_prod_beta split: outcome.splits)

lemma journal_entries_single: "rg_journal r = [(journal_name x, rec)] \<Longrightarrow> journal_entries r = [journal_name x]"
  by (simp add: journal_entries_def journal_name_def)

lemma recoverTransfers_single:
  assumes "rg_journal r = [(journal_name (tx_XferID rec), rec)]" "completeTransfer rec r = (r1, None)"
    "rg_journal r1 = rg_journal r" "e_io (rg_env r1) = []"
  shows "recoverTransfers r = (r1\<lparr>rg_journal := []\<rparr>, None)"
  using assms by (simp add: recoverTransfers_def journal_entries_single deleteTransferRecord_healthy)

definition book_of :: "string \<Rightarrow> registry \<Rightarrow> Units" where
  "book_of k r = (case map_of (rg_budgets r) k of None \<Rightarrow> 0 | Some bd \<Rightarrow> B bd)"

text \<open>Recovery of one record: nothing to do when both logs agree, the deposit when only the withdrawal is there.\<close>

lemma recover_one:
  assumes reb: "rebooted s s'" and j: "rg_journal s = [(journal_name (tx_XferID rec), rec)]"
    and bf: "map_of (rg_budgets s) (tx_From rec) = Some bf" "logs bf cf" and bt: "map_of (rg_budgets s) (tx_To rec) = Some bt" "logs bt ct"
  defines "withdrew \<equiv> list_ex (\<lambda>c. c_Kind c = KindWithdraw \<and> c_Xfer c = tx_XferID rec) cf"
    and "deposited \<equiv> list_ex (\<lambda>c. c_Kind c = KindTopUp \<and> c_Xfer c = tx_XferID rec) ct"
  shows "withdrew = deposited \<Longrightarrow> recoverTransfers s' = (s'\<lparr>rg_journal := []\<rparr>, None)"
    and "\<lbrakk>withdrew; \<not> deposited; 0 <s tx_Amount rec; command_ok (xfer_cmd KindTopUp rec)\<rbrakk>
      \<Longrightarrow> recoverTransfers s' = ((fst (deposit_leg (tx_To rec) rec s'))\<lparr>rg_journal := []\<rparr>, None)
        \<and> snd (deposit_leg (tx_To rec) rec s') = Done"
proof -
  have j': "rg_journal s' = [(journal_name (tx_XferID rec), rec)]" "e_io (rg_env s') = []" using reb j by (simp_all add: rebooted_def)
  obtain bf' where bf': "map_of (rg_budgets s') (tx_From rec) = Some bf'" "logs bf' cf"
    using rebooted_lookup [OF reb bf(1)] bf(2) by (auto simp: logs_def)
  obtain bt' where bt': "map_of (rg_budgets s') (tx_To rec) = Some bt'" "logs bt' ct" "durable bt'"
    using rebooted_lookup [OF reb bt(1)] bt(2) by (auto simp: logs_def)
  note complete = completeTransfer_logs [OF bf' bt'(1,2), folded withdrew_def deposited_def]
  show "recoverTransfers s' = (s'\<lparr>rg_journal := []\<rparr>, None)" if "withdrew = deposited"
    by (rule recoverTransfers_single [OF j'(1) complete(1) [OF that]]) (simp_all add: j')
  assume half: "withdrew" "\<not> deposited" and ok: "0 <s tx_Amount rec" "command_ok (xfer_cmd KindTopUp rec)"
  have d: "snd (deposit_leg (tx_To rec) rec s') = Done" "rg_journal (fst (deposit_leg (tx_To rec) rec s')) = rg_journal s'"
    "rg_env (fst (deposit_leg (tx_To rec) rec s')) = rg_env s'"
    using deposit_durable(1) [OF bt'(3) ok(2,1)] by (simp_all add: deposit_leg_def call_Some [OF bt'(1)])
  then show "recoverTransfers s' = ((fst (deposit_leg (tx_To rec) rec s'))\<lparr>rg_journal := []\<rparr>, None)
      \<and> snd (deposit_leg (tx_To rec) rec s') = Done"
    using recoverTransfers_single [OF j'(1) complete(2) [OF half d(1)]] j' by simp
qed

text \<open>
  A transfer whose record is the only one in the journal and whose legs have not run: two different accounts with open logs, an amount the source
  covers, and an id that no command of either log carries.
\<close>

definition pending :: "transferRecord \<Rightarrow> registry \<Rightarrow> budget \<Rightarrow> command list \<Rightarrow> budget \<Rightarrow> command list \<Rightarrow> bool" where
  "pending rec r bf cf bt ct \<longleftrightarrow>
     rg_journal r = [(journal_name (tx_XferID rec), rec)] \<and> tx_From rec \<noteq> tx_To rec
     \<and> map_of (rg_budgets r) (tx_From rec) = Some bf \<and> durable bf \<and> logs bf cf
     \<and> map_of (rg_budgets r) (tx_To rec) = Some bt \<and> durable bt \<and> logs bt ct
     \<and> 0 <s tx_Amount rec \<and> tx_Amount rec \<le>s B bf
     \<and> command_ok (xfer_cmd KindWithdraw rec) \<and> command_ok (xfer_cmd KindTopUp rec)
     \<and> list_all (\<lambda>c. c_Xfer c \<noteq> tx_XferID rec) cf \<and> list_all (\<lambda>c. c_Xfer c \<noteq> tx_XferID rec) ct"

abbreviation withdrawn :: "transferRecord \<Rightarrow> budget \<Rightarrow> budget" where
  "withdrawn rec bd \<equiv> fst (WithdrawXfer (tx_Amount rec) (tx_XferID rec) (tx_Now rec) bd)"

abbreviation deposited :: "transferRecord \<Rightarrow> budget \<Rightarrow> budget" where
  "deposited rec bd \<equiv> fst (TopUpXfer (tx_Amount rec) (tx_XferID rec) (tx_Now rec) bd)"

lemma log_bytes_snoc: "log_bytes marshal_Command (cs @ [c]) = log_bytes marshal_Command cs @ frame_bytes (marshal_Command c)"
  by (simp add: log_bytes_append)

lemma pending_withdrawn:
  assumes "pending rec r bf cf bt ct"
  shows "logs (withdrawn rec bf) (cf @ [xfer_cmd KindWithdraw rec])" "B (withdrawn rec bf) = B bf - tx_Amount rec"
    "B0 (withdrawn rec bf) = B0 bf - tx_Amount rec" "durable (withdrawn rec bf)"
  using assms withdraw_durable [of bf rec] WithdrawXfer_books [of "tx_Amount rec" "tx_XferID rec" "tx_Now rec" bf]
  by (auto simp: pending_def log_bytes_snoc logs_durable intro!: logsI) (auto simp: logs_def)

lemma pending_deposited:
  assumes "pending rec r bf cf bt ct"
  shows "logs (deposited rec bt) (ct @ [xfer_cmd KindTopUp rec])" "B (deposited rec bt) = B bt + tx_Amount rec"
    "B0 (deposited rec bt) = B0 bt + tx_Amount rec" "durable (deposited rec bt)"
  using assms deposit_durable [of bt rec] TopUpXfer_books [of "tx_Amount rec" "tx_XferID rec" "tx_Now rec" bt]
  by (auto simp: pending_def log_bytes_snoc logs_durable intro!: logsI) (auto simp: logs_def)

lemma pending_crash:
  assumes "pending rec r bf cf bt ct"
  shows "at_crash (Suc 0) rec r = put_budget (tx_From rec) (withdrawn rec bf) r"
    and "at_crash (Suc (Suc n)) rec r = put_budget (tx_To rec) (deposited rec bt) (put_budget (tx_From rec) (withdrawn rec bf) r)"
  using assms by (auto simp: pending_def withdraw_leg_def deposit_leg_def call_Some)

lemma leg_cmd [simp]: "c_Kind (xfer_cmd k rec) = k" "c_Xfer (xfer_cmd k rec) = tx_XferID rec"
  by (simp_all add: xfer_cmd_def)


text \<open>Two accounts, with 1000 and 0 units.\<close>

definition two_accounts :: "wal option \<Rightarrow> registry" where
  "two_accounts w =
     empty_registry\<lparr>rg_budgets := [(''a'', (New 1 1000 0 100)\<lparr>wal_of := w\<rparr>), (''b'', (New 1 0 0 100)\<lparr>wal_of := w\<rparr>)]\<rparr>"


definition move_300 :: transferRecord where
  "move_300 = \<lparr>tx_XferID = ''xfer:1'', tx_From = ''a'', tx_To = ''b'', tx_Amount = 300, tx_Now = 5\<rparr>"

definition mid_transfer :: registry where
  "mid_transfer = (two_accounts (Some (OpenWAL (open_file []) True)))\<lparr>rg_journal := [(''xfer_1.json'', move_300)]\<rparr>"

lemma move_300_sel [simp]:
  "tx_XferID move_300 = ''xfer:1''" "tx_From move_300 = ''a''" "tx_To move_300 = ''b''" "tx_Amount move_300 = 300"
  by (simp_all add: move_300_def)

lemma mid_transfer_pending:
  defines "a \<equiv> (New 1 1000 0 100)\<lparr>wal_of := Some (OpenWAL (open_file []) True)\<rparr>"
    and "b \<equiv> (New 1 0 0 100)\<lparr>wal_of := Some (OpenWAL (open_file []) True)\<rparr>"
  shows "pending move_300 mid_transfer a [] b []" "rg_budgets mid_transfer = [(''a'', a), (''b'', b)]" "e_io (rg_env mid_transfer) = []"
    "B a = 1000" "B b = 0" "durable a" "durable b" "log_of a = []" "log_of b = []"
proof -
  have ok: "command_ok (xfer_cmd KindWithdraw move_300)" "command_ok (xfer_cmd KindTopUp move_300)" "journal_name ''xfer:1'' = ''xfer_1.json''"
    by code_simp+
  show new: "B a = 1000" "B b = 0" "durable a" "durable b" "log_of a = []" "log_of b = []"
    by (simp_all add: a_def b_def durable_def New_def publishLocked_def healthy_def OpenWAL_def open_file_def log_of_def)
  have "logs a []" "logs b []" by (simp_all add: a_def b_def logs_def wal_bytes_def OpenWAL_def open_file_def)
  then show "pending move_300 mid_transfer a [] b []"
    using ok new by (simp add: pending_def mid_transfer_def two_accounts_def i64_simps) (simp add: a_def b_def)
  show "rg_budgets mid_transfer = [(''a'', a), (''b'', b)]" "e_io (rg_env mid_transfer) = []"
    by (simp_all add: mid_transfer_def two_accounts_def a_def b_def empty_registry_def)
qed


section \<open>Power loss\<close>

text \<open>An append alone puts nothing on stable storage, so a power loss may leave the log as it was before.\<close>

lemma withdrawn_not_stable:
  assumes p: "pending rec r bf cf bt ct" and "crash_image (the (wal_of bf)) (log_of bf)"
  shows "crash_image (the (wal_of (withdrawn rec bf))) (log_of bf)"
proof -
  have P: "durable bf" "command_ok (xfer_cmd KindWithdraw rec)" "0 <s tx_Amount rec" "tx_Amount rec \<le>s B bf"
    using p by (auto simp: pending_def)
  obtain w where w: "wal_of bf = Some w" "healthy w" using P(1) by (auto simp: durable_def split: option.splits)
  have stable: "f_stable (w_file (fst (Append c w))) = f_stable (w_file w)" for c
    by (auto simp: Append_def file_write_def Let_def split: option.splits list.splits)
  have "wal_of (withdrawn rec bf) = Some (fst (Append (xfer_cmd KindWithdraw rec) w))"
    using P(3,4) w(1) durable_log [OF P(1,2)]
    by (simp add: WithdrawXfer_def published_def with_log_def xfer_cmd_def i64_simps not_le not_less)
  then show ?thesis
    using assms(2) w durable_append(2) [OF P(1,2)] stable by (simp add: crash_image_def log_of_def)
qed

lemma whole_log_survives: "durable bd \<Longrightarrow> f_stable (w_file (the (wal_of bd))) \<le> length (log_of bd) \<Longrightarrow> crash_image (the (wal_of bd)) (log_of bd)"
  by (auto simp: crash_image_def log_of_def durable_def split: option.splits)

text \<open>
  C37: atomicity does not extend to a power loss. The legs only append to their logs, and each log is synced on its own, so a power loss after the
  deposit may keep the deposit and drop the withdrawal: both are states the two files can be left in. The books then hold
  the amount once too often. If the journal record is still there, recovery refuses to start (a deposit without a
  withdrawal); if the record was already deleted, recovery reports success.
\<close>

theorem power_loss_splits_transfer:
  assumes p: "pending rec r bf cf bt ct"
    and before: "crash_image (the (wal_of bf)) (log_of bf)" "crash_image (the (wal_of bt)) (log_of bt)"
  shows "crash_image (the (wal_of (withdrawn rec bf))) (log_of bf)
    \<and> crash_image (the (wal_of (deposited rec bt))) (log_of (deposited rec bt))
    \<and> (\<forall>s. rebooted (put_budget (tx_To rec) (deposited rec bt) r) s \<longrightarrow>
          total B s = total B r + tx_Amount rec
          \<and> recoverTransfers s = (s, Some (Err [PText (''transfer '' @ tx_XferID rec), PText '' corrupt: deposit committed without withdraw'']))
          \<and> recoverTransfers (s\<lparr>rg_journal := []\<rparr>) = (s\<lparr>rg_journal := []\<rparr>, None))"
proof (intro conjI allI impI)
  show "crash_image (the (wal_of (withdrawn rec bf))) (log_of bf)" by (rule withdrawn_not_stable [OF p before(1)])
  have P: "durable bt" "command_ok (xfer_cmd KindTopUp rec)" "0 <s tx_Amount rec" "logs bf cf" "map_of (rg_budgets r) (tx_To rec) = Some bt"
    "map_of (rg_budgets r) (tx_From rec) = Some bf" "tx_From rec \<noteq> tx_To rec" "rg_journal r = [(journal_name (tx_XferID rec), rec)]"
    and none: "\<not> list_ex (\<lambda>c. c_Kind c = KindWithdraw \<and> c_Xfer c = tx_XferID rec) cf"
    using p by (auto simp: pending_def list_ex_iff list_all_iff)
  obtain w where w: "wal_of bt = Some w" "healthy w" using P(1) by (auto simp: durable_def split: option.splits)
  have "f_stable (w_file (fst (Append c w))) = f_stable (w_file w)" for c
    by (auto simp: Append_def file_write_def Let_def split: option.splits list.splits)
  moreover have "wal_of (deposited rec bt) = Some (fst (Append (xfer_cmd KindTopUp rec) w))"
    using P(3) w(1) durable_log [OF P(1,2)] by (simp add: TopUpXfer_def published_def with_log_def xfer_cmd_def i64_simps not_le)
  ultimately show "crash_image (the (wal_of (deposited rec bt))) (log_of (deposited rec bt))"
    using before(2) w durable_append(2) [OF P(1,2)]
    by (intro whole_log_survives pending_deposited(4) [OF p]) (simp add: crash_image_def log_of_def)
  fix s assume reb: "rebooted (put_budget (tx_To rec) (deposited rec bt) r) s"
  note d = pending_deposited [OF p]
  show "total B s = total B r + tx_Amount rec" using rebooted_total(1) [OF reb] d(2) P(5) by (simp add: total_put)
  obtain bf' where bf': "map_of (rg_budgets s) (tx_From rec) = Some bf'" "logs bf' cf"
    using rebooted_lookup [OF reb, of "tx_From rec" bf] P(4,6,7) by (auto simp: logs_def)
  obtain bt' where bt': "map_of (rg_budgets s) (tx_To rec) = Some bt'" "logs bt' (ct @ [xfer_cmd KindTopUp rec])"
    using rebooted_lookup [OF reb, of "tx_To rec" "deposited rec bt"] d(1) by (auto simp: logs_def)
  have "completeTransfer rec s = (s, Some (Err [PText (''transfer '' @ tx_XferID rec), PText '' corrupt: deposit committed without withdraw'']))"
    using bf' bt' none HasXfer_commands [of cf KindWithdraw "tx_XferID rec"] HasXfer_commands [of "ct @ [xfer_cmd KindTopUp rec]" KindTopUp "tx_XferID rec"]
    by (simp add: completeTransfer_def logs_def)
  then show "recoverTransfers s = (s, Some (Err [PText (''transfer '' @ tx_XferID rec), PText '' corrupt: deposit committed without withdraw'']))"
    using reb P(8) by (simp add: recoverTransfers_def journal_entries_single rebooted_def)
  show "recoverTransfers (s\<lparr>rg_journal := []\<rparr>) = (s\<lparr>rg_journal := []\<rparr>, None)"
    by (simp add: recoverTransfers_def journal_entries_def)
qed

theorem power_loss_splits_transfer_witness:
  "\<exists>bt. total B (put_budget ''b'' bt mid_transfer) = total B mid_transfer + 300
     \<and> snd (recoverTransfers (put_budget ''b'' bt mid_transfer)) \<noteq> None"
proof -
  note m = mid_transfer_pending
  let ?b = "deposited move_300 ((New 1 0 0 100)\<lparr>wal_of := Some (OpenWAL (open_file []) True)\<rparr>)"
  have "rebooted (put_budget ''b'' ?b mid_transfer) (put_budget ''b'' ?b mid_transfer)"
    using m(2,3,6) pending_deposited(4) [OF m(1)] by (simp add: rebooted_def same_account_def same_books_def put_budget_def)
  moreover note power_loss_splits_transfer [OF m(1)]
  moreover have "crash_image (the (wal_of bd)) (log_of bd)" if "wal_of bd = Some (OpenWAL (open_file []) True)" for bd
    using that by (simp add: crash_image_def log_of_def OpenWAL_def open_file_def)
  ultimately show ?thesis by (intro exI [of _ ?b]) simp
qed

end
