(* ===== verification/Access.thy ===== *)
theory Access
  imports Registry_Spec
begin

text \<open>
  Who may do what (\<^verbatim>\<open>internal/daemon/access.go\<close>): the submit check of an account's allow-lists, the check of the
  administrative verbs, the read check, and the cached lookup of identities.

  The operating system's user database is an argument: \<open>ident uid\<close> is the user name and the groups of \<open>uid\<close>, or \<open>None\<close>
  when it cannot be resolved.
\<close>

section \<open>Model\<close>

type_synonym uid = "32 word"

type_synonym identity = "string \<times> string list"

text \<open>\<open>osIdentity\<close>: the user database answers per uid (name and group ids) and per group id.\<close>

record osIdentity =
  os_cache :: "(uid, identity) gomap"

definition os_resolve ::
  "(uid \<Rightarrow> (string \<times> string list option) option) \<Rightarrow> (string \<Rightarrow> string option) \<Rightarrow> uid \<Rightarrow> identity option" where
  "os_resolve LookupId LookupGroupId u =
     (case LookupId u of
        None \<Rightarrow> None
      | Some (name, None) \<Rightarrow> None
      | Some (name, Some gids) \<Rightarrow> Some (name, List.map_filter LookupGroupId gids))"

definition os_lookup ::
  "(uid \<Rightarrow> (string \<times> string list option) option) \<Rightarrow> (string \<Rightarrow> string option) \<Rightarrow> uid \<Rightarrow> osIdentity \<Rightarrow> osIdentity \<times> identity option" where
  "os_lookup LookupId LookupGroupId u c =
     (case map_of (os_cache c) u of
        Some i \<Rightarrow> (c, Some i)
      | None \<Rightarrow>
          (case os_resolve LookupId LookupGroupId u of
             None \<Rightarrow> (c, None)
           | Some i \<Rightarrow> (c\<lparr>os_cache := AList.update u i (os_cache c)\<rparr>, Some i)))"

definition contains :: "string list \<Rightarrow> string \<Rightarrow> bool" where
  "contains xs v = list_ex (\<lambda>s. s = v) xs"

text \<open>On one of two lists, by name or by group.\<close>

definition listed :: "string list \<Rightarrow> string list \<Rightarrow> identity \<Rightarrow> bool" where
  "listed users groups i \<longleftrightarrow> contains users (fst i) \<or> list_ex (contains groups) (snd i)"

definition authorize :: "(uid \<Rightarrow> identity option) \<Rightarrow> string \<Rightarrow> uid \<Rightarrow> registry \<Rightarrow> msg option" where
  "authorize ident account u r =
     (case accessOf account r of
        None \<Rightarrow> None
      | Some ac \<Rightarrow>
          if \<not> restricted ac then None
          else case ident u of
                 None \<Rightarrow> Some (lit (''cannot resolve submitter identity for restricted account '' @ account))
               | Some i \<Rightarrow> if listed (ac_AllowUsers ac) (ac_AllowGroups ac) i then None
                           else Some (lit (''not authorized for account '' @ account)))"

record peerCred =
  pr_UID :: uid
  pr_GID :: uid
  pr_Available :: bool

definition requireAdmin :: "(uid \<Rightarrow> identity option) \<Rightarrow> peerCred \<Rightarrow> registry \<Rightarrow> msg option" where
  "requireAdmin ident peer r =
     (if \<not> adminEnforced r then None
      else if \<not> pr_Available peer then Some (lit ''cannot verify caller identity (peer credentials unavailable)'')
      else if pr_UID peer = 0 then None
      else case ident (pr_UID peer) of
             None \<Rightarrow> Some (lit ''cannot resolve caller identity'')
           | Some i \<Rightarrow> if listed (rg_adminUsers r) (rg_adminGroups r) i then None
                       else Some (lit ''not authorized: admin required''))"

definition canRead :: "(uid \<Rightarrow> identity option) \<Rightarrow> string \<Rightarrow> peerCred \<Rightarrow> registry \<Rightarrow> bool" where
  "canRead ident account peer r =
     (if \<not> adminEnforced r then True
      else if requireAdmin ident peer r = None then True
      else case accessOf account r of
             None \<Rightarrow> False
           | Some ac \<Rightarrow>
               if \<not> restricted ac then True
               else if \<not> pr_Available peer then False
               else (case ident (pr_UID peer) of
                       None \<Rightarrow> False
                     | Some i \<Rightarrow> listed (ac_AllowUsers ac) (ac_AllowGroups ac) i))"

section \<open>Decisions\<close>

lemma contains_iff [simp]: "contains xs v \<longleftrightarrow> v \<in> set xs"
  by (auto simp: contains_def list_ex_iff)

lemma listed_iff: "listed users groups i \<longleftrightarrow> fst i \<in> set users \<or> set (snd i) \<inter> set groups \<noteq> {}"
  by (auto simp: listed_def list_ex_iff)

text \<open>
  C36: every check is exactly its list, and fails closed. A submission to a known account is authorized if and only if the account has no
  allow-list or the submitter resolves to a listed user or a member of a listed group. An administrative verb is allowed if and only
  if no administrators are configured, or the peer is verified and is root or a listed administrator. A verified peer, or no
  peer at all, reads a restricted account only as an administrator or as a listed user or group member. So a user database that
  does not answer never lets anyone through a list.
\<close>

theorem access_decisions:
  assumes "accessOf account r = Some ac"
  shows "(authorize ident account u r = None \<longleftrightarrow>
      \<not> restricted ac \<or> (\<exists>name groups. ident u = Some (name, groups)
        \<and> (name \<in> set (ac_AllowUsers ac) \<or> set groups \<inter> set (ac_AllowGroups ac) \<noteq> {})))
    \<and> (requireAdmin ident peer r = None \<longleftrightarrow>
      \<not> adminEnforced r \<or> pr_Available peer \<and> (pr_UID peer = 0 \<or> (\<exists>name groups. ident (pr_UID peer) = Some (name, groups)
        \<and> (name \<in> set (rg_adminUsers r) \<or> set groups \<inter> set (rg_adminGroups r) \<noteq> {}))))
    \<and> (canRead ident account peer r \<longleftrightarrow>
      requireAdmin ident peer r = None \<or> \<not> restricted ac
      \<or> pr_Available peer \<and> (\<exists>name groups. ident (pr_UID peer) = Some (name, groups)
        \<and> (name \<in> set (ac_AllowUsers ac) \<or> set groups \<inter> set (ac_AllowGroups ac) \<noteq> {})))"
proof -
  have auth: "authorize ident account u r = None \<longleftrightarrow>
      \<not> restricted ac \<or> (\<exists>name groups. ident u = Some (name, groups)
        \<and> (name \<in> set (ac_AllowUsers ac) \<or> set groups \<inter> set (ac_AllowGroups ac) \<noteq> {}))"
    using assms by (auto simp: authorize_def listed_iff split: option.splits)
  have adm: "requireAdmin ident peer r = None \<longleftrightarrow>
      \<not> adminEnforced r \<or> pr_Available peer \<and> (pr_UID peer = 0 \<or> (\<exists>name groups. ident (pr_UID peer) = Some (name, groups)
        \<and> (name \<in> set (rg_adminUsers r) \<or> set groups \<inter> set (rg_adminGroups r) \<noteq> {})))"
    by (auto simp: requireAdmin_def listed_iff split: option.splits)
  have "requireAdmin ident peer r = None" if "\<not> adminEnforced r" using that by (simp add: requireAdmin_def)
  then have "canRead ident account peer r \<longleftrightarrow>
      requireAdmin ident peer r = None \<or> \<not> restricted ac
      \<or> pr_Available peer \<and> (\<exists>name groups. ident (pr_UID peer) = Some (name, groups)
        \<and> (name \<in> set (ac_AllowUsers ac) \<or> set groups \<inter> set (ac_AllowGroups ac) \<noteq> {}))"
    using assms by (auto simp: canRead_def listed_iff split: option.splits)
  with auth adm show ?thesis by blast
qed

text \<open>Ann is on the list of \<open>lab\<close>, Bob is not, and Eve cannot be resolved.\<close>

definition guarded_registry :: registry where
  "guarded_registry = empty_registry\<lparr>rg_access := [(''lab'', lab)], rg_adminUsers := [''adm'']\<rparr>"

definition three_users :: "uid \<Rightarrow> identity option" where
  "three_users u = (if u = 1 then Some (''ann'', [''staff'']) else if u = 2 then Some (''bob'', []) else None)"

theorem access_decisions_witness:
  "authorize three_users ''lab'' 1 guarded_registry = None \<and> authorize three_users ''lab'' 2 guarded_registry \<noteq> None
   \<and> authorize three_users ''lab'' 3 guarded_registry \<noteq> None
   \<and> requireAdmin three_users \<lparr>pr_UID = 1, pr_GID = 1, pr_Available = True\<rparr> guarded_registry \<noteq> None
   \<and> canRead three_users ''lab'' \<lparr>pr_UID = 1, pr_GID = 1, pr_Available = True\<rparr> guarded_registry"
proof -
  have ac: "accessOf ''lab'' guarded_registry = Some lab" by (simp add: accessOf_def guarded_registry_def)
  have r: "restricted lab" "ac_AllowUsers lab = [''ann'']" "ac_AllowGroups lab = []" by (simp_all add: restricted_def lab_def account0_def)
  have adm: "adminEnforced guarded_registry" "rg_adminUsers guarded_registry = [''adm'']" "rg_adminGroups guarded_registry = []"
    by (simp_all add: adminEnforced_def guarded_registry_def empty_registry_def)
  show ?thesis
    using access_decisions [OF ac, of three_users 1 "\<lparr>pr_UID = 1, pr_GID = 1, pr_Available = True\<rparr>"]
      access_decisions [OF ac, of three_users 2] access_decisions [OF ac, of three_users 3]
    by (simp add: r adm three_users_def)
qed

section \<open>The identity cache\<close>

definition cache_ok ::
  "(uid \<Rightarrow> (string \<times> string list option) option) \<Rightarrow> (string \<Rightarrow> string option) \<Rightarrow> osIdentity \<Rightarrow> bool" where
  "cache_ok LI LG c \<longleftrightarrow> (\<forall>u i. map_of (os_cache c) u = Some i \<longrightarrow> os_resolve LI LG u = Some i)"

lemma os_lookup_ok:
  assumes "cache_ok LI LG c"
  shows "snd (os_lookup LI LG u c) = os_resolve LI LG u \<and> cache_ok LI LG (fst (os_lookup LI LG u c))"
  using assms by (auto simp: os_lookup_def cache_ok_def map_of_update split: option.splits if_splits)

text \<open>
  The identity cache never changes an answer while the user database stays the same. Starting from an empty cache, after any sequence of
  lookups a further lookup returns exactly what the user database itself returns, failures included.
\<close>

lemma identity_cache_transparent:
  "snd (os_lookup LI LG u (fold (\<lambda>v c. fst (os_lookup LI LG v c)) us \<lparr>os_cache = []\<rparr>)) = os_resolve LI LG u"
proof -
  have "cache_ok LI LG (fold (\<lambda>v c. fst (os_lookup LI LG v c)) us c)" if "cache_ok LI LG c" for c
    using that
  proof (induction us arbitrary: c)
    case (Cons v us)
    show ?case using Cons.IH [OF conjunct2 [OF os_lookup_ok [OF Cons.prems, of v]]] by simp
  qed simp
  moreover have "cache_ok LI LG \<lparr>os_cache = []\<rparr>" by (simp add: cache_ok_def)
  ultimately have "cache_ok LI LG (fold (\<lambda>v c. fst (os_lookup LI LG v c)) us \<lparr>os_cache = []\<rparr>)" by blast
  from os_lookup_ok [OF this] show ?thesis by blast
qed

end
