(* ===== verification/Funding.thy ===== *)
theory Funding
  imports Obol_Prelude
begin

text \<open>
  The multi-source funding plan (\<^verbatim>\<open>internal/daemon/funding.go\<close>): the ordered split of a job's
  walltime over several budgets, and the split of its runtime over the funded slices. The theorems compare both
  with their closed forms over the integers.
\<close>

section \<open>Model\<close>

record legPlan =
  lp_Index :: nat
  lp_W :: Seconds
  lp_Cost :: Units

text \<open>The loop of \<open>fundingPlan\<close> from source \<open>i\<close> on: the legs it appends and the \<open>need\<close> left.\<close>

fun plan_from :: "nat \<Rightarrow> Units list \<Rightarrow> Units \<Rightarrow> Seconds \<Rightarrow> legPlan list \<times> Seconds" where
  "plan_from i [] c need = ([], need)"
| "plan_from i (b # bs) c need =
     (if need = 0 then ([], need)
      else let capacity = go_div b c
           in if capacity \<le>s 0 then plan_from (Suc i) bs c need
              else let wi = (if need <s capacity then need else capacity)
                   in case plan_from (Suc i) bs c (need - wi) of
                        (legs, n) \<Rightarrow> (\<lparr>lp_Index = i, lp_W = wi, lp_Cost = c * wi\<rparr> # legs, n))"

definition fundingPlan :: "Units list \<Rightarrow> Units \<Rightarrow> Seconds \<Rightarrow> legPlan list \<times> bool" where
  "fundingPlan balances c w =
     (if c \<le>s 0 \<or> w \<le>s 0 then ([], False)
      else case plan_from 0 balances c w of (legs, need) \<Rightarrow> (legs, need = 0))"

text \<open>The caller passes an \<open>idx\<close> inside the plan.\<close>

definition legRuntime :: "legPlan list \<Rightarrow> nat \<Rightarrow> Seconds \<Rightarrow> Seconds" where
  "legRuntime legs idx runtime =
     (let rt = (if runtime <s 0 then 0 else runtime);
          prefix = sum_list (map lp_W (take idx legs));
          r = rt - prefix;
          r' = (if r <s 0 then 0 else r)
      in if lp_W (legs ! idx) <s r' then lp_W (legs ! idx) else r')"

section \<open>The plan in closed form\<close>

text \<open>The whole seconds a source can pay for, and its share when the sources before it are drained first.\<close>

definition source_cap :: "Units \<Rightarrow> Units \<Rightarrow> int" where
  "source_cap c b = max 0 (sint b div sint c)"

definition share :: "int list \<Rightarrow> int \<Rightarrow> nat \<Rightarrow> int" where
  "share caps need i = min (caps ! i) (max 0 (need - sum_list (take i caps)))"

lemma source_cap_nonneg [simp]: "0 \<le> source_cap c b"
  by (simp add: source_cap_def)

lemma caps_nonneg: "0 \<le> sum_list (map (source_cap c) bs)"
  by (rule sum_list_nonneg) auto

lemma go_div_capacity:
  assumes "0 < sint c"
  shows "(go_div b c \<le>s 0) = (source_cap c b = 0)"
    and "\<not> go_div b c \<le>s 0 \<Longrightarrow> sint (go_div b c) = source_cap c b"
proof -
  have neg: "sint b < 0 \<Longrightarrow> sint (go_div b c) \<le> 0 \<and> source_cap c b = 0"
  proof -
    assume b: "sint b < 0"
    then have e: "sint b sdiv sint c = - ((- sint b) div sint c)"
      using assms by (simp add: signed_divide_int_def sgn_if)
    have "(- sint b) div sint c \<le> - sint b"
      using b assms by (metis div_by_1 int_one_le_iff_zero_less neg_0_le_iff_le not_less order_le_less zdiv_mono2 zero_less_one)
    moreover have "0 \<le> (- sint b) div sint c"
      using b assms by (simp add: pos_imp_zdiv_nonneg_iff)
    ultimately have "fits64 (sint b sdiv sint c)"
      using fits64_sint [of b] b unfolding e by (simp add: fits64_def)
    then have "sint (go_div b c) = - ((- sint b) div sint c)"
      unfolding go_div_def by (metis e sint_of_int_exact)
    moreover have "sint b div sint c < 0" using b assms by (simp add: neg_imp_zdiv_neg_iff pos_imp_zdiv_neg_iff)
    ultimately show ?thesis
      using \<open>0 \<le> (- sint b) div sint c\<close> by (simp add: source_cap_def)
  qed
  have pos: "0 \<le> sint b \<Longrightarrow> sint (go_div b c) = source_cap c b"
    using assms by (simp add: sint_go_div source_cap_def pos_imp_zdiv_nonneg_iff)
  show "(go_div b c \<le>s 0) = (source_cap c b = 0)"
    using neg pos by (cases "sint b < 0") (auto simp: i64_simps intro: antisym)
  show "\<not> go_div b c \<le>s 0 \<Longrightarrow> sint (go_div b c) = source_cap c b"
    using neg pos by (cases "sint b < 0") (auto simp: i64_simps)
qed

lemma source_cap_affordable:
  assumes "0 < sint c" "0 < source_cap c b" "0 \<le> k" "k \<le> source_cap c b"
  shows "sint c * k \<le> sint b"
proof -
  have "k \<le> sint b div sint c" using assms(2,4) by (simp add: source_cap_def split: if_splits)
  then have "sint c * k \<le> sint c * (sint b div sint c)" using assms(1) by simp
  also have "\<dots> \<le> sint b"
    using assms(1) minus_mod_eq_mult_div [of "sint b" "sint c"] pos_mod_sign [of "sint c" "sint b"] by linarith
  finally show ?thesis .
qed

lemma share_Cons_0: "0 \<le> n \<Longrightarrow> share (k # ks) n 0 = min k n"
  by (simp add: share_def)

lemma share_Cons_Suc:
  assumes "0 \<le> n" "\<forall>x \<in> set ks. 0 \<le> x"
  shows "share (k # ks) n (Suc i) = share ks (n - min k n) i"
proof -
  have "0 \<le> sum_list (take i ks)" using assms(2) by (intro sum_list_nonneg) (meson in_set_takeD)
  then show ?thesis using assms(1) by (simp add: share_def min_def max_def)
qed

text \<open>The legs of the closed form, numbered from \<open>i\<close>.\<close>

definition shares_from :: "nat \<Rightarrow> int list \<Rightarrow> int \<Rightarrow> (nat \<times> int) list" where
  "shares_from i caps need =
     filter (\<lambda>(_, k). 0 < k) (map (\<lambda>j. (i + j, share caps need j)) [0..<length caps])"

lemma shares_from_Nil: "shares_from i [] n = []"
  by (simp add: shares_from_def)

lemma shares_from_Cons:
  assumes "0 \<le> n" "\<forall>x \<in> set ks. 0 \<le> x"
  shows "shares_from i (k # ks) n =
    (if 0 < min k n then [(i, min k n)] else []) @ shares_from (Suc i) ks (n - min k n)"
  using assms
  by (simp add: shares_from_def upt_conv_Cons map_Suc_upt [symmetric] comp_def share_Cons_0 share_Cons_Suc
      del: upt_Suc)

lemma shares_from_0:
  assumes "\<forall>x \<in> set ks. 0 \<le> x"
  shows "shares_from i ks 0 = []"
proof -
  have "share ks 0 j \<le> 0" for j
  proof -
    have "0 \<le> sum_list (take j ks)" using assms by (intro sum_list_nonneg) (meson in_set_takeD)
    then show ?thesis by (simp add: share_def)
  qed
  then show ?thesis by (simp add: shares_from_def filter_empty_conv not_less)
qed

definition leg_view :: "legPlan \<Rightarrow> nat \<times> int" where
  "leg_view l = (lp_Index l, sint (lp_W l))"

lemma plan_from_shares:
  assumes "0 < sint c" "0 \<le> sint need"
  shows "map leg_view (fst (plan_from i bs c need)) = shares_from i (map (source_cap c) bs) (sint need)
    \<and> sint (snd (plan_from i bs c need)) = max 0 (sint need - sum_list (map (source_cap c) bs))"
  using assms
proof (induction bs arbitrary: i need)
  case (Cons b bs)
  let ?k = "source_cap c b"
  have nn: "\<forall>x \<in> set (map (source_cap c) bs). 0 \<le> x" by auto
  have S: "0 \<le> sum_list (map (source_cap c) bs)" by (rule caps_nonneg)
  consider (none) "need = 0" | (skip) "need \<noteq> 0" "go_div b c \<le>s 0" | (leg) "need \<noteq> 0" "\<not> go_div b c \<le>s 0" by blast
  then show ?case
  proof cases
    case none
    moreover have "max 0 (- ?k - sum_list (map (source_cap c) bs)) = 0"
      using S source_cap_nonneg [of c b] by linarith
    ultimately show ?thesis using shares_from_0 [of "map (source_cap c) (b # bs)"] by simp
  next
    case skip
    then have "?k = 0" using go_div_capacity(1) [OF Cons.prems(1)] by blast
    then show ?thesis using Cons.IH [OF Cons.prems, of "Suc i"] skip nn Cons.prems by (simp add: shares_from_Cons)
  next
    case leg
    define wi where "wi = (if need <s go_div b c then need else go_div b c)"
    have k: "0 < ?k" "sint (go_div b c) = ?k"
      using go_div_capacity [OF Cons.prems(1), of b] leg(2) source_cap_nonneg [of c b] by (auto simp: less_le)
    have need: "0 < sint need" using leg(1) Cons.prems(2) by (metis i64_eq_iff less_le signed_0)
    have wi: "sint wi = min ?k (sint need)" using k by (auto simp: wi_def i64_simps)
    have fits: "fits64 (sint need - sint wi)"
      using need wi k(1) by - (rule fits64_nonneg_le [of _ "sint need"], simp_all)
    then have rest: "sint (need - wi) = sint need - min ?k (sint need)" by (simp add: sint_sub_exact wi)
    have "0 \<le> sint (need - wi)" by (simp add: rest)
    note IH = Cons.IH [OF Cons.prems(1) this, of "Suc i"]
    have "plan_from i (b # bs) c need =
        (\<lparr>lp_Index = i, lp_W = wi, lp_Cost = c * wi\<rparr> # fst (plan_from (Suc i) bs c (need - wi)), snd (plan_from (Suc i) bs c (need - wi)))"
      using leg by (simp add: wi_def Let_def case_prod_beta)
    then show ?thesis
      using IH need k(1) nn S by (auto simp: leg_view_def wi rest shares_from_Cons)
  qed
qed (simp add: shares_from_Nil)

lemma plan_from_cost: "l \<in> set (fst (plan_from i bs c need)) \<Longrightarrow> lp_Cost l = c * lp_W l"
  by (induction i bs c need rule: plan_from.induct) (auto simp: Let_def case_prod_beta split: if_splits)

lemma shares_from_mem: "(i, k) \<in> set (shares_from 0 caps n) \<Longrightarrow> i < length caps \<and> 0 < k \<and> k \<le> caps ! i"
  by (auto simp: shares_from_def share_def)

text \<open>
  C16: the plan drains the sources in order. For a positive rate and walltime, \<open>fundingPlan\<close> gives source
  \<open>i\<close> exactly the whole seconds it can pay for, up to what the earlier sources left open, and no leg to a source that can pay for
  none; the job is fundable exactly when the sources' whole seconds together cover the walltime. The
  cost of every leg is the exact product, without wrap-around, and its source can pay it.
\<close>

theorem fundingPlan_ordered_fallback:
  assumes "0 <s c" "0 <s w"
  shows "map leg_view (fst (fundingPlan bs c w)) = shares_from 0 (map (source_cap c) bs) (sint w)
    \<and> (snd (fundingPlan bs c w) \<longleftrightarrow> sint w \<le> (\<Sum>b\<leftarrow>bs. source_cap c b))
    \<and> (\<forall>l \<in> set (fst (fundingPlan bs c w)).
        lp_Index l < length bs \<and> sint (lp_Cost l) = sint c * sint (lp_W l) \<and> sint (lp_Cost l) \<le> sint (bs ! lp_Index l))"
proof -
  have c: "0 < sint c" and w: "0 < sint w" using assms by (simp_all add: i64_simps)
  have f: "fst (fundingPlan bs c w) = fst (plan_from 0 bs c w)" "snd (fundingPlan bs c w) = (snd (plan_from 0 bs c w) = 0)"
    using assms by (simp_all add: fundingPlan_def i64_simps case_prod_beta not_le)
  note P = plan_from_shares [OF c less_imp_le [OF w], of 0 bs]
  have leg: "lp_Index l < length bs \<and> sint (lp_Cost l) = sint c * sint (lp_W l) \<and> sint (lp_Cost l) \<le> sint (bs ! lp_Index l)"
    if l: "l \<in> set (fst (plan_from 0 bs c w))" for l
  proof -
    have "leg_view l \<in> set (shares_from 0 (map (source_cap c) bs) (sint w))"
      using l P by (metis imageI list.set_map)
    then have m: "lp_Index l < length bs" "0 < sint (lp_W l)" "sint (lp_W l) \<le> source_cap c (bs ! lp_Index l)"
      using shares_from_mem [of "lp_Index l" "sint (lp_W l)" "map (source_cap c) bs" "sint w"]
      by (auto simp: leg_view_def)
    then have le: "sint c * sint (lp_W l) \<le> sint (bs ! lp_Index l)"
      using c by (intro source_cap_affordable) auto
    moreover have "0 \<le> sint c * sint (lp_W l)" using c m(2) by simp
    ultimately have "fits64 (sint c * sint (lp_W l))"
      by - (rule fits64_nonneg_le [of _ "sint (bs ! lp_Index l)"], simp_all)
    then show ?thesis using m le by (simp add: plan_from_cost [OF l] sint_mult_exact)
  qed
  have "snd (plan_from 0 bs c w) = 0 \<longleftrightarrow> sint (snd (plan_from 0 bs c w)) = 0" by (metis i64_eq_iff signed_0)
  then have "snd (plan_from 0 bs c w) = 0 \<longleftrightarrow> sint w \<le> (\<Sum>b\<leftarrow>bs. source_cap c b)"
    using P by (simp add: max_def)
  then show ?thesis using conjunct1 [OF P] leg unfolding f by blast
qed

theorem fundingPlan_ordered_fallback_witness:
  "map leg_view (fst (fundingPlan [25, 3, 100] 10 7)) = [(0, 2), (2, 5)] \<and> snd (fundingPlan [25, 3, 100] 10 7)"
  using fundingPlan_ordered_fallback [of 10 7 "[25, 3, 100]"] by (simp add: i64_simps shares_from_def share_def source_cap_def upt_rec)

section \<open>The runtime over the slices\<close>

definition plan_total :: "legPlan list \<Rightarrow> int" where
  "plan_total legs = (\<Sum>l\<leftarrow>legs. sint (lp_W l))"

lemma plan_total_take:
  assumes "\<forall>l \<in> set legs. 0 \<le> sint (lp_W l)"
  shows "0 \<le> plan_total (take n legs) \<and> plan_total (take n legs) \<le> plan_total legs"
proof -
  have "plan_total legs = plan_total (take n legs) + plan_total (drop n legs)"
    by (simp add: plan_total_def flip: sum_list_append map_append)
  moreover have "0 \<le> plan_total (take n legs)" "0 \<le> plan_total (drop n legs)"
    using assms unfolding plan_total_def by (intro sum_list_nonneg; auto dest!: in_set_takeD in_set_dropD)+
  ultimately show ?thesis by simp
qed

lemma sint_prefix:
  assumes "\<forall>l \<in> set legs. 0 \<le> sint (lp_W l)" "fits64 (plan_total legs)"
  shows "sint (sum_list (map lp_W legs)) = plan_total legs"
  using assms
proof (induction legs)
  case (Cons l legs)
  have "0 \<le> plan_total legs" using plan_total_take [of legs "length legs"] Cons.prems(1) by simp
  then have "fits64 (plan_total legs)"
    using Cons.prems by - (rule fits64_nonneg_le [of _ "plan_total (l # legs)"], simp_all add: plan_total_def)
  then have IH: "sint (sum_list (map lp_W legs)) = plan_total legs" using Cons.IH Cons.prems(1) by simp
  have t: "plan_total (l # legs) = sint (lp_W l) + plan_total legs" by (simp add: plan_total_def)
  show ?case
    using sint_add_exact [of "lp_W l" "sum_list (map lp_W legs)"] Cons.prems(2) unfolding IH t by simp
qed (simp add: plan_total_def)

lemma legRuntime_clamp:
  assumes nn: "\<forall>l \<in> set legs. 0 \<le> sint (lp_W l)" and fits: "fits64 (plan_total legs)" and i: "i < length legs"
  shows "sint (legRuntime legs i runtime)
    = min (sint (lp_W (legs ! i))) (max 0 (max 0 (sint runtime) - plan_total (take i legs)))"
proof -
  let ?p = "plan_total (take i legs)" and ?rt = "if runtime <s 0 then 0 else runtime"
  have p: "0 \<le> ?p" "?p \<le> plan_total legs" using plan_total_take [OF nn] by auto
  have "fits64 ?p" using p fits by (rule fits64_nonneg_le)
  then have pre: "sint (sum_list (map lp_W (take i legs))) = ?p"
    using nn by (intro sint_prefix) (auto dest!: in_set_takeD)
  have rt: "sint ?rt = max 0 (sint runtime)" by (simp add: i64_simps)
  have "fits64 (max 0 (sint runtime) - ?p)"
    using p fits fits64_sint [of runtime] unfolding fits64_def by linarith
  then have "sint (?rt - sum_list (map lp_W (take i legs))) = max 0 (sint runtime) - ?p"
    using sint_sub_exact [of ?rt "sum_list (map lp_W (take i legs))"] unfolding pre rt by blast
  moreover have "0 \<le> sint (lp_W (legs ! i))" using nn i by simp
  ultimately show ?thesis unfolding legRuntime_def Let_def sless_int signed_0 by (simp split: if_splits) linarith
qed

text \<open>
  C17: the slices share out the runtime exactly. For a plan of non-negative slices whose sum fits 64 bits, the
  runtimes \<open>legRuntime\<close> gives to the legs add up to the job's runtime, capped at the planned total (a
  negative runtime counts as zero), and each lies within its slice. So the legs together are billed for
  the seconds the job ran and no others.
\<close>

theorem legRuntime_partitions:
  assumes "\<forall>l \<in> set legs. 0 \<le>s lp_W l" and "fits64 (plan_total legs)"
  shows "(\<Sum>i\<leftarrow>[0..<length legs]. sint (legRuntime legs i runtime)) = min (max 0 (sint runtime)) (plan_total legs)
    \<and> (\<forall>i < length legs. 0 \<le> sint (legRuntime legs i runtime) \<and> sint (legRuntime legs i runtime) \<le> sint (lp_W (legs ! i)))"
proof -
  have nn: "\<forall>l \<in> set legs. 0 \<le> sint (lp_W l)" using assms(1) by (simp add: i64_simps)
  note R = legRuntime_clamp [OF nn assms(2)]
  have step: "(\<Sum>i\<leftarrow>[0..<n]. sint (legRuntime legs i runtime)) = min (max 0 (sint runtime)) (plan_total (take n legs))"
    if "n \<le> length legs" for n
    using that
  proof (induction n)
    case (Suc n)
    then have "plan_total (take (Suc n) legs) = plan_total (take n legs) + sint (lp_W (legs ! n))"
      by (simp add: take_Suc_conv_app_nth plan_total_def)
    moreover have "0 \<le> sint (lp_W (legs ! n))" "0 \<le> plan_total (take n legs)"
      using nn Suc.prems plan_total_take [OF nn] by auto
    ultimately show ?case using Suc by (auto simp: R)
  qed (simp add: plan_total_def)
  moreover have "0 \<le> sint (lp_W (legs ! i))" if "i < length legs" for i using nn that by simp
  ultimately show ?thesis using step [of "length legs"] R by auto
qed

definition two_legs :: "legPlan list" where
  "two_legs = [\<lparr>lp_Index = 0, lp_W = 3, lp_Cost = 30\<rparr>, \<lparr>lp_Index = 2, lp_W = 5, lp_Cost = 50\<rparr>]"

theorem legRuntime_partitions_witness:
  "(\<Sum>i\<leftarrow>[0..<length two_legs]. sint (legRuntime two_legs i 6)) = 6
   \<and> map (\<lambda>i. sint (legRuntime two_legs i 6)) [0, 1] = [3, 3]"
proof
  have "(\<Sum>i\<leftarrow>[0..<length two_legs]. sint (legRuntime two_legs i 6)) = min (max 0 (sint (6 :: Seconds))) (plan_total two_legs)"
    by (rule legRuntime_partitions [THEN conjunct1]) (simp_all add: two_legs_def plan_total_def fits64_def i64_simps)
  then show "(\<Sum>i\<leftarrow>[0..<length two_legs]. sint (legRuntime two_legs i 6)) = 6"
    by (simp add: two_legs_def plan_total_def)
  show "map (\<lambda>i. sint (legRuntime two_legs i 6)) [0, 1] = [3, 3]"
    by (simp add: two_legs_def legRuntime_def Let_def i64_simps)
qed

end
