(* ===== verification/Server.thy ===== *)
theory Server
  imports Transfers_Spec Access Funding
begin

text \<open>
  The daemon's server (\<^verbatim>\<open>internal/daemon/server.go\<close>), first part: its state and the life of a job, that is the gate, the binding to
  a scheduler job and the settlement, for single jobs, arrays and jobs paid by several accounts.

  \<^item> A handler is an \<open>act\<close>: it changes the server and returns a value, or a panic that ends the process. The clock, the random
    source and the budgets are in the registry the server holds.
  \<^item> \<open>*budget.Budget\<close> is the name of the account, as in \<open>Registry\<close>.
  \<^item> A handler runs without interruption. The code holds the server's mutex only around its routing maps, so the interleavings of
    two requests at the level of single kernel calls are not modelled.
\<close>

section \<open>State\<close>

record leg =
  lg_bd :: string
  lg_token :: string
  lg_w :: Seconds
  lg_firstTask :: i64
  lg_nTasks :: i64

record server =
  sv_reg :: registry
  sv_weights :: weights
  sv_nodeCost :: "nodeCost option"
  sv_ident :: "uid \<Rightarrow> identity option"
  sv_authToken :: string
  sv_jobToToken :: "(string, string) gomap"
  sv_tokenBudget :: "(string, string) gomap"
  sv_tokenLegs :: "(string, leg list) gomap"
  sv_tokenArrayN :: "(string, i64) gomap"

definition NewWithRegistry :: "registry \<Rightarrow> weights \<Rightarrow> (uid \<Rightarrow> identity option) \<Rightarrow> server" where
  "NewWithRegistry reg w ident =
     \<lparr>sv_reg = reg, sv_weights = w, sv_nodeCost = None, sv_ident = ident, sv_authToken = [], sv_jobToToken = [],
      sv_tokenBudget = [], sv_tokenLegs = [], sv_tokenArrayN = []\<rparr>"

text \<open>A server over one budget: a registry of the account \<^verbatim>\<open>default\<close>, without a state directory and without a clock of its own.\<close>

definition NewWithWeights :: "budget \<Rightarrow> env \<Rightarrow> weights \<Rightarrow> (uid \<Rightarrow> identity option) \<Rightarrow> server" where
  "NewWithWeights bd e w ident =
     NewWithRegistry
       \<lparr>rg_budgets = [(''default'', bd)], rg_access = [(''default'', account0\<lparr>ac_Name := ''default''\<rparr>)], rg_stateDir = [], rg_sync = False,
        rg_hasClock = False, rg_adminUsers = [], rg_adminGroups = [], rg_disk = [], rg_journal = [], rg_env = e\<rparr> w ident"

definition NewServer :: "budget \<Rightarrow> env \<Rightarrow> (uid \<Rightarrow> identity option) \<Rightarrow> server" where
  "NewServer bd e ident = NewWithWeights bd e \<lparr>PerCPU = 0, PerGPU = 0, PerMem = 0\<rparr> ident"

definition SetNodeCost :: "nodeCost option \<Rightarrow> server \<Rightarrow> server" where
  "SetNodeCost nc s = s\<lparr>sv_nodeCost := nc\<rparr>"

definition SetAuthToken :: "string \<Rightarrow> server \<Rightarrow> server" where
  "SetAuthToken tok s = s\<lparr>sv_authToken := tok\<rparr>"

section \<open>Acts\<close>

type_synonym 'a act = "server \<Rightarrow> server \<times> (panic + 'a)"

definition ret :: "'a \<Rightarrow> 'a act" where
  "ret x s = (s, Inr x)"

definition and_then :: "'a act \<Rightarrow> ('a \<Rightarrow> 'b act) \<Rightarrow> 'b act" where
  "and_then m f s = (case m s of (s', Inl p) \<Rightarrow> (s', Inl p) | (s', Inr x) \<Rightarrow> f x s')"

definition peek :: "(server \<Rightarrow> 'a) \<Rightarrow> 'a act" where
  "peek f s = (s, Inr (f s))"

definition modify :: "(server \<Rightarrow> server) \<Rightarrow> unit act" where
  "modify f s = (f s, Inr ())"

definition on_reg :: "(registry \<Rightarrow> registry \<times> (panic + 'a)) \<Rightarrow> 'a act" where
  "on_reg f s = (case f (sv_reg s) of (r, x) \<Rightarrow> (s\<lparr>sv_reg := r\<rparr>, x))"

text \<open>\<open>s.now()\<close>.\<close>

definition clock :: "Seconds act" where
  "clock = on_reg (\<lambda>r. case reg_now r of (t, r') \<Rightarrow> (r', Inr t))"

definition token_of :: "string \<Rightarrow> string" where
  "token_of bs = ''budget:'' @ hexEncode bs"

definition mintToken :: "string option act" where
  "mintToken = on_reg (\<lambda>r. case rand_bytes r of (b, r') \<Rightarrow> (r', Inr (map_option token_of b)))"

text \<open>A method of a budget that returns an error, and \<open>Report\<close>.\<close>

definition on_budget :: "string \<Rightarrow> (budget \<Rightarrow> budget \<times> outcome) \<Rightarrow> err option act" where
  "on_budget k f =
     on_reg (\<lambda>r. case call k f r of
                   (r', Panic p) \<Rightarrow> (r', Inl p)
                 | (r', Fail e) \<Rightarrow> (r', Inr (Some e))
                 | (r', Done) \<Rightarrow> (r', Inr None))"

definition read_report :: "string \<Rightarrow> Seconds \<Rightarrow> report act" where
  "read_report k now =
     on_reg (\<lambda>r. case call_Report k now r of
                   (r', Panic p, _) \<Rightarrow> (r', Inl p)
                 | (r', _, rep) \<Rightarrow> (r', Inr rep))"

definition srv_authorize :: "string \<Rightarrow> uid \<Rightarrow> msg option act" where
  "srv_authorize account u = peek (\<lambda>s. authorize (sv_ident s) account u (sv_reg s))"

definition srv_resolve :: "string \<Rightarrow> (msg + string) act" where
  "srv_resolve account = peek (\<lambda>s. Resolve account (sv_reg s))"

section \<open>The gate\<close>

definition gateReject :: "msg \<Rightarrow> frame" where
  "gateReject reason = frame0\<lparr>fr_MsgKind := KindGate, fr_GateResp := Some (gateResponse0\<lparr>gp_Allow := False, gp_Reason := reason\<rparr>)\<rparr>"

definition gateAllow :: "string \<Rightarrow> frame" where
  "gateAllow token = frame0\<lparr>fr_MsgKind := KindGate, fr_GateResp := Some (gateResponse0\<lparr>gp_Allow := True, gp_Token := token\<rparr>)\<rparr>"

text \<open>The dearest node type of the partition, else the weighted resources; 0 leaves the budget's own rate.\<close>

definition gate_rate :: "string \<Rightarrow> tres \<Rightarrow> server \<Rightarrow> Units" where
  "gate_rate part t s = (let c = worstRate (sv_nodeCost s) part in if c = 0 then weights_Rate (sv_weights s) t else c)"

definition source_msg :: "string \<Rightarrow> msg \<Rightarrow> msg" where
  "source_msg acct e = [PText ''source '', PQuoted acct, PText '': ''] @ e"

text \<open>The loop of \<open>resolveSources\<close>: the accounts in order and the common rate, or the rejection.\<close>

fun resolve_loop :: "uid \<Rightarrow> bool \<Rightarrow> string list \<Rightarrow> Units \<Rightarrow> (frame + string list \<times> Units) act" where
  "resolve_loop u first [] c = ret (Inr ([], c))"
| "resolve_loop u first (acct # accts) c =
     and_then (srv_resolve acct) (\<lambda>res. case res of
       Inl e \<Rightarrow> ret (Inl (gateReject (source_msg acct e)))
     | Inr k \<Rightarrow>
         and_then (srv_authorize acct u) (\<lambda>a. case a of
           Some reason \<Rightarrow> ret (Inl (gateReject (source_msg acct reason)))
         | None \<Rightarrow>
             and_then (if c = 0 then and_then clock (\<lambda>now. and_then (read_report k now) (\<lambda>st. ret (r_C st))) else ret c) (\<lambda>rt.
               if \<not> first \<and> rt \<noteq> c
               then ret (Inl (gateReject (lit ''multi-source requires a uniform rate across sources (set node-type or TRES pricing, or equal account rates)'')))
               else and_then (resolve_loop u False accts rt) (\<lambda>rest.
                      ret (case rest of Inl fr \<Rightarrow> Inl fr | Inr (ks, c') \<Rightarrow> Inr (k # ks, c'))))))"

definition resolveSources :: "gateRequest \<Rightarrow> (frame + string list \<times> Units) act" where
  "resolveSources req =
     and_then (peek (gate_rate (gq_Partition req) (gq_TRES req))) (resolve_loop (gq_UID req) True (gq_Sources req))"

definition balances :: "string list \<Rightarrow> Units list act" where
  "balances bds = peek (\<lambda>s. map (\<lambda>k. balance_of k (sv_reg s)) bds)"

text \<open>\<open>fmt.Sprintf("%s:%d", master, i)\<close>.\<close>

definition legTok :: "string \<Rightarrow> nat \<Rightarrow> string" where
  "legTok master i = master @ '':'' @ nat_dec (int i)"

text \<open>A loop of calls whose errors are dropped.\<close>

fun each :: "('a \<Rightarrow> err option act) \<Rightarrow> 'a list \<Rightarrow> unit act" where
  "each f [] = ret ()"
| "each f (x # xs) = and_then (f x) (\<lambda>_. each f xs)"

definition rollback :: "Seconds \<Rightarrow> leg list \<Rightarrow> unit act" where
  "rollback now placed = each (\<lambda>pl. on_budget (lg_bd pl) (Cancel (lg_token pl) 0 now)) placed"

fun place_legs :: "string list \<Rightarrow> string list \<Rightarrow> string \<Rightarrow> Units \<Rightarrow> Seconds \<Rightarrow> legPlan list \<Rightarrow> leg list \<Rightarrow> (frame + leg list) act" where
  "place_legs srcs bds master c now [] placed = ret (Inr placed)"
| "place_legs srcs bds master c now (lp # lps) placed =
     (let bd = bds ! lp_Index lp; tok = legTok master (lp_Index lp)
      in and_then (on_budget bd (SubmitAt tok c (lp_W lp) now)) (\<lambda>e. case e of
           Some e' \<Rightarrow> and_then (rollback now placed) (\<lambda>_. ret (Inl (gateReject (source_msg (srcs ! lp_Index lp) (err_msg e')))))
         | None \<Rightarrow>
             place_legs srcs bds master c now lps
               (placed @ [\<lparr>lg_bd = bd, lg_token = tok, lg_w = lp_W lp, lg_firstTask = 0, lg_nTasks = 0\<rparr>])))"

text \<open>The task indices \<open>0, ..., n - 1\<close> of a loop over an \<open>int\<close>.\<close>

definition indices :: "i64 \<Rightarrow> i64 list" where
  "indices n = map word_of_nat [0..<nat (sint n)]"

definition rollback_array :: "Seconds \<Rightarrow> leg list \<Rightarrow> unit act" where
  "rollback_array now placed =
     each (\<lambda>(pl, i). on_budget (lg_bd pl) (CancelTask (lg_token pl) i 0 now)) (concat (map (\<lambda>pl. map (Pair pl) (indices (lg_nTasks pl))) placed))"

fun place_array_legs ::
  "gateRequest \<Rightarrow> string list \<Rightarrow> string \<Rightarrow> Units \<Rightarrow> Seconds \<Rightarrow> legPlan list \<Rightarrow> i64 \<Rightarrow> leg list \<Rightarrow> (frame + leg list) act" where
  "place_array_legs req bds master c now [] firstTask placed = ret (Inr placed)"
| "place_array_legs req bds master c now (lp # lps) firstTask placed =
     (let bd = bds ! lp_Index lp; n = lp_W lp; tok = legTok master (lp_Index lp)
      in and_then (on_budget bd (SubmitArrayAt tok c n (gq_TimeLimit req) now)) (\<lambda>e. case e of
           Some e' \<Rightarrow> and_then (rollback_array now placed) (\<lambda>_. ret (Inl (gateReject (source_msg (gq_Sources req ! lp_Index lp) (err_msg e')))))
         | None \<Rightarrow>
             place_array_legs req bds master c now lps (firstTask + n)
               (placed @ [\<lparr>lg_bd = bd, lg_token = tok, lg_w = gq_TimeLimit req, lg_firstTask = firstTask, lg_nTasks = n\<rparr>])))"

definition handleGateMultiSourceArray :: "gateRequest \<Rightarrow> string list \<Rightarrow> Units \<Rightarrow> frame act" where
  "handleGateMultiSourceArray req bds c =
     (let taskCost = c * gq_TimeLimit req
      in if taskCost \<le>s 0 then ret (gateReject (lit ''array gate requires a positive rate and time limit''))
         else and_then (balances bds) (\<lambda>bals.
           case fundingPlan bals taskCost (gq_NTasks req) of
             (_, False) \<Rightarrow> ret (gateReject (lit ''insufficient budget across sources for the whole array''))
           | (taskLegs, True) \<Rightarrow>
               and_then mintToken (\<lambda>tok. case tok of
                 None \<Rightarrow> ret (gateReject (lit ''token mint failed''))
               | Some master \<Rightarrow>
                   and_then clock (\<lambda>now.
                   and_then (place_array_legs req bds master c now taskLegs 0 []) (\<lambda>res. case res of
                     Inl fr \<Rightarrow> ret fr
                   | Inr placed \<Rightarrow>
                       and_then (modify (\<lambda>s. s\<lparr>sv_tokenLegs := AList.update master placed (sv_tokenLegs s),
                                               sv_tokenArrayN := AList.update master (gq_NTasks req) (sv_tokenArrayN s)\<rparr>))
                         (\<lambda>_. ret (gateAllow master)))))))"

text \<open>Minting the master token and placing the legs of a plan.\<close>

definition place_plan :: "gateRequest \<Rightarrow> string list \<Rightarrow> Units \<Rightarrow> legPlan list \<Rightarrow> frame act" where
  "place_plan req bds c legs =
     and_then mintToken (\<lambda>tok. case tok of
       None \<Rightarrow> ret (gateReject (lit ''token mint failed''))
     | Some master \<Rightarrow>
         and_then clock (\<lambda>now.
         and_then (place_legs (gq_Sources req) bds master c now legs []) (\<lambda>res. case res of
           Inl fr \<Rightarrow> ret fr
         | Inr placed \<Rightarrow>
             and_then (modify (\<lambda>s. s\<lparr>sv_tokenLegs := AList.update master placed (sv_tokenLegs s)\<rparr>))
               (\<lambda>_. ret (gateAllow master)))))"

definition handleGateMultiSource :: "gateRequest \<Rightarrow> frame act" where
  "handleGateMultiSource req =
     and_then (resolveSources req) (\<lambda>res. case res of
       Inl fr \<Rightarrow> ret fr
     | Inr (bds, c) \<Rightarrow>
         if 1 <s gq_NTasks req then handleGateMultiSourceArray req bds c
         else and_then (balances bds) (\<lambda>bals.
           case fundingPlan bals c (gq_TimeLimit req) of
             (_, False) \<Rightarrow> ret (gateReject (lit ''insufficient budget across sources''))
           | (legs, True) \<Rightarrow> place_plan req bds c legs))"

text \<open>The single-source gate, once the account resolved to \<open>bd\<close>: the submission, its route, and the checks before.\<close>

definition gate_submit :: "gateRequest \<Rightarrow> string \<Rightarrow> Units \<Rightarrow> Seconds \<Rightarrow> budget \<Rightarrow> budget \<times> outcome" where
  "gate_submit req token c now =
     (if 1 <s gq_NTasks req then SubmitArrayAt token c (gq_NTasks req) (gq_TimeLimit req) now
      else SubmitAt token c (gq_TimeLimit req) now)"

definition gate_place :: "gateRequest \<Rightarrow> string \<Rightarrow> string \<Rightarrow> frame act" where
  "gate_place req bd token =
     and_then clock (\<lambda>now.
     and_then (peek (gate_rate (gq_Partition req) (gq_TRES req))) (\<lambda>c.
     and_then (on_budget bd (gate_submit req token c now)) (\<lambda>e. case e of
       Some e' \<Rightarrow> ret (gateReject (err_msg e'))
     | None \<Rightarrow>
         and_then (modify (\<lambda>s. s\<lparr>sv_tokenBudget := AList.update token bd (sv_tokenBudget s),
                                 sv_tokenArrayN := (if 1 <s gq_NTasks req then AList.update token (gq_NTasks req) (sv_tokenArrayN s)
                                                    else sv_tokenArrayN s)\<rparr>))
           (\<lambda>_. ret (gateAllow token)))))"

definition gate_single :: "gateRequest \<Rightarrow> string \<Rightarrow> frame act" where
  "gate_single req bd =
     and_then (srv_authorize (gq_Account req) (gq_UID req)) (\<lambda>a. case a of
       Some reason \<Rightarrow> ret (gateReject reason)
     | None \<Rightarrow>
         and_then mintToken (\<lambda>tok. case tok of
           None \<Rightarrow> ret (gateReject (lit ''token mint failed''))
         | Some token \<Rightarrow> gate_place req bd token))"

definition handleGate :: "gateRequest option \<Rightarrow> frame act" where
  "handleGate rq =
     (case rq of
        None \<Rightarrow> ret (gateReject (lit ''empty gate request''))
      | Some req \<Rightarrow>
          if gq_Sources req \<noteq> [] then handleGateMultiSource req
          else and_then (srv_resolve (gq_Account req)) (\<lambda>res. case res of
                 Inl e \<Rightarrow> ret (gateReject e)
               | Inr bd \<Rightarrow> gate_single req bd))"

section \<open>Binding a scheduler job\<close>

definition bindReply :: "bool \<Rightarrow> msg \<Rightarrow> frame" where
  "bindReply ok reason = frame0\<lparr>fr_MsgKind := KindBind, fr_BindResp := Some \<lparr>bp_OK = ok, bp_Reason = reason\<rparr>\<rparr>"

text \<open>The leg whose task range has the global index \<open>g\<close>, and the index within it.\<close>

definition legForTask :: "leg list \<Rightarrow> i64 \<Rightarrow> (leg \<times> i64) option" where
  "legForTask legs g =
     map_option (\<lambda>l. (l, g - lg_firstTask l))
       (find (\<lambda>l. 0 <s lg_nTasks l \<and> lg_firstTask l \<le>s g \<and> g <s lg_firstTask l + lg_nTasks l) legs)"

definition budgetForToken :: "string \<Rightarrow> string option act" where
  "budgetForToken token = peek (\<lambda>s. map_of (sv_tokenBudget s) token)"

definition bind_job :: "bindRequest \<Rightarrow> unit act" where
  "bind_job req = modify (\<lambda>s. s\<lparr>sv_jobToToken := AList.update (bq_JobID req) (bq_Token req) (sv_jobToToken s)\<rparr>)"

text \<open>Starting an array task: an unknown or already started task does not fail the binding.\<close>

definition start_task :: "string \<Rightarrow> string \<Rightarrow> i64 \<Rightarrow> frame act" where
  "start_task bd token i =
     and_then clock (\<lambda>now.
     and_then (on_budget bd (StartTask token i now)) (\<lambda>e. case e of
       Some e' \<Rightarrow> if e' \<noteq> ErrNoSuchJob \<and> e' \<noteq> ErrBadState then ret (bindReply False (err_msg e')) else ret (bindReply True [])
     | None \<Rightarrow> ret (bindReply True [])))"

definition handleBindMultiSource :: "bindRequest \<Rightarrow> leg list \<Rightarrow> frame act" where
  "handleBindMultiSource req legs =
     and_then (bind_job req) (\<lambda>_.
       if bq_IsArrayTask req then
         (case legForTask legs (bq_Idx req) of
            None \<Rightarrow> ret (bindReply False (lit ''array task index out of range''))
          | Some (l, local) \<Rightarrow> start_task (lg_bd l) (lg_token l) local)
       else
         and_then clock (\<lambda>now.
         and_then (peek sv_nodeCost) (\<lambda>nc.
         and_then (if bq_NodeType req \<noteq> [] \<and> enabled nc \<and> 0 <s rate nc (bq_NodeType req)
                   then each (\<lambda>l. on_budget (lg_bd l) (Reprice (lg_token l) (rate nc (bq_NodeType req)) now)) legs
                   else ret ()) (\<lambda>_.
         and_then (each (\<lambda>l. on_budget (lg_bd l) (Start (lg_token l) now)) legs) (\<lambda>_.
           ret (bindReply True []))))))"

text \<open>Binding a single job: reprice to the node it runs on, then start.\<close>

definition bind_single :: "bindRequest \<Rightarrow> string \<Rightarrow> frame act" where
  "bind_single req bd =
     and_then (peek sv_nodeCost) (\<lambda>nc.
     and_then (if bq_NodeType req \<noteq> [] \<and> enabled nc \<and> 0 <s rate nc (bq_NodeType req)
               then and_then clock (\<lambda>now. and_then (on_budget bd (Reprice (bq_Token req) (rate nc (bq_NodeType req)) now)) (\<lambda>_. ret ()))
               else ret ()) (\<lambda>_.
     and_then clock (\<lambda>now.
     and_then (on_budget bd (Start (bq_Token req) now)) (\<lambda>e. case e of
       Some e' \<Rightarrow> if e' \<noteq> ErrNoSuchJob then ret (bindReply False (err_msg e')) else ret (bindReply True [])
     | None \<Rightarrow> ret (bindReply True [])))))"

definition handleBind :: "bindRequest option \<Rightarrow> frame act" where
  "handleBind rq =
     (case rq of
        None \<Rightarrow> ret (bindReply False (lit ''token and jobid required''))
      | Some req \<Rightarrow>
          if bq_Token req = [] \<or> bq_JobID req = [] then ret (bindReply False (lit ''token and jobid required''))
          else and_then (peek (\<lambda>s. map_of (sv_tokenLegs s) (bq_Token req))) (\<lambda>multi. case multi of
                 Some legs \<Rightarrow> handleBindMultiSource req legs
               | None \<Rightarrow>
                   and_then (budgetForToken (bq_Token req)) (\<lambda>b. case b of
                     None \<Rightarrow> ret (bindReply False (lit ''unknown token''))
                   | Some bd \<Rightarrow>
                       and_then (bind_job req) (\<lambda>_.
                         if bq_IsArrayTask req then start_task bd (bq_Token req) (bq_Idx req) else bind_single req bd))))"

section \<open>Settlement\<close>

definition settleReply :: "bool \<Rightarrow> msg \<Rightarrow> frame" where
  "settleReply ok reason = frame0\<lparr>fr_MsgKind := KindSettle, fr_SettleResp := Some \<lparr>sp_OK = ok, sp_Reason = reason\<rparr>\<rparr>"

definition settleReject :: "msg \<Rightarrow> frame" where
  "settleReject reason = settleReply False reason"

definition unknown_kind :: "string \<Rightarrow> frame" where
  "unknown_kind k = settleReject [PText ''unknown settle kind '', PQuoted k]"

text \<open>The kernel transition a settle kind names, for a job and for an array task.\<close>

definition settle_op :: "string \<Rightarrow> string \<Rightarrow> Seconds \<Rightarrow> Seconds \<Rightarrow> Seconds \<Rightarrow> (budget \<Rightarrow> budget \<times> outcome) option" where
  "settle_op kind token runtime elapsed now =
     (if kind = SettleComplete then Some (Complete token runtime now)
      else if kind = SettleTimeout then Some (Timeout token now)
      else if kind = SettleCancel then Some (Cancel token elapsed now)
      else if kind = SettleInfraFail then Some (InfraFail token elapsed now)
      else None)"

definition settle_task_op :: "settleRequest \<Rightarrow> string \<Rightarrow> i64 \<Rightarrow> Seconds \<Rightarrow> (budget \<Rightarrow> budget \<times> outcome) option" where
  "settle_task_op req token i now =
     (if sq_Kind req = SettleComplete then Some (CompleteTask token i (sq_Runtime req) now)
      else if sq_Kind req = SettleTimeout then Some (TimeoutTask token i now)
      else if sq_Kind req = SettleCancel then Some (CancelTask token i (sq_Elapsed req) now)
      else if sq_Kind req = SettleInfraFail then Some (InfraFailTask token i (sq_Elapsed req) now)
      else None)"

definition drop_job :: "string \<Rightarrow> server \<Rightarrow> server" where
  "drop_job j s = (if j \<noteq> [] then s\<lparr>sv_jobToToken := AList.delete j (sv_jobToToken s)\<rparr> else s)"

text \<open>One task fewer; the routing \<open>unroute\<close> drops goes with the last one.\<close>

definition count_task :: "string \<Rightarrow> (server \<Rightarrow> server) \<Rightarrow> server \<Rightarrow> server" where
  "count_task token unroute s =
     (case map_of (sv_tokenArrayN s) token of
        None \<Rightarrow> s
      | Some n \<Rightarrow>
          if n \<le>s 1 then unroute (s\<lparr>sv_tokenArrayN := AList.delete token (sv_tokenArrayN s)\<rparr>)
          else s\<lparr>sv_tokenArrayN := AList.update token (n - 1) (sv_tokenArrayN s)\<rparr>)"

definition settle_task :: "settleRequest \<Rightarrow> string \<Rightarrow> string \<Rightarrow> i64 \<Rightarrow> (server \<Rightarrow> server) \<Rightarrow> frame act" where
  "settle_task req bd token i cleanup =
     and_then clock (\<lambda>now. case settle_task_op req token i now of
       None \<Rightarrow> ret (unknown_kind (sq_Kind req))
     | Some f \<Rightarrow>
         and_then (on_budget bd f) (\<lambda>e. case e of
           Some e' \<Rightarrow> ret (settleReject (err_msg e'))
         | None \<Rightarrow> and_then (modify (cleanup \<circ> drop_job (sq_JobID req))) (\<lambda>_. ret (settleReply True []))))"

definition drop_budget :: "string \<Rightarrow> server \<Rightarrow> server" where
  "drop_budget token s = s\<lparr>sv_tokenBudget := AList.delete token (sv_tokenBudget s)\<rparr>"

definition drop_legs :: "string \<Rightarrow> server \<Rightarrow> server" where
  "drop_legs master s = s\<lparr>sv_tokenLegs := AList.delete master (sv_tokenLegs s)\<rparr>"

definition settleArrayTask :: "settleRequest \<Rightarrow> string \<Rightarrow> string \<Rightarrow> frame act" where
  "settleArrayTask req token bd = settle_task req bd token (sq_Idx req) (count_task token (drop_budget token))"

definition settleMultiSourceArrayTask :: "settleRequest \<Rightarrow> string \<Rightarrow> leg list \<Rightarrow> frame act" where
  "settleMultiSourceArrayTask req master legs =
     (case legForTask legs (sq_Idx req) of
        None \<Rightarrow> ret (settleReject (lit ''array task index out of range''))
      | Some (l, local) \<Rightarrow> settle_task req (lg_bd l) (lg_token l) local (count_task master (drop_legs master)))"

text \<open>The loop over the legs of a job: all are settled, the first error is kept. An unknown kind stops it.\<close>

definition leg_plans :: "leg list \<Rightarrow> legPlan list" where
  "leg_plans legs = map (\<lambda>(i, l). \<lparr>lp_Index = i, lp_W = lg_w l, lp_Cost = 0\<rparr>) (enumerate 0 legs)"

fun settle_legs :: "settleRequest \<Rightarrow> legPlan list \<Rightarrow> Seconds \<Rightarrow> nat \<Rightarrow> leg list \<Rightarrow> err option \<Rightarrow> (frame + err option) act" where
  "settle_legs req plan now i [] firstErr = ret (Inr firstErr)"
| "settle_legs req plan now i (l # ls) firstErr =
     (case settle_op (sq_Kind req) (lg_token l) (legRuntime plan i (sq_Runtime req)) (legRuntime plan i (sq_Elapsed req)) now of
        None \<Rightarrow> ret (Inl (unknown_kind (sq_Kind req)))
      | Some f \<Rightarrow>
          and_then (on_budget (lg_bd l) f) (\<lambda>e.
            settle_legs req plan now (Suc i) ls (if firstErr = None then e else firstErr)))"

definition handleSettleMultiSource :: "settleRequest \<Rightarrow> string \<Rightarrow> leg list \<Rightarrow> frame act" where
  "handleSettleMultiSource req master legs =
     (if sq_IsArrayTask req then settleMultiSourceArrayTask req master legs
      else and_then clock (\<lambda>now.
           and_then (settle_legs req (leg_plans legs) now 0 legs None) (\<lambda>res. case res of
             Inl fr \<Rightarrow> ret fr
           | Inr firstErr \<Rightarrow>
               and_then (modify (drop_legs master \<circ> drop_job (sq_JobID req))) (\<lambda>_.
                 ret (case firstErr of Some e \<Rightarrow> settleReject (err_msg e) | None \<Rightarrow> settleReply True [])))))"

definition settle_single :: "settleRequest \<Rightarrow> string \<Rightarrow> string \<Rightarrow> frame act" where
  "settle_single req token bd =
     and_then clock (\<lambda>now. case settle_op (sq_Kind req) token (sq_Runtime req) (sq_Elapsed req) now of
       None \<Rightarrow> ret (unknown_kind (sq_Kind req))
     | Some f \<Rightarrow>
         and_then (on_budget bd f) (\<lambda>e. case e of
           Some e' \<Rightarrow> ret (settleReject (err_msg e'))
         | None \<Rightarrow> and_then (modify (drop_budget token \<circ> drop_job (sq_JobID req))) (\<lambda>_. ret (settleReply True []))))"

text \<open>The token of the request, or the one its scheduler job is bound to.\<close>

definition settle_token :: "settleRequest \<Rightarrow> server \<Rightarrow> string" where
  "settle_token req s =
     (if sq_Token req = [] \<and> sq_JobID req \<noteq> []
      then (case map_of (sv_jobToToken s) (sq_JobID req) of None \<Rightarrow> [] | Some t \<Rightarrow> t)
      else sq_Token req)"

definition handleSettle :: "settleRequest option \<Rightarrow> frame act" where
  "handleSettle rq =
     (case rq of
        None \<Rightarrow> ret (settleReject (lit ''empty settle request''))
      | Some req \<Rightarrow>
          and_then (peek (settle_token req)) (\<lambda>token.
            if token = [] then ret (settleReject (lit ''no token: unknown job''))
            else and_then (peek (\<lambda>s. map_of (sv_tokenLegs s) token)) (\<lambda>multi. case multi of
                   Some legs \<Rightarrow> handleSettleMultiSource req token legs
                 | None \<Rightarrow>
                     and_then (budgetForToken token) (\<lambda>b. case b of
                       None \<Rightarrow> ret (settleReject (lit ''no such escrow''))
                     | Some bd \<Rightarrow> if sq_IsArrayTask req then settleArrayTask req token bd else settle_single req token bd))))"

end
