(* ===== verification/Server_Admin.thy ===== *)
theory Server_Admin
  imports Server Wire
begin

text \<open>
  The server, second part: the janitors' entry points, the queries, the administrative verbs, and the routing of a frame to its handler.
\<close>

section \<open>Janitors\<close>

text \<open>A sweep over the accounts; a panic in it ends the process.\<close>

definition on_sweep :: "(registry \<Rightarrow> registry \<times> nat \<times> outcome) \<Rightarrow> nat act" where
  "on_sweep f = on_reg (\<lambda>r. case f r of (r', n, Panic p) \<Rightarrow> (r', Inl p) | (r', n, _) \<Rightarrow> (r', Inr n))"

definition srv_SweepUnbound :: "Seconds \<Rightarrow> nat act" where
  "srv_SweepUnbound ttl = and_then clock (\<lambda>now. on_sweep (reg_SweepUnbound ttl now))"

definition reconcileReject :: "msg \<Rightarrow> frame" where
  "reconcileReject reason = frame0\<lparr>fr_MsgKind := KindReconcile, fr_ReconcileResp := Some (reconcileResponse0\<lparr>ocp_OK := False, ocp_Reason := reason\<rparr>)\<rparr>"

definition srv_requireAdmin :: "peerCred \<Rightarrow> msg option act" where
  "srv_requireAdmin peer = peek (\<lambda>s. requireAdmin (sv_ident s) peer (sv_reg s))"

definition srv_canRead :: "string \<Rightarrow> peerCred \<Rightarrow> bool act" where
  "srv_canRead account peer = peek (\<lambda>s. canRead (sv_ident s) account peer (sv_reg s))"

text \<open>The escrow keys of the live scheduler jobs: the token each is bound to, and the tokens of its legs.\<close>

definition live_keys :: "string list \<Rightarrow> server \<Rightarrow> string set" where
  "live_keys jids s =
     (\<Union>jid \<in> set jids. case map_of (sv_jobToToken s) jid of
        None \<Rightarrow> {}
      | Some tok \<Rightarrow> insert tok (case map_of (sv_tokenLegs s) tok of None \<Rightarrow> {} | Some legs \<Rightarrow> set (map lg_token legs)))"

definition handleReconcile :: "reconcileRequest option \<Rightarrow> peerCred \<Rightarrow> frame act" where
  "handleReconcile rq peer =
     (case rq of
        None \<Rightarrow> ret (reconcileReject (lit ''empty reconcile request''))
      | Some req \<Rightarrow>
          and_then (srv_requireAdmin peer) (\<lambda>a. case a of
            Some reason \<Rightarrow> ret (reconcileReject reason)
          | None \<Rightarrow>
              and_then (peek (live_keys (ocq_LiveJobIDs req))) (\<lambda>live.
              and_then clock (\<lambda>now.
              and_then (on_sweep (reg_SweepOrphans live OrphanRefundFull now)) (\<lambda>swept.
                ret (frame0\<lparr>fr_MsgKind := KindReconcile, fr_ReconcileResp := Some (reconcileResponse0\<lparr>ocp_OK := True, ocp_Swept := swept\<rparr>)\<rparr>))))))"

section \<open>Queries\<close>

definition statusReject :: "msg \<Rightarrow> frame" where
  "statusReject reason = frame0\<lparr>fr_MsgKind := KindStatus, fr_StatusResp := Some (statusResponse0\<lparr>stp_OK := False, stp_Reason := reason\<rparr>)\<rparr>"

definition statusReply :: "string \<Rightarrow> report \<Rightarrow> frame" where
  "statusReply account st =
     frame0\<lparr>fr_MsgKind := KindStatus, fr_StatusResp := Some
       \<lparr>stp_C = r_C st, stp_B0 = r_B0 st, stp_B = r_B st, stp_Reserved = r_Reserved st, stp_Consumed = r_Consumed st, stp_WriteOff = r_WriteOff st,
        stp_TS = r_TS st, stp_TE = r_TE st, stp_LiveEscrows = r_LiveEscrows st, stp_LiveArrays = r_LiveArrays st,
        stp_BurstEnabled = r_BurstEnabled st, stp_BurstPot = r_BurstPot st, stp_BurstCeiling = r_BurstCeiling st, stp_RLive = r_RLive st,
        stp_Lapsed = r_Lapsed st, stp_ConservationOK = r_ConservationOK st, stp_ConservationSum = r_ConservationSum st,
        stp_TimeToEmpty = TimeToEmpty st, stp_Account = account, stp_OK = True, stp_Reason = []\<rparr>\<rparr>"

text \<open>The account a query names, or the only one: its name and its budget.\<close>

definition status_account :: "statusRequest option \<Rightarrow> (msg + string \<times> string) act" where
  "status_account rq =
     (let account = (case rq of None \<Rightarrow> [] | Some req \<Rightarrow> stq_Account req)
      in if account \<noteq> [] then peek (\<lambda>s. case Resolve account (sv_reg s) of Inl e \<Rightarrow> Inl e | Inr bd \<Rightarrow> Inr (account, bd))
         else peek (\<lambda>s. case Single (sv_reg s) of
                          Some name \<Rightarrow> Inr (name, name)
                        | None \<Rightarrow> Inl (lit ''multiple accounts configured; specify --account'')))"

definition handleStatus :: "statusRequest option \<Rightarrow> peerCred \<Rightarrow> frame act" where
  "handleStatus rq peer =
     and_then (status_account rq) (\<lambda>res. case res of
       Inl e \<Rightarrow> ret (statusReject e)
     | Inr (account, bd) \<Rightarrow>
         and_then (srv_canRead account peer) (\<lambda>ok.
           if \<not> ok then ret (statusReject (lit (''not authorized to view account '' @ account)))
           else and_then clock (\<lambda>now. and_then (read_report bd now) (\<lambda>st. ret (statusReply account st)))))"

definition list_row :: "string \<Rightarrow> report \<Rightarrow> listAccount" where
  "list_row name st =
     \<lparr>la_Account = name, la_B = r_B st, la_B0 = r_B0 st, la_Reserved = r_Reserved st, la_Consumed = r_Consumed st,
      la_Live = r_LiveEscrows st + r_LiveArrays st, la_Lapsed = r_Lapsed st\<rparr>"

fun list_rows :: "peerCred \<Rightarrow> Seconds \<Rightarrow> string list \<Rightarrow> listAccount list act" where
  "list_rows peer now [] = ret []"
| "list_rows peer now (name # names) =
     and_then (srv_canRead name peer) (\<lambda>ok.
       if \<not> ok then list_rows peer now names
       else and_then (srv_resolve name) (\<lambda>res. case res of
              Inl _ \<Rightarrow> list_rows peer now names
            | Inr bd \<Rightarrow>
                and_then (read_report bd now) (\<lambda>st.
                and_then (list_rows peer now names) (\<lambda>rows. ret (list_row name st # rows)))))"

definition handleList :: "peerCred \<Rightarrow> frame act" where
  "handleList peer =
     and_then clock (\<lambda>now.
     and_then (peek (\<lambda>s. Names (sv_reg s))) (\<lambda>names.
     and_then (list_rows peer now names) (\<lambda>rows.
       ret (frame0\<lparr>fr_MsgKind := KindList, fr_ListResp := Some (listResponse0\<lparr>lsp_OK := True, lsp_Accounts := rows\<rparr>)\<rparr>))))"

definition logReject :: "msg \<Rightarrow> frame" where
  "logReject reason = frame0\<lparr>fr_MsgKind := KindLog, fr_LogResp := Some (logResponse0\<lparr>lgp_OK := False, lgp_Reason := reason\<rparr>)\<rparr>"

definition wire_entry :: "logEntry \<Rightarrow> wireLogEntry" where
  "wire_entry e =
     \<lparr>wl_Kind = le_Kind e, wl_JobID = le_JobID e, wl_ArrayID = le_ArrayID e, wl_Idx = le_Idx e, wl_N = le_N e, wl_Rate = le_Rate e, wl_W = le_W e,
      wl_Runtime = le_Runtime e, wl_Elapsed = le_Elapsed e, wl_Amount = le_Amount e, wl_TS = le_TS e, wl_TE = le_TE e, wl_Xfer = le_Xfer e,
      wl_Now = le_Now e\<rparr>"

text \<open>\<open>bd.Log()\<close> reads the log file of the budget's directory.\<close>

definition read_log :: "string \<Rightarrow> (msg + logEntry list) act" where
  "read_log bd =
     on_reg (\<lambda>r. (r, case map_of (rg_budgets r) bd of
                       None \<Rightarrow> Inl NilDereference
                     | Some b \<Rightarrow> (case Log b (wal_bytes b) of
                                    Inl (Panic p) \<Rightarrow> Inl p
                                  | Inl (Fail e) \<Rightarrow> Inr (Inl (err_msg e))
                                  | Inl Done \<Rightarrow> Inr (Inr [])
                                  | Inr es \<Rightarrow> Inr (Inr es))))"

definition log_account :: "logRequest option \<Rightarrow> string option act" where
  "log_account rq =
     (let account = (case rq of None \<Rightarrow> [] | Some req \<Rightarrow> lgq_Account req)
      in if account \<noteq> [] then ret (Some account) else peek (\<lambda>s. Single (sv_reg s)))"

definition handleLog :: "logRequest option \<Rightarrow> peerCred \<Rightarrow> frame act" where
  "handleLog rq peer =
     and_then (log_account rq) (\<lambda>acct. case acct of
       None \<Rightarrow> ret (logReject (lit ''multiple accounts configured; specify --account''))
     | Some account \<Rightarrow>
         and_then (srv_resolve account) (\<lambda>res. case res of
           Inl e \<Rightarrow> ret (logReject e)
         | Inr bd \<Rightarrow>
             and_then (srv_canRead account peer) (\<lambda>ok.
               if \<not> ok then ret (logReject (lit (''not authorized to view account '' @ account)))
               else and_then (read_log bd) (\<lambda>log. case log of
                      Inl e \<Rightarrow> ret (logReject e)
                    | Inr entries \<Rightarrow>
                        ret (frame0\<lparr>fr_MsgKind := KindLog,
                               fr_LogResp := Some (logResponse0\<lparr>lgp_OK := True, lgp_Account := account, lgp_Entries := map wire_entry entries\<rparr>)\<rparr>)))))"

text \<open>The rate the gate would use and where it comes from.\<close>

definition effectiveRate :: "string \<Rightarrow> tres \<Rightarrow> string \<Rightarrow> Seconds \<Rightarrow> (Units \<times> string) act" where
  "effectiveRate part t bd now =
     and_then (peek (\<lambda>s. (worstRate (sv_nodeCost s) part, weights_Rate (sv_weights s) t))) (\<lambda>(node, tr).
       if 0 <s node then ret (node, ''node-type worst-case'')
       else if 0 <s tr then ret (tr, ''tres'')
       else and_then (read_report bd now) (\<lambda>st. ret (r_C st, ''flat'')))"

definition resolveReply :: "resolveResponse \<Rightarrow> frame" where
  "resolveReply rp = frame0\<lparr>fr_MsgKind := KindResolve, fr_ResolveResp := Some rp\<rparr>"

definition resolveReject :: "msg \<Rightarrow> frame" where
  "resolveReject reason = resolveReply (resolveResponse0\<lparr>rp_OK := False, rp_Reason := reason\<rparr>)"

text \<open>The UTF-8 bytes of the arrow and of the less-or-equal sign in the texts.\<close>

definition arrow :: string where "arrow = [CHR 0xE2, CHR 0x86, CHR 0x92]"

definition at_most :: string where "at_most = [CHR 0xE2, CHR 0x89, CHR 0xA4]"

text \<open>The last switch of \<open>handleResolve\<close>.\<close>

definition resolve_verdict :: "resolveRequest \<Rightarrow> report \<Rightarrow> Units \<Rightarrow> string \<Rightarrow> msg option \<Rightarrow> bool \<Rightarrow> resolveResponse" where
  "resolve_verdict req st rt src areason inWindow =
     (let cost = (if 0 <s rq_TimeLimit req then rt * rq_TimeLimit req else 0);
          funded = (0 <s rq_TimeLimit req \<longrightarrow> cost \<le>s r_B st);
          resp = resolveResponse0\<lparr>rp_OK := True, rp_Account := rq_Account req, rp_Resolved := True, rp_Balance := r_B st, rp_Rate := rt,
                   rp_RateSource := src, rp_Authorized := (areason = None), rp_Cost := cost\<rparr>
      in case areason of
           Some m \<Rightarrow> resp\<lparr>rp_Admits := False, rp_Decision := m\<rparr>
         | None \<Rightarrow>
             if \<not> inWindow then resp\<lparr>rp_Admits := False, rp_Decision := lit (''budget window closed/lapsed '' @ arrow @ '' reject'')\<rparr>
             else if \<not> funded
             then resp\<lparr>rp_Admits := False,
                    rp_Decision := [PText ''insufficient budget: cost '', PInt cost, PText '' > balance '', PInt (r_B st)]\<rparr>
             else resp\<lparr>rp_Admits := True,
                    rp_Decision := (if 0 <s rq_TimeLimit req
                      then [PText (''admit: account '' @ rq_Account req @ '', rate ''), PInt rt, PText ('' ('' @ src @ ''), cost ''), PInt cost,
                            PText ('' '' @ at_most @ '' balance ''), PInt (r_B st)]
                      else [PText (''admit: resolves to '' @ rq_Account req @ '', rate ''), PInt rt,
                            PText ('' ('' @ src @ ''); pass --time-limit to check funding'')])\<rparr>)"

text \<open>\<open>s.now() >= st.TS && s.now() < st.TE && !st.Lapsed\<close>: the clock is read again for the second comparison.\<close>

definition in_window :: "report \<Rightarrow> bool act" where
  "in_window st =
     and_then clock (\<lambda>t1.
       if r_TS st \<le>s t1 then and_then clock (\<lambda>t2. ret (t2 <s r_TE st \<and> \<not> r_Lapsed st)) else ret False)"

definition handleResolve :: "resolveRequest option \<Rightarrow> peerCred \<Rightarrow> frame act" where
  "handleResolve rq peer =
     (case rq of
        None \<Rightarrow> ret (resolveReject (lit ''empty resolve request''))
      | Some req \<Rightarrow>
          and_then (srv_resolve (rq_Account req)) (\<lambda>res. case res of
            Inl e \<Rightarrow>
              ret (resolveReply (resolveResponse0\<lparr>rp_OK := True, rp_Account := rq_Account req, rp_Resolved := False, rp_Admits := False,
                     rp_Decision := lit (''no budget resolves for account '' @ rq_Account req @ '' '' @ arrow @ '' reject (no funded path)'')\<rparr>))
          | Inr bd \<Rightarrow>
              and_then (srv_canRead (rq_Account req) peer) (\<lambda>ok.
                if \<not> ok then ret (resolveReject (lit (''not authorized to view account '' @ rq_Account req)))
                else
                  and_then clock (\<lambda>t0.
                  and_then (read_report bd t0) (\<lambda>st.
                  and_then clock (\<lambda>t1.
                  and_then (effectiveRate (rq_Partition req) (rq_TRES req) bd t1) (\<lambda>(rt, src).
                  and_then (srv_authorize (rq_Account req) (rq_UID req)) (\<lambda>areason.
                  and_then (in_window st) (\<lambda>inWindow.
                    ret (resolveReply (resolve_verdict req st rt src areason inWindow)))))))))))"

definition simulateReject :: "msg \<Rightarrow> frame" where
  "simulateReject reason = frame0\<lparr>fr_MsgKind := KindSimulate, fr_SimulateResp := Some (simulateResponse0\<lparr>mp_OK := False, mp_Reason := reason\<rparr>)\<rparr>"

text \<open>A query of a budget that does not change it.\<close>

definition ask_budget :: "string \<Rightarrow> (budget \<Rightarrow> 'a) \<Rightarrow> 'a act" where
  "ask_budget bd f = on_reg (\<lambda>r. (r, case map_of (rg_budgets r) bd of None \<Rightarrow> Inl NilDereference | Some b \<Rightarrow> Inr (f b)))"

definition handleSimulate :: "simulateRequest option \<Rightarrow> peerCred \<Rightarrow> frame act" where
  "handleSimulate rq peer =
     (case rq of
        None \<Rightarrow> ret (simulateReject (lit ''empty simulate request''))
      | Some req \<Rightarrow>
          and_then (srv_resolve (mq_Account req)) (\<lambda>res. case res of
            Inl e \<Rightarrow> ret (simulateReject e)
          | Inr bd \<Rightarrow>
              and_then (srv_canRead (mq_Account req) peer) (\<lambda>ok.
                if \<not> ok then ret (simulateReject (lit (''not authorized to view account '' @ mq_Account req)))
                else
                  and_then clock (\<lambda>now.
                  and_then (effectiveRate (mq_Partition req) (mq_TRES req) bd now) (\<lambda>(rt, src).
                  and_then (ask_budget bd (Simulate rt (mq_TimeLimit req) now)) (\<lambda>sim.
                  and_then (read_report bd now) (\<lambda>st.
                    ret (frame0\<lparr>fr_MsgKind := KindSimulate, fr_SimulateResp := Some
                      \<lparr>mp_OK = True, mp_Reason = [], mp_Account = mq_Account req, mp_Rate = rt, mp_RateSource = src, mp_Cost = s_Cost sim,
                       mp_Balance = r_B st, mp_Admit = s_Admit sim, mp_Deny = s_Reason sim, mp_Runway = s_Runway sim\<rparr>\<rparr>))))))))"

definition dispatchReject :: "msg \<Rightarrow> frame" where
  "dispatchReject reason = frame0\<lparr>fr_MsgKind := KindDispatch, fr_DispatchResp := Some (dispatchResponse0\<lparr>dp_OK := False, dp_Reason := reason\<rparr>)\<rparr>"

definition handleDispatch :: "dispatchRequest option \<Rightarrow> peerCred \<Rightarrow> frame act" where
  "handleDispatch rq peer =
     (case rq of
        None \<Rightarrow> ret (dispatchReject (lit ''empty dispatch request''))
      | Some req \<Rightarrow>
          and_then (srv_resolve (dq_Account req)) (\<lambda>res. case res of
            Inl e \<Rightarrow> ret (dispatchReject e)
          | Inr bd \<Rightarrow>
              and_then (srv_canRead (dq_Account req) peer) (\<lambda>ok.
                if \<not> ok then ret (dispatchReject (lit (''not authorized to view account '' @ dq_Account req)))
                else
                  and_then clock (\<lambda>now.
                  and_then (effectiveRate (dq_Partition req) (dq_TRES req) bd now) (\<lambda>(rt, src).
                  and_then (ask_budget bd (MayDispatch rt (dq_TimeLimit req) now)) (\<lambda>v.
                    ret (frame0\<lparr>fr_MsgKind := KindDispatch, fr_DispatchResp := Some
                      \<lparr>dp_OK = True, dp_Reason = [], dp_Account = dq_Account req, dp_Rate = rt, dp_RateSource = src, dp_Dispatch = d_Dispatch v,
                       dp_Hold = d_Reason v, dp_Reserve = d_Reserve v, dp_Pot = d_Pot v\<rparr>\<rparr>)))))))"

section \<open>Administrative verbs\<close>

definition topUpReject :: "msg \<Rightarrow> frame" where
  "topUpReject reason = frame0\<lparr>fr_MsgKind := KindTopUp_w, fr_TopUpResp := Some (topUpResponse0\<lparr>tp_OK := False, tp_Reason := reason\<rparr>)\<rparr>"

definition handleTopUp :: "topUpRequest option \<Rightarrow> peerCred \<Rightarrow> frame act" where
  "handleTopUp rq peer =
     (case rq of
        None \<Rightarrow> ret (topUpReject (lit ''empty topup request''))
      | Some req \<Rightarrow>
          and_then (srv_requireAdmin peer) (\<lambda>a. case a of
            Some reason \<Rightarrow> ret (topUpReject reason)
          | None \<Rightarrow>
              and_then (srv_resolve (tq_Account req)) (\<lambda>res. case res of
                Inl e \<Rightarrow> ret (topUpReject e)
              | Inr bd \<Rightarrow>
                  and_then clock (\<lambda>now.
                  and_then (on_budget bd (TopUp (tq_Amount req) now)) (\<lambda>e. case e of
                    Some e' \<Rightarrow> ret (topUpReject (err_msg e'))
                  | None \<Rightarrow>
                      and_then clock (\<lambda>now'.
                      and_then (read_report bd now') (\<lambda>st.
                        ret (frame0\<lparr>fr_MsgKind := KindTopUp_w,
                               fr_TopUpResp := Some (topUpResponse0\<lparr>tp_OK := True, tp_NewBalance := r_B st, tp_NewB0 := r_B0 st\<rparr>)\<rparr>))))))))"

definition transferReject :: "msg \<Rightarrow> frame" where
  "transferReject reason = frame0\<lparr>fr_MsgKind := KindTransfer, fr_TransferResp := Some (transferResponse0\<lparr>xp_OK := False, xp_Reason := reason\<rparr>)\<rparr>"

definition srv_transfer :: "transferRequest \<Rightarrow> (msg + Units) act" where
  "srv_transfer req =
     on_reg (\<lambda>r. case Transfer (xq_From req) (xq_To req) (xq_Amount req) (xq_All req) r of
                   (r', _, Some (Crash p)) \<Rightarrow> (r', Inl p)
                 | (r', _, Some (Err e)) \<Rightarrow> (r', Inr (Inl e))
                 | (r', moved, None) \<Rightarrow> (r', Inr (Inr moved)))"

definition report_balance :: "string \<Rightarrow> Seconds \<Rightarrow> Units act" where
  "report_balance account now =
     and_then (srv_resolve account) (\<lambda>res. case res of
       Inl _ \<Rightarrow> ret 0
     | Inr bd \<Rightarrow> and_then (read_report bd now) (\<lambda>st. ret (r_B st)))"

definition handleTransfer :: "transferRequest option \<Rightarrow> peerCred \<Rightarrow> frame act" where
  "handleTransfer rq peer =
     (case rq of
        None \<Rightarrow> ret (transferReject (lit ''empty transfer request''))
      | Some req \<Rightarrow>
          and_then (srv_requireAdmin peer) (\<lambda>a. case a of
            Some reason \<Rightarrow> ret (transferReject reason)
          | None \<Rightarrow>
              and_then (srv_transfer req) (\<lambda>res. case res of
                Inl e \<Rightarrow> ret (transferReject e)
              | Inr moved \<Rightarrow>
                  and_then clock (\<lambda>now.
                  and_then (report_balance (xq_From req) now) (\<lambda>fromBal.
                  and_then (report_balance (xq_To req) now) (\<lambda>toBal.
                    ret (frame0\<lparr>fr_MsgKind := KindTransfer, fr_TransferResp := Some
                      (transferResponse0\<lparr>xp_OK := True, xp_Moved := moved, xp_FromBalance := fromBal, xp_ToBalance := toBal\<rparr>)\<rparr>)))))))"

definition ackReply :: "string \<Rightarrow> bool \<Rightarrow> msg \<Rightarrow> frame" where
  "ackReply kind ok reason = frame0\<lparr>fr_MsgKind := kind, fr_AckResp := Some \<lparr>ak_OK = ok, ak_Reason = reason\<rparr>\<rparr>"

text \<open>Whatever the verb, a rejected one is answered with the kind of \<^verbatim>\<open>set_rate\<close>.\<close>

definition ackReject :: "msg \<Rightarrow> frame" where
  "ackReject reason = ackReply KindSetRate_w False reason"

text \<open>The common body of the three verbs that change a setting of one account.\<close>

definition admin_setting :: "string \<Rightarrow> string \<Rightarrow> (Seconds \<Rightarrow> budget \<Rightarrow> budget \<times> outcome) \<Rightarrow> peerCred \<Rightarrow> frame act" where
  "admin_setting kind account f peer =
     and_then (srv_requireAdmin peer) (\<lambda>a. case a of
       Some reason \<Rightarrow> ret (ackReject reason)
     | None \<Rightarrow>
         and_then (srv_resolve account) (\<lambda>res. case res of
           Inl e \<Rightarrow> ret (ackReject e)
         | Inr bd \<Rightarrow>
             and_then clock (\<lambda>now.
             and_then (on_budget bd (f now)) (\<lambda>e. case e of
               Some e' \<Rightarrow> ret (ackReject (err_msg e'))
             | None \<Rightarrow> ret (ackReply kind True [])))))"

definition handleSetRate :: "setRateRequest option \<Rightarrow> peerCred \<Rightarrow> frame act" where
  "handleSetRate rq peer =
     (case rq of
        None \<Rightarrow> ret (ackReject (lit ''empty set-rate request''))
      | Some req \<Rightarrow> admin_setting KindSetRate_w (srq_Account req) (SetRate (srq_Rate req)) peer)"

definition handleSetWindow :: "setWindowRequest option \<Rightarrow> peerCred \<Rightarrow> frame act" where
  "handleSetWindow rq peer =
     (case rq of
        None \<Rightarrow> ret (ackReject (lit ''empty set-window request''))
      | Some req \<Rightarrow> admin_setting KindSetWindow_w (swq_Account req) (SetWindow (swq_TS req) (swq_TE req)) peer)"

definition handleSetBurst :: "setBurstRequest option \<Rightarrow> peerCred \<Rightarrow> frame act" where
  "handleSetBurst rq peer =
     (case rq of
        None \<Rightarrow> ret (ackReject (lit ''empty set-burst request''))
      | Some req \<Rightarrow> admin_setting KindSetBurst_w (sbq_Account req) (SetBurst (sbq_Enabled req) (sbq_CeilingPct req) (sbq_DrawCap req)) peer)"

definition create_config :: "createRequest \<Rightarrow> accountConfig" where
  "create_config req =
     \<lparr>ac_Name = cq_Account req, ac_Balance = cq_Balance req, ac_Rate = cq_Rate req, ac_Window = cq_Window req, ac_AllowUsers = cq_AllowUsers req,
      ac_AllowGroups = cq_AllowGroups req, ac_BurstEnabled = cq_BurstEnabled req, ac_BurstCeilingPct = cq_BurstCeilingPct req,
      ac_BurstDrawCap = cq_BurstDrawCap req\<rparr>"

definition srv_create :: "accountConfig \<Rightarrow> msg option act" where
  "srv_create a =
     on_reg (\<lambda>r. case Create a r of
                   (r', Some (Crash p)) \<Rightarrow> (r', Inl p)
                 | (r', Some (Err e)) \<Rightarrow> (r', Inr (Some e))
                 | (r', None) \<Rightarrow> (r', Inr None))"

definition handleCreate :: "createRequest option \<Rightarrow> peerCred \<Rightarrow> frame act" where
  "handleCreate rq peer =
     (case rq of
        None \<Rightarrow> ret (ackReject (lit ''empty create request''))
      | Some req \<Rightarrow>
          and_then (srv_requireAdmin peer) (\<lambda>a. case a of
            Some reason \<Rightarrow> ret (ackReject reason)
          | None \<Rightarrow>
              and_then (srv_create (create_config req)) (\<lambda>e. case e of
                Some e' \<Rightarrow> ret (ackReject e')
              | None \<Rightarrow> ret (ackReply KindCreate True []))))"

definition addAll :: "string list \<Rightarrow> string list \<Rightarrow> string list" where
  "addAll xs add = fold (\<lambda>v out. if contains out v then out else out @ [v]) add xs"

definition removeAll_strs :: "string list \<Rightarrow> string list \<Rightarrow> string list" where
  "removeAll_strs xs rm = filter (\<lambda>v. \<not> contains rm v) xs"

definition attachReply :: "attachResponse \<Rightarrow> frame" where
  "attachReply rp = frame0\<lparr>fr_MsgKind := KindAttach, fr_AttachResp := Some rp\<rparr>"

definition attachReject :: "msg \<Rightarrow> frame" where
  "attachReject reason = attachReply (attachResponse0\<lparr>ap_OK := False, ap_Reason := reason\<rparr>)"

definition handleAttach :: "attachRequest option \<Rightarrow> peerCred \<Rightarrow> frame act" where
  "handleAttach rq peer =
     (case rq of
        None \<Rightarrow> ret (attachReject (lit ''empty attach request''))
      | Some req \<Rightarrow>
          and_then (srv_requireAdmin peer) (\<lambda>a. case a of
            Some reason \<Rightarrow> ret (attachReject reason)
          | None \<Rightarrow>
              and_then (peek (\<lambda>s. accessOf (aq_Account req) (sv_reg s))) (\<lambda>acc. case acc of
                None \<Rightarrow> ret (attachReject (lit (''no budget for account: '' @ aq_Account req)))
              | Some ac \<Rightarrow>
                  let users = (if aq_Detach req then removeAll_strs (ac_AllowUsers ac) (aq_Users req) else addAll (ac_AllowUsers ac) (aq_Users req));
                      groups = (if aq_Detach req then removeAll_strs (ac_AllowGroups ac) (aq_Groups req) else addAll (ac_AllowGroups ac) (aq_Groups req))
                  in and_then (on_reg (\<lambda>r. case SetAccess (aq_Account req) users groups r of (r', e) \<Rightarrow> (r', Inr e))) (\<lambda>e. case e of
                       Some e' \<Rightarrow> ret (attachReject e')
                     | None \<Rightarrow> ret (attachReply (attachResponse0\<lparr>ap_OK := True, ap_AllowUsers := users, ap_AllowGroups := groups\<rparr>))))))"

section \<open>Routing\<close>

definition dispatch :: "frame \<Rightarrow> peerCred \<Rightarrow> frame act" where
  "dispatch req peer =
     (let k = fr_MsgKind req
      in if k = KindGate then handleGate (fr_Gate req)
         else if k = KindBind then handleBind (fr_Bind req)
         else if k = KindSettle then handleSettle (fr_Settle req)
         else if k = KindStatus then handleStatus (fr_Status req) peer
         else if k = KindTopUp_w then handleTopUp (fr_TopUp req) peer
         else if k = KindList then handleList peer
         else if k = KindLog then handleLog (fr_Log req) peer
         else if k = KindSetRate_w then handleSetRate (fr_SetRate req) peer
         else if k = KindSetWindow_w then handleSetWindow (fr_SetWindow req) peer
         else if k = KindSetBurst_w then handleSetBurst (fr_SetBurst req) peer
         else if k = KindResolve then handleResolve (fr_Resolve req) peer
         else if k = KindSimulate then handleSimulate (fr_Simulate req) peer
         else if k = KindCreate then handleCreate (fr_Create req) peer
         else if k = KindAttach then handleAttach (fr_Attach req) peer
         else if k = KindTransfer then handleTransfer (fr_Transfer req) peer
         else if k = KindDispatch then handleDispatch (fr_Dispatch req) peer
         else if k = KindReconcile then handleReconcile (fr_Reconcile req) peer
         else if k = KindPing then ret PingFrame
         else ret (frame0\<lparr>fr_MsgKind := k,
                     fr_GateResp := Some (gateResponse0\<lparr>gp_Allow := False, gp_Reason := [PText ''unknown request kind '', PQuoted k]\<rparr>)\<rparr>))"

definition isAdminKind :: "string \<Rightarrow> bool" where
  "isAdminKind k \<longleftrightarrow>
     k \<in> {KindTopUp_w, KindTransfer, KindCreate, KindAttach, KindSetRate_w, KindSetWindow_w, KindSetBurst_w, KindReconcile}"

definition rejectFrame :: "string \<Rightarrow> msg \<Rightarrow> frame" where
  "rejectFrame k reason =
     (if k = KindGate then gateReject reason
      else if k = KindTopUp_w then topUpReject reason
      else ackReply k False reason)"

definition dispatchTransport :: "frame \<Rightarrow> peerCred \<Rightarrow> bool \<Rightarrow> frame act" where
  "dispatchTransport req peer remote =
     (if \<not> remote then dispatch req peer
      else and_then (peek sv_authToken) (\<lambda>tok.
        if tok = [] \<or> fr_Auth req \<noteq> tok
        then ret (rejectFrame (fr_MsgKind req) (lit ''unauthorized: valid auth token required over TCP''))
        else if isAdminKind (fr_MsgKind req)
        then ret (rejectFrame (fr_MsgKind req) (lit ''admin verbs require a local connection (no verifiable identity over TCP)''))
        else dispatch req peer))"

section \<open>One connection\<close>

text \<open>
  The loop of \<open>handleConn\<close> on the bytes \<open>inp\<close> that arrive before the peer closes; \<open>out\<close> is the connection in the other direction. The
  connection is dropped at the first error of a read or a write. \<open>None\<close> is a loop that has not ended after \<open>fuel\<close> requests.
\<close>

fun handleConn ::
  "(frame \<Rightarrow> string) \<Rightarrow> (string \<Rightarrow> frame option) \<Rightarrow> peerCred \<Rightarrow> bool \<Rightarrow> nat \<Rightarrow> string \<Rightarrow> gofile \<Rightarrow> server \<Rightarrow> (server \<times> gofile \<times> panic option) option" where
  "handleConn enc dec peer remote 0 inp out s = None"
| "handleConn enc dec peer remote (Suc fuel) inp out s =
     (case ReadFrame dec inp of
        (Inl _, _) \<Rightarrow> Some (s, out, None)
      | (Inr req, inp') \<Rightarrow>
          (case dispatchTransport req peer remote s of
             (s', Inl p) \<Rightarrow> Some (s', out, Some p)
           | (s', Inr resp) \<Rightarrow>
               (case WriteFrame enc resp out of
                  (out', Some _) \<Rightarrow> Some (s', out', None)
                | (out', None) \<Rightarrow> handleConn enc dec peer remote fuel inp' out' s')))"

end
