(* ===== verification/Server_Spec.thy ===== *)
theory Server_Spec
  imports Server_Admin
begin

text \<open>
  What the server promises: it changes budgets by kernel transitions only, unauthorized requests change nothing, and every request gets the answer
  its sender reads.
\<close>

section \<open>The server adds no money logic of its own\<close>

named_theorems kept

text \<open>What is fixed when the server is set up.\<close>

definition setup_of :: "server \<Rightarrow> weights \<times> nodeCost option \<times> (uid \<Rightarrow> identity option) \<times> string" where
  "setup_of s = (sv_weights s, sv_nodeCost s, sv_ident s, sv_authToken s)"

definition keeps :: "'a act \<Rightarrow> bool" where
  "keeps m \<longleftrightarrow> (\<forall>s. evolves (sv_reg s) (sv_reg (fst (m s))) \<and> setup_of (fst (m s)) = setup_of s)"

text \<open>A change of the routing tables.\<close>

definition reroutes :: "(server \<Rightarrow> server) \<Rightarrow> bool" where
  "reroutes f \<longleftrightarrow> (\<forall>s. sv_reg (f s) = sv_reg s \<and> setup_of (f s) = setup_of s)"

lemma keeps_ret [kept]: "keeps (ret x)"
  by (simp add: keeps_def ret_def)

lemma keeps_peek [kept]: "keeps (peek f)"
  by (simp add: keeps_def peek_def)

lemma keeps_modify [kept]: "reroutes f \<Longrightarrow> keeps (modify f)"
  by (simp add: keeps_def modify_def reroutes_def)

lemma keeps_and_then [kept]:
  assumes "keeps m" "\<And>x. keeps (f x)"
  shows "keeps (and_then m f)"
proof (unfold keeps_def, intro allI)
  fix s
  obtain s' x where m: "m s = (s', x)" by fastforce
  have 1: "evolves (sv_reg s) (sv_reg s') \<and> setup_of s' = setup_of s" using assms(1) m by (metis keeps_def fst_conv)
  show "evolves (sv_reg s) (sv_reg (fst (and_then m f s))) \<and> setup_of (fst (and_then m f s)) = setup_of s"
  proof (cases x)
    case (Inr y)
    have "evolves (sv_reg s') (sv_reg (fst (f y s'))) \<and> setup_of (fst (f y s')) = setup_of s'" using assms(2) by (simp add: keeps_def)
    then show ?thesis using 1 m Inr evolves_trans by (fastforce simp: and_then_def)
  qed (use 1 m in \<open>simp add: and_then_def\<close>)
qed

lemma keeps_on_reg: "(\<And>r. evolves r (fst (f r))) \<Longrightarrow> keeps (on_reg f)"
  by (auto simp: keeps_def on_reg_def case_prod_beta setup_of_def)

lemma keeps_clock [kept]: "keeps clock"
  unfolding clock_def by (rule keeps_on_reg) (auto simp: case_prod_beta)

lemma keeps_mintToken [kept]: "keeps mintToken"
  unfolding mintToken_def by (rule keeps_on_reg) (auto simp: case_prod_beta)

lemma keeps_on_budget: "(\<And>r. evolves r (fst (call k f r))) \<Longrightarrow> keeps (on_budget k f)"
  unfolding on_budget_def by (rule keeps_on_reg) (auto simp: case_prod_beta split: outcome.splits)

lemmas keeps_methods [kept] = call_method_evolves [THEN keeps_on_budget]

lemma keeps_read_report [kept]: "keeps (read_report k now)"
proof -
  have "evolves r (fst (case call_Report k now r of (r', Panic p, _) \<Rightarrow> (r', Inl p) | (r', _, rep) \<Rightarrow> (r', Inr rep)))" for r
    using call_Report_evolves [of r k now] by (auto split: outcome.splits prod.splits)
  then show ?thesis unfolding read_report_def by (rule keeps_on_reg)
qed

lemma keeps_each [kept]: "(\<And>x. keeps (f x)) \<Longrightarrow> keeps (each f xs)"
  by (induction xs) (auto intro: kept)

lemma keeps_option [kept]: "keeps a \<Longrightarrow> (\<And>x. z = Some x \<Longrightarrow> keeps (b x)) \<Longrightarrow> keeps (case z of None \<Rightarrow> a | Some x \<Rightarrow> b x)"
  by (cases z) auto

lemma keeps_sum [kept]: "(\<And>x. keeps (a x)) \<Longrightarrow> (\<And>x. keeps (b x)) \<Longrightarrow> keeps (case z of Inl x \<Rightarrow> a x | Inr x \<Rightarrow> b x)"
  by (cases z) auto

lemma keeps_prod [kept]: "(\<And>x y. keeps (f x y)) \<Longrightarrow> keeps (case z of (x, y) \<Rightarrow> f x y)"
  by (cases z) auto

lemma keeps_bool [kept]: "keeps a \<Longrightarrow> keeps b \<Longrightarrow> keeps (case z of True \<Rightarrow> a | False \<Rightarrow> b)"
  by (cases z) auto

lemma keeps_if [kept]: "keeps a \<Longrightarrow> keeps b \<Longrightarrow> keeps (if z then a else b)"
  by auto

lemma keeps_queries [kept]:
  "keeps (srv_authorize a u)" "keeps (srv_resolve a)" "keeps (balances ks)" "keeps (budgetForToken t)"
  "keeps (srv_requireAdmin peer)" "keeps (srv_canRead a peer)" "keeps (log_account lq)" "keeps (status_account sq)"
  unfolding srv_authorize_def srv_resolve_def balances_def budgetForToken_def srv_requireAdmin_def srv_canRead_def log_account_def status_account_def Let_def
  by (intro kept)+

lemma keeps_asks [kept]: "keeps (read_log k)" "keeps (ask_budget k f)"
  unfolding read_log_def ask_budget_def by (intro keeps_on_reg; simp)+

subsection \<open>The gate, binding and settlement\<close>

lemma keeps_resolve_loop [kept]: "keeps (resolve_loop u first accts c)"
  by (induction accts arbitrary: first c) (auto intro!: kept)

lemma keeps_place_legs [kept]: "keeps (place_legs srcs bds master c now lps placed)"
  by (induction lps arbitrary: placed) (auto intro!: kept simp: Let_def rollback_def)

lemma keeps_place_array_legs [kept]: "keeps (place_array_legs req bds master c now lps firstTask placed)"
  by (induction lps arbitrary: firstTask placed) (auto intro!: kept simp: Let_def rollback_array_def)

lemma keeps_handleGate [kept]: "keeps (handleGate rq)"
  unfolding handleGate_def gate_single_def gate_place_def gate_submit_def handleGateMultiSource_def place_plan_def handleGateMultiSourceArray_def resolveSources_def Let_def
  by (intro kept; auto intro: kept simp: reroutes_def setup_of_def)

lemma keeps_start_task [kept]: "keeps (start_task bd token i)"
  unfolding start_task_def by (intro kept)

lemma keeps_bind_job [kept]: "keeps (bind_job req)"
  unfolding bind_job_def by (intro kept) (simp add: reroutes_def setup_of_def)

lemma keeps_handleBind [kept]: "keeps (handleBind rq)"
  unfolding handleBind_def handleBindMultiSource_def bind_single_def by (intro kept)

lemma keeps_settle_op:
  assumes "settle_op kind token rt el now = Some f"
  shows "keeps (on_budget bd f)"
  using assms by (auto simp: settle_op_def intro: kept split: if_splits)

lemma keeps_settle_task_op:
  assumes "settle_task_op req token i now = Some f"
  shows "keeps (on_budget bd f)"
  using assms by (auto simp: settle_task_op_def intro: kept split: if_splits)

lemma reroutes_drops:
  "reroutes (drop_job j)" "reroutes (drop_budget t)" "reroutes (drop_legs t)"
  by (simp_all add: reroutes_def setup_of_def drop_job_def drop_budget_def drop_legs_def)

lemma reroutes_count_task: "reroutes f \<Longrightarrow> reroutes (count_task token f)"
  by (auto simp: reroutes_def setup_of_def count_task_def split: option.splits)

lemma reroutes_comp: "reroutes f \<Longrightarrow> reroutes g \<Longrightarrow> reroutes (f \<circ> g)"
  by (simp add: reroutes_def)

lemmas rerouting = reroutes_drops reroutes_count_task reroutes_comp

lemma keeps_settle_task [kept]: "reroutes cleanup \<Longrightarrow> keeps (settle_task req bd token i cleanup)"
  unfolding settle_task_def by (auto intro!: kept rerouting elim: keeps_settle_task_op)

lemma keeps_settle_legs [kept]: "keeps (settle_legs req plan now i ls firstErr)"
  by (induction ls arbitrary: i firstErr) (auto intro!: kept dest: keeps_settle_op split: option.split)

lemma keeps_settle_single [kept]: "keeps (settle_single req token bd)"
  unfolding settle_single_def by (auto intro!: kept rerouting elim: keeps_settle_op)

lemma keeps_handleSettle [kept]: "keeps (handleSettle rq)"
  unfolding handleSettle_def handleSettleMultiSource_def settleMultiSourceArrayTask_def settleArrayTask_def
  by (intro kept rerouting)

subsection \<open>The other requests\<close>

lemma keeps_on_sweep:
  assumes "\<And>r. evolves r (fst (f r))"
  shows "keeps (on_sweep f)"
proof -
  have "evolves r (fst (case f r of (r', n, Panic p) \<Rightarrow> (r', Inl p) | (r', n, _) \<Rightarrow> (r', Inr n)))" for r
    using assms [of r] by (auto split: prod.splits outcome.splits)
  then show ?thesis unfolding on_sweep_def by (rule keeps_on_reg)
qed

lemmas keeps_sweeps [kept] = reg_sweeps_evolve [THEN keeps_on_sweep]

lemma keeps_srv_SweepUnbound: "keeps (srv_SweepUnbound ttl)"
  unfolding srv_SweepUnbound_def by (intro kept)

lemma keeps_list_rows [kept]: "keeps (list_rows peer now names)"
  by (induction names) (auto intro!: kept)

lemma keeps_effectiveRate [kept]: "keeps (effectiveRate part t bd now)"
  unfolding effectiveRate_def by (intro kept)

lemma keeps_in_window [kept]: "keeps (in_window st)"
  unfolding in_window_def by (intro kept)

lemma keeps_query_handlers [kept]:
  "keeps (handleReconcile rq peer)" "keeps (handleStatus sq peer)" "keeps (handleList peer)" "keeps (handleLog lq peer)"
  "keeps (handleResolve vq peer)" "keeps (handleSimulate mq peer)" "keeps (handleDispatch dq peer)"
  unfolding handleReconcile_def handleStatus_def handleList_def handleLog_def handleResolve_def handleSimulate_def handleDispatch_def
  by (intro kept)+

lemma Transfer_evolves: "evolves r (fst (Transfer from to amount al r))"
proof -
  have del: "evolves s (fst (deleteTransferRecord x s))" for x s
    using deleteTransferRecord_frame(1) [of x s] by (cases "deleteTransferRecord x s") (simp add: evolves_same)
  have wr: "evolves s (fst (writeTransferRecord rec s))" for rec s
    using writeTransferRecord_frame(1) [of rec s] by (cases "writeTransferRecord rec s") (simp add: evolves_same)
  have mint: "evolves s (snd (mintXferID s))" for s
    using rand_bytes_evolves [of s] by (simp add: mintXferID_def case_prod_beta)
  have legs: "evolves s (fst (transfer_legs kf kt rec s))" for kf kt rec s
  proof -
    have w: "evolves s (fst (withdraw_leg kf rec s))" and d: "evolves s' (fst (deposit_leg kt rec s'))" for s'
      by (simp_all add: withdraw_leg_def deposit_leg_def call_method_evolves)
    show ?thesis
      using w d [of "fst (withdraw_leg kf rec s)"] del [of "fst (withdraw_leg kf rec s)"]
        del [of "fst (deposit_leg kt rec (fst (withdraw_leg kf rec s)))" "tx_XferID rec"]
      by (auto simp: transfer_legs_def case_prod_beta intro: evolves_trans split: outcome.splits option.splits)
  qed
  have plan: "evolves r s2" if "mintXferID r = (x, s)" "writeTransferRecord rec (snd (reg_now s)) = (s2, e)" for x s rec s2 e
    using mint [of r] wr [of "snd (reg_now s)" rec] that by (metis evolves_trans fst_conv reg_now_evolves snd_conv)
  show ?thesis
    using mint [of r] by (auto simp: Transfer_def Let_def split: sum.splits prod.splits option.splits intro: plan evolves_trans [OF plan legs])
qed

lemma SetAccess_evolves: "evolves r (fst (SetAccess account users groups r))"
proof -
  have "rg_budgets s = rg_budgets r \<and> (snaps_sound (rg_disk r) \<longrightarrow> snaps_sound (rg_disk s))"
    if "writeAccountMeta path a r = (s, e)" for path a s e
    using writeAccountMeta_frame [OF that] writeAccountMeta_sound [OF that] by simp
  then show ?thesis
    by (intro evolves_same) (fastforce simp: SetAccess_def Let_def split: option.splits prod.splits)+
qed

lemma keeps_admin_acts [kept]:
  "keeps (srv_transfer req)" "keeps (srv_create a)"
  "keeps (on_reg (\<lambda>r. case SetAccess account users groups r of (r', e) \<Rightarrow> (r', Inr e)))"
proof -
  have "evolves r (fst (case Transfer (xq_From req) (xq_To req) (xq_Amount req) (xq_All req) r of
        (r', _, Some (Crash p)) \<Rightarrow> (r', Inl p) | (r', _, Some (Err e)) \<Rightarrow> (r', Inr (Inl e)) | (r', moved, None) \<Rightarrow> (r', Inr (Inr moved))))" for r
    using Transfer_evolves [of r "xq_From req" "xq_To req" "xq_Amount req" "xq_All req"]
    by (auto split: prod.splits option.splits fault.splits)
  then show "keeps (srv_transfer req)" unfolding srv_transfer_def by (rule keeps_on_reg)
  have "evolves r (fst (case Create a r of
        (r', Some (Crash p)) \<Rightarrow> (r', Inl p) | (r', Some (Err e)) \<Rightarrow> (r', Inr (Some e)) | (r', None) \<Rightarrow> (r', Inr None)))" for r
    using Create_evolves [of r a] by (auto split: prod.splits option.splits fault.splits)
  then show "keeps (srv_create a)" unfolding srv_create_def by (rule keeps_on_reg)
  show "keeps (on_reg (\<lambda>r. case SetAccess account users groups r of (r', e) \<Rightarrow> (r', Inr e)))"
    by (rule keeps_on_reg) (use SetAccess_evolves in \<open>auto simp: case_prod_beta\<close>)
qed

lemma keeps_report_balance [kept]: "keeps (report_balance a now)"
  unfolding report_balance_def by (intro kept)

lemma keeps_admin_setting: "(\<And>now k r. evolves r (fst (call k (f now) r))) \<Longrightarrow> keeps (admin_setting kind a f peer)"
  unfolding admin_setting_def by (intro kept keeps_on_budget)

lemma keeps_admin_handlers [kept]:
  "keeps (handleTopUp tq peer)" "keeps (handleTransfer xq peer)" "keeps (handleSetRate rq peer)" "keeps (handleSetWindow wq peer)"
  "keeps (handleSetBurst bq peer)" "keeps (handleCreate cq peer)" "keeps (handleAttach aq peer)"
  unfolding handleTopUp_def handleTransfer_def handleSetRate_def handleSetWindow_def handleSetBurst_def handleCreate_def handleAttach_def Let_def
  by (intro kept keeps_admin_setting call_method_evolves)+

lemma keeps_dispatchTransport: "keeps (dispatchTransport req peer remote)"
  unfolding dispatchTransport_def dispatch_def Let_def by (intro kept)

lemma dispatchTransport_evolves: "dispatchTransport req peer remote s = (s', x) \<Longrightarrow> evolves (sv_reg s) (sv_reg s')"
  using keeps_dispatchTransport by (metis fst_conv keeps_def)

lemma dispatchTransport_setup: "dispatchTransport req peer remote s = (s', x) \<Longrightarrow> setup_of s' = setup_of s"
  using keeps_dispatchTransport by (metis fst_conv keeps_def)

lemma handleConn_evolves:
  "handleConn enc dec peer remote fuel inp out s = Some (s', out', died) \<Longrightarrow> evolves (sv_reg s) (sv_reg s')"
proof (induction fuel arbitrary: inp out s)
  case (Suc fuel)
  obtain res inp1 where rd: "ReadFrame dec inp = (res, inp1)" by fastforce
  show ?case
  proof (cases res)
    case (Inr req)
    obtain s1 x where d: "dispatchTransport req peer remote s = (s1, x)" by fastforce
    note ev = dispatchTransport_evolves [OF d]
    show ?thesis
    proof (cases x)
      case (Inr resp)
      obtain out1 e where w: "WriteFrame enc resp out = (out1, e)" by fastforce
      then show ?thesis
        using Suc.prems rd \<open>res = Inr req\<close> d Inr ev Suc.IH by (cases e) (auto intro: evolves_trans)
    qed (use Suc.prems rd Inr d ev in auto)
  qed (use Suc.prems rd in auto)
qed simp

lemma kernel_inv_checks: "kernel_inv bd \<Longrightarrow> fst (ConservationOK bd) \<and> fst (ConservationOKArrays bd)"
  by (auto simp: kernel_inv_def ConservationOK_def ConservationOKArrays_def array_inv_def elim!: mall_mono)

text \<open>
  A connection cannot break the books of any account. Whatever bytes arrive on a connection, local or remote, from whomever, and even if a
  request kills the daemon: every account is still there, its budget has changed only by transitions of the kernel, and if its books
  balanced before, they balance after.
\<close>

lemma connection_conserves:
  assumes "handleConn enc dec peer remote fuel inp out s = Some (s', out', died)" "map_of (rg_budgets (sv_reg s)) k = Some bd" "kernel_inv bd"
  shows "\<exists>bd'. map_of (rg_budgets (sv_reg s')) k = Some bd' \<and> reaches exec bd bd' \<and> fst (ConservationOK bd') \<and> fst (ConservationOKArrays bd')"
proof -
  obtain bd' where bd': "map_of (rg_budgets (sv_reg s')) k = Some bd'" "reaches exec bd bd'"
    using handleConn_evolves [OF assms(1)] assms(2) by (auto simp: evolves_def)
  then show ?thesis using kernel_inv_checks [OF books.reaches_inv [OF bd'(2) assms(3)]] by blast
qed

lemma ReadFrame_shorter: "ReadFrame dec r = (Inr f, rest) \<Longrightarrow> length rest + 8 \<le> length r"
  by (auto simp: ReadFrame_def Let_def split: if_splits option.splits)

text \<open>
  C35: a connection whose peer closes is served to its end. On any finite input the loop stops after at most one round per eight bytes and one more, and
  its result does not depend on how many rounds it is allowed beyond that.
\<close>

theorem handleConn_terminates:
  assumes "length inp div 8 < fuel"
  shows "\<exists>res. handleConn enc dec peer remote fuel inp out s = Some res
    \<and> handleConn enc dec peer remote (fuel + more_fuel) inp out s = Some res"
  using assms
proof (induction fuel arbitrary: inp out s)
  case (Suc fuel)
  obtain res inp1 where rd: "ReadFrame dec inp = (res, inp1)" by fastforce
  show ?case
  proof (cases res)
    case (Inr req)
    have "length inp1 + 8 \<le> length inp" using ReadFrame_shorter rd Inr by blast
    then have lt: "length inp1 div 8 < fuel" using Suc.prems div_le_mono [of "length inp1 + 8" "length inp" 8] by simp
    obtain s1 x where d: "dispatchTransport req peer remote s = (s1, x)" by fastforce
    show ?thesis
    proof (cases x)
      case (Inr resp)
      obtain out1 e where w: "WriteFrame enc resp out = (out1, e)" by fastforce
      then show ?thesis using rd \<open>res = Inr req\<close> d Inr Suc.IH [OF lt] by (cases e) auto
    qed (use rd Inr d in auto)
  qed (use rd in auto)
qed simp

section \<open>Refused requests change nothing\<close>

text \<open>A frame that grants something.\<close>

definition accepting :: "frame \<Rightarrow> bool" where
  "accepting fr \<longleftrightarrow>
     (\<exists>x. fr_GateResp fr = Some x \<and> gp_Allow x) \<or> (\<exists>x. fr_TopUpResp fr = Some x \<and> tp_OK x) \<or> (\<exists>x. fr_AckResp fr = Some x \<and> ak_OK x)
     \<or> (\<exists>x. fr_AttachResp fr = Some x \<and> ap_OK x) \<or> (\<exists>x. fr_TransferResp fr = Some x \<and> xp_OK x)
     \<or> (\<exists>x. fr_ReconcileResp fr = Some x \<and> ocp_OK x)"

lemmas reject_defs =
  gateReject_def topUpReject_def ackReject_def ackReply_def attachReject_def attachReply_def transferReject_def reconcileReject_def rejectFrame_def

lemma rejects_nothing [simp]:
  "\<not> accepting (gateReject m)" "\<not> accepting (topUpReject m)" "\<not> accepting (ackReject m)" "\<not> accepting (ackReply k False m)"
  "\<not> accepting (attachReject m)" "\<not> accepting (transferReject m)" "\<not> accepting (reconcileReject m)" "\<not> accepting (rejectFrame k m)"
  by (simp_all add: accepting_def reject_defs gateResponse0_def topUpResponse0_def attachResponse0_def transferResponse0_def reconcileResponse0_def frame0_def)

definition refused :: "frame act \<Rightarrow> server \<Rightarrow> bool" where
  "refused m s \<longleftrightarrow> fst (m s) = s \<and> (\<exists>fr. snd (m s) = Inr fr \<and> \<not> accepting fr)"

lemma refused_ret: "\<not> accepting fr \<Longrightarrow> refused (ret fr) s"
  by (simp add: refused_def ret_def)

lemma refused_guard:
  assumes "requireAdmin (sv_ident s) peer (sv_reg s) = Some e" "\<not> accepting (rej e)"
  shows "refused (and_then (srv_requireAdmin peer) (\<lambda>a. case a of Some reason \<Rightarrow> ret (rej reason) | None \<Rightarrow> m)) s"
  using assms by (simp add: refused_def and_then_def srv_requireAdmin_def peek_def ret_def)

lemma refused_admin_handlers:
  assumes "requireAdmin (sv_ident s) peer (sv_reg s) \<noteq> None"
  shows "refused (handleTopUp tq peer) s" "refused (handleTransfer xq peer) s" "refused (handleSetRate rq peer) s" "refused (handleSetWindow wq peer) s"
    "refused (handleSetBurst bq peer) s" "refused (handleCreate cq peer) s" "refused (handleAttach aq peer) s" "refused (handleReconcile oq peer) s"
  using assms
  by (auto simp: handleTopUp_def handleTransfer_def handleSetRate_def handleSetWindow_def handleSetBurst_def handleCreate_def handleAttach_def
      handleReconcile_def admin_setting_def intro: refused_ret refused_guard split: option.split)

lemma dispatch_admin_refused:
  assumes "isAdminKind (fr_MsgKind req)" "requireAdmin (sv_ident s) peer (sv_reg s) \<noteq> None"
  shows "refused (dispatch req peer) s"
  using assms(1) refused_admin_handlers [OF assms(2)] unfolding isAdminKind_def dispatch_def Let_def
  by (auto simp: wire_kind_defs)

lemma remote_refused:
  assumes "sv_authToken s = [] \<or> fr_Auth req \<noteq> sv_authToken s \<or> isAdminKind (fr_MsgKind req)"
  shows "refused (dispatchTransport req peer True) s"
  using assms by (auto simp: refused_def dispatchTransport_def and_then_def peek_def ret_def)

text \<open>
  C32: a request that is not allowed changes nothing at all, not even the clock, and is answered with a refusal. Over TCP that is every request without the
  configured token (all of them when no token is configured) and every administrative verb; on the local socket it is every administrative
  verb of a peer that is not an administrator.
\<close>

theorem unauthorized_requests_change_nothing:
  assumes "remote \<and> (sv_authToken s = [] \<or> fr_Auth req \<noteq> sv_authToken s) \<or> isAdminKind (fr_MsgKind req)
      \<and> (remote \<or> requireAdmin (sv_ident s) peer (sv_reg s) \<noteq> None)"
  shows "fst (dispatchTransport req peer remote s) = s \<and> (\<exists>fr. snd (dispatchTransport req peer remote s) = Inr fr \<and> \<not> accepting fr)"
proof (cases remote)
  case True
  then show ?thesis using assms remote_refused [of s req] by (auto simp: refused_def)
next
  case False
  then show ?thesis using assms dispatch_admin_refused [of req s peer] by (auto simp: dispatchTransport_def refused_def)
qed

section \<open>Every request is answered in its own field\<close>

text \<open>What a handler returns when it returns.\<close>

named_theorems yielding

definition yields :: "'a act \<Rightarrow> ('a \<Rightarrow> bool) \<Rightarrow> bool" where
  "yields m Q \<longleftrightarrow> (\<forall>s s' x. m s = (s', Inr x) \<longrightarrow> Q x)"

lemma yields_ret [yielding]: "Q x \<Longrightarrow> yields (ret x) Q"
  by (simp add: yields_def ret_def)

lemma yields_and_then: "yields m P \<Longrightarrow> (\<And>x. P x \<Longrightarrow> yields (f x) Q) \<Longrightarrow> yields (and_then m f) Q"
  by (fastforce simp: yields_def and_then_def split: prod.splits sum.splits)

lemma yields_last [yielding]: "(\<And>x. yields (f x) Q) \<Longrightarrow> yields (and_then m f) Q"
  by (rule yields_and_then [of _ "\<lambda>_. True"]) (auto simp: yields_def)

lemma yields_cases [yielding]:
  "yields a Q \<Longrightarrow> (\<And>x. yields (b x) Q) \<Longrightarrow> yields (case z of None \<Rightarrow> a | Some x \<Rightarrow> b x) Q"
  "(\<And>x. w = Inl x \<Longrightarrow> yields (c x) Q) \<Longrightarrow> (\<And>x. w = Inr x \<Longrightarrow> yields (d x) Q) \<Longrightarrow> yields (case w of Inl x \<Rightarrow> c x | Inr x \<Rightarrow> d x) Q"
  "(\<And>x y. yields (f x y) Q) \<Longrightarrow> yields (case p of (x, y) \<Rightarrow> f x y) Q"
  "yields a Q \<Longrightarrow> yields e Q \<Longrightarrow> yields (case t of True \<Rightarrow> a | False \<Rightarrow> e) Q"
  "(t \<Longrightarrow> yields a Q) \<Longrightarrow> (\<not> t \<Longrightarrow> yields e Q) \<Longrightarrow> yields (if t then a else e) Q"
  by (cases z; cases w; cases p; cases t; simp)+

text \<open>
  The field of the frame the sender of a request of kind \<open>k\<close> reads. Rejected settings and creations are labelled \<^verbatim>\<open>set_rate\<close>; the label of every
  other answer is the label of its request.
\<close>

definition answers :: "string \<Rightarrow> frame \<Rightarrow> bool" where
  "answers k fr \<longleftrightarrow>
     (if k = KindBind then fr_BindResp fr \<noteq> None else if k = KindSettle then fr_SettleResp fr \<noteq> None
      else if k = KindStatus then fr_StatusResp fr \<noteq> None else if k = KindTopUp_w then fr_TopUpResp fr \<noteq> None
      else if k = KindList then fr_ListResp fr \<noteq> None else if k = KindLog then fr_LogResp fr \<noteq> None
      else if k \<in> {KindSetRate_w, KindSetWindow_w, KindSetBurst_w, KindCreate} then fr_AckResp fr \<noteq> None
      else if k = KindResolve then fr_ResolveResp fr \<noteq> None else if k = KindSimulate then fr_SimulateResp fr \<noteq> None
      else if k = KindAttach then fr_AttachResp fr \<noteq> None else if k = KindTransfer then fr_TransferResp fr \<noteq> None
      else if k = KindDispatch then fr_DispatchResp fr \<noteq> None else if k = KindReconcile then fr_ReconcileResp fr \<noteq> None
      else if k = KindPing then True else fr_GateResp fr \<noteq> None)
     \<and> (fr_MsgKind fr = k \<or> k \<in> {KindSetWindow_w, KindSetBurst_w, KindCreate} \<and> fr = ackReject (ak_Reason (the (fr_AckResp fr))))"

definition gate_answer :: "frame \<Rightarrow> bool" where
  "gate_answer fr \<longleftrightarrow> fr_GateResp fr \<noteq> None \<and> fr_MsgKind fr = KindGate"

abbreviation gate_or :: "frame + 'a \<Rightarrow> bool" where
  "gate_or res \<equiv> (\<forall>fr. res = Inl fr \<longrightarrow> gate_answer fr)"

lemma gate_frames [simp]: "gate_answer (gateReject m)" "gate_answer (gateAllow t)"
  by (simp_all add: gate_answer_def gateReject_def gateAllow_def)

lemma yields_gate_loops:
  "yields (resolve_loop u first accts c) gate_or" "yields (place_legs srcs bds master c' now lps placed) gate_or"
  "yields (place_array_legs req bds master c' now lps firstTask placed) gate_or"
proof -
  show "yields (resolve_loop u first accts c) gate_or"
  proof (induction accts arbitrary: first c)
    case (Cons acct accts)
    show ?case
      by (auto intro!: yielding yields_and_then [OF Cons.IH] split: sum.splits)
  qed (auto intro: yielding)
  show "yields (place_legs srcs bds master c' now lps placed) gate_or"
    by (induction lps arbitrary: placed) (auto simp: Let_def intro!: yielding)
  show "yields (place_array_legs req bds master c' now lps firstTask placed) gate_or"
    by (induction lps arbitrary: firstTask placed) (auto simp: Let_def intro!: yielding)
qed

lemma yields_handleGate: "yields (handleGate rq) gate_answer"
  unfolding handleGate_def gate_single_def gate_place_def gate_submit_def handleGateMultiSource_def place_plan_def handleGateMultiSourceArray_def resolveSources_def Let_def
  by (auto intro!: yielding intro!: yields_and_then [OF yields_last [OF yields_gate_loops(1)]] yields_and_then [OF yields_gate_loops(2)]
      yields_and_then [OF yields_gate_loops(3)])

lemma yields_settle_legs: "yields (settle_legs req plan now i ls firstErr) (\<lambda>res. \<forall>fr. res = Inl fr \<longrightarrow> answers KindSettle fr)"
  by (induction ls arbitrary: i firstErr)
    (auto simp: unknown_kind_def settleReject_def settleReply_def answers_def wire_kind_defs intro!: yielding)

lemma answer_frames [simp]:
  "answers KindBind (bindReply ok m)" "answers KindSettle (settleReply ok m)" "answers KindSettle (settleReject m)" "answers KindSettle (unknown_kind k)"
  "answers KindStatus (statusReject m)" "answers KindStatus (statusReply a st)" "answers KindTopUp_w (topUpReject m)"
  "answers KindLog (logReject m)" "answers KindSetRate_w (ackReject m)" "answers KindSetWindow_w (ackReject m)" "answers KindSetBurst_w (ackReject m)"
  "answers KindCreate (ackReject m)" "answers KindResolve (resolveReject m)" "answers KindResolve (resolveReply rp)"
  "answers KindSimulate (simulateReject m)" "answers KindAttach (attachReject m)" "answers KindAttach (attachReply ar)" "answers KindTransfer (transferReject m)"
  "answers KindDispatch (dispatchReject m)" "answers KindReconcile (reconcileReject m)"
  "answers KindList (frame0\<lparr>fr_MsgKind := KindList, fr_ListResp := Some lp\<rparr>)" "answers KindLog (frame0\<lparr>fr_MsgKind := KindLog, fr_LogResp := Some gp\<rparr>)"
  "answers KindSimulate (frame0\<lparr>fr_MsgKind := KindSimulate, fr_SimulateResp := Some mp\<rparr>)"
  "answers KindDispatch (frame0\<lparr>fr_MsgKind := KindDispatch, fr_DispatchResp := Some dp\<rparr>)"
  "answers KindReconcile (frame0\<lparr>fr_MsgKind := KindReconcile, fr_ReconcileResp := Some op\<rparr>)"
  "answers KindTopUp_w (frame0\<lparr>fr_MsgKind := KindTopUp_w, fr_TopUpResp := Some tp\<rparr>)"
  "answers KindTransfer (frame0\<lparr>fr_MsgKind := KindTransfer, fr_TransferResp := Some xp\<rparr>)"
  "answers KindSetRate_w (ackReply KindSetRate_w b m)" "answers KindSetWindow_w (ackReply KindSetWindow_w b m)"
  "answers KindSetBurst_w (ackReply KindSetBurst_w b m)" "answers KindCreate (ackReply KindCreate b m)" "answers KindPing PingFrame"
  by (simp_all add: PingFrame_def answers_def wire_kind_defs bindReply_def settleReply_def settleReject_def unknown_kind_def statusReject_def statusReply_def topUpReject_def
      logReject_def ackReject_def ackReply_def resolveReject_def resolveReply_def simulateReject_def attachReject_def attachReply_def transferReject_def
      dispatchReject_def reconcileReject_def)

lemma yields_job_handlers:
  "yields (handleBind bq) (answers KindBind)" "yields (handleSettle sq) (answers KindSettle)"
proof -
  show "yields (handleBind bq) (answers KindBind)"
    unfolding handleBind_def handleBindMultiSource_def bind_single_def start_task_def by (auto intro!: yielding)
  show "yields (handleSettle sq) (answers KindSettle)"
    unfolding handleSettle_def handleSettleMultiSource_def settleMultiSourceArrayTask_def settleArrayTask_def settle_task_def settle_single_def
    by (auto intro!: yielding intro!: yields_and_then [OF yields_settle_legs] split: option.split)
qed

lemma yields_query_handlers:
  "yields (handleStatus stq peer) (answers KindStatus)" "yields (handleList peer) (answers KindList)" "yields (handleLog lq peer) (answers KindLog)"
  "yields (handleResolve vq peer) (answers KindResolve)" "yields (handleSimulate mq peer) (answers KindSimulate)"
  "yields (handleDispatch dq peer) (answers KindDispatch)" "yields (handleReconcile oq peer) (answers KindReconcile)"
  unfolding handleStatus_def handleList_def handleLog_def handleResolve_def handleSimulate_def handleDispatch_def handleReconcile_def
  by (intro yielding; simp only: answer_frames)+

lemma yields_admin_handlers:
  "yields (handleTopUp tq peer) (answers KindTopUp_w)" "yields (handleTransfer xq peer) (answers KindTransfer)"
  "yields (handleSetRate rq peer) (answers KindSetRate_w)" "yields (handleSetWindow wq peer) (answers KindSetWindow_w)"
  "yields (handleSetBurst bq peer) (answers KindSetBurst_w)" "yields (handleCreate cq peer) (answers KindCreate)"
  "yields (handleAttach aq peer) (answers KindAttach)"
  unfolding handleTopUp_def handleTransfer_def handleAttach_def handleSetRate_def handleSetWindow_def handleSetBurst_def handleCreate_def admin_setting_def Let_def
  by (intro yielding; simp only: answer_frames)+

lemma yields_gate: "yields (handleGate gq) (answers KindGate)"
  using yields_handleGate [of gq] by (auto simp: yields_def gate_answer_def answers_def wire_kind_defs)


section \<open>A server in use\<close>

text \<open>A budget of 1000 units at 2 units a second behind a local socket at time 5, and a job of 10 seconds.\<close>

definition desk :: server where
  "desk = NewServer (New 2 1000 0 100) \<lparr>e_clock = (\<lambda>_. 5), e_ticks = 0, e_rand = (\<lambda>n. Some (replicate 16 (char_of n))), e_draws = 0, e_io = []\<rparr> three_users"

definition job :: gateRequest where
  "job = \<lparr>gq_Account = ''default'', gq_Partition = [], gq_UID = 1, gq_TimeLimit = 10, gq_TRES = \<lparr>tr_CPUs = 0, tr_GPUs = 0, tr_Mem = 0\<rparr>,
     gq_NTasks = 0, gq_Sources = []\<rparr>"

definition local_peer :: peerCred where
  "local_peer = \<lparr>pr_UID = 1, pr_GID = 1, pr_Available = True\<rparr>"

definition one_message :: "frame \<Rightarrow> string \<Rightarrow> frame option" where
  "one_message f p = (if p = ''m'' then Some (f\<lparr>fr_Version := 1\<rparr>) else None)"

lemma desk_budget: "map_of (rg_budgets (sv_reg desk)) ''default'' = Some (New 2 1000 0 100)"
  by (simp add: desk_def NewServer_def NewWithWeights_def NewWithRegistry_def)

theorem handleConn_terminates_witness:
  "\<exists>res. handleConn fr_MsgKind (one_message PingFrame) local_peer False 2 (frame_bytes ''m'') (open_file []) desk = Some res"
proof -
  have "length (frame_bytes ''m'') div 8 < 2" by (simp add: frame_bytes_def frame_hdr_def put_le32_def)
  then show ?thesis using handleConn_terminates by blast
qed

theorem unauthorized_requests_change_nothing_witness:
  "fst (dispatchTransport (TopUpFrame ''default'' 5) local_peer True (SetAuthToken ''secret'' desk)) = SetAuthToken ''secret'' desk
   \<and> fst (dispatchTransport (GateFrame job) local_peer True (SetAuthToken ''secret'' desk)) = SetAuthToken ''secret'' desk"
proof -
  have 1: "isAdminKind (fr_MsgKind (TopUpFrame ''default'' 5))" by (simp add: isAdminKind_def TopUpFrame_def)
  have 2: "fr_Auth (GateFrame job) \<noteq> sv_authToken (SetAuthToken ''secret'' desk)" by (simp add: GateFrame_def frame0_def SetAuthToken_def)
  show ?thesis
    using unauthorized_requests_change_nothing [of True "SetAuthToken ''secret'' desk" "TopUpFrame ''default'' 5" local_peer]
      unauthorized_requests_change_nothing [of True "SetAuthToken ''secret'' desk" "GateFrame job" local_peer] 1 2
    by blast
qed


end
