(* ===== verification/Server_Jobs.thy ===== *)
theory Server_Jobs
  imports Server_Spec
begin

text \<open>
  The life of a job at the server: what the gate's answer means for the books, that a job paid by several accounts is funded entirely or not at
  all, that array tasks are owned by exactly one leg, and that a settlement is final.
\<close>

section \<open>What a run of an act did\<close>

lemma and_then_Inr: "and_then m f s = (s', Inr y) \<longleftrightarrow> (\<exists>s1 x. m s = (s1, Inr x) \<and> f x s1 = (s', Inr y))"
  by (auto simp: and_then_def split: prod.splits sum.splits)

lemma ret_Inr: "ret x s = (s', Inr y) \<longleftrightarrow> s' = s \<and> y = x"
  by (auto simp: ret_def)

lemma peek_Inr: "peek f s = (s', Inr y) \<longleftrightarrow> s' = s \<and> y = f s"
  by (auto simp: peek_def)

lemma modify_Inr: "modify f s = (s', Inr y) \<longleftrightarrow> s' = f s"
  by (auto simp: modify_def)

lemma clock_Inr: "clock s = (s', Inr t) \<longleftrightarrow> s' = s\<lparr>sv_reg := snd (reg_now (sv_reg s))\<rparr> \<and> t = fst (reg_now (sv_reg s))"
  by (auto simp: clock_def on_reg_def case_prod_beta)

lemma mintToken_Inr:
  "mintToken s = (s', Inr t) \<longleftrightarrow> s' = s\<lparr>sv_reg := snd (rand_bytes (sv_reg s))\<rparr>
     \<and> t = map_option token_of (fst (rand_bytes (sv_reg s)))"
  by (auto simp: mintToken_def on_reg_def case_prod_beta)

lemma on_budget_Inr:
  "on_budget k f s = (s', Inr e) \<longleftrightarrow> (\<exists>b. map_of (rg_budgets (sv_reg s)) k = Some b
     \<and> s' = s\<lparr>sv_reg := put_budget k (fst (f b)) (sv_reg s)\<rparr>
     \<and> (e = None \<and> snd (f b) = Done \<or> (\<exists>e'. e = Some e' \<and> snd (f b) = Fail e')))"
  by (cases "map_of (rg_budgets (sv_reg s)) k")
    (auto simp: on_budget_def on_reg_def call_def case_prod_beta split: outcome.splits)

lemma read_report_Inr:
  "read_report k now s = (s', Inr st) \<Longrightarrow> \<exists>b. map_of (rg_budgets (sv_reg s)) k = Some b
     \<and> s' = s\<lparr>sv_reg := put_budget k (fst (accrue now b)) (sv_reg s)\<rparr> \<and> st = report_of (fst (accrue now b))"
  by (cases "map_of (rg_budgets (sv_reg s)) k")
    (auto simp: read_report_def on_reg_def call_Report_def Report_def case_prod_beta split: outcome.splits)

lemmas act_Inr = and_then_Inr ret_Inr peek_Inr modify_Inr clock_Inr mintToken_Inr on_budget_Inr

section \<open>Books while a job's legs are placed\<close>

text \<open>The log takes every record that is not too long, and burst accounting does not divide by zero.\<close>

definition log_steady :: "budget \<Rightarrow> bool" where
  "log_steady b \<longleftrightarrow> (BurstEnabled b \<longrightarrow> window b \<noteq> 0) \<and> (case wal_of b of None \<Rightarrow> True | Some w \<Rightarrow> healthy w)"

definition cancel_cmd :: "string \<Rightarrow> Seconds \<Rightarrow> command" where
  "cancel_cmd tok now = cmd0\<lparr>c_Kind := KindCancel, c_JobID := tok, c_Elapsed := 0, c_Now := now\<rparr>"

definition small :: "command \<Rightarrow> bool" where
  "small c \<longleftrightarrow> int (length (marshal_Command c)) < 2 ^ 32"

lemma healthy_Append: "healthy w \<Longrightarrow> healthy (fst (Append c w)) \<and> (small c \<longrightarrow> snd (Append c w) = None)"
  by (auto simp: healthy_def small_def Append_no_fault Let_def)

lemma logCmd_steady: "log_steady b \<Longrightarrow> log_steady (fst (logCmd c b)) \<and> (small c \<longrightarrow> snd (logCmd c b) = None)"
  using healthy_Append by (auto simp: log_steady_def logCmd_def window_def case_prod_beta split: option.splits)

lemma steady_cong: "BurstEnabled a = BurstEnabled b \<Longrightarrow> window a = window b \<Longrightarrow> wal_of a = wal_of b \<Longrightarrow> log_steady a = log_steady b"
  by (simp add: log_steady_def)

lemma SubmitAt_steady:
  assumes "log_steady b"
  shows "log_steady (fst (SubmitAt j c w now b))"
proof -
  have "log_steady (publishLocked b)" using assms by (subst steady_cong [of _ b]) (simp_all add: window_def)
  moreover have "log_steady (publishLocked (fst (logCmd cmd b)))" for cmd
    using conjunct1 [OF logCmd_steady [OF assms]] by (subst steady_cong [of _ "fst (logCmd cmd b)"]) (simp_all add: window_def)
  moreover have "log_steady (publishLocked (put_escrow j e ((fst (logCmd cmd b))\<lparr>B := x, ReservedTotal := y\<rparr>)))" for e cmd x y
    using conjunct1 [OF logCmd_steady [OF assms]]
    by (subst steady_cong [of _ "fst (logCmd cmd b)"]) (simp_all add: window_def put_escrow_def)
  ultimately show ?thesis
    by (auto simp: SubmitAt_def published_def with_log_def Let_def case_prod_beta split: option.splits)
qed

lemma Cancel_unstarted:
  assumes st: "log_steady b" and e: "map_of (escrows b) j = Some e" "\<not> e_Started e" "0 \<le>s e_W e" and sm: "small (cancel_cmd j now)"
  defines "b' \<equiv> fst (Cancel j 0 now b)"
  shows "snd (Cancel j 0 now b) = Done" "log_steady b'" "B b' = B b + e_Reserved e" "ReservedTotal b' = ReservedTotal b - e_Reserved e"
    "Consumed b' = Consumed b" "WriteOff b' = WriteOff b" "B0 b' = B0 b" "arrays b' = arrays b" "escrows b' = AList.delete j (escrows b)"
proof -
  let ?l = "fst (logCmd (cancel_cmd j now) b)"
  have l: "snd (logCmd (cancel_cmd j now) b) = None" "log_steady ?l" using logCmd_steady [OF st] sm by auto
  have clamp: "clamp_runtime (e_W e) 0 = 0" using e(3) by (simp add: clamp_runtime_def i64_simps)
  have ok: "\<not> BurstEnabled ?l \<or> window ?l \<noteq> 0" using l(2) by (auto simp: log_steady_def)
  have "Cancel j 0 now b = settle j 0 False now ?l"
    using e(1) l(1) by (simp add: Cancel_def with_log_Done cancel_cmd_def)
  also have "\<dots> = (publishLocked ((settle_money (e_Reserved e) 0 False (fst (accrue now ?l)))\<lparr>escrows := AList.delete j (escrows b)\<rparr>), Done)"
    using settle_Some [of ?l j e, OF _ ok] e(1,2) clamp by (simp add: Let_def settle_burst_def)
  finally have c: "Cancel j 0 now b =
    (publishLocked ((settle_money (e_Reserved e) 0 False (fst (accrue now ?l)))\<lparr>escrows := AList.delete j (escrows b)\<rparr>), Done)" .
  show "snd (Cancel j 0 now b) = Done" using c by simp
  show "log_steady b'"
    using l(2) unfolding b'_def c by (subst steady_cong [of _ "fst (accrue now ?l)"]) (simp_all add: settle_money_def Let_def window_def, simp add: log_steady_def window_def)
  show "B b' = B b + e_Reserved e" "ReservedTotal b' = ReservedTotal b - e_Reserved e"
    "Consumed b' = Consumed b" "WriteOff b' = WriteOff b" "B0 b' = B0 b" "arrays b' = arrays b" "escrows b' = AList.delete j (escrows b)"
    unfolding b'_def c by (simp_all add: settle_money_def Let_def)
qed

text \<open>The escrow of a placed leg, and a budget \<open>b\<close> that differs from \<open>b0\<close> by exactly the escrows of the legs \<open>ls\<close>.\<close>

definition leg_entry :: "Units \<Rightarrow> Seconds \<Rightarrow> leg \<Rightarrow> string \<times> escrow" where
  "leg_entry c now l =
     (lg_token l, \<lparr>e_JobID = lg_token l, e_C = c, e_Reserved = c * lg_w l, e_W = lg_w l, e_Started = False, e_BurstResv = 0, e_Submitted = now\<rparr>)"

definition held :: "Units \<Rightarrow> Seconds \<Rightarrow> leg list \<Rightarrow> budget \<Rightarrow> budget \<Rightarrow> bool" where
  "held c now ls b0 b \<longleftrightarrow>
     log_steady b \<and> escrows b = escrows b0 @ map (leg_entry c now) ls \<and> distinct (map lg_token ls)
     \<and> (\<forall>l \<in> set ls. map_of (escrows b0) (lg_token l) = None \<and> 0 \<le>s lg_w l)
     \<and> B b = B b0 - c * sum_list (map lg_w ls) \<and> ReservedTotal b = ReservedTotal b0 + c * sum_list (map lg_w ls)
     \<and> Consumed b = Consumed b0 \<and> WriteOff b = WriteOff b0 \<and> B0 b = B0 b0 \<and> arrays b = arrays b0"

lemma held_same_books: "held c now [] b0 b \<longleftrightarrow> log_steady b \<and> same_books b b0"
  by (auto simp: held_def same_books_def)

lemma held_books_cong: "held c now ls b0 b \<Longrightarrow> same_books b' b \<Longrightarrow> log_steady b' \<Longrightarrow> held c now ls b0 b'"
  by (auto simp: held_def same_books_def)

lemma leg_entry_keys: "map_of (map (leg_entry c now) ls) tok = None \<longleftrightarrow> tok \<notin> lg_token ` set ls"
  by (force simp: map_of_eq_None_iff leg_entry_def)

lemma held_submit:
  assumes h: "held c now ls b0 b" and c: "0 <s c" and w: "0 \<le>s lg_w l" and d: "snd (SubmitAt (lg_token l) c (lg_w l) now b) = Done"
  shows "held c now (ls @ [l]) b0 (fst (SubmitAt (lg_token l) c (lg_w l) now b))"
proof -
  have adm: "admits (lg_token l) c (lg_w l) now b" using d SubmitAt_rejects(1) by blast
  have c': "\<not> c \<le>s 0" using c by (simp add: i64_simps)
  have fresh: "map_of (escrows b) (lg_token l) = None" using adm by (simp add: admits_def)
  then have new: "map_of (escrows b0) (lg_token l) = None" "lg_token l \<notin> lg_token ` set ls"
    using h by (auto simp: held_def map_add_None leg_entry_keys)
  have esc: "escrows (fst (SubmitAt (lg_token l) c (lg_w l) now b)) = escrows b @ [leg_entry c now l]"
    using SubmitAt_admits [OF adm] c' fresh by (simp add: put_escrow_def update_new leg_entry_def submit_cost_def)
  define b' where "b' = fst (SubmitAt (lg_token l) c (lg_w l) now b)"
  have st: "log_steady b'" using h SubmitAt_steady by (auto simp: held_def b'_def)
  have "B b' = B b - c * lg_w l" "ReservedTotal b' = ReservedTotal b + c * lg_w l" "Consumed b' = Consumed b" "WriteOff b' = WriteOff b"
    "B0 b' = B0 b" "arrays b' = arrays b" "escrows b' = escrows b @ [leg_entry c now l]"
    using SubmitAt_admits [OF adm] c' esc by (simp_all add: b'_def put_escrow_def submit_cost_def)
  then show ?thesis
    using h st new w unfolding held_def b'_def [symmetric] by (auto simp: algebra_simps)
qed

lemma held_reject:
  assumes "held c now ls b0 b" "snd (SubmitAt j c w now b) \<noteq> Done"
  shows "held c now ls b0 (fst (SubmitAt j c w now b))"
proof -
  have "\<not> admits j c w now b" using assms(2) by (auto simp: SubmitAt_admits)
  then show ?thesis
    using held_books_cong [OF assms(1)] SubmitAt_rejects(2) SubmitAt_steady assms(1) by (auto simp: held_def)
qed

lemma held_cancel:
  assumes h: "held c now (l # ls) b0 b" and sm: "small (cancel_cmd (lg_token l) now)"
  shows "snd (Cancel (lg_token l) 0 now b) = Done" "held c now ls b0 (fst (Cancel (lg_token l) 0 now b))"
proof -
  note H = h [unfolded held_def]
  have st: "log_steady b" and dist: "distinct (map lg_token (l # ls))" using H by simp_all
  have none: "map_of (escrows b0) (lg_token l) = None" using H by simp
  have look: "map_of (escrows b) (lg_token l) = Some (snd (leg_entry c now l))"
    using H none by (simp add: leg_entry_def map_add_def)
  have rest: "AList.delete (lg_token l) (escrows b) = escrows b0 @ map (leg_entry c now) ls"
  proof -
    have "AList.delete (lg_token l) (escrows b0) = escrows b0" using none by (simp add: delete_absent)
    moreover have "AList.delete (lg_token l) (map (leg_entry c now) ls) = map (leg_entry c now) ls"
      using dist by (intro delete_absent) (simp add: leg_entry_keys)
    ultimately show ?thesis using H by (simp add: AList.delete_eq leg_entry_def)
  qed
  note C = Cancel_unstarted [OF st look _ _ sm]
  have w: "\<not> e_Started (snd (leg_entry c now l))" "0 \<le>s e_W (snd (leg_entry c now l))" using H by (simp_all add: leg_entry_def)
  show "snd (Cancel (lg_token l) 0 now b) = Done" by (rule C(1) [OF w])
  show "held c now ls b0 (fst (Cancel (lg_token l) 0 now b))"
    using C(2-9) [OF w] H rest unfolding held_def by (auto simp: leg_entry_def algebra_simps)
qed

section \<open>All legs or none\<close>

definition holds :: "Units \<Rightarrow> Seconds \<Rightarrow> leg list \<Rightarrow> registry \<Rightarrow> registry \<Rightarrow> bool" where
  "holds c now ls r0 r \<longleftrightarrow>
     (\<forall>k b0. map_of (rg_budgets r0) k = Some b0 \<longrightarrow> (\<exists>b. map_of (rg_budgets r) k = Some b \<and> held c now (filter (\<lambda>l. lg_bd l = k) ls) b0 b))"

lemma holds_put:
  assumes "holds c now ls r0 r"
    and "\<And>b0 b. map_of (rg_budgets r0) k = Some b0 \<Longrightarrow> map_of (rg_budgets r) k = Some b \<Longrightarrow> held c now (filter (\<lambda>l. lg_bd l = k) ls) b0 b
      \<Longrightarrow> held c now (filter (\<lambda>l. lg_bd l = k) ls') b0 b'"
    and "\<And>k'. k' \<noteq> k \<Longrightarrow> filter (\<lambda>l. lg_bd l = k') ls' = filter (\<lambda>l. lg_bd l = k') ls"
  shows "holds c now ls' r0 (put_budget k b' r)"
proof (unfold holds_def, intro allI impI)
  fix k' b0 assume b0: "map_of (rg_budgets r0) k' = Some b0"
  then obtain b where b: "map_of (rg_budgets r) k' = Some b" "held c now (filter (\<lambda>l. lg_bd l = k') ls) b0 b"
    using assms(1) by (auto simp: holds_def)
  show "\<exists>b. map_of (rg_budgets (put_budget k b' r)) k' = Some b \<and> held c now (filter (\<lambda>l. lg_bd l = k') ls') b0 b"
  proof (cases "k' = k")
    case True
    then show ?thesis using assms(2) [of b0 b] b0 b by simp
  next
    case False
    then show ?thesis using assms(3) [OF False] b by simp
  qed
qed

lemma rollback_releases:
  assumes "rollback now placed s = (s', Inr u)" "holds c now placed r0 (sv_reg s)" "\<forall>l \<in> set placed. small (cancel_cmd (lg_token l) now)"
    "\<forall>l \<in> set placed. map_of (rg_budgets r0) (lg_bd l) \<noteq> None"
  shows "holds c now [] r0 (sv_reg s') \<and> s' = s\<lparr>sv_reg := sv_reg s'\<rparr>"
  using assms unfolding rollback_def
proof (induction placed arbitrary: s)
  case (Cons l ls)
  obtain s1 e where s1: "on_budget (lg_bd l) (Cancel (lg_token l) 0 now) s = (s1, Inr e)"
      "each (\<lambda>pl. on_budget (lg_bd pl) (Cancel (lg_token pl) 0 now)) ls s1 = (s', Inr u)"
    using Cons.prems(1) by (auto simp: and_then_Inr)
  obtain b where b: "map_of (rg_budgets (sv_reg s)) (lg_bd l) = Some b"
      "s1 = s\<lparr>sv_reg := put_budget (lg_bd l) (fst (Cancel (lg_token l) 0 now b)) (sv_reg s)\<rparr>"
    using s1(1) by (auto simp: on_budget_Inr)
  have "holds c now ls r0 (put_budget (lg_bd l) (fst (Cancel (lg_token l) 0 now b)) (sv_reg s))"
    by (rule holds_put [OF Cons.prems(2)]) (use b(1) Cons.prems(3) held_cancel(2) in auto)
  then have "holds c now ls r0 (sv_reg s1)" using b(2) by simp
  then show ?case using Cons.IH [OF s1(2)] Cons.prems(3,4) b(2) by auto
qed (simp add: ret_Inr)

lemma place_legs_all_or_none:
  assumes "place_legs srcs bds master c now lps placed s = (s', Inr res)" "holds c now placed r0 (sv_reg s)" "0 <s c"
    and "\<forall>lp \<in> set lps. 0 \<le>s lp_W lp \<and> small (cancel_cmd (legTok master (lp_Index lp)) now)
      \<and> map_of (rg_budgets r0) (bds ! lp_Index lp) \<noteq> None"
    and "\<forall>l \<in> set placed. small (cancel_cmd (lg_token l) now) \<and> map_of (rg_budgets r0) (lg_bd l) \<noteq> None"
  shows "s' = s\<lparr>sv_reg := sv_reg s'\<rparr>
    \<and> ((\<exists>ls. res = Inr (placed @ ls) \<and> holds c now (placed @ ls) r0 (sv_reg s') \<and> map lg_w ls = map lp_W lps)
      \<or> (\<exists>m. res = Inl (gateReject m) \<and> holds c now [] r0 (sv_reg s')))"
  using assms(1,2,4,5)
proof (induction lps arbitrary: s placed)
  case Nil
  then show ?case by (auto simp: ret_Inr)
next
  case (Cons lp lps)
  let ?k = "bds ! lp_Index lp" and ?tok = "legTok master (lp_Index lp)"
  let ?l = "\<lparr>lg_bd = ?k, lg_token = ?tok, lg_w = lp_W lp, lg_firstTask = 0, lg_nTasks = 0\<rparr>"
  obtain s1 e where s1: "on_budget ?k (SubmitAt ?tok c (lp_W lp) now) s = (s1, Inr e)"
    and cont: "(case e of Some e' \<Rightarrow> and_then (rollback now placed) (\<lambda>_. ret (Inl (gateReject (source_msg (srcs ! lp_Index lp) (err_msg e')))))
        | None \<Rightarrow> place_legs srcs bds master c now lps (placed @ [?l])) s1 = (s', Inr res)"
    using Cons.prems(1) by (auto simp: Let_def and_then_Inr)
  obtain b where b: "map_of (rg_budgets (sv_reg s)) ?k = Some b"
      "s1 = s\<lparr>sv_reg := put_budget ?k (fst (SubmitAt ?tok c (lp_W lp) now b)) (sv_reg s)\<rparr>"
      "e = None \<longleftrightarrow> snd (SubmitAt ?tok c (lp_W lp) now b) = Done"
    using s1 by (auto simp: on_budget_Inr)
  show ?case
  proof (cases e)
    case None
    have "holds c now (placed @ [?l]) r0 (put_budget ?k (fst (SubmitAt ?tok c (lp_W lp) now b)) (sv_reg s))"
      by (rule holds_put [OF Cons.prems(2)])
        (use b None assms(3) Cons.prems(3) held_submit [where l = ?l and c = c] in auto)
    then have "holds c now (placed @ [?l]) r0 (sv_reg s1)" using b(2) by simp
    with Cons.IH [of "placed @ [?l]" s1] Cons.prems(3,4) cont None b(2) show ?thesis by auto
  next
    case (Some e')
    have "holds c now placed r0 (put_budget ?k (fst (SubmitAt ?tok c (lp_W lp) now b)) (sv_reg s))"
      by (rule holds_put [OF Cons.prems(2)]) (use b Some held_reject in auto)
    then have "holds c now placed r0 (sv_reg s1)" using b(2) by simp
    moreover obtain s2 where "rollback now placed s1 = (s2, Inr ())" "s' = s2"
        "res = Inl (gateReject (source_msg (srcs ! lp_Index lp) (err_msg e')))"
      using cont Some by (auto simp: and_then_Inr ret_Inr)
    ultimately show ?thesis using rollback_releases [of now placed s1 s2 "()" c r0] Cons.prems(4) b(2) by auto
  qed
qed

lemma plan_from_sum: "sum_list (map lp_W (fst (plan_from i bs c need))) + snd (plan_from i bs c need) = need"
  by (induction i bs c need rule: plan_from.induct) (auto simp: Let_def case_prod_beta algebra_simps)

lemma plan_from_legs:
  assumes "0 \<le>s need"
  shows "(\<forall>l \<in> set (fst (plan_from i bs c need)). lp_Index l < i + length bs \<and> 0 <s lp_W l)
    \<and> (\<Sum>l\<leftarrow>fst (plan_from i bs c need). sint (lp_W l)) + sint (snd (plan_from i bs c need)) = sint need"
  using assms
proof (induction bs arbitrary: i need)
  case (Cons b bs)
  let ?cap = "go_div b c"
  let ?w = "if need <s ?cap then need else ?cap"
  have w: "0 <s ?w \<and> sint (need - ?w) = sint need - sint ?w \<and> 0 \<le>s need - ?w" if "\<not> ?cap \<le>s 0" "need \<noteq> 0"
  proof -
    have "sint need \<noteq> 0" using that(2) by (metis i64_eq_iff signed_0)
    then have pos: "0 < sint ?w" "sint ?w \<le> sint need" using that Cons.prems by (auto simp: i64_simps)
    have "fits64 (sint need - sint ?w)" using pos fits64_sint [of need] by (auto simp: fits64_def)
    then have "sint (need - ?w) = sint need - sint ?w" by (rule sint_sub_exact)
    then show ?thesis using pos by (auto simp: i64_simps)
  qed
  show ?case
  proof (cases "need = 0 \<or> ?cap \<le>s 0")
    case True
    then show ?thesis using Cons.IH [of need "Suc i"] Cons.prems by auto
  next
    case False
    then show ?thesis using Cons.IH [of "need - ?w" "Suc i"] w by (auto simp: Let_def case_prod_beta)
  qed
qed simp

text \<open>Reading the clock and the reports of accounts changes no book entry and draws no random bytes.\<close>

definition only_reads :: "server \<Rightarrow> server \<Rightarrow> bool" where
  "only_reads s s' \<longleftrightarrow>
     (\<exists>r. s' = s\<lparr>sv_reg := r\<rparr>) \<and> fst (rand_bytes (sv_reg s')) = fst (rand_bytes (sv_reg s))
     \<and> e_clock (rg_env (sv_reg s')) = e_clock (rg_env (sv_reg s))
     \<and> (\<forall>k. map_of (rg_budgets (sv_reg s')) k = None \<longleftrightarrow> map_of (rg_budgets (sv_reg s)) k = None)
     \<and> (\<forall>k b. map_of (rg_budgets (sv_reg s)) k = Some b \<longrightarrow>
          (\<exists>b'. map_of (rg_budgets (sv_reg s')) k = Some b' \<and> same_books b' b \<and> (log_steady b \<longrightarrow> log_steady b')))"

lemma only_reads_refl: "only_reads s s"
  by (auto simp: only_reads_def intro: exI [of _ "sv_reg s"])

lemma only_reads_trans:
  assumes "only_reads s t" "only_reads t u"
  shows "only_reads s u"
proof -
  have "\<exists>b''. map_of (rg_budgets (sv_reg u)) k = Some b'' \<and> same_books b'' b \<and> (log_steady b \<longrightarrow> log_steady b'')"
    if b: "map_of (rg_budgets (sv_reg s)) k = Some b" for k b
  proof -
    obtain b1 where b1: "map_of (rg_budgets (sv_reg t)) k = Some b1" "same_books b1 b" "log_steady b \<longrightarrow> log_steady b1"
      using assms(1) b unfolding only_reads_def by blast
    obtain b2 where b2: "map_of (rg_budgets (sv_reg u)) k = Some b2" "same_books b2 b1" "log_steady b1 \<longrightarrow> log_steady b2"
      using assms(2) b1(1) unfolding only_reads_def by blast
    have "same_books b2 b" using b1(2) b2(2) by (simp add: same_books_def)
    then show ?thesis using b1 b2 by blast
  qed
  then show ?thesis using assms by (auto simp: only_reads_def)
qed

lemma reads_clock: "only_reads s (s\<lparr>sv_reg := snd (reg_now (sv_reg s))\<rparr>)"
  by (auto simp: only_reads_def reg_now_def rand_bytes_def)

lemma steady_accrue: "log_steady b \<Longrightarrow> log_steady (fst (accrue now b))"
  by (simp add: log_steady_def)

lemma reads_report:
  assumes "read_report k now s = (s', Inr st)"
  shows "only_reads s s'"
proof -
  obtain b where b: "map_of (rg_budgets (sv_reg s)) k = Some b" "s' = s\<lparr>sv_reg := put_budget k (fst (accrue now b)) (sv_reg s)\<rparr>"
    using read_report_Inr [OF assms] by blast
  then show ?thesis by (auto simp: only_reads_def rand_bytes_def same_books_def steady_accrue)
qed

lemma Resolve_dom: "Resolve a r = Inr k \<Longrightarrow> \<exists>b. map_of (rg_budgets r) k = Some b"
  using Resolve_known by blast

lemma resolve_loop_reads:
  assumes "resolve_loop u first accts c s = (s', Inr res)"
  shows "only_reads s s' \<and> (case res of Inl fr \<Rightarrow> \<exists>m. fr = gateReject m
      | Inr (ks, c') \<Rightarrow> length ks = length accts \<and> (\<forall>k \<in> set ks. map_of (rg_budgets (sv_reg s)) k \<noteq> None))"
  using assms
proof (induction accts arbitrary: first c s res)
  case Nil
  then show ?case by (auto simp: ret_Inr only_reads_refl)
next
  case (Cons acct accts)
  show ?case
  proof (cases "Resolve acct (sv_reg s)")
    case (Inl e)
    then show ?thesis using Cons.prems by (auto simp: and_then_Inr srv_resolve_def peek_Inr ret_Inr only_reads_refl)
  next
    case (Inr k)
    show ?thesis
    proof (cases "authorize (sv_ident s) acct u (sv_reg s)")
      case (Some m)
      then show ?thesis
        using Cons.prems Inr by (auto simp: and_then_Inr srv_resolve_def srv_authorize_def peek_Inr ret_Inr only_reads_refl)
    next
      case None
      let ?rate = "if c = 0 then and_then clock (\<lambda>now. and_then (read_report k now) (\<lambda>st. ret (r_C st))) else ret c"
      obtain s1 rt where s1: "?rate s = (s1, Inr rt)"
        and cont: "(if \<not> first \<and> rt \<noteq> c
            then ret (Inl (gateReject (lit ''multi-source requires a uniform rate across sources (set node-type or TRES pricing, or equal account rates)'')))
            else and_then (resolve_loop u False accts rt) (\<lambda>rest.
              ret (case rest of Inl fr \<Rightarrow> Inl fr | Inr (ks, c') \<Rightarrow> Inr (k # ks, c')))) s1 = (s', Inr res)"
        using Cons.prems Inr None by (auto simp: and_then_Inr srv_resolve_def srv_authorize_def peek_Inr)
      have r1: "only_reads s s1"
        using s1 by (auto simp: act_Inr split: if_splits intro: only_reads_trans [OF reads_clock reads_report] only_reads_refl)
      show ?thesis
      proof (cases "\<not> first \<and> rt \<noteq> c")
        case True
        then show ?thesis using cont r1 by (auto simp: ret_Inr)
      next
        case False
        then obtain rest where rest: "resolve_loop u False accts rt s1 = (s', Inr rest)"
            "res = (case rest of Inl fr \<Rightarrow> Inl fr | Inr (ks, c') \<Rightarrow> Inr (k # ks, c'))"
          using cont by (auto simp: and_then_Inr ret_Inr)
        note ih = Cons.IH [OF rest(1)]
        have s: "only_reads s s'" using only_reads_trans [OF r1] ih by blast
        have dom: "\<forall>k. map_of (rg_budgets (sv_reg s1)) k = None \<longleftrightarrow> map_of (rg_budgets (sv_reg s)) k = None" using r1 by (simp add: only_reads_def)
        obtain b where "map_of (rg_budgets (sv_reg s)) k = Some b" using Resolve_dom [OF Inr] by blast
        then show ?thesis using ih s rest(2) dom by (auto split: sum.splits)
      qed
    qed
  qed
qed

definition steady :: "registry \<Rightarrow> bool" where
  "steady r \<longleftrightarrow> (\<forall>k b. map_of (rg_budgets r) k = Some b \<longrightarrow> log_steady b)"

lemma holds_empty:
  assumes "only_reads s s1" "steady (sv_reg s)" "rg_budgets r = rg_budgets (sv_reg s1)"
  shows "holds c now [] (sv_reg s) r"
proof (unfold holds_def, intro allI impI)
  fix k b0 assume b0: "map_of (rg_budgets (sv_reg s)) k = Some b0"
  then obtain b where "map_of (rg_budgets r) k = Some b" "same_books b b0" "log_steady b"
    using assms unfolding only_reads_def steady_def by metis
  then show "\<exists>b. map_of (rg_budgets r) k = Some b \<and> held c now (filter (\<lambda>l. lg_bd l = k) []) b0 b"
    by (auto simp: held_same_books)
qed

lemma fundingPlan_True:
  assumes "fundingPlan bals c w = (legs, True)"
  shows "0 <s c" "sum_list (map lp_W legs) = w" "\<forall>l \<in> set legs. lp_Index l < length bals \<and> 0 <s lp_W l"
    "(\<Sum>l\<leftarrow>legs. sint (lp_W l)) = sint w" "0 <s w"
proof -
  have p: "0 <s c" "0 <s w" "plan_from 0 bals c w = (legs, 0)"
    using assms by (auto simp: fundingPlan_def i64_simps not_le split: if_splits prod.splits)
  show "0 <s c" by (rule p(1))
  show "sum_list (map lp_W legs) = w" using plan_from_sum [of 0 bals c w] p(3) by simp
  show "\<forall>l \<in> set legs. lp_Index l < length bals \<and> 0 <s lp_W l" "(\<Sum>l\<leftarrow>legs. sint (lp_W l)) = sint w" "0 <s w"
    using plan_from_legs [of w 0 bals c] p by (auto simp: i64_simps)
qed

definition funded :: "gateRequest \<Rightarrow> frame \<Rightarrow> server \<Rightarrow> server \<Rightarrow> bool" where
  "funded req fr s s' \<longleftrightarrow> (\<exists>master placed c now. fr = gateAllow master \<and> sv_tokenLegs s' = AList.update master placed (sv_tokenLegs s)
     \<and> sum_list (map lg_w placed) = gq_TimeLimit req \<and> 0 <s c \<and> holds c now placed (sv_reg s) (sv_reg s'))"

definition turned_down :: "frame \<Rightarrow> server \<Rightarrow> server \<Rightarrow> bool" where
  "turned_down fr s s' \<longleftrightarrow> (\<exists>m c now. fr = gateReject m \<and> sv_tokenLegs s' = sv_tokenLegs s \<and> holds c now [] (sv_reg s) (sv_reg s'))"

lemma turned_downD:
  assumes "turned_down fr s s'"
  shows "\<exists>m. fr = gateReject m \<and> sv_tokenLegs s' = sv_tokenLegs s
    \<and> (\<forall>k b. map_of (rg_budgets (sv_reg s)) k = Some b \<longrightarrow> (\<exists>b'. map_of (rg_budgets (sv_reg s')) k = Some b' \<and> same_books b' b))"
proof -
  obtain m c now where m: "fr = gateReject m" "sv_tokenLegs s' = sv_tokenLegs s" "holds c now [] (sv_reg s) (sv_reg s')"
    using assms by (auto simp: turned_down_def)
  have "\<exists>b'. map_of (rg_budgets (sv_reg s')) k = Some b' \<and> same_books b' b" if "map_of (rg_budgets (sv_reg s)) k = Some b" for k b
    using m(3) that unfolding holds_def by (auto simp: held_same_books)
  then show ?thesis using m by blast
qed

lemma place_plan_all_or_none:
  assumes run: "place_plan req bds c legs s1 = (s', Inr fr)" and r: "only_reads s s1" and st: "steady (sv_reg s)"
    and plan: "0 <s c" "sum_list (map lp_W legs) = gq_TimeLimit req"
      "\<forall>l \<in> set legs. lp_Index l < length (gq_Sources req) \<and> 0 \<le>s lp_W l \<and> map_of (rg_budgets (sv_reg s)) (bds ! lp_Index l) \<noteq> None"
    and fits: "\<forall>i < length (gq_Sources req). \<forall>n b. fst (rand_bytes (sv_reg s)) = Some b \<longrightarrow>
      small (cancel_cmd (legTok (token_of b) i) (e_clock (rg_env (sv_reg s)) n))"
  shows "funded req fr s s' \<or> turned_down fr s s'"
proof -
  let ?s2 = "s1\<lparr>sv_reg := snd (rand_bytes (sv_reg s1))\<rparr>"
  let ?now = "fst (reg_now (sv_reg ?s2))" and ?s3 = "?s2\<lparr>sv_reg := snd (reg_now (sv_reg ?s2))\<rparr>"
  have legs1: "sv_tokenLegs s1 = sv_tokenLegs s" "fst (rand_bytes (sv_reg s1)) = fst (rand_bytes (sv_reg s))" using r by (auto simp: only_reads_def)
  have h: "holds c' now [] (sv_reg s) r'" if "rg_budgets r' = rg_budgets (sv_reg s1)" for c' now r' by (rule holds_empty [OF r st that])
  have h3: "holds c ?now [] (sv_reg s) (sv_reg ?s3)" by (rule h) (simp add: reg_now_def rand_bytes_def)
  show ?thesis
  proof (cases "fst (rand_bytes (sv_reg s1))")
    case None
    have "holds c ?now [] (sv_reg s) (sv_reg ?s2)" by (rule h) (simp add: rand_bytes_def)
    then show ?thesis using run None legs1 by (auto simp: place_plan_def act_Inr turned_down_def)
  next
    case (Some bs)
    let ?m = "token_of bs"
    obtain s4 res where pl: "place_legs (gq_Sources req) bds ?m c ?now legs [] ?s3 = (s4, Inr res)"
      and fin: "(case res of Inl fr \<Rightarrow> ret fr | Inr placed \<Rightarrow>
          and_then (modify (\<lambda>s. s\<lparr>sv_tokenLegs := AList.update ?m placed (sv_tokenLegs s)\<rparr>)) (\<lambda>_. ret (gateAllow ?m))) s4 = (s', Inr fr)"
      using run Some by (auto simp: place_plan_def act_Inr)
    have clock: "e_clock (rg_env (sv_reg s1)) = e_clock (rg_env (sv_reg s))" using r by (simp add: only_reads_def)
    have "small (cancel_cmd (legTok ?m (lp_Index l)) ?now)" if "l \<in> set legs" for l
      using fits plan(3) that Some legs1(2) clock by (simp add: reg_now_def rand_bytes_def)
    with place_legs_all_or_none [OF pl h3 plan(1)] plan(3)
    have "s4 = ?s3\<lparr>sv_reg := sv_reg s4\<rparr> \<and> ((\<exists>ls. res = Inr ls \<and> holds c ?now ls (sv_reg s) (sv_reg s4) \<and> map lg_w ls = map lp_W legs)
        \<or> (\<exists>m. res = Inl (gateReject m) \<and> holds c ?now [] (sv_reg s) (sv_reg s4)))"
      by auto
    moreover from this have "sv_tokenLegs s4 = sv_tokenLegs s" using legs1(1) by (metis (no_types, lifting) server.select_convs(8) server.surjective server.update_convs(1))
    ultimately show ?thesis
      using fin plan(1,2) unfolding funded_def turned_down_def by (auto simp: act_Inr)
  qed
qed

text \<open>
  C26: a job paid by several accounts is funded entirely or not at all. If the gate admits it, the legs it recorded under the token add up to
  the requested walltime, and each account differs from before by exactly the escrows of its legs: rate times seconds moved from
  its balance to its reservations, at one common positive rate. If the gate rejects it, for whatever reason and after however many legs, the
  books and escrows of every account are as before and nothing is recorded. (The logs accept writes, and the records of
  the cancellations are shorter than 4 GB.)
\<close>

theorem multi_source_gate_all_or_nothing:
  assumes one: "\<not> 1 <s gq_NTasks req" and run: "handleGateMultiSource req s = (s', Inr fr)" and st: "steady (sv_reg s)"
    and fits: "\<forall>i < length (gq_Sources req). \<forall>n b. fst (rand_bytes (sv_reg s)) = Some b \<longrightarrow>
      small (cancel_cmd (legTok (token_of b) i) (e_clock (rg_env (sv_reg s)) n))"
  shows "(\<exists>master placed c now. fr = gateAllow master \<and> sv_tokenLegs s' = AList.update master placed (sv_tokenLegs s)
        \<and> sum_list (map lg_w placed) = gq_TimeLimit req \<and> 0 <s c \<and> holds c now placed (sv_reg s) (sv_reg s'))
    \<or> (\<exists>m. fr = gateReject m \<and> sv_tokenLegs s' = sv_tokenLegs s
        \<and> (\<forall>k b. map_of (rg_budgets (sv_reg s)) k = Some b \<longrightarrow> (\<exists>b'. map_of (rg_budgets (sv_reg s')) k = Some b' \<and> same_books b' b)))"
proof -
  obtain s1 res where s1: "resolveSources req s = (s1, Inr res)"
    and cont: "(case res of Inl fr \<Rightarrow> ret fr | Inr (bds, c) \<Rightarrow> if 1 <s gq_NTasks req then handleGateMultiSourceArray req bds c
       else and_then (balances bds) (\<lambda>bals. case fundingPlan bals c (gq_TimeLimit req) of
         (_, False) \<Rightarrow> ret (gateReject (lit ''insufficient budget across sources'')) | (legs, True) \<Rightarrow> place_plan req bds c legs)) s1 = (s', Inr fr)"
    using run unfolding handleGateMultiSource_def and_then_Inr [of "resolveSources req"] by blast
  have "resolve_loop (gq_UID req) True (gq_Sources req) (gate_rate (gq_Partition req) (gq_TRES req) s) s = (s1, Inr res)"
    using s1 by (auto simp: resolveSources_def and_then_Inr peek_Inr)
  note R = resolve_loop_reads [OF this]
  have down: "turned_down (gateReject m) s s1" for m
    using R holds_empty [OF conjunct1 [OF R] st refl] by (auto simp: turned_down_def only_reads_def)
  have "funded req fr s s' \<or> turned_down fr s s'"
  proof (cases res)
    case (Inl f)
    then show ?thesis using cont R down by (auto simp: ret_Inr)
  next
    case (Inr p)
    obtain bds c where p: "p = (bds, c)" by fastforce
    obtain legs ok where plan: "fundingPlan (map (\<lambda>k. balance_of k (sv_reg s1)) bds) c (gq_TimeLimit req) = (legs, ok)" by fastforce
    show ?thesis
    proof (cases ok)
      case False
      then show ?thesis using cont one Inr p plan down by (auto simp: balances_def act_Inr)
    next
      case True
      note F = fundingPlan_True [OF plan [unfolded True [THEN eqTrueI]]]
      have pl: "place_plan req bds c legs s1 = (s', Inr fr)" using cont one Inr p plan True by (simp add: balances_def act_Inr)
      show ?thesis by (rule place_plan_all_or_none [OF pl _ st F(1,2) _ fits]) (use R Inr p F(3) in \<open>auto simp: i64_simps\<close>)
    qed
  qed
  then show ?thesis using turned_downD unfolding funded_def by blast
qed

text \<open>Two accounts with 30 and 1000 units at 2 units a second, and a job of 20 seconds that both pay.\<close>

definition counter :: server where
  "counter = desk\<lparr>sv_reg := (sv_reg desk)\<lparr>rg_budgets := [(''a'', New 2 30 0 100), (''b'', New 2 1000 0 100)]\<rparr>\<rparr>"

definition shared_job :: gateRequest where
  "shared_job = job\<lparr>gq_TimeLimit := 20, gq_Sources := [''a'', ''b'']\<rparr>"

theorem multi_source_gate_all_or_nothing_witness:
  "\<exists>master placed c now. snd (handleGateMultiSource shared_job counter) = Inr (gateAllow master)
     \<and> sv_tokenLegs (fst (handleGateMultiSource shared_job counter)) = AList.update master placed []
     \<and> sum_list (map lg_w placed) = 20 \<and> 0 <s c \<and> holds c now placed (sv_reg counter) (sv_reg (fst (handleGateMultiSource shared_job counter)))"
proof -
  let ?h = "handleGateMultiSource shared_job counter"
  have "map_sum (\<lambda>p. p) (\<lambda>fr. map_option gp_Allow (fr_GateResp fr)) (snd ?h) = Inr (Some True)" by code_simp
  then obtain fr where fr: "snd ?h = Inr fr" "map_option gp_Allow (fr_GateResp fr) = Some True" by (cases "snd ?h") auto
  then have run: "?h = (fst ?h, Inr fr)" by (simp add: prod_eq_iff)
  have no: "fr \<noteq> gateReject m" for m using fr(2) by (auto simp: gateReject_def)
  have c: "gq_Sources shared_job = [''a'', ''b'']" "\<not> 1 <s gq_NTasks shared_job" "gq_TimeLimit shared_job = 20" "sv_tokenLegs counter = []"
    "fst (rand_bytes (sv_reg counter)) = Some (replicate 16 (char_of (0::nat)))"
    by code_simp+
  have env: "e_clock (rg_env (sv_reg counter)) = (\<lambda>_. 5)"
    by (simp add: counter_def desk_def NewServer_def NewWithWeights_def NewWithRegistry_def)
  have "small (cancel_cmd (legTok (token_of (replicate 16 (char_of (0::nat)))) 0) 5)"
    "small (cancel_cmd (legTok (token_of (replicate 16 (char_of (0::nat)))) 1) 5)" by code_simp+
  then have fits: "\<forall>i < length (gq_Sources shared_job). \<forall>n b. fst (rand_bytes (sv_reg counter)) = Some b \<longrightarrow>
      small (cancel_cmd (legTok (token_of b) i) (e_clock (rg_env (sv_reg counter)) n))"
    by (simp add: c env less_Suc_eq del: replicate.simps)
  have "log_steady (New 2 30 0 100)" "log_steady (New 2 1000 0 100)" by code_simp+
  then have st: "steady (sv_reg counter)" by (auto simp: steady_def counter_def split: if_splits)
  show ?thesis
    using multi_source_gate_all_or_nothing [OF c(2) run st fits] no fr(1) unfolding c by blast
qed

section \<open>The gate for one account\<close>

lemma SubmitArrayAt_rejects: "snd (SubmitArrayAt j c n w now b) \<noteq> Done \<Longrightarrow> same_books (fst (SubmitArrayAt j c n w now b)) b"
  by (auto simp: SubmitArrayAt_def published_def with_log_def Let_def same_books_def case_prod_beta split: option.splits)

lemma gate_submit_rejects: "snd (gate_submit req token c now b) \<noteq> Done \<Longrightarrow> same_books (fst (gate_submit req token c now b)) b"
  using SubmitArrayAt_rejects SubmitAt_rejects(2) SubmitAt_admits by (auto simp: gate_submit_def) (metis snd_conv)

lemma gate_place_runs:
  assumes "gate_place req k token s = (s', Inr fr)"
  defines "f \<equiv> gate_submit req token (gate_rate (gq_Partition req) (gq_TRES req) s) (fst (reg_now (sv_reg s)))"
  shows "\<exists>b. map_of (rg_budgets (sv_reg s)) k = Some b \<and> rg_budgets (sv_reg s') = AList.update k (fst (f b)) (rg_budgets (sv_reg s))
    \<and> (snd (f b) = Done \<and> fr = gateAllow token \<and> sv_tokenBudget s' = AList.update token k (sv_tokenBudget s)
      \<or> snd (f b) \<noteq> Done \<and> (\<exists>m. fr = gateReject m) \<and> sv_tokenBudget s' = sv_tokenBudget s \<and> sv_tokenArrayN s' = sv_tokenArrayN s)"
proof -
  have "gate_rate part t (s\<lparr>sv_reg := r\<rparr>) = gate_rate part t s" for part t r by (simp add: gate_rate_def Let_def)
  then show ?thesis
    using assms(1) unfolding f_def by (auto simp: gate_place_def act_Inr put_budget_def reg_now_def)
qed

lemma handleGate_single_cases:
  assumes src: "gq_Sources req = []" and run: "handleGate (Some req) s = (s', Inr fr)"
  defines "c \<equiv> gate_rate (gq_Partition req) (gq_TRES req) s" and "now \<equiv> fst (reg_now (sv_reg s))"
  shows "(\<exists>token k b. fr = gateAllow token \<and> Resolve (gq_Account req) (sv_reg s) = Inr k
        \<and> authorize (sv_ident s) (gq_Account req) (gq_UID req) (sv_reg s) = None
        \<and> map_of (rg_budgets (sv_reg s)) k = Some b \<and> snd (gate_submit req token c now b) = Done
        \<and> rg_budgets (sv_reg s') = AList.update k (fst (gate_submit req token c now b)) (rg_budgets (sv_reg s))
        \<and> sv_tokenBudget s' = AList.update token k (sv_tokenBudget s))
    \<or> (\<exists>m. fr = gateReject m \<and> sv_tokenBudget s' = sv_tokenBudget s \<and> sv_tokenArrayN s' = sv_tokenArrayN s
        \<and> (\<forall>k b. map_of (rg_budgets (sv_reg s)) k = Some b \<longrightarrow> (\<exists>b'. map_of (rg_budgets (sv_reg s')) k = Some b' \<and> same_books b' b)))"
proof (cases "Resolve (gq_Account req) (sv_reg s)")
  case (Inl e)
  then show ?thesis using src run by (auto simp: handleGate_def srv_resolve_def act_Inr)
next
  case (Inr k)
  have g: "gate_single req k s = (s', Inr fr)" using src run Inr by (auto simp: handleGate_def srv_resolve_def act_Inr)
  show ?thesis
  proof (cases "authorize (sv_ident s) (gq_Account req) (gq_UID req) (sv_reg s)")
    case (Some m)
    then show ?thesis using g by (auto simp: gate_single_def srv_authorize_def act_Inr)
  next
    case auth: None
    show ?thesis
    proof (cases "fst (rand_bytes (sv_reg s))")
      case None
      then show ?thesis using g auth by (auto simp: gate_single_def srv_authorize_def act_Inr rand_bytes_def)
    next
      case (Some bs)
      let ?s1 = "s\<lparr>sv_reg := snd (rand_bytes (sv_reg s))\<rparr>"
      have "gate_rate (gq_Partition req) (gq_TRES req) ?s1 = c" "fst (reg_now (sv_reg ?s1)) = now" "rg_budgets (sv_reg ?s1) = rg_budgets (sv_reg s)"
        by (simp_all add: c_def now_def gate_rate_def reg_now_def rand_bytes_def Let_def)
      moreover have "gate_place req k (token_of bs) ?s1 = (s', Inr fr)"
        using g auth Some by (auto simp: gate_single_def srv_authorize_def act_Inr)
      ultimately obtain b where b: "map_of (rg_budgets (sv_reg s)) k = Some b"
        and upd: "rg_budgets (sv_reg s') = AList.update k (fst (gate_submit req (token_of bs) c now b)) (rg_budgets (sv_reg s))"
        and ans: "snd (gate_submit req (token_of bs) c now b) = Done \<and> fr = gateAllow (token_of bs) \<and> sv_tokenBudget s' = AList.update (token_of bs) k (sv_tokenBudget s)
          \<or> snd (gate_submit req (token_of bs) c now b) \<noteq> Done \<and> (\<exists>m. fr = gateReject m) \<and> sv_tokenBudget s' = sv_tokenBudget s
            \<and> sv_tokenArrayN s' = sv_tokenArrayN s"
        using gate_place_runs [of req k "token_of bs" ?s1 s' fr] by auto
      then show ?thesis
        using Inr auth gate_submit_rejects [of req "token_of bs" c now b] by (auto simp: map_of_update)
    qed
  qed
qed

text \<open>
  C27: the gate's answer for one account is the truth about the books. If it answers with a token, then the account resolved, the submitter was authorized,
  and the budget was changed by a successful kernel submission under that token, for the requested walltime and tasks, at the rate the pricing
  rules give (the kernel's own rate if that is 0), at the time of the request; no other budget changed and the token is routed to the account. If
  it rejects, no book entry of any account and no route changed.
\<close>

theorem gate_answer_is_true:
  assumes src: "gq_Sources req = []" and run: "handleGate (Some req) s = (s', Inr fr)"
  defines "c \<equiv> gate_rate (gq_Partition req) (gq_TRES req) s" and "now \<equiv> fst (reg_now (sv_reg s))"
  shows "(\<exists>token k b. fr = gateAllow token \<and> Resolve (gq_Account req) (sv_reg s) = Inr k
        \<and> authorize (sv_ident s) (gq_Account req) (gq_UID req) (sv_reg s) = None
        \<and> map_of (rg_budgets (sv_reg s)) k = Some b \<and> snd (gate_submit req token c now b) = Done
        \<and> rg_budgets (sv_reg s') = AList.update k (fst (gate_submit req token c now b)) (rg_budgets (sv_reg s))
        \<and> sv_tokenBudget s' = AList.update token k (sv_tokenBudget s))
    \<or> (\<exists>m. fr = gateReject m \<and> sv_tokenBudget s' = sv_tokenBudget s \<and> sv_tokenArrayN s' = sv_tokenArrayN s
        \<and> (\<forall>k b. map_of (rg_budgets (sv_reg s)) k = Some b \<longrightarrow> (\<exists>b'. map_of (rg_budgets (sv_reg s')) k = Some b' \<and> same_books b' b)))"
  unfolding c_def now_def by (rule handleGate_single_cases [OF src run])

theorem gate_answer_is_true_witness:
  "\<exists>token b. snd (handleGate (Some job) desk) = Inr (gateAllow token) \<and> snd (gate_submit job token 0 5 b) = Done
     \<and> rg_budgets (sv_reg (fst (handleGate (Some job) desk))) = AList.update ''default'' (fst (gate_submit job token 0 5 b)) (rg_budgets (sv_reg desk))"
proof -
  let ?h = "handleGate (Some job) desk"
  have "map_sum (\<lambda>p. p) (\<lambda>fr. map_option gp_Allow (fr_GateResp fr)) (snd ?h) = Inr (Some True)" by code_simp
  then obtain fr where fr: "snd ?h = Inr fr" "map_option gp_Allow (fr_GateResp fr) = Some True" by (cases "snd ?h") auto
  then have run: "?h = (fst ?h, Inr fr)" by (simp add: prod_eq_iff)
  have no: "fr \<noteq> gateReject m" for m using fr(2) by (auto simp: gateReject_def)
  have c: "gq_Sources job = []" "gate_rate (gq_Partition job) (gq_TRES job) desk = 0" "fst (reg_now (sv_reg desk)) = 5"
    "Resolve (gq_Account job) (sv_reg desk) = Inr ''default''"
    by code_simp+
  show ?thesis using gate_answer_is_true [OF c(1) run] no fr(1) unfolding c(2-4) by auto
qed

section \<open>A settlement is final\<close>

lemma delete_gone [simp]: "map_of (AList.delete k m) k = None"
  by (simp add: delete_conv)

lemma settle_replies_differ [simp]:
  "settleReply True [] \<noteq> settleReject m" "settleReject m \<noteq> settleReply True []" "settleReply True [] \<noteq> unknown_kind k" "unknown_kind k \<noteq> settleReply True []"
proof -
  show 1: "settleReply True [] \<noteq> settleReject m" for m
  proof
    assume "settleReply True [] = settleReject m"
    then have "fr_SettleResp (settleReply True []) = fr_SettleResp (settleReject m)" by (rule arg_cong)
    then show False by (simp add: settleReject_def settleReply_def)
  qed
  then show "settleReject m \<noteq> settleReply True []" "settleReply True [] \<noteq> unknown_kind k" "unknown_kind k \<noteq> settleReply True []"
    by (metis, metis unknown_kind_def, metis unknown_kind_def)
qed

lemma drop_job_sel [simp]:
  "sv_tokenBudget (drop_job j s) = sv_tokenBudget s" "sv_tokenLegs (drop_job j s) = sv_tokenLegs s"
  "sv_jobToToken (drop_job j s) = (if j \<noteq> [] then AList.delete j (sv_jobToToken s) else sv_jobToToken s)"
  by (simp_all add: drop_job_def)

lemma settle_single_drops:
  assumes "settle_single req token bd s = (s', Inr (settleReply True []))"
  shows "map_of (sv_tokenBudget s') token = None" "sv_tokenLegs s' = sv_tokenLegs s"
    "sv_jobToToken s' = (if sq_JobID req \<noteq> [] then AList.delete (sq_JobID req) (sv_jobToToken s) else sv_jobToToken s)"
  using assms
  by (auto simp: settle_single_def act_Inr drop_budget_def split: option.splits)

lemma settle_legs_routes:
  "settle_legs req plan now i ls e s = (s', Inr x) \<Longrightarrow>
     sv_tokenBudget s' = sv_tokenBudget s \<and> sv_tokenLegs s' = sv_tokenLegs s \<and> sv_jobToToken s' = sv_jobToToken s"
proof (induction ls arbitrary: i e s)
  case (Cons l ls)
  then show ?case
    by (cases "settle_op (sq_Kind req) (lg_token l) (legRuntime plan i (sq_Runtime req)) (legRuntime plan i (sq_Elapsed req)) now")
      (fastforce simp: act_Inr)+
qed (simp add: ret_Inr)

lemma settle_multi_drops:
  assumes "handleSettleMultiSource req token legs s = (s', Inr (settleReply True []))" "\<not> sq_IsArrayTask req"
  shows "map_of (sv_tokenLegs s') token = None" "sv_tokenBudget s' = sv_tokenBudget s"
    "sv_jobToToken s' = (if sq_JobID req \<noteq> [] then AList.delete (sq_JobID req) (sv_jobToToken s) else sv_jobToToken s)"
proof -
  obtain s1 x where l: "settle_legs req (leg_plans legs) (fst (reg_now (sv_reg s))) 0 legs None (s\<lparr>sv_reg := snd (reg_now (sv_reg s))\<rparr>) = (s1, Inr x)"
    and fin: "(case x of Inl fr \<Rightarrow> ret fr | Inr firstErr \<Rightarrow> and_then (modify (drop_legs token \<circ> drop_job (sq_JobID req))) (\<lambda>_.
        ret (case firstErr of Some e \<Rightarrow> settleReject (err_msg e) | None \<Rightarrow> settleReply True []))) s1 = (s', Inr (settleReply True []))"
    using assms unfolding handleSettleMultiSource_def by (auto simp: and_then_Inr clock_Inr)
  have "yields (settle_legs req pl n i ls e) (\<lambda>r. \<forall>fr. r = Inl fr \<longrightarrow> fr = unknown_kind (sq_Kind req))" for pl n i ls e
    by (induction ls arbitrary: i e) (auto intro!: yielding)
  then have "\<forall>fr. x = Inl fr \<longrightarrow> fr = unknown_kind (sq_Kind req)" using l unfolding yields_def by blast
  then have "\<exists>f. x = Inr f" using fin by (cases x) (auto simp: ret_Inr)
  then show "map_of (sv_tokenLegs s') token = None" "sv_tokenBudget s' = sv_tokenBudget s"
    "sv_jobToToken s' = (if sq_JobID req \<noteq> [] then AList.delete (sq_JobID req) (sv_jobToToken s) else sv_jobToToken s)"
    using fin settle_legs_routes [OF l] by (auto simp: act_Inr drop_legs_def)
qed

text \<open>
  A settlement is applied once. After a job (paid by one account or by several) has been settled successfully, sending the same request
  again, by token or by scheduler job, is refused and changes nothing at all: no budget, no route, not even the clock.
\<close>

lemma settle_twice:
  assumes run: "handleSettle (Some req) s = (s', Inr (settleReply True []))" and job: "\<not> sq_IsArrayTask req"
    and one_kind: "map_of (sv_tokenLegs s) (settle_token req s) = None \<or> map_of (sv_tokenBudget s) (settle_token req s) = None"
  shows "\<exists>m \<in> {lit ''no token: unknown job'', lit ''no such escrow''}. handleSettle (Some req) s' = (s', Inr (settleReject m))"
proof -
  let ?t = "settle_token req s"
  have t: "?t \<noteq> []" using run by (auto simp: handleSettle_def act_Inr split: if_splits)
  have gone: "map_of (sv_tokenLegs s') ?t = None \<and> map_of (sv_tokenBudget s') ?t = None
      \<and> sv_jobToToken s' = (if sq_JobID req \<noteq> [] then AList.delete (sq_JobID req) (sv_jobToToken s) else sv_jobToToken s)"
  proof (cases "map_of (sv_tokenLegs s) ?t")
    case None
    then obtain bd where "settle_single req ?t bd s = (s', Inr (settleReply True []))"
      using run t job by (auto simp: handleSettle_def act_Inr budgetForToken_def split: option.splits if_splits)
    then show ?thesis using settle_single_drops None by auto
  next
    case (Some legs)
    then have "handleSettleMultiSource req ?t legs s = (s', Inr (settleReply True []))"
      using run t by (auto simp: handleSettle_def act_Inr)
    from settle_multi_drops [OF this job] show ?thesis using one_kind Some by auto
  qed
  have "settle_token req s' = ?t \<or> settle_token req s' = []"
    using conjunct2 [OF conjunct2 [OF gone]] by (simp add: settle_token_def)
  then show ?thesis using gone by (auto simp: handleSettle_def act_Inr budgetForToken_def and_then_def peek_def ret_def)
qed

section \<open>Array tasks have one owner\<close>

text \<open>Legs whose task ranges follow one another from \<open>f\<close> on.\<close>

fun contiguous :: "i64 \<Rightarrow> leg list \<Rightarrow> bool" where
  "contiguous f [] = True"
| "contiguous f (l # ls) \<longleftrightarrow> lg_firstTask l = f \<and> contiguous (f + lg_nTasks l) ls"

lemma place_array_legs_contiguous:
  assumes "place_array_legs req bds master c now lps f placed s = (s', Inr (Inr ls))"
  shows "\<exists>new. ls = placed @ new \<and> contiguous f new \<and> map lg_nTasks new = map lp_W lps \<and> sv_tokenLegs s' = sv_tokenLegs s"
  using assms
proof (induction lps arbitrary: f placed s)
  case (Cons lp lps)
  let ?l = "\<lparr>lg_bd = bds ! lp_Index lp, lg_token = legTok master (lp_Index lp), lg_w = gq_TimeLimit req, lg_firstTask = f, lg_nTasks = lp_W lp\<rparr>"
  obtain s1 where s1: "place_array_legs req bds master c now lps (f + lp_W lp) (placed @ [?l]) s1 = (s', Inr (Inr ls))" "sv_tokenLegs s1 = sv_tokenLegs s"
    using Cons.prems by (auto simp: Let_def act_Inr split: option.splits)
  from Cons.IH [OF s1(1)] obtain new where "ls = (placed @ [?l]) @ new" "contiguous (f + lp_W lp) new" "map lg_nTasks new = map lp_W lps"
      "sv_tokenLegs s' = sv_tokenLegs s1" by blast
  then show ?case using s1(2) by (intro exI [of _ "?l # new"]) simp
qed (simp add: ret_Inr)

definition owns :: "i64 \<Rightarrow> leg \<Rightarrow> bool" where
  "owns g l \<longleftrightarrow> 0 <s lg_nTasks l \<and> lg_firstTask l \<le>s g \<and> g <s lg_firstTask l + lg_nTasks l"

definition tasks_of :: "leg list \<Rightarrow> int" where
  "tasks_of ls = (\<Sum>l\<leftarrow>ls. sint (lg_nTasks l))"

lemma tasks_of_nonneg: "\<forall>l \<in> set ls. 0 < sint (lg_nTasks l) \<Longrightarrow> 0 \<le> tasks_of ls"
  unfolding tasks_of_def by (intro sum_list_nonneg) auto

text \<open>The ranges neither overlap nor leave a gap: among legs from \<open>f\<close> on, the tasks from \<open>f\<close> to the end have exactly one owner, the others none.\<close>

lemma contiguous_owner:
  assumes "contiguous f ls" "\<forall>l \<in> set ls. 0 < sint (lg_nTasks l)" "0 \<le> sint f" "fits64 (sint f + tasks_of ls)"
  shows "length (filter (owns g) ls) = (if sint f \<le> sint g \<and> sint g < sint f + tasks_of ls then 1 else 0)
    \<and> (\<forall>l \<in> set ls. owns g l \<longleftrightarrow> sint (lg_firstTask l) \<le> sint g \<and> sint g < sint (lg_firstTask l) + sint (lg_nTasks l))"
  using assms
proof (induction ls arbitrary: f)
  case (Cons l ls)
  have n: "0 < sint (lg_nTasks l)" "0 \<le> tasks_of ls" using Cons.prems(2) tasks_of_nonneg by auto
  have sum: "tasks_of (l # ls) = sint (lg_nTasks l) + tasks_of ls" by (simp add: tasks_of_def)
  have "fits64 (sint f + sint (lg_nTasks l))"
    using n Cons.prems(3,4) by - (rule fits64_nonneg_le [of _ "sint f + tasks_of (l # ls)"], simp_all add: sum)
  then have f: "sint (f + lg_nTasks l) = sint f + sint (lg_nTasks l)" by (rule sint_add_exact)
  have own: "owns g l \<longleftrightarrow> sint f \<le> sint g \<and> sint g < sint f + sint (lg_nTasks l)"
    using Cons.prems(1) n(1) f by (auto simp: owns_def i64_simps)
  have "contiguous (f + lg_nTasks l) ls" "\<forall>l \<in> set ls. 0 < sint (lg_nTasks l)" "0 \<le> sint (f + lg_nTasks l)"
    "fits64 (sint (f + lg_nTasks l) + tasks_of ls)"
    using Cons.prems n f sum by (simp_all add: add.assoc)
  note ih = Cons.IH [OF this]
  have "lg_firstTask l = f" using Cons.prems(1) by simp
  then show ?case using ih own n unfolding sum f by auto
qed (simp add: tasks_of_def)

lemma gate_replies [simp]: "gateAllow t = gateAllow t' \<longleftrightarrow> t = t'" "gateReject m \<noteq> gateAllow t" "gateAllow t \<noteq> gateReject m"
proof -
  have tok: "map_option gp_Token (fr_GateResp (gateAllow t)) = Some t" for t by (simp add: gateAllow_def)
  have allow: "map_option gp_Allow (fr_GateResp (gateAllow t)) = Some True" "map_option gp_Allow (fr_GateResp (gateReject m)) = Some False"
    by (simp_all add: gateAllow_def gateReject_def)
  show "gateAllow t = gateAllow t' \<longleftrightarrow> t = t'" using tok [of t] tok [of t'] by (metis option.inject)
  show "gateReject m \<noteq> gateAllow t" "gateAllow t \<noteq> gateReject m" using allow by (metis option.inject)+
qed

lemma place_array_legs_rejects: "yields (place_array_legs req bds master c now lps f placed) (\<lambda>r. \<forall>fr. r = Inl fr \<longrightarrow> (\<exists>m. fr = gateReject m))"
  by (induction lps arbitrary: f placed) (auto simp: Let_def intro!: yielding)

lemma gate_array_legs:
  assumes "handleGateMultiSourceArray req bds c s = (s', Inr (gateAllow master))"
  shows "\<exists>placed. map_of (sv_tokenLegs s') master = Some placed \<and> contiguous 0 placed \<and> (\<forall>l \<in> set placed. 0 < sint (lg_nTasks l))
    \<and> tasks_of placed = sint (gq_NTasks req)"
proof -
  let ?tc = "c * gq_TimeLimit req"
  let ?bals = "map (\<lambda>k. balance_of k (sv_reg s)) bds"
  obtain legs ok where plan: "fundingPlan ?bals ?tc (gq_NTasks req) = (legs, ok)" by fastforce
  have ok: "\<not> ?tc \<le>s 0" "ok"
    using assms plan by (auto simp: handleGateMultiSourceArray_def Let_def balances_def act_Inr split: if_splits bool.splits)
  then obtain s1 s2 now placed where pl: "place_array_legs req bds master c now legs 0 [] s1 = (s2, Inr (Inr placed))"
      "sv_tokenLegs s' = AList.update master placed (sv_tokenLegs s2)"
  proof -
    let ?now = "fst (reg_now (snd (rand_bytes (sv_reg s))))" and ?s1 = "s\<lparr>sv_reg := snd (reg_now (snd (rand_bytes (sv_reg s))))\<rparr>"
    note * = that
    obtain bs where bs: "fst (rand_bytes (sv_reg s)) = Some bs"
      using assms plan ok by (auto simp: handleGateMultiSourceArray_def Let_def balances_def act_Inr split: option.splits)
    obtain s2 x where x: "place_array_legs req bds (token_of bs) c ?now legs 0 [] ?s1 = (s2, Inr x)"
      and fin: "(case x of Inl fr \<Rightarrow> ret fr | Inr placed \<Rightarrow> and_then (modify (\<lambda>s. s\<lparr>sv_tokenLegs := AList.update (token_of bs) placed (sv_tokenLegs s),
            sv_tokenArrayN := AList.update (token_of bs) (gq_NTasks req) (sv_tokenArrayN s)\<rparr>)) (\<lambda>_. ret (gateAllow (token_of bs)))) s2
          = (s', Inr (gateAllow master))"
      using assms plan ok bs by (auto simp: handleGateMultiSourceArray_def Let_def balances_def act_Inr)
    have "\<forall>fr. x = Inl fr \<longrightarrow> (\<exists>m. fr = gateReject m)" using x place_array_legs_rejects unfolding yields_def by blast
    then show thesis using fin x by (cases x) (auto simp: act_Inr intro: *)
  qed
  have c: "contiguous 0 placed" "map lg_nTasks placed = map lp_W legs" using place_array_legs_contiguous [OF pl(1)] by auto
  note F = fundingPlan_True [OF plan [unfolded ok(2) [THEN eqTrueI]]]
  have "tasks_of placed = sum_list (map sint (map lg_nTasks placed))" by (simp add: tasks_of_def comp_def)
  then have tot: "tasks_of placed = sint (gq_NTasks req)" unfolding c(2) using F(4) by (simp add: comp_def)
  have "\<forall>n \<in> set (map lg_nTasks placed). 0 < sint n" unfolding c(2) using F(3) by (auto simp: i64_simps)
  then show ?thesis using c(1) tot pl(2) by (auto simp: map_of_update)
qed

text \<open>
  C31: every task of an array paid by several accounts belongs to exactly one of them. When the gate admits such an array, the recorded legs
  cut the task indices \<open>0\<close> to \<open>N - 1\<close> into ranges: each of them is owned by exactly one leg, which \<open>legForTask\<close> finds with
  an index inside that leg's own array, and no other index is owned by any.
\<close>

theorem array_tasks_have_one_owner:
  assumes "handleGateMultiSourceArray req bds c s = (s', Inr (gateAllow master))"
  shows "\<exists>placed. map_of (sv_tokenLegs s') master = Some placed
    \<and> (\<forall>g. case legForTask placed g of
          None \<Rightarrow> \<not> (0 \<le>s g \<and> g <s gq_NTasks req) \<and> filter (owns g) placed = []
        | Some (l, i) \<Rightarrow> 0 \<le>s g \<and> g <s gq_NTasks req \<and> filter (owns g) placed = [l] \<and> 0 \<le>s i \<and> i <s lg_nTasks l)"
proof -
  obtain placed where p: "map_of (sv_tokenLegs s') master = Some placed" "contiguous 0 placed" "\<forall>l \<in> set placed. 0 < sint (lg_nTasks l)"
      "tasks_of placed = sint (gq_NTasks req)" using gate_array_legs [OF assms] by blast
  have "fits64 (sint (0 :: i64) + tasks_of placed)" unfolding p(4) by simp
  note own = contiguous_owner [OF p(2,3) _ this, simplified p(4)]
  have "case legForTask placed g of None \<Rightarrow> \<not> (0 \<le>s g \<and> g <s gq_NTasks req) \<and> filter (owns g) placed = []
      | Some (l, i) \<Rightarrow> 0 \<le>s g \<and> g <s gq_NTasks req \<and> filter (owns g) placed = [l] \<and> 0 \<le>s i \<and> i <s lg_nTasks l" for g
  proof (cases "find (owns g) placed")
    case None
    then have "filter (owns g) placed = []" by (simp add: find_None_iff filter_empty_conv)
    moreover have "legForTask placed g = None" using None by (simp add: legForTask_def owns_def [abs_def])
    ultimately show ?thesis using own [of g] by (auto simp: i64_simps split: if_splits)
  next
    case (Some l)
    then have l: "l \<in> set placed" "owns g l" by (auto simp: find_Some_iff)
    have len: "length (filter (owns g) placed) = 1" "0 \<le> sint g \<and> sint g < sint (gq_NTasks req)"
      using own [of g] l by (auto simp: filter_empty_conv split: if_splits)
    then obtain a where a: "filter (owns g) placed = [a]" by (auto simp: length_Suc_conv)
    have "l \<in> set (filter (owns g) placed)" using l by simp
    then have one: "filter (owns g) placed = [l]" using a by simp
    have r: "sint (lg_firstTask l) \<le> sint g" "sint g < sint (lg_firstTask l) + sint (lg_nTasks l)" using own [of g] l by auto
    have "fits64 (sint g - sint (lg_firstTask l))"
      using r fits64_sint [of "lg_nTasks l"] by (simp add: fits64_def)
    then have "sint (g - lg_firstTask l) = sint g - sint (lg_firstTask l)" by (rule sint_sub_exact)
    then have "0 \<le>s g - lg_firstTask l" "g - lg_firstTask l <s lg_nTasks l" using r by (auto simp: i64_simps)
    moreover have "legForTask placed g = Some (l, g - lg_firstTask l)" using Some by (simp add: legForTask_def owns_def [abs_def])
    ultimately show ?thesis using one len(2) by (simp add: i64_simps)
  qed
  then show ?thesis using p(1) by blast
qed

theorem array_tasks_have_one_owner_witness:
  "\<exists>master placed. map_of (sv_tokenLegs (fst (handleGateMultiSourceArray (shared_job\<lparr>gq_NTasks := 5, gq_TimeLimit := 5\<rparr>) [''a'', ''b''] 2 counter))) master = Some placed
     \<and> (\<exists>l i. legForTask placed 4 = Some (l, i)) \<and> legForTask placed 5 = None"
proof -
  let ?h = "handleGateMultiSourceArray (shared_job\<lparr>gq_NTasks := 5, gq_TimeLimit := 5\<rparr>) [''a'', ''b''] 2 counter"
  let ?m = "token_of (replicate 16 (char_of (0::nat)))"
  have "snd ?h = Inr (gateAllow ?m)" by code_simp
  then have run: "?h = (fst ?h, Inr (gateAllow ?m))" by (simp add: prod_eq_iff)
  have n: "gq_NTasks (shared_job\<lparr>gq_NTasks := 5, gq_TimeLimit := 5\<rparr>) = 5" by simp
  obtain placed where p: "map_of (sv_tokenLegs (fst ?h)) ?m = Some placed"
    and own: "\<And>g. case legForTask placed g of None \<Rightarrow> \<not> (0 \<le>s g \<and> g <s 5) \<and> filter (owns g) placed = []
        | Some (l, i) \<Rightarrow> 0 \<le>s g \<and> g <s 5 \<and> filter (owns g) placed = [l] \<and> 0 \<le>s i \<and> i <s lg_nTasks l"
    using array_tasks_have_one_owner [OF run] unfolding n by blast
  have "legForTask placed 4 \<noteq> None" using own [of 4] by (cases "legForTask placed 4") (auto simp: i64_simps)
  moreover have "legForTask placed 5 = None" using own [of 5] by (cases "legForTask placed 5") (auto simp: i64_simps)
  ultimately show ?thesis using p by fastforce
qed

definition done_job :: settleRequest where
  "done_job = \<lparr>sq_Token = token_of (replicate 16 (char_of (0::nat))), sq_JobID = [], sq_Kind = SettleComplete, sq_Runtime = 4, sq_Elapsed = 0,
     sq_IsArrayTask = False, sq_Idx = 0\<rparr>"

section \<open>An empty window kills the daemon\<close>

text \<open>A server without accounts, whose clock moves by a second at every reading, and an account with a window of half a second.\<close>

definition office :: server where
  "office = NewWithRegistry (empty_registry\<lparr>rg_env := (rg_env empty_registry)\<lparr>e_clock := (\<lambda>n. 100 + word_of_nat n)\<rparr>\<rparr>)
     \<lparr>PerCPU = 0, PerGPU = 0, PerMem = 0\<rparr> three_users"

definition brief_lab :: createRequest where
  "brief_lab = \<lparr>cq_Account = ''lab'', cq_Balance = 1000, cq_Rate = 2, cq_Window = ''500ms'', cq_AllowUsers = [], cq_AllowGroups = [],
     cq_BurstEnabled = True, cq_BurstCeilingPct = 1, cq_BurstDrawCap = 0\<rparr>"


text \<open>
  The gate does not look at the sign of the time limit: with a negative one the \<open>cost\<close> is negative, passes the solvency check, and the job is
  admitted with its account's balance raised.
\<close>

lemma negative_walltime_mints:
  "snd (handleGate (Some (job\<lparr>gq_TimeLimit := - 100\<rparr>)) desk) = Inr (gateAllow (token_of (replicate 16 (CHR 0x00))))
   \<and> balance_of ''default'' (sv_reg desk) <s balance_of ''default'' (sv_reg (fst (handleGate (Some (job\<lparr>gq_TimeLimit := - 100\<rparr>)) desk)))"
  by code_simp

end
