(* ===== verification/Cli_Spec.thy ===== *)
theory Cli_Spec
  imports Cli Server_Jobs
begin

text \<open>
  The command line against the daemon: a verb's round trip is one request of the router, so the exit status of \<^verbatim>\<open>obol gate\<close> tells the truth about
  the books and \<^verbatim>\<open>obol settle --if-present\<close> may be run again; and where a leading \<^verbatim>\<open>--socket\<close> is lost.
\<close>

section \<open>One verb, one request\<close>

definition stamped :: "frame \<Rightarrow> frame" where
  "stamped f = f\<lparr>fr_Version := ProtocolVersion\<rparr>"

text \<open>The codec decodes what it encoded of this frame, within the size limit.\<close>

definition carries :: "world \<Rightarrow> frame \<Rightarrow> bool" where
  "carries w f \<longleftrightarrow> w_dec w (w_enc w (stamped f)) = Some (stamped f) \<and> int (length (w_enc w (stamped f))) \<le> MaxFrameSize"

definition daemon :: "world \<Rightarrow> peerCred \<Rightarrow> server \<Rightarrow> string \<Rightarrow> (server \<times> gofile \<times> panic option) option" where
  "daemon w peer s bs = handleConn (w_enc w) (w_dec w) peer False (length bs div 8 + 1) bs (open_file []) s"

text \<open>Every local socket of the world leads to the daemon in state \<open>s\<close>.\<close>

definition connected :: "world \<Rightarrow> peerCred \<Rightarrow> server \<Rightarrow> bool" where
  "connected w peer s \<longleftrightarrow>
     TrimSpace (w_getenv w ''OBOL_ADDR'') = [] \<and> (\<forall>a. w_dial w ''unix'' a = None) \<and> w_setDeadline w = None \<and> w_conn w = open_file []
     \<and> (\<forall>a bs. w_answer w ''unix'' a bs = (case daemon w peer s bs of Some (_, out, _) \<Rightarrow> f_bytes out | None \<Rightarrow> []))"

text \<open>The daemon after the request.\<close>

definition daemon_after :: "world \<Rightarrow> peerCred \<Rightarrow> server \<Rightarrow> frame \<Rightarrow> server" where
  "daemon_after w peer s req = (case daemon w peer s (frame_bytes (w_enc w (stamped req))) of Some (s', _, _) \<Rightarrow> s' | None \<Rightarrow> s)"

lemma dispatch_stamped: "dispatch (stamped req) peer = dispatch req peer"
  by (simp add: dispatch_def stamped_def cong: if_cong)

lemma daemon_one_request:
  assumes req: "carries w req" and run: "dispatch req peer s = (s', Inr resp)" and resp: "carries w resp"
  shows "\<exists>out. daemon w peer s (frame_bytes (w_enc w (stamped req))) = Some (s', out, None) \<and> f_bytes out = frame_bytes (w_enc w (stamped resp))"
proof -
  let ?bs = "frame_bytes (w_enc w (stamped req))"
  have "2 \<le> length ?bs div 8 + 1" by (simp add: frame_bytes_def)
  then obtain n where n: "length ?bs div 8 + 1 = Suc (Suc n)" by (metis Suc_le_D numeral_2_eq_2 Suc_le_mono le_Suc_ex add_2_eq_Suc)
  have rd: "ReadFrame (w_dec w) ?bs = (Inr (stamped req), [])"
    using req ReadFrame_frame [of "w_enc w (stamped req)" "w_dec w" "[]"] by (simp add: carries_def stamped_def)
  have wr: "WriteFrame (w_enc w) resp (open_file []) = ((open_file [])\<lparr>f_bytes := frame_bytes (w_enc w (stamped resp))\<rparr>, None)"
    using resp WriteFrame_healthy [of "open_file []" "w_enc w" resp] by (simp add: carries_def stamped_def open_file_def)
  have "dispatchTransport (stamped req) peer False s = (s', Inr resp)" using run by (simp add: dispatchTransport_def dispatch_stamped)
  moreover have "ReadFrame (w_dec w) [] = (Inl ErrEOF, [])" by (simp add: ReadFrame_def)
  ultimately show ?thesis unfolding daemon_def n by (simp add: rd wr)
qed

lemma roundTrip_connected:
  assumes conn: "connected w peer s" and req: "carries w req" and run: "dispatch req peer s = (s', Inr resp)" and resp: "carries w resp"
  shows "roundTrip w socket req = Inr (stamped resp)" and "daemon_after w peer s req = s'"
proof -
  from daemon_one_request [OF req run resp] obtain out
    where d: "daemon w peer s (frame_bytes (w_enc w (stamped req))) = Some (s', out, None)" "f_bytes out = frame_bytes (w_enc w (stamped resp))" by blast
  then show "daemon_after w peer s req = s'" by (simp add: daemon_after_def)
  have rt: "resolveTarget w socket = Inr (''unix'', socket, [])" using conn by (simp add: resolveTarget_def connected_def)
  have wr: "WriteFrame (w_enc w) req (open_file []) = ((open_file [])\<lparr>f_bytes := frame_bytes (w_enc w (stamped req))\<rparr>, None)"
    using req WriteFrame_healthy [of "open_file []" "w_enc w" req] by (simp add: carries_def stamped_def open_file_def)
  have rd: "ReadFrame (w_dec w) (frame_bytes (w_enc w (stamped resp))) = (Inr (stamped resp), [])"
    using resp ReadFrame_frame [of "w_enc w (stamped resp)" "w_dec w" "[]"] by (simp add: carries_def stamped_def)
  show "roundTrip w socket req = Inr (stamped resp)"
    using conn by (simp add: roundTrip_def rt wr Let_def connected_def d rd)
qed

lemma with_reply_connected:
  assumes "connected w peer s" "carries w req" "dispatch req peer s = (s', Inr resp)" "carries w resp"
  shows "with_reply w socket req k = k (stamped resp)"
  by (simp add: with_reply_def roundTrip_connected(1) [OF assms])

lemma with_flags_parsed:
  "parse_flags (w_parseFloat w) ((''socket'', KStr) # specs) [] args = Some (vals, rest) \<Longrightarrow> with_flags w specs args k = k vals rest"
  by (simp add: with_flags_def)

lemma Run_verb:
  "Run w (''gate'' # args) = cmdGate w args" "Run w (''settle'' # args) = cmdSettle w args"
  by (simp_all add: Run_def hoistGlobalFlags_def has_prefix_def)

section \<open>The gate\<close>

text \<open>
  C28: the exit status of \<^verbatim>\<open>obol gate\<close> is the truth about the books. Run against a daemon that answers, with a positive time limit and one account, the command
  ends with status 0 or 3 and nothing else. With status 0 it printed the token of a reservation that is now in the account's budget, made by a
  successful kernel submission, and routed under that token; with status 3 no book entry of any account and no route changed.
\<close>

theorem obol_gate_exit_status:
  assumes conn: "connected w peer s"
    and flags: "parse_flags (w_parseFloat w) ((''socket'', KStr) # gate_flags) [] args = Some (vals, rest)"
    and req: "req = gate_request vals" and limit: "0 <s gq_TimeLimit req" and uid: "uint_flag vals ''uid'' < 2 ^ 32" and src: "gq_Sources req = []"
    and run: "handleGate (Some req) s = (s', Inr fr)" and codec: "carries w (GateFrame req)" "carries w fr"
  shows "daemon_after w peer s (GateFrame req) = s'
    \<and> ((\<exists>token k b. Run w (''gate'' # args) = prints 0 [[PText (''allow '' @ token)]]
          \<and> Resolve (gq_Account req) (sv_reg s) = Inr k \<and> map_of (rg_budgets (sv_reg s)) k = Some b
          \<and> snd (gate_submit req token (gate_rate (gq_Partition req) (gq_TRES req) s) (fst (reg_now (sv_reg s))) b) = Done
          \<and> map_of (rg_budgets (sv_reg s')) k
            = Some (fst (gate_submit req token (gate_rate (gq_Partition req) (gq_TRES req) s) (fst (reg_now (sv_reg s))) b))
          \<and> map_of (sv_tokenBudget s') token = Some k)
      \<or> (\<exists>m. Run w (''gate'' # args) = prints 3 [PText ''reject: '' # m] \<and> sv_tokenBudget s' = sv_tokenBudget s
          \<and> (\<forall>k b. map_of (rg_budgets (sv_reg s)) k = Some b \<longrightarrow> (\<exists>b'. map_of (rg_budgets (sv_reg s')) k = Some b' \<and> same_books b' b))))"
proof -
  have d: "dispatch (GateFrame req) peer s = (s', Inr fr)" using run by (simp add: dispatch_def GateFrame_def)
  have lim: "\<not> int_flag vals ''time-limit'' 0 \<le>s 0" using limit by (simp add: req gate_request_def not_sle)
  have res: "Run w (''gate'' # args) = (case fr_GateResp fr of None \<Rightarrow> cli_fail (lit ''empty gate response'')
      | Some g \<Rightarrow> if \<not> gp_Allow g then prints 3 [PText ''reject: '' # gp_Reason g] else prints 0 [[PText (''allow '' @ gp_Token g)]])"
    using lim uid by (simp add: Run_verb cmdGate_def with_flags_parsed [OF flags] with_reply_connected [OF conn codec(1) d codec(2)]
        req [symmetric] stamped_def)
  show ?thesis
    using handleGate_single_cases [OF src run] roundTrip_connected(2) [OF conn codec(1) d codec(2)] res
    by (fastforce simp: gateAllow_def gateReject_def gateResponse0_def map_of_update)
qed

section \<open>Settling twice\<close>

lemma already_settled:
  "m \<in> {lit ''no token: unknown job'', lit ''no such escrow''} \<Longrightarrow> isAlreadySettled (text_of w (reasonOf (stamped (settleReject m))))"
  by (auto simp: isAlreadySettled_def text_of_def reasonOf_def stamped_def settleReject_def settleReply_def frame0_def lit_def)

text \<open>
  C29: a completion hook may fire twice. If \<^verbatim>\<open>obol settle --if-present\<close> settled a job (by token or by scheduler job), running the same command again, against the
  daemon as the first run left it, prints that it is already settled, exits with status 0, and leaves the daemon exactly as it was.
\<close>

theorem obol_settle_if_present_twice:
  assumes flags: "parse_flags (w_parseFloat w) ((''socket'', KStr) # settle_flags) [] args = Some (vals, rest)"
    and present: "bool_flag vals ''if-present''" and who: "str_flag vals ''jobid'' [] \<noteq> [] \<or> str_flag vals ''token'' [] \<noteq> []"
    and kind: "parseSettleKind (str_flag vals ''kind'' []) = Inr sk" and req: "req = settle_request vals sk" and job: "\<not> sq_IsArrayTask req"
    and one: "map_of (sv_tokenLegs s) (settle_token req s) = None \<or> map_of (sv_tokenBudget s) (settle_token req s) = None"
    and first: "handleSettle (Some req) s = (s', Inr (settleReply True []))"
    and conn: "connected w peer s'" and codec: "carries w (SettleFrame req)" "\<forall>m \<in> {lit ''no token: unknown job'', lit ''no such escrow''}. carries w (settleReject m)"
  shows "Run w (''settle'' # args) = prints 0 [lit ''already settled''] \<and> daemon_after w peer s' (SettleFrame req) = s'"
proof -
  obtain m where m: "m \<in> {lit ''no token: unknown job'', lit ''no such escrow''}" "handleSettle (Some req) s' = (s', Inr (settleReject m))"
    using settle_twice [OF first job one] by blast
  have d: "dispatch (SettleFrame req) peer s' = (s', Inr (settleReject m))"
    using m(2) by (simp add: dispatch_def SettleFrame_def wire_kind_defs)
  have c: "carries w (settleReject m)" using codec(2) m(1) by blast
  have "fr_SettleResp (stamped (settleReject m)) = Some \<lparr>sp_OK = False, sp_Reason = m\<rparr>"
    by (simp add: stamped_def settleReject_def settleReply_def)
  then show ?thesis
    using roundTrip_connected(2) [OF conn codec(1) d c] present who kind already_settled [OF m(1), of w]
    by (auto simp: Run_verb cmdSettle_def with_flags_parsed [OF flags] with_reply_connected [OF conn codec(1) d c] req [symmetric])
qed

section \<open>The place of the socket flag\<close>

text \<open>After flags only, a socket flag is as good at the end as at the front.\<close>

lemma parse_flags_append:
  "parse_flags pf specs vals args = Some (vals', []) \<Longrightarrow> ''--'' \<notin> set args
    \<Longrightarrow> parse_flags pf specs vals (args @ later) = parse_flags pf specs vals' later"
proof (induction pf specs vals args rule: parse_flags.induct)
  case (2 pf specs vals a args)
  obtain name v where a: "flag_arg a = Named name v"
    using 2(2,3) by (cases "flag_arg a") (auto simp: flag_arg_def Let_def split: if_splits)
  with 2(2) obtain k fv where k: "map_of specs name = Some k" "\<not> ((v = None \<and> k \<noteq> KBool) \<and> args = [])"
      "read_flag pf k (case v of Some x \<Rightarrow> x | None \<Rightarrow> if k = KBool then ''true'' else hd args) = Some fv"
      "parse_flags pf specs ((name, fv) # vals) (if v = None \<and> k \<noteq> KBool then tl args else args) = Some (vals', [])"
    by (auto simp: Let_def split: option.splits if_splits)
  have sub: "''--'' \<notin> set (if v = None \<and> k \<noteq> KBool then tl args else args)" using 2(3) by (cases args) auto
  show ?case using k 2(1) [OF a k(1) refl k(2) k(3) k(4) sub] by (cases args) (auto simp: a Let_def split: if_splits)
qed simp

text \<open>
  C22: a leading \<^verbatim>\<open>--socket\<close> does not reach \<^verbatim>\<open>reconcile\<close> when job ids are given. The flag is moved behind the ids, where flag parsing has stopped: the request goes to the
  default socket, and the flag and its value are sent as two more live job ids. Behind the verb the same flag works.
\<close>

theorem reconcile_loses_leading_socket:
  assumes "ids \<noteq> []" and "flag_arg (hd ids) = Positional"
  shows "Run w ([''--socket'', path, ''reconcile''] @ ids) = reconcile_ids w DefaultSocket (ids @ [''--socket'', path])
    \<and> Run w ([''reconcile'', ''--socket'', path] @ ids) = reconcile_ids w path ids"
proof -
  obtain i js where ids: "ids = i # js" using assms(1) by (cases ids) auto
  have fa: "flag_arg ''--socket'' = Named ''socket'' None" by (simp add: flag_arg_def)
  have p: "flag_arg i = Positional" using assms(2) ids by simp
  show ?thesis
    by (simp add: ids Run_def hoistGlobalFlags_def has_prefix_def cmdReconcile_def with_flags_def p fa read_flag_def socketFlag_def str_flag_def)
qed

section \<open>A shell and a daemon\<close>

text \<open>A world whose local sockets lead to the daemon \<open>s\<close>, with a codec for the listed frames.\<close>

definition shell :: "frame list \<Rightarrow> peerCred \<Rightarrow> server \<Rightarrow> world" where
  "shell fs peer s =
     (let enc = (\<lambda>f. replicate (length (takeWhile (\<lambda>g. g \<noteq> f) (map stamped fs))) (CHR ''x''));
          dec = (\<lambda>b. if length b < length fs then Some (stamped (fs ! length b)) else None)
      in \<lparr>w_getenv = (\<lambda>_. []), w_readFile = (\<lambda>_. Inr []), w_stdin = [], w_now = 5, w_dial = (\<lambda>_ _. None), w_setDeadline = None, w_conn = open_file [],
          w_answer = (\<lambda>_ _ bs. case handleConn enc dec peer False (length bs div 8 + 1) bs (open_file []) s of Some (_, out, _) \<Rightarrow> f_bytes out | None \<Rightarrow> []),
          w_enc = enc, w_dec = dec, w_wireText = (\<lambda>_. []), w_quote = (\<lambda>x. x), w_formatFloat = (\<lambda>_. []), w_parseFloat = (\<lambda>_. None),
          w_parseRFC3339 = (\<lambda>_. None)\<rparr>)"

lemma shell_connected: "connected (shell fs peer s) peer s"
proof -
  have "TrimSpace [] = []" by code_simp
  then show ?thesis by (simp add: connected_def shell_def Let_def daemon_def)
qed

lemma shell_carries:
  assumes "f \<in> set fs" "length fs \<le> 1000"
  shows "carries (shell fs peer s) f"
proof -
  let ?n = "length (takeWhile (\<lambda>g. g \<noteq> stamped f) (map stamped fs))"
  have "?n < length (map stamped fs)" using assms(1) by (induction fs) auto
  moreover from this have "map stamped fs ! ?n = stamped f" using nth_length_takeWhile by fastforce
  ultimately show ?thesis using assms(2) by (simp add: carries_def shell_def Let_def MaxFrameSize_def)
qed

definition gate_args :: "string list" where
  "gate_args = [''--account'', ''default'', ''--time-limit'', ''10'']"

definition settle_args :: "string list" where
  "settle_args = [''--token'', token_of (replicate 16 (char_of (0::nat))), ''--kind=complete'', ''--runtime'', ''4'', ''--if-present'']"

theorem reconcile_loses_leading_socket_witness:
  "Run (shell [] local_peer desk) [''--socket'', ''/s'', ''reconcile'', ''17'']
     = reconcile_ids (shell [] local_peer desk) DefaultSocket [''17'', ''--socket'', ''/s'']"
  using reconcile_loses_leading_socket [of "[''17'']" "shell [] local_peer desk" "''/s''"] by (simp add: flag_arg_def)

theorem obol_gate_exit_status_witness:
  "\<exists>fs token b. Run (shell fs local_peer desk) (''gate'' # gate_args) = prints 0 [[PText (''allow '' @ token)]]
     \<and> map_of (rg_budgets (sv_reg desk)) ''default'' = Some b"
proof -
  let ?vals = "[(''time-limit'', VInt 10), (''account'', VStr ''default'')]"
  let ?req = "gate_request ?vals" and ?tok = "token_of (replicate 16 (char_of (0::nat)))"
  let ?w = "shell [GateFrame ?req, gateAllow ?tok] local_peer desk"
  have "parse_flags (\<lambda>_. None) ((''socket'', KStr) # gate_flags) [] gate_args = Some (?vals, [])" by code_simp
  then have flags: "parse_flags (w_parseFloat ?w) ((''socket'', KStr) # gate_flags) [] gate_args = Some (?vals, [])" by (simp add: shell_def Let_def)
  have "snd (handleGate (Some ?req) desk) = Inr (gateAllow ?tok)" by code_simp
  then have run: "handleGate (Some ?req) desk = (fst (handleGate (Some ?req) desk), Inr (gateAllow ?tok))" by (simp add: prod_eq_iff)
  have side: "0 <s gq_TimeLimit ?req" "uint_flag ?vals ''uid'' < 2 ^ 32" "gq_Sources ?req = []" "gq_Account ?req = ''default''" by code_simp+
  have "sv_tokenBudget (fst (handleGate (Some ?req) desk)) \<noteq> sv_tokenBudget desk" "Resolve ''default'' (sv_reg desk) = Inr ''default''" by code_simp+
  then show ?thesis
    using obol_gate_exit_status [OF shell_connected flags refl side(1-3) run] side(4) by (auto simp: shell_carries)
qed

theorem obol_settle_if_present_twice_witness:
  "\<exists>fs s. Run (shell fs local_peer s) (''settle'' # settle_args) = prints 0 [lit ''already settled'']"
proof -
  let ?vals = "[(''if-present'', VBool True), (''runtime'', VInt 4), (''kind'', VStr ''complete''), (''token'', VStr (token_of (replicate 16 (char_of (0::nat)))))]"
  let ?req = "settle_request ?vals SettleComplete" and ?s = "fst (handleGate (Some job) desk)"
  let ?s' = "fst (handleSettle (Some ?req) ?s)"
  let ?w = "shell [SettleFrame ?req, settleReject (lit ''no token: unknown job''), settleReject (lit ''no such escrow'')] local_peer ?s'"
  have "parse_flags (\<lambda>_. None) ((''socket'', KStr) # settle_flags) [] settle_args = Some (?vals, [])" by code_simp
  then have flags: "parse_flags (w_parseFloat ?w) ((''socket'', KStr) # settle_flags) [] settle_args = Some (?vals, [])" by (simp add: shell_def Let_def)
  have "snd (handleSettle (Some ?req) ?s) = Inr (settleReply True [])" by code_simp
  then have run: "handleSettle (Some ?req) ?s = (?s', Inr (settleReply True []))" by (simp add: prod_eq_iff)
  have side: "bool_flag ?vals ''if-present''" "str_flag ?vals ''jobid'' [] \<noteq> [] \<or> str_flag ?vals ''token'' [] \<noteq> []"
    "parseSettleKind (str_flag ?vals ''kind'' []) = Inr SettleComplete" "\<not> sq_IsArrayTask ?req"
    "map_of (sv_tokenLegs ?s) (settle_token ?req ?s) = None \<or> map_of (sv_tokenBudget ?s) (settle_token ?req ?s) = None"
    by code_simp+
  have "Run ?w (''settle'' # settle_args) = prints 0 [lit ''already settled'']"
    using obol_settle_if_present_twice [OF flags side(1-3) refl side(4,5) run shell_connected] by (auto simp: shell_carries)
  then show ?thesis by blast
qed

end
