(* ===== verification/Obold.thy ===== *)
theory Obold
  imports Server_Spec Go_Flags
begin

text \<open>
  The daemon process (\<^verbatim>\<open>cmd/obold/main.go\<close>, \<^verbatim>\<open>socketperm.go\<close>) and the reading of its configuration file (\<open>LoadConfig\<close>
  of \<^verbatim>\<open>internal/daemon/config.go\<close>): the command line, start-up in the order of \<open>run\<close>, and the serving process as a step relation.

  \<^item> The host is an argument: the files, the JSON decoder of the configuration, the group database, the user database and the errors of
    closing a log. Whether a system call on the socket fails is in the environment of the registry, as for its other file operations.
  \<^item> Requests of all connections and the ticks of the janitor interleave in any order, one whole handler at a time.
\<close>

section \<open>The host\<close>

record host =
  h_readFile :: "string \<Rightarrow> string option"
  h_decodeConfig :: "string \<Rightarrow> config option"
  h_lookupGroup :: "string \<Rightarrow> string option"
  h_ident :: "uid \<Rightarrow> identity option"
  h_close :: "string \<Rightarrow> err option"

definition LoadConfig :: "host \<Rightarrow> string \<Rightarrow> msg + config" where
  "LoadConfig h path =
     (case h_readFile h path of
        None \<Rightarrow> Inl ([PText ''read config: ''] @ io_error)
      | Some data \<Rightarrow>
          (case h_decodeConfig h data of
             None \<Rightarrow> Inl [PText (''parse config '' @ path)]
           | Some c \<Rightarrow> (case validate c of Some e \<Rightarrow> Inl e | None \<Rightarrow> Inr c)))"

definition readAuthToken :: "host \<Rightarrow> string \<Rightarrow> msg + string" where
  "readAuthToken h path =
     (case h_readFile h path of
        None \<Rightarrow> Inl ([PText ''read auth-token-file: ''] @ io_error)
      | Some b \<Rightarrow>
          let tok = TrimSpace b
          in if length tok < 16
             then Inl [PText (''auth token in '' @ path @ '' too short (need >= 16 chars; generate e.g. `openssl rand -hex 32`)'')]
             else Inr tok)"

section \<open>The command line\<close>

record obold_config =
  oc_sock :: string
  oc_dir :: string
  oc_sockGroup :: string
  oc_sockMode :: string
  oc_listen :: string
  oc_authTokenFile :: string
  oc_configPath :: string
  oc_sync :: bool
  oc_create :: bool
  oc_rate :: i64
  oc_b0 :: i64
  oc_window :: i64
  oc_unboundTTL :: i64
  oc_sweepEvery :: i64
  oc_weights :: weights

text \<open>The flags with their kinds and defaults; durations are in nanoseconds.\<close>

definition obold_flags :: "(string \<times> fkind \<times> fval) list" where
  "obold_flags =
     [(''socket'', KStr, VStr ''/run/obol/obold.sock''), (''socket-group'', KStr, VStr []), (''socket-mode'', KStr, VStr []),
      (''listen'', KStr, VStr []), (''auth-token-file'', KStr, VStr []), (''state-dir'', KStr, VStr ''/var/lib/obol''),
      (''config'', KStr, VStr []), (''sync'', KBool, VBool True), (''unbound-ttl'', KDur, VDur 900000000000),
      (''sweep-interval'', KDur, VDur 60000000000), (''create'', KBool, VBool False), (''rate'', KInt, VInt 1), (''balance'', KInt, VInt 0),
      (''window'', KDur, VDur 2592000000000000), (''tres-per-cpu'', KInt, VInt 0), (''tres-per-gpu'', KInt, VInt 0),
      (''tres-per-mem'', KInt, VInt 0)]"

definition obold_config_of :: "(string \<times> fval) list \<Rightarrow> obold_config" where
  "obold_config_of vals =
     \<lparr>oc_sock = str_flag vals ''socket'' [], oc_dir = str_flag vals ''state-dir'' [], oc_sockGroup = str_flag vals ''socket-group'' [],
      oc_sockMode = str_flag vals ''socket-mode'' [], oc_listen = str_flag vals ''listen'' [],
      oc_authTokenFile = str_flag vals ''auth-token-file'' [], oc_configPath = str_flag vals ''config'' [],
      oc_sync = bool_flag vals ''sync'', oc_create = bool_flag vals ''create'', oc_rate = int_flag vals ''rate'' 0,
      oc_b0 = int_flag vals ''balance'' 0, oc_window = dur_flag vals ''window'', oc_unboundTTL = dur_flag vals ''unbound-ttl'',
      oc_sweepEvery = dur_flag vals ''sweep-interval'',
      oc_weights = \<lparr>PerCPU = int_flag vals ''tres-per-cpu'' 0, PerGPU = int_flag vals ''tres-per-gpu'' 0, PerMem = int_flag vals ''tres-per-mem'' 0\<rparr>\<rparr>"

text \<open>Arguments after the flags are ignored. No flag holds a float.\<close>

definition parse_args :: "string list \<Rightarrow> obold_config option" where
  "parse_args args =
     map_option (\<lambda>(vals, _). obold_config_of vals)
       (parse_flags (\<lambda>_. None) (map (\<lambda>(n, k, _). (n, k)) obold_flags) (map (\<lambda>(n, _, v). (n, v)) obold_flags) args)"

section \<open>Printing a duration\<close>

text \<open>\<open>fmtFrac\<close>: the fraction without its trailing zeros, and its point if anything is left.\<close>

definition frac_text :: "int \<Rightarrow> nat \<Rightarrow> string" where
  "frac_text v prec =
     (let ds = nat_dec (v mod 10 ^ prec);
          kept = rev (dropWhile (\<lambda>c. c = CHR ''0'') (rev (replicate (prec - length ds) CHR ''0'' @ ds)))
      in if prec = 0 \<or> kept = [] then [] else CHR ''.'' # kept)"

text \<open>\<open>Duration.String\<close>.\<close>

definition duration_string :: "i64 \<Rightarrow> string" where
  "duration_string d =
     (let u = \<bar>sint d\<bar>;
          sign = (if d <s 0 then ''-'' else []);
          small = (\<lambda>prec name. sign @ nat_dec (u div 10 ^ prec) @ frac_text u prec @ name)
      in if u = 0 then ''0s''
         else if u < 1000 then small 0 ''ns''
         else if u < 1000000 then small 3 [CHR 0xC2, CHR 0xB5, CHR ''s'']
         else if u < 1000000000 then small 6 ''ms''
         else let secs = u div 1000000000;
                  mins = secs div 60;
                  hours = mins div 60
              in sign @ (if hours = 0 then [] else nat_dec hours @ ''h'')
                      @ (if mins = 0 then [] else nat_dec (mins mod 60) @ ''m'')
                      @ nat_dec (secs mod 60) @ frac_text u 9 @ ''s'')"

section \<open>The registry\<close>

definition default_account :: "obold_config \<Rightarrow> accountConfig" where
  "default_account cfg =
     account0\<lparr>ac_Name := ''default'', ac_Balance := oc_b0 cfg, ac_Rate := oc_rate cfg, ac_Window := duration_string (oc_window cfg)\<rparr>"

definition one_account :: "obold_config \<Rightarrow> config" where
  "one_account cfg = \<lparr>cf_Accounts = [default_account cfg], cf_AdminUsers = [], cf_AdminGroups = [], cf_NodeTypes = [], cf_Partitions = []\<rparr>"

text \<open>Without \<^verbatim>\<open>-create\<close> the budget has to be there already; the budget opened for the check is dropped.\<close>

definition missing_default :: "obold_config \<Rightarrow> registry \<Rightarrow> fault option" where
  "missing_default cfg r =
     (case open_dir (path_join (oc_dir cfg) ''default'') (r\<lparr>rg_budgets := [], rg_sync := oc_sync cfg\<rparr>) of
        Inr _ \<Rightarrow> None
      | Inl (Panic p) \<Rightarrow> Some (Crash p)
      | Inl x \<Rightarrow>
          Some (Err ([PText (''no budget in '' @ oc_dir cfg @ ''/default: '')] @ (case x of Fail e \<Rightarrow> err_msg e | _ \<Rightarrow> [])
                     @ lit '' (pass -create or -config)'')))"

definition buildRegistry :: "host \<Rightarrow> obold_config \<Rightarrow> registry \<Rightarrow> registry \<times> (fault + config)" where
  "buildRegistry h cfg r0 =
     (let start = (\<lambda>c. case NewRegistry c (oc_dir cfg) (oc_sync cfg) r0 of
                         (r, Some e) \<Rightarrow> (r, Inl e)
                       | (r, None) \<Rightarrow> (r, Inr c))
      in if oc_configPath cfg \<noteq> [] then
           (case LoadConfig h (oc_configPath cfg) of Inl e \<Rightarrow> (r0, Inl (Err e)) | Inr c \<Rightarrow> start c)
         else case (if oc_create cfg then None else missing_default cfg r0) of
                Some e \<Rightarrow> (r0, Inl e)
              | None \<Rightarrow> start (one_account cfg))"

section \<open>Socket permissions\<close>

definition lookupGID :: "host \<Rightarrow> string \<Rightarrow> msg + i64" where
  "lookupGID h grp =
     (case h_lookupGroup h grp of
        Some gid \<Rightarrow> (case ParseInt10 gid of None \<Rightarrow> Inl [PText ''parsing '', PQuoted gid] | Some n \<Rightarrow> Inr n)
      | None \<Rightarrow>
          (case ParseInt10 grp of
             Some n \<Rightarrow> if 0 \<le>s n then Inr n else Inl (lit ''unknown group (not a name or numeric gid)'')
           | None \<Rightarrow> Inl (lit ''unknown group (not a name or numeric gid)'')))"

text \<open>\<open>strconv.ParseUint(mode, 8, 32)\<close>, and a number in octal.\<close>

definition ParseUint8 :: "string \<Rightarrow> int option" where
  "ParseUint8 s =
     (if s = [] \<or> CHR ''_'' \<in> set s then None
      else case digits_value 8 0 s of None \<Rightarrow> None | Some n \<Rightarrow> if 2 ^ 32 \<le> n then None else Some n)"

fun octal_digits :: "nat \<Rightarrow> int \<Rightarrow> string" where
  "octal_digits 0 n = []"
| "octal_digits (Suc k) n = (if n < 8 then [char_of (nat n + 48)] else octal_digits k (n div 8) @ [char_of (nat (n mod 8) + 48)])"

definition octal :: "int \<Rightarrow> string" where
  "octal n = octal_digits 11 n"

definition parseMode :: "string \<Rightarrow> msg + int" where
  "parseMode mode =
     (case ParseUint8 mode of
        None \<Rightarrow> Inl (lit ''not octal'')
      | Some n \<Rightarrow> if 511 < n then Inl [PText (''mode '' @ octal n @ '' out of range'')] else Inr n)"

text \<open>The group and the mode the socket is given; \<open>None\<close> leaves them as they are.\<close>

record sock_perms =
  sp_gid :: "i64 option"
  sp_mode :: "int option"

definition sock_group :: "host \<Rightarrow> string \<Rightarrow> registry \<Rightarrow> registry \<times> (msg + i64 option)" where
  "sock_group h grp r =
     (if grp = [] then (r, Inr None)
      else case lookupGID h grp of
             Inl e \<Rightarrow> (r, Inl ([PText ''socket-group '', PQuoted grp, PText '': ''] @ e))
           | Inr gid \<Rightarrow>
               (case io_fails r of
                  (True, r') \<Rightarrow> (r', Inl ([PText ''chown socket to gid '', PInt gid, PText '': ''] @ io_error))
                | (False, r') \<Rightarrow> (r', Inr (Some gid))))"

definition sock_chmod :: "string \<Rightarrow> registry \<Rightarrow> registry \<times> (msg + int option)" where
  "sock_chmod mode r =
     (if mode = [] then (r, Inr None)
      else case parseMode mode of
             Inl e \<Rightarrow> (r, Inl ([PText ''socket-mode '', PQuoted mode, PText '': ''] @ e))
           | Inr m \<Rightarrow>
               (case io_fails r of
                  (True, r') \<Rightarrow> (r', Inl ([PText (''chmod socket to '' @ octal m @ '': '')] @ io_error))
                | (False, r') \<Rightarrow> (r', Inr (Some m))))"

definition applySocketPerms :: "host \<Rightarrow> string \<Rightarrow> string \<Rightarrow> registry \<Rightarrow> registry \<times> (msg + sock_perms)" where
  "applySocketPerms h grp mode r =
     (case sock_group h grp r of
        (r1, Inl e) \<Rightarrow> (r1, Inl e)
      | (r1, Inr g) \<Rightarrow>
          (case sock_chmod mode r1 of
             (r2, Inl e) \<Rightarrow> (r2, Inl e)
           | (r2, Inr m) \<Rightarrow> (r2, Inr \<lparr>sp_gid = g, sp_mode = m\<rparr>)))"

section \<open>Start-up\<close>

text \<open>A started daemon: its server, the permissions of the socket, whether it listens on TCP, and the time to live its janitor uses, if it runs.\<close>

record running =
  rn_server :: server
  rn_perms :: sock_perms
  rn_tcp :: bool
  rn_janitor :: "Seconds option"

datatype start = Stopped fault registry | Serving running

definition auth_token :: "host \<Rightarrow> obold_config \<Rightarrow> msg + string option" where
  "auth_token h cfg =
     (if oc_listen cfg = [] then Inr None
      else if oc_authTokenFile cfg = [] then Inl (lit ''-listen requires -auth-token-file (TCP clients must authenticate)'')
      else case readAuthToken h (oc_authTokenFile cfg) of Inl e \<Rightarrow> Inl e | Inr tok \<Rightarrow> Inr (Some tok))"

text \<open>The listeners, in the order they are opened: the directory of the socket, the socket, its permissions, TCP.\<close>

definition open_listeners :: "host \<Rightarrow> obold_config \<Rightarrow> registry \<Rightarrow> registry \<times> (msg + sock_perms)" where
  "open_listeners h cfg r =
     (case io_fails r of
        (True, r1) \<Rightarrow> (r1, Inl ([PText ''socket dir: ''] @ io_error))
      | (False, r1) \<Rightarrow>
          (case io_fails r1 of
             (True, r2) \<Rightarrow> (r2, Inl ([PText ''listen: ''] @ io_error))
           | (False, r2) \<Rightarrow>
               (case applySocketPerms h (oc_sockGroup cfg) (oc_sockMode cfg) r2 of
                  (r3, Inl e) \<Rightarrow> (r3, Inl e)
                | (r3, Inr p) \<Rightarrow>
                    if oc_listen cfg = [] then (r3, Inr p)
                    else case io_fails r3 of
                           (True, r4) \<Rightarrow> (r4, Inl ([PText (''tcp listen '' @ oc_listen cfg @ '': '')] @ io_error))
                         | (False, r4) \<Rightarrow> (r4, Inr p))))"

definition janitor_ttl :: "obold_config \<Rightarrow> Seconds option" where
  "janitor_ttl cfg =
     (if 0 <s oc_unboundTTL cfg \<and> 0 <s oc_sweepEvery cfg then Some (go_div (oc_unboundTTL cfg) 1000000000) else None)"

text \<open>\<open>run\<close> up to the accept loops. An error after the registry is built closes its logs.\<close>

definition run :: "host \<Rightarrow> obold_config \<Rightarrow> registry \<Rightarrow> start" where
  "run h cfg r0 =
     (case buildRegistry h cfg r0 of
        (r, Inl e) \<Rightarrow> Stopped e r
      | (reg, Inr parsed) \<Rightarrow>
          let closing = (\<lambda>e r. Stopped (Err e) (fst (reg_Close (h_close h) r)))
          in case BuildNodeCost parsed of
               Inl e \<Rightarrow> closing e reg
             | Inr nc \<Rightarrow>
                 (case auth_token h cfg of
                    Inl e \<Rightarrow> closing e reg
                  | Inr tok \<Rightarrow>
                      (case open_listeners h cfg reg of
                         (r, Inl e) \<Rightarrow> closing e r
                       | (r, Inr perms) \<Rightarrow>
                           let srv = SetNodeCost (Some nc) (NewWithRegistry r (oc_weights cfg) (h_ident h))
                           in Serving \<lparr>rn_server = (case tok of None \<Rightarrow> srv | Some t \<Rightarrow> SetAuthToken t srv), rn_perms = perms,
                                        rn_tcp = (oc_listen cfg \<noteq> []), rn_janitor = janitor_ttl cfg\<rparr>)))"

datatype process = Version | BadFlags | Ran start

definition obold_main :: "host \<Rightarrow> string list \<Rightarrow> registry \<Rightarrow> process" where
  "obold_main h args r0 =
     (if args \<noteq> [] \<and> hd args = ''version'' then Version
      else case parse_args args of None \<Rightarrow> BadFlags | Some cfg \<Rightarrow> Ran (run h cfg r0))"

text \<open>One tick of \<open>runJanitor\<close>.\<close>

definition janitor_tick :: "Seconds \<Rightarrow> nat act" where
  "janitor_tick ttlSecs = srv_SweepUnbound ttlSecs"

text \<open>The states of a serving daemon: requests on the local socket, requests over TCP if it listens there, ticks of the janitor if it runs.\<close>

inductive serving :: "running \<Rightarrow> server \<Rightarrow> bool" for rn :: running where
  boot: "serving rn (rn_server rn)"
| local: "serving rn s \<Longrightarrow> dispatchTransport req peer False s = (s', Inr resp) \<Longrightarrow> serving rn s'"
| remote: "serving rn s \<Longrightarrow> rn_tcp rn \<Longrightarrow> dispatchTransport req peer True s = (s', Inr resp) \<Longrightarrow> serving rn s'"
| tick: "serving rn s \<Longrightarrow> rn_janitor rn = Some ttl \<Longrightarrow> janitor_tick ttl s = (s', Inr n) \<Longrightarrow> serving rn s'"

end
