(* ===== verification/Obold_Spec.thy ===== *)
theory Obold_Spec
  imports Obold
begin

text \<open>
  What the daemon process promises: it never listens on TCP without a token of at least 16 bytes, and from any state directory whose
  snapshots balance, whatever its logs and journal hold, the books of every account balance in every state it serves.
\<close>

section \<open>Start-up keeps the books\<close>

lemma evolves_sound: "evolves r r' \<Longrightarrow> sound r \<Longrightarrow> sound r'"
  by (simp add: evolves_def)

lemma io_fails_sound: "io_fails r = (b, r') \<Longrightarrow> sound r \<Longrightarrow> sound r'"
  using io_fails_env [of r b r'] by (auto simp: sound_def)

lemma discover_entries_sound: "discover_entries es r = (r', x) \<Longrightarrow> sound r \<Longrightarrow> sound r'"
proof (induction es arbitrary: r)
  case (Cons e es)
  let ?path = "path_join (rg_stateDir r) e"
  have keep: "sound (r\<lparr>rg_budgets := AList.update n bd (rg_budgets r), rg_access := acc\<rparr>)"
    if "map_of (rg_disk r) ?path = Some ad" "OpenBudget ?path (rg_sync r) (ad_state ad) = Inr bd" for ad bd n acc
  proof -
    have "kernel_inv bd" using OpenBudget_inv [OF that(2)] that(1) Cons.prems(2) by (auto simp: sound_def snaps_sound_def)
    then show ?thesis using Cons.prems(2) by (auto simp: sound_def map_of_update split: if_splits)
  qed
  show ?case
    using Cons.prems Cons.IH keep by (auto simp: Let_def split: option.splits if_splits sum.splits)
qed simp

lemma create_missing_sound: "create_missing as r = (r', x) \<Longrightarrow> sound r \<Longrightarrow> sound r'"
proof (induction as arbitrary: r)
  case (Cons a as)
  obtain r1 y where c: "create_account a r = (r1, y)" by fastforce
  show ?case
    using Cons.prems Cons.IH c create_account_sound [OF c Cons.prems(2)] by (auto split: if_splits option.splits fault.splits)
qed simp

lemma completeTransfer_sound:
  assumes "completeTransfer rec r = (r', x)" "sound r"
  shows "sound r'"
proof -
  obtain r1 y where d: "deposit_leg (tx_To rec) rec r = (r1, y)" by fastforce
  have "evolves r r1" using d call_method_evolves by (metis deposit_leg_def fst_conv)
  then show ?thesis
    using assms d evolves_sound by (auto simp: completeTransfer_def Let_def split: option.splits sum.splits if_splits outcome.splits)
qed

lemma recover_entries_sound: "recover_entries ns r = (r', x) \<Longrightarrow> sound r \<Longrightarrow> sound r'"
proof (induction ns arbitrary: r)
  case (Cons n ns)
  show ?case
  proof (cases "map_of (rg_journal r) n")
    case (Some rec)
    obtain r1 y where c: "completeTransfer rec r = (r1, y)" by fastforce
    obtain r2 z where d: "deleteTransferRecord (tx_XferID rec) r1 = (r2, z)" by fastforce
    have "sound r1" by (rule completeTransfer_sound [OF c Cons.prems(2)])
    moreover from this have "sound r2" using deleteTransferRecord_frame(1) [OF d] by (simp add: sound_def)
    ultimately show ?thesis using Cons.prems Cons.IH Some c d by (auto split: option.splits)
  qed (use Cons.prems in simp)
qed simp

lemma NewRegistry_sound:
  assumes "NewRegistry c stateDir sync r0 = (r', x)" "snaps_sound (rg_disk r0)"
  shows "sound r'"
proof -
  define r where "r = r0\<lparr>rg_budgets := [], rg_access := [], rg_stateDir := stateDir, rg_sync := sync, rg_hasClock := True,
    rg_adminUsers := cf_AdminUsers c, rg_adminGroups := cf_AdminGroups c\<rparr>"
  obtain r1 x1 where 1: "discover r = (r1, x1)" by fastforce
  obtain r2 x2 where 2: "create_missing (cf_Accounts c) r1 = (r2, x2)" by fastforce
  obtain r3 x3 where 3: "recoverTransfers r2 = (r3, x3)" by fastforce
  have "sound r" using assms(2) by (simp add: r_def sound_def)
  then have "sound r1" using 1 discover_entries_sound by (auto simp: discover_def)
  moreover from this have "sound r2" by (rule create_missing_sound [OF 2])
  moreover from this have "sound r3" using 3 recover_entries_sound by (auto simp: recoverTransfers_def)
  ultimately show ?thesis
    using assms(1) 1 2 3 by (auto simp: NewRegistry_def r_def [symmetric] split: option.splits fault.splits if_splits)
qed

lemma buildRegistry_sound: "buildRegistry h cfg r0 = (r, Inr c) \<Longrightarrow> snaps_sound (rg_disk r0) \<Longrightarrow> sound r"
  by (auto simp: buildRegistry_def Let_def dest: NewRegistry_sound split: if_splits sum.splits prod.splits option.splits)

lemma open_listeners_sound:
  assumes "open_listeners h cfg r = (r', x)" "sound r"
  shows "sound r'"
proof -
  have perms: "sound s'" if "applySocketPerms h g m s = (s', y)" "sound s" for g m s s' y
    using that unfolding applySocketPerms_def sock_group_def sock_chmod_def
    by (auto split: if_splits sum.splits prod.splits bool.splits dest: io_fails_sound)
  show ?thesis
    using assms unfolding open_listeners_def
    by (auto split: if_splits sum.splits prod.splits bool.splits dest: io_fails_sound perms)
qed

text \<open>What a started daemon starts with.\<close>

lemma run_Serving:
  assumes "run h cfg r0 = Serving rn"
  obtains reg parsed r tok nc where "buildRegistry h cfg r0 = (reg, Inr parsed)" "auth_token h cfg = Inr tok"
    "open_listeners h cfg reg = (r, Inr (rn_perms rn))" "sv_reg (rn_server rn) = r" "BuildNodeCost parsed = Inr nc"
    "setup_of (rn_server rn) = (oc_weights cfg, Some nc, h_ident h, case tok of None \<Rightarrow> [] | Some t \<Rightarrow> t)"
    "rn_tcp rn \<longleftrightarrow> oc_listen cfg \<noteq> []" "rn_janitor rn = janitor_ttl cfg"
proof -
  from assms obtain reg parsed nc tok r perms where p: "buildRegistry h cfg r0 = (reg, Inr parsed)" "BuildNodeCost parsed = Inr nc"
      "auth_token h cfg = Inr tok" "open_listeners h cfg reg = (r, Inr perms)"
    and rn: "rn = \<lparr>rn_server = (let srv = SetNodeCost (Some nc) (NewWithRegistry r (oc_weights cfg) (h_ident h))
          in case tok of None \<Rightarrow> srv | Some t \<Rightarrow> SetAuthToken t srv), rn_perms = perms, rn_tcp = (oc_listen cfg \<noteq> []), rn_janitor = janitor_ttl cfg\<rparr>"
    by (auto simp: run_def Let_def split: prod.splits sum.splits)
  show thesis
    by (rule that [OF p(1) p(3)])
      (use p rn in \<open>auto simp: Let_def setup_of_def SetNodeCost_def SetAuthToken_def NewWithRegistry_def split: option.splits\<close>)
qed

lemma obold_main_Serving:
  assumes "obold_main h args r0 = Ran (Serving rn)"
  obtains cfg where "parse_args args = Some cfg" "run h cfg r0 = Serving rn"
  using assms by (auto simp: obold_main_def split: if_splits option.splits)

section \<open>The serving process\<close>

lemma serving_keeps: "serving rn s \<Longrightarrow> evolves (sv_reg (rn_server rn)) (sv_reg s) \<and> setup_of s = setup_of (rn_server rn)"
proof (induction rule: serving.induct)
  case (tick s ttl s' n)
  have "evolves (sv_reg s) (sv_reg s') \<and> setup_of s' = setup_of s"
    using keeps_srv_SweepUnbound [of ttl] tick(3) by (metis keeps_def janitor_tick_def fst_conv)
  then show ?case using tick evolves_trans by metis
qed (auto dest: dispatchTransport_evolves dispatchTransport_setup intro: evolves_trans)

text \<open>A connection served to its end is a sequence of such steps.\<close>

lemma serving_connection:
  assumes "serving rn s" "remote \<longrightarrow> rn_tcp rn" "handleConn enc dec peer remote fuel inp out s = Some (s', out', None)"
  shows "serving rn s'"
  using assms(1,3)
proof (induction fuel arbitrary: inp out s)
  case (Suc fuel)
  have step: "serving rn s1" if "dispatchTransport req peer remote s = (s1, Inr resp)" for req s1 resp
    using that Suc.prems(1) assms(2) by (cases remote) (auto intro: serving.local serving.remote)
  show ?case
    using Suc.prems by (auto split: prod.splits sum.splits option.splits intro: step Suc.IH [OF step])
qed simp

text \<open>
  C34: the network door is never open without a key. If the daemon listens on TCP, whatever its arguments and files were, then in every state it can reach
  its token is the trimmed content of the token file and at least 16 bytes long, and a request over TCP that does not carry it, or that is
  administrative, changes nothing and is refused.
\<close>

theorem obold_remote_needs_token:
  assumes "obold_main h args r0 = Ran (Serving rn)" "rn_tcp rn" "serving rn s"
  shows "\<exists>cfg content. parse_args args = Some cfg \<and> h_readFile h (oc_authTokenFile cfg) = Some content
    \<and> sv_authToken s = TrimSpace content \<and> 16 \<le> length (TrimSpace content)
    \<and> (\<forall>req peer. fr_Auth req \<noteq> TrimSpace content \<or> isAdminKind (fr_MsgKind req) \<longrightarrow>
         fst (dispatchTransport req peer True s) = s \<and> (\<exists>fr. snd (dispatchTransport req peer True s) = Inr fr \<and> \<not> accepting fr))"
proof -
  obtain cfg where cfg: "parse_args args = Some cfg" "run h cfg r0 = Serving rn" by (rule obold_main_Serving [OF assms(1)])
  obtain tok w nc i where tok: "auth_token h cfg = Inr tok" "oc_listen cfg \<noteq> []"
      "setup_of (rn_server rn) = (w, nc, i, case tok of None \<Rightarrow> [] | Some t \<Rightarrow> t)"
    by (rule run_Serving [OF cfg(2)]) (use assms(2) in blast)
  obtain content where c: "h_readFile h (oc_authTokenFile cfg) = Some content" "tok = Some (TrimSpace content)" "16 \<le> length (TrimSpace content)"
    using tok(1,2) by (auto simp: auth_token_def readAuthToken_def Let_def split: if_splits sum.splits option.splits)
  have s: "sv_authToken s = TrimSpace content" using serving_keeps [OF assms(3)] tok(3) c(2) by (simp add: setup_of_def)
  show ?thesis using cfg(1) c s remote_refused [of s] by (auto simp: refused_def)
qed

text \<open>
  C25: the daemon keeps the books from start-up on. Started on a state directory in which every snapshot balances, and whatever the logs, the transfer
  journal, the configuration, the arguments and the failures of the file system are: in every state reached by requests of any peers, over
  either transport, and by the janitor, every account satisfies the kernel invariant and both conservation checks, its budget is one the
  account had at start-up changed by kernel transitions only (or an account created since), and every snapshot still balances.
\<close>

theorem obold_conserves:
  assumes "obold_main h args r0 = Ran (Serving rn)" "snaps_sound (rg_disk r0)" "serving rn s"
  shows "(\<forall>k bd. map_of (rg_budgets (sv_reg s)) k = Some bd \<longrightarrow> kernel_inv bd \<and> fst (ConservationOK bd) \<and> fst (ConservationOKArrays bd))
    \<and> (\<forall>k bd. map_of (rg_budgets (sv_reg (rn_server rn))) k = Some bd \<longrightarrow>
         (\<exists>bd'. map_of (rg_budgets (sv_reg s)) k = Some bd' \<and> reaches exec bd bd'))
    \<and> snaps_sound (rg_disk (sv_reg s))"
proof -
  obtain cfg where "run h cfg r0 = Serving rn" by (rule obold_main_Serving [OF assms(1)])
  then have "sound (sv_reg (rn_server rn))"
    by (rule run_Serving) (use assms(2) buildRegistry_sound open_listeners_sound in blast)
  moreover have ev: "evolves (sv_reg (rn_server rn)) (sv_reg s)" using serving_keeps [OF assms(3)] by simp
  ultimately have "sound (sv_reg s)" using evolves_sound by blast
  then have "kernel_inv bd \<and> fst (ConservationOK bd) \<and> fst (ConservationOKArrays bd)" if "map_of (rg_budgets (sv_reg s)) k = Some bd" for k bd
    using that kernel_inv_checks [of bd] by (auto simp: sound_def)
  with ev \<open>sound (sv_reg s)\<close> show ?thesis by (auto simp: evolves_def sound_def)
qed

section \<open>A daemon started on an empty disk\<close>

definition empty_disk :: registry where
  "empty_disk = \<lparr>rg_budgets = [], rg_access = [], rg_stateDir = [], rg_sync = False, rg_hasClock = False, rg_adminUsers = [], rg_adminGroups = [],
     rg_disk = [], rg_journal = [], rg_env = rg_env (sv_reg desk)\<rparr>"

definition login_node :: host where
  "login_node = \<lparr>h_readFile = (\<lambda>p. if p = ''/etc/obol/token'' then Some (''0123456789abcdef'' @ [CHR 0x0A]) else None), h_decodeConfig = (\<lambda>_. None),
     h_lookupGroup = (\<lambda>_. None), h_ident = three_users, h_close = (\<lambda>_. None)\<rparr>"

definition both_doors :: "string list" where
  "both_doors = [''-create'', ''-balance=1000'', ''-listen'', '':6500'', ''-auth-token-file'', ''/etc/obol/token'', ''-socket-group'', ''64030'',
     ''-socket-mode'', ''0660'']"

definition started :: running where
  "started = (case obold_main login_node both_doors empty_disk of Ran (Serving rn) \<Rightarrow> rn | _ \<Rightarrow> undefined)"

lemma started_runs: "obold_main login_node both_doors empty_disk = Ran (Serving started)" "rn_tcp started"
proof -
  have "case obold_main login_node both_doors empty_disk of Ran (Serving rn) \<Rightarrow> rn_tcp rn | _ \<Rightarrow> False" by code_simp
  then show "obold_main login_node both_doors empty_disk = Ran (Serving started)" "rn_tcp started"
    by (auto simp: started_def split: process.splits start.splits)
qed

lemma started_perms: "case obold_main login_node both_doors empty_disk of Ran (Serving rn) \<Rightarrow> rn_perms rn = \<lparr>sp_gid = Some 64030, sp_mode = Some 432\<rparr>
    \<and> rn_janitor rn = Some 900 \<and> map (\<lambda>(k, bd). (k, B bd, TE bd)) (rg_budgets (sv_reg (rn_server rn))) = [(''default'', 1000, 2592005)] | _ \<Rightarrow> False"
  by code_simp

theorem obold_remote_needs_token_witness:
  "rn_tcp started \<and> sv_authToken (rn_server started) = TrimSpace (''0123456789abcdef'' @ [CHR 0x0A])"
proof -
  obtain cfg content where c: "parse_args both_doors = Some cfg" "h_readFile login_node (oc_authTokenFile cfg) = Some content"
      "sv_authToken (rn_server started) = TrimSpace content"
    using obold_remote_needs_token [OF started_runs boot] by blast
  have "map_option oc_authTokenFile (parse_args both_doors) = Some ''/etc/obol/token''" by code_simp
  then show ?thesis using c started_runs(2) by (auto simp: login_node_def)
qed

theorem obold_conserves_witness:
  "\<exists>bd. map_of (rg_budgets (sv_reg (rn_server started))) ''default'' = Some bd \<and> kernel_inv bd \<and> fst (ConservationOK bd) \<and> B bd = 1000"
proof -
  have "map (\<lambda>(k, bd). (k, B bd)) (rg_budgets (sv_reg (rn_server started))) = [(''default'', 1000)]"
    using started_perms unfolding started_runs(1) by auto
  then obtain bd where bd: "rg_budgets (sv_reg (rn_server started)) = [(''default'', bd)]" "B bd = 1000" by auto
  have "snaps_sound (rg_disk empty_disk)" by (simp add: snaps_sound_def empty_disk_def)
  then show ?thesis using obold_conserves [OF started_runs(1) _ boot] bd by auto
qed

text \<open>
  A time to live below a second is no time at all. With \<^verbatim>\<open>-unbound-ttl 500ms\<close> the janitor runs with 0 seconds, and its next tick
  cancels a job the gate has just admitted, in the same second.
\<close>

lemma subsecond_ttl_sweeps_at_once:
  "map_option janitor_ttl (parse_args [''-unbound-ttl=500ms'']) = Some (Some 0)"
  "case handleGate (Some job) desk of (s, _) \<Rightarrow>
     map (\<lambda>(k, bd). (k, B bd)) (rg_budgets (sv_reg s)) = [(''default'', 980)]
     \<and> (case janitor_tick 0 s of
          (s', x) \<Rightarrow> x = Inr 1 \<and> map (\<lambda>(k, bd). (k, B bd, length (escrows bd))) (rg_budgets (sv_reg s')) = [(''default'', 1000, 0)])"
  by code_simp+

end
