(* ===== verification/Shim.thy ===== *)
theory Shim
  imports Wire_Messages
begin

text \<open>
  The scheduler side (\<^verbatim>\<open>internal/shim/failmode.go\<close>): what the submit hook does with the daemon's answer, and with no answer. The round trip to the
  daemon is an argument: it gets the timeout and the request, and returns the response or nothing.
\<close>

datatype partitionClass = OnPrem | Cloud

definition failClosed :: "partitionClass \<Rightarrow> bool" where
  "failClosed c \<longleftrightarrow> c = Cloud"

datatype decision = Admit | Reject

definition decision_String :: "decision \<Rightarrow> string" where
  "decision_String d = (if d = Admit then ''admit'' else ''reject'')"

record policy =
  po_Classes :: "(string, partitionClass) gomap"
  po_DefaultClass :: partitionClass
  po_Timeout :: i64

definition classOf :: "policy \<Rightarrow> string \<Rightarrow> partitionClass" where
  "classOf p part = (case map_of (po_Classes p) part of Some c \<Rightarrow> c | None \<Rightarrow> po_DefaultClass p)"

text \<open>In nanoseconds.\<close>

definition timeout :: "policy \<Rightarrow> i64" where
  "timeout p = (if po_Timeout p \<le>s 0 then 50 * 1000000 else po_Timeout p)"

type_synonym gateFunc = "i64 \<Rightarrow> gateRequest \<Rightarrow> gateResponse option"

definition ErrFailClosed :: msg where
  "ErrFailClosed = lit ''budget daemon unreachable; partition fails closed''"

definition failMode :: "policy \<Rightarrow> string \<Rightarrow> decision \<times> msg" where
  "failMode p part = (if failClosed (classOf p part) then (Reject, ErrFailClosed) else (Admit, []))"

definition shim_Gate :: "policy \<Rightarrow> gateFunc \<Rightarrow> gateRequest \<Rightarrow> decision \<times> msg" where
  "shim_Gate p gate req =
     (case gate (timeout p) req of
        None \<Rightarrow> failMode p (gq_Partition req)
      | Some resp \<Rightarrow> if gp_Allow resp then (Admit, []) else (Reject, gp_Reason resp))"

lemma cloud_needs_allow:
  "classOf p (gq_Partition req) = Cloud \<Longrightarrow> fst (shim_Gate p gate req) = Admit \<longleftrightarrow> (\<exists>resp. gate (timeout p) req = Some resp \<and> gp_Allow resp)"
  by (auto simp: shim_Gate_def failMode_def failClosed_def split: option.splits)

lemma answer_honoured: "gate (timeout p) req = Some resp \<Longrightarrow> fst (shim_Gate p gate req) = Admit \<longleftrightarrow> gp_Allow resp"
  by (simp add: shim_Gate_def)

lemma onprem_never_blocked_by_silence:
  "classOf p (gq_Partition req) = OnPrem \<Longrightarrow> gate (timeout p) req = None \<Longrightarrow> shim_Gate p gate req = (Admit, [])"
  by (simp add: shim_Gate_def failMode_def failClosed_def)

end
