(* ===== verification/Spec2Isabelle.thy ===== *)
theory Spec2Isabelle
  imports Wal_Commit Cli_Spec Obold_Spec Shim
begin

text \<open>
  A verification of obol, a budget gate for batch schedulers. A job is admitted only if its account can pay for its whole walltime; the money
  is set aside at submission, billed by the time used, and the rest refunded.

  \<^bold>\<open>The program.\<close> The \<^emph>\<open>kernel\<close> (\<^verbatim>\<open>internal/budget\<close>) is one budget: its books, the escrows of single jobs, the escrows of job arrays, a
  token bucket for bursts, and the write-ahead log and snapshot that make it durable. The \<^emph>\<open>daemon\<close> (\<^verbatim>\<open>internal/daemon\<close>) holds one budget
  per account in a registry and serves requests read from connections: the scheduler's gate, bind and settle, queries, and administrative
  verbs. \<^verbatim>\<open>cmd/obold\<close> starts it. \<^verbatim>\<open>internal/wire\<close> is the protocol, \<^verbatim>\<open>internal/shim\<close> what the submit hook does with an answer or
  with silence, and \<^verbatim>\<open>internal/cli\<close> the command line \<^verbatim>\<open>obol\<close>, a client of the daemon. A request runs from the client through a frame
  (\<open>WriteFrame\<close>, \<open>ReadFrame\<close>), the loop of a connection (\<open>handleConn\<close>), the transport checks (\<open>dispatchTransport\<close>), a handler, the
  registry (\<open>Resolve\<close>, \<open>call\<close>) to a kernel transition, which appends its command to the log before it changes the books. A restart loads the
  snapshot, replays the log through the same transitions and completes interrupted transfers from their journal.

  \<^bold>\<open>The theories\<close>, in the order of their imports:

  \<^item> \<open>Obol_Prelude\<close>: Go's \<open>int64\<close> as \<open>64 word\<close>, Go maps as association lists, outcomes (done, error, panic), and the lemmas all components share.
    \<open>Go_Float\<close>, \<open>Go_Json\<close>, \<open>Go_Text\<close>, \<open>Go_Flags\<close>: what the code uses of Go's \<open>float64\<close>, \<^verbatim>\<open>encoding/json\<close>, text and path functions, and
    \<^verbatim>\<open>flag\<close>.
  \<^item> \<open>Wal\<close> (\<^verbatim>\<open>wal.go\<close>): commands, their JSON, the framed log with its CRC, group commit, replay. The locale \<open>payload_codec\<close> is what replay needs of a
    codec; \<open>cmd_codec\<close> interprets it on the command encoding. \<open>Wal_Commit\<close>: any interleaving of appends and flushes, and what a crash can lose.
  \<^item> \<open>Budget_State\<close>, \<open>Budget_Ops\<close>, \<open>Array_Ops\<close> (\<^verbatim>\<open>budget.go\<close>, \<^verbatim>\<open>array.go\<close>, \<^verbatim>\<open>burst.go\<close>, \<^verbatim>\<open>readview.go\<close>): the budget record and every transition.
    \<open>Kernel_Inv\<close>: each transition keeps the kernel invariant, in wrapping arithmetic, for any arguments. \<open>Gate_Spec\<close>: what each does, branch by
    branch. \<open>Dispatch\<close> (\<^verbatim>\<open>dispatch.go\<close>, \<^verbatim>\<open>simulate.go\<close>, \<^verbatim>\<open>status.go\<close>): the read side agrees with the gates.
  \<^item> \<open>Kernel_Exec\<close>: the kernel as a transition system; the locales \<open>step_system\<close> and \<open>guarded_system\<close> carry an invariant from steps to histories, and are
    interpreted there for the books and in \<open>Ledger\<close> for the exact ledger over the integers.
  \<^item> \<open>Janitor\<close> (\<^verbatim>\<open>janitor.go\<close>): both sweeps, over the locale \<open>settler\<close> interpreted for jobs and for tasks. \<open>Audit_Log\<close> (\<^verbatim>\<open>auditlog.go\<close>).
    \<open>Durable\<close> (\<^verbatim>\<open>durable.go\<close>, \<^verbatim>\<open>snapshot.go\<close>): snapshots and recovery, with the locale \<open>replay_invariant\<close>. \<open>Recovery\<close>: recovery rebuilds the live state,
    and two ways the log loses data.
  \<^item> \<open>Config\<close> (\<^verbatim>\<open>config.go\<close>, \<^verbatim>\<open>cost.go\<close>), \<open>Registry\<close> (\<^verbatim>\<open>registry.go\<close>, \<^verbatim>\<open>accountmeta.go\<close>), \<open>Registry_Spec\<close> (locale \<open>kernel_method\<close>: a method whose effect is a sequence of kernel
    transitions), \<open>Transfers\<close>, \<open>Transfers_Spec\<close> (\<^verbatim>\<open>transfer.go\<close>), \<open>Access\<close> (\<^verbatim>\<open>access.go\<close>), \<open>Funding\<close> (\<^verbatim>\<open>funding.go\<close>).
  \<^item> \<open>Wire_Messages\<close>, \<open>Wire\<close> (\<^verbatim>\<open>wire.go\<close>); \<open>Server\<close>, \<open>Server_Admin\<close> (\<^verbatim>\<open>server.go\<close>): every handler, as a state-passing act. \<open>Server_Spec\<close>: the server adds no
    money logic of its own, refused requests change nothing, every request is answered. \<open>Server_Jobs\<close>: the life of a job.
  \<^item> \<open>Obold\<close>, \<open>Obold_Spec\<close> (\<^verbatim>\<open>cmd/obold\<close>): the process from its command line to the serving step relation. \<open>Cli\<close>, \<open>Cli_Spec\<close> (\<^verbatim>\<open>internal/cli\<close>): every verb, and
    verbs run against the daemon. \<open>Shim\<close> (\<^verbatim>\<open>internal/shim\<close>). This theory joins shim, server and kernel.

  \<^bold>\<open>What is shown.\<close> Money: no history of operations with any arguments, wrap-around included, unbalances the books or reaches the array panic; under sane
  arguments no budget is overdrawn; the gates, settlements, reprices and sweeps do exactly what their specification says. Durability: the log and
  the snapshot read back as written, a crash loses at most what was not yet synced, and recovery gives the books of the live budget. Several accounts:
  transfers conserve the total also over a crash, multi-source jobs are funded entirely or not at all and their runtime is
  partitioned over the legs. The daemon: from start-up on, over any requests, the books balance; unauthorized requests change nothing; TCP needs a
  token; a connection is served to its end. The client: exit codes tell the truth. The theorems of kind \<^emph>\<open>error\<close> show, on the
  definitions, defects of the code: a settled task's second exit poisons the log, a torn tail hides later records, a power loss can split a
  transfer, an empty window kills the daemon, account names are not validated, a leading \<^verbatim>\<open>--socket\<close> is lost.

  \<^bold>\<open>Modelling decisions.\<close>
  \<^item> A kernel method holds its mutex throughout and is one step. The flushes of the log release it and are split into their parts in \<open>Wal_Commit\<close>. A handler of the
    daemon is one step; the interleavings of handlers of different connections are those of \<open>serving\<close>, request by request.
  \<^item> A pointer to a budget is the name of its account. The clock, the random source and the failures of file operations are in the \<open>env\<close> of the
    registry, so that every error path can be run.
  \<^item> Texts of errors are lists of pieces (literal, quoted, number). The text of an error the operating system or a decoder returns is one fixed
    piece.
  \<^item> The JSON codec of frames and of the configuration file is an argument. The round trip of the wire assumes of it only that decoding undoes
    encoding on the frame at hand. The JSON of logged commands is modelled to the byte.
  \<^item> A finite \<open>float64\<close> is a rational rounded to 53 bits.
  \<^item> Loops are total functions, except the loop of a connection, which has fuel: a frame has at least eight bytes, so \<open>length / 8 + 1\<close> rounds
    are enough for the bytes that arrive (\<open>handleConn_terminates\<close>). The printers of octal numbers have as many rounds as the longest number has digits.

  \<^bold>\<open>Not modelled.\<close> The accept loop, signals and the ticker (their effect is the choice of the next step of \<open>serving\<close>); interleavings inside a handler;
  the \<open>SO_PEERCRED\<close> system call (its result is an argument); the JSON text of snapshots, account metadata and journal records (they are stored as values);
  \<^verbatim>\<open>strconv.ParseFloat\<close> and \<^verbatim>\<open>time.Parse\<close> (arguments of the client); usage texts; the Lua and C code on the scheduler side.
\<close>

section \<open>From the scheduler to the books\<close>

text \<open>The daemon as the submit hook sees it: the response of the gate, or nothing if the daemon dies on the request.\<close>

definition ask_daemon :: "server \<Rightarrow> gateRequest \<Rightarrow> gateResponse option" where
  "ask_daemon s req = (case handleGate (Some req) s of (_, Inr fr) \<Rightarrow> fr_GateResp fr | (_, Inl _) \<Rightarrow> None)"



end
